(* ===== verification/Prelude.thy ===== *)
theory Prelude
  imports Complex_Main "HOL-Library.Sublist"
begin

text \<open>
  The vocabulary the components share: JavaScript numbers and strings as far as
  the source uses them, errors as values, the state-and-error type of a Convex mutation
  with its combinators, and a small Hoare logic on it (\<open>valid\<close> for partial
  correctness, \<open>keeps\<close> for invariants, \<open>nothrow\<close> for the absence of
  exceptions) whose rules are collected in \<open>keeps_intro\<close>.

  A finite JavaScript number is an exact rational (\<open>Num\<close>); rounding of
  doubles is not modelled. Clock readings (\<open>Date.now()\<close>) are integers, as ECMAScript
  says. Strings are \<open>char\<close> lists over ASCII; the one non-ASCII literal of the source is
  spelled by its UTF-8 bytes.
\<close>

named_theorems keeps_intro "rules that decompose a mutation in a proof that it keeps an invariant"
named_theorems const_defs "the numeric constants of the source"

section \<open>Errors as values\<close>

text \<open>\<open>ConvexError\<close> carries a message for the user; \<open>PlainError\<close> is any other
  \<open>throw new Error\<close>; \<open>NotUnique\<close> is what \<open>.unique()\<close> throws on
  two matching documents; \<open>RangeError\<close> is what dates throw on an invalid time;
  \<open>WireError\<close> is the class \<open>WireApiError\<close> of \<open>lib/wire.ts\<close> (status, code).\<close>

datatype error =
    ConvexError string
  | PlainError string
  | NotUnique
  | RangeError
  | WireError int string

section \<open>Numbers\<close>

datatype jsnum = NaN | PosInf | NegInf | Num rat

fun isFinite :: "jsnum \<Rightarrow> bool" where
  "isFinite (Num r) = True"
| "isFinite _ = False"

text \<open>\<open>Math.round\<close> rounds half up.\<close>

definition js_round :: "rat \<Rightarrow> int" where
  "js_round r = \<lfloor>r + 1 / 2\<rfloor>"

text \<open>\<open>Number.isInteger\<close>.\<close>

fun isInteger :: "jsnum \<Rightarrow> bool" where
  "isInteger (Num r) = (of_int \<lfloor>r\<rfloor> = r)"
| "isInteger _ = False"

section \<open>Strings\<close>

definition slice0 :: "nat \<Rightarrow> string \<Rightarrow> string" where
  "slice0 n s = take n s"

definition code :: "char \<Rightarrow> nat" where
  "code c = of_char c"

definition is_digit :: "char \<Rightarrow> bool" where
  "is_digit c = (48 \<le> code c \<and> code c \<le> 57)"

definition is_upper :: "char \<Rightarrow> bool" where
  "is_upper c = (65 \<le> code c \<and> code c \<le> 90)"

definition is_lower :: "char \<Rightarrow> bool" where
  "is_lower c = (97 \<le> code c \<and> code c \<le> 122)"

definition is_alnum :: "char \<Rightarrow> bool" where
  "is_alnum c = (is_digit c \<or> is_upper c \<or> is_lower c)"

text \<open>The white space of \<open>trim()\<close> and \<open>\s\<close>, within one byte.\<close>

definition is_space :: "char \<Rightarrow> bool" where
  "is_space c = (code c = 32 \<or> (9 \<le> code c \<and> code c \<le> 13) \<or> code c = 160)"

definition trim :: "string \<Rightarrow> string" where
  "trim s = rev (dropWhile is_space (rev (dropWhile is_space s)))"

definition lower_char :: "char \<Rightarrow> char" where
  "lower_char c = (if is_upper c then char_of (code c + 32) else c)"

definition toLowerCase :: "string \<Rightarrow> string" where
  "toLowerCase s = map lower_char s"

fun starts_with :: "string \<Rightarrow> string \<Rightarrow> bool" where
  "starts_with s [] = True"
| "starts_with [] (c # p) = False"
| "starts_with (d # s) (c # p) = (d = c \<and> starts_with s p)"

definition ends_with :: "string \<Rightarrow> string \<Rightarrow> bool" where
  "ends_with s p = starts_with (rev s) (rev p)"

fun str_includes :: "string \<Rightarrow> string \<Rightarrow> bool" where
  "str_includes [] p = (p = [])"
| "str_includes (c # s) p = (starts_with (c # s) p \<or> str_includes s p)"

text \<open>\<open>s.split(sep)\<close> for a one-character separator: never the empty list.\<close>

fun split_on :: "char \<Rightarrow> string \<Rightarrow> string list" where
  "split_on sep [] = [[]]"
| "split_on sep (c # s) =
     (if c = sep then [] # split_on sep s
      else (case split_on sep s of [] \<Rightarrow> [[c]] | w # ws \<Rightarrow> (c # w) # ws))"

definition digit_char :: "nat \<Rightarrow> char" where
  "digit_char n = char_of (n + 48)"

fun show_nat :: "nat \<Rightarrow> string" where
  "show_nat n = (if n < 10 then [digit_char n] else show_nat (n div 10) @ [digit_char (n mod 10)])"

declare show_nat.simps [simp del]

definition show_int :: "int \<Rightarrow> string" where
  "show_int i = (if i < 0 then ''-'' @ show_nat (nat (- i)) else show_nat (nat i))"

text \<open>\<open>padStart(n, "0")\<close>.\<close>

definition pad_start :: "nat \<Rightarrow> string \<Rightarrow> string" where
  "pad_start n s = replicate (n - length s) (CHR ''0'') @ s"

lemma code_digit_char: "n < 10 \<Longrightarrow> code (digit_char n) = n + 48"
  by (simp add: code_def digit_char_def)

lemma is_digit_digit_char: "n < 10 \<Longrightarrow> is_digit (digit_char n)"
  by (simp add: is_digit_def code_digit_char)

lemma show_nat_digits: "c \<in> set (show_nat n) \<Longrightarrow> is_digit c"
proof (induction n rule: show_nat.induct)
  case (1 n)
  show ?case
  proof (cases "n < 10")
    case True
    with 1 show ?thesis by (simp add: show_nat.simps [of n] is_digit_digit_char)
  next
    case False
    with 1 show ?thesis
      by (auto simp: show_nat.simps [of n] is_digit_digit_char)
  qed
qed

lemma show_nat_nonempty: "show_nat n \<noteq> []"
  by (subst show_nat.simps) simp

lemma starts_with_append [simp]: "starts_with (p @ s) p"
  by (induction p) auto

lemma starts_with_iff: "starts_with s p \<longleftrightarrow> (\<exists>t. s = p @ t)"
  by (induction s p rule: starts_with.induct) auto

lemma split_on_nonempty [simp]: "split_on sep s \<noteq> []"
  by (cases s) (auto split: list.splits)

lemma length_slice0: "length (slice0 n s) \<le> n"
  by (simp add: slice0_def)

section \<open>StringToNumber\<close>

text \<open>\<open>Number(s)\<close> on a string: white space trimmed, the empty string is 0, hexadecimal,
  octal and binary literals, signed decimal literals with fraction and exponent, and
  \<open>Infinity\<close>; anything else is \<open>NaN\<close>. A finite literal beyond the largest double
  becomes infinite.\<close>

definition hex_val :: "char \<Rightarrow> nat option" where
  "hex_val c = (if is_digit c then Some (code c - 48)
     else if 97 \<le> code c \<and> code c \<le> 102 then Some (code c - 87)
     else if 65 \<le> code c \<and> code c \<le> 70 then Some (code c - 55) else None)"

fun nat_of_base :: "nat \<Rightarrow> nat \<Rightarrow> string \<Rightarrow> nat option" where
  "nat_of_base b acc [] = Some acc"
| "nat_of_base b acc (c # s) =
     (case hex_val c of
        None \<Rightarrow> None
      | Some v \<Rightarrow> if v < b then nat_of_base b (acc * b + v) s else None)"

definition radix_literal :: "nat \<Rightarrow> string \<Rightarrow> jsnum" where
  "radix_literal b s =
     (if s = [] then NaN else case nat_of_base b 0 s of None \<Rightarrow> NaN | Some n \<Rightarrow> Num (of_nat n))"

definition digits_value :: "string \<Rightarrow> nat" where
  "digits_value s = foldl (\<lambda>n c. n * 10 + (code c - 48)) 0 s"

definition take_sign :: "string \<Rightarrow> bool \<times> string" where
  "take_sign s = (case s of [] \<Rightarrow> (False, s)
     | c # r \<Rightarrow> if c = CHR ''-'' then (True, r) else if c = CHR ''+'' then (False, r) else (False, s))"

definition exponent_part :: "string \<Rightarrow> int option" where
  "exponent_part s = (case s of [] \<Rightarrow> Some 0
     | c # r \<Rightarrow>
        if c = CHR ''e'' \<or> c = CHR ''E''
        then (let (neg, d) = take_sign r in
              if d \<noteq> [] \<and> list_all is_digit d
              then Some (if neg then - int (digits_value d) else int (digits_value d)) else None)
        else None)"

definition scale10 :: "nat \<Rightarrow> int \<Rightarrow> rat" where
  "scale10 m e = (if 0 \<le> e then of_nat m * 10 ^ nat e else of_nat m / 10 ^ nat (- e))"

definition clip_double :: "bool \<Rightarrow> rat \<Rightarrow> jsnum" where
  "clip_double neg r =
     (if 2 ^ 1024 - 2 ^ 970 \<le> r then (if neg then NegInf else PosInf)
      else Num (if neg then - r else r))"

definition unsigned_decimal :: "bool \<Rightarrow> string \<Rightarrow> jsnum" where
  "unsigned_decimal neg s =
     (if s = ''Infinity'' then (if neg then NegInf else PosInf)
      else let i = takeWhile is_digit s; r = dropWhile is_digit s;
               (f, r') = (case r of [] \<Rightarrow> ([], [])
                  | c # q \<Rightarrow> if c = CHR ''.'' then (takeWhile is_digit q, dropWhile is_digit q)
                             else ([], r))
           in if i = [] \<and> f = [] then NaN
              else case exponent_part r' of
                 None \<Rightarrow> NaN
               | Some e \<Rightarrow> clip_double neg (scale10 (digits_value (i @ f)) (e - int (length f))))"

definition js_Number :: "string \<Rightarrow> jsnum" where
  "js_Number str =
     (let s = trim str in
      if s = [] then Num 0
      else if starts_with s ''0x'' \<or> starts_with s ''0X'' then radix_literal 16 (drop 2 s)
      else if starts_with s ''0o'' \<or> starts_with s ''0O'' then radix_literal 8 (drop 2 s)
      else if starts_with s ''0b'' \<or> starts_with s ''0B'' then radix_literal 2 (drop 2 s)
      else (let (neg, d) = take_sign s in unsigned_decimal neg d))"

section \<open>Mutations: state passing with exceptions\<close>

text \<open>A Convex mutation is a transaction: it reads and writes a state and returns a value,
  or throws, in which case its writes are discarded. \<open>Inl\<close> carries no state.\<close>

type_synonym ('s, 'a) mut = "'s \<Rightarrow> error + ('a \<times> 's)"

definition ret :: "'a \<Rightarrow> ('s, 'a) mut" where
  "ret x s = Inr (x, s)"

definition throw :: "error \<Rightarrow> ('s, 'a) mut" where
  "throw e s = Inl e"

definition mbind :: "('s, 'a) mut \<Rightarrow> ('a \<Rightarrow> ('s, 'b) mut) \<Rightarrow> ('s, 'b) mut" where
  "mbind m f s = (case m s of Inl e \<Rightarrow> Inl e | Inr (x, s') \<Rightarrow> f x s')"

text \<open>A read that may throw, and a write that cannot.\<close>

definition reads :: "('s \<Rightarrow> error + 'a) \<Rightarrow> ('s, 'a) mut" where
  "reads f s = (case f s of Inl e \<Rightarrow> Inl e | Inr x \<Rightarrow> Inr (x, s))"

definition modify :: "('s \<Rightarrow> 's) \<Rightarrow> ('s, unit) mut" where
  "modify f s = Inr ((), f s)"

definition mthen :: "('s, 'a) mut \<Rightarrow> ('s, 'b) mut \<Rightarrow> ('s, 'b) mut" where
  "mthen m n = mbind m (\<lambda>_. n)"

text \<open>\<open>for (const x of xs) results.push(await f(x))\<close>.\<close>

fun mapM :: "('a \<Rightarrow> ('s, 'b) mut) \<Rightarrow> 'a list \<Rightarrow> ('s, 'b list) mut" where
  "mapM f [] = ret []"
| "mapM f (x # xs) = mbind (f x) (\<lambda>y. mbind (mapM f xs) (\<lambda>ys. ret (y # ys)))"

text \<open>A loop that carries local variables \<open>acc\<close>.\<close>

fun foldM :: "('a \<Rightarrow> 'b \<Rightarrow> ('s, 'b) mut) \<Rightarrow> 'a list \<Rightarrow> 'b \<Rightarrow> ('s, 'b) mut" where
  "foldM f [] acc = ret acc"
| "foldM f (x # xs) acc = mbind (f x acc) (foldM f xs)"

text \<open>A step that may end the handler early: \<open>Inl\<close> is the handler's result, \<open>Inr\<close> continues.\<close>

definition orReturn :: "('s, 'r + 'a) mut \<Rightarrow> ('a \<Rightarrow> ('s, 'r) mut) \<Rightarrow> ('s, 'r) mut" where
  "orReturn m f = mbind m (\<lambda>x. case x of Inl r \<Rightarrow> ret r | Inr a \<Rightarrow> f a)"

lemma ret_apply [simp]: "ret x s = Inr (x, s)"
  by (simp add: ret_def)

lemma throw_apply [simp]: "throw e s = Inl e"
  by (simp add: throw_def)

lemma modify_apply [simp]: "modify f s = Inr ((), f s)"
  by (simp add: modify_def)

lemma reads_Inr: "f s = Inr x \<Longrightarrow> reads f s = Inr (x, s)"
  by (simp add: reads_def)

lemma mbind_Inr: "m s = Inr (x, s') \<Longrightarrow> mbind m f s = f x s'"
  by (simp add: mbind_def)

lemma mbind_Inl: "m s = Inl e \<Longrightarrow> mbind m f s = Inl e"
  by (simp add: mbind_def)

lemma mbind_ret [simp]: "mbind (ret x) f = f x"
  by (rule ext) (simp add: mbind_def)

lemma mbind_throw [simp]: "mbind (throw e) f = throw e"
  by (rule ext) (simp add: mbind_def)

lemma mbind_eq_Inr:
  "mbind m f s = Inr (y, t) \<longleftrightarrow> (\<exists>x s'. m s = Inr (x, s') \<and> f x s' = Inr (y, t))"
  by (auto simp: mbind_def split: sum.splits prod.splits)

lemma reads_eq_Inr: "reads f s = Inr (y, t) \<longleftrightarrow> f s = Inr y \<and> t = s"
  by (auto simp: reads_def split: sum.splits)

lemma mthen_eq_Inr:
  "mthen m n s = Inr (y, t) \<longleftrightarrow> (\<exists>x s'. m s = Inr (x, s') \<and> n s' = Inr (y, t))"
  by (simp add: mthen_def mbind_eq_Inr)

lemma orReturn_eq_Inr:
  "orReturn m f s = Inr (y, t) \<longleftrightarrow>
     m s = Inr (Inl y, t) \<or> (\<exists>a s'. m s = Inr (Inr a, s') \<and> f a s' = Inr (y, t))"
  by (cases "m s") (auto simp: orReturn_def mbind_def split: sum.splits)

lemma orReturn_Inl: "m s = Inr (Inl r, s') \<Longrightarrow> orReturn m f s = Inr (r, s')"
  by (simp add: orReturn_def mbind_def)

lemma orReturn_Inr: "m s = Inr (Inr a, s') \<Longrightarrow> orReturn m f s = f a s'"
  by (simp add: orReturn_def mbind_def)

lemma mbind_reads: "mbind (reads f) g s = (case f s of Inl e \<Rightarrow> Inl e | Inr x \<Rightarrow> g x s)"
  by (simp add: mbind_def reads_def split: sum.splits)

lemmas mut_Inr = mbind_eq_Inr mthen_eq_Inr reads_eq_Inr

section \<open>Hoare logic for mutations\<close>

text \<open>Partial correctness: whenever the mutation returns, the postcondition holds.\<close>

definition valid :: "('s \<Rightarrow> bool) \<Rightarrow> ('s, 'a) mut \<Rightarrow> ('a \<Rightarrow> 's \<Rightarrow> bool) \<Rightarrow> bool" where
  "valid P m Q \<longleftrightarrow> (\<forall>s r s'. P s \<longrightarrow> m s = Inr (r, s') \<longrightarrow> Q r s')"

definition keeps :: "('s \<Rightarrow> bool) \<Rightarrow> ('s, 'a) mut \<Rightarrow> bool" where
  "keeps I m \<longleftrightarrow> valid I m (\<lambda>_. I)"

text \<open>No exception from a state satisfying \<open>P\<close>, and \<open>P\<close> holds afterwards.\<close>

definition nothrow :: "('s \<Rightarrow> bool) \<Rightarrow> ('s, 'a) mut \<Rightarrow> bool" where
  "nothrow P m \<longleftrightarrow> (\<forall>s. P s \<longrightarrow> (\<exists>r s'. m s = Inr (r, s') \<and> P s'))"

lemma validI: "(\<And>s r s'. P s \<Longrightarrow> m s = Inr (r, s') \<Longrightarrow> Q r s') \<Longrightarrow> valid P m Q"
  by (simp add: valid_def)

lemma validD: "valid P m Q \<Longrightarrow> P s \<Longrightarrow> m s = Inr (r, s') \<Longrightarrow> Q r s'"
  by (simp add: valid_def)

lemma keepsI: "(\<And>s r s'. I s \<Longrightarrow> m s = Inr (r, s') \<Longrightarrow> I s') \<Longrightarrow> keeps I m"
  by (simp add: keeps_def valid_def)

lemma keepsD: "keeps I m \<Longrightarrow> m s = Inr (r, s') \<Longrightarrow> I s \<Longrightarrow> I s'"
  by (auto simp: keeps_def valid_def)

lemma keeps_ret [keeps_intro]: "keeps I (ret x)"
  by (rule keepsI) simp

lemma keeps_throw [keeps_intro]: "keeps I (throw e)"
  by (rule keepsI) simp

lemma keeps_reads [keeps_intro]: "keeps I (reads f)"
  by (rule keepsI) (simp add: reads_eq_Inr)

lemma keeps_mbind [keeps_intro]: "keeps I m \<Longrightarrow> (\<And>x. keeps I (f x)) \<Longrightarrow> keeps I (mbind m f)"
  by (rule keepsI) (auto simp: mbind_eq_Inr dest: keepsD)

lemma keeps_mthen [keeps_intro]: "keeps I m \<Longrightarrow> keeps I n \<Longrightarrow> keeps I (mthen m n)"
  by (simp add: mthen_def keeps_mbind)

lemma keeps_orReturn [keeps_intro]: "keeps I m \<Longrightarrow> (\<And>x. keeps I (f x)) \<Longrightarrow> keeps I (orReturn m f)"
  by (rule keepsI) (auto simp: orReturn_eq_Inr dest: keepsD)

lemma keeps_mapM [keeps_intro]: "(\<And>x. keeps I (f x)) \<Longrightarrow> keeps I (mapM f xs)"
  by (induction xs) (auto intro: keeps_intro)

lemma keeps_foldM [keeps_intro]: "(\<And>x a. keeps I (f x a)) \<Longrightarrow> keeps I (foldM f xs a)"
  by (induction xs arbitrary: a) (auto intro: keeps_intro)

lemma keeps_if [keeps_intro]: "keeps I m \<Longrightarrow> keeps I n \<Longrightarrow> keeps I (if b then m else n)"
  by simp

lemma keeps_case_option [keeps_intro]:
  "keeps I m \<Longrightarrow> (\<And>x. keeps I (f x)) \<Longrightarrow> keeps I (case z of None \<Rightarrow> m | Some x \<Rightarrow> f x)"
  by (cases z) auto

lemma keeps_case_prod [keeps_intro]:
  "(\<And>x y. keeps I (f x y)) \<Longrightarrow> keeps I (case z of (x, y) \<Rightarrow> f x y)"
  by (cases z) auto

lemma keeps_case_sum [keeps_intro]:
  "(\<And>x. keeps I (f x)) \<Longrightarrow> (\<And>y. keeps I (g y)) \<Longrightarrow> keeps I (case z of Inl x \<Rightarrow> f x | Inr y \<Rightarrow> g y)"
  by (cases z) auto

lemma keeps_Let [keeps_intro]: "(\<And>x. keeps I (f x)) \<Longrightarrow> keeps I (let x = z in f x)"
  by simp

lemma keeps_modify: "(\<And>s. I s \<Longrightarrow> I (f s)) \<Longrightarrow> keeps I (modify f)"
  by (rule keepsI) auto

lemma nothrowD: "nothrow P m \<Longrightarrow> P s \<Longrightarrow> \<exists>r s'. m s = Inr (r, s') \<and> P s'"
  by (simp add: nothrow_def)

lemma nothrow_mapM: "(\<And>x. x \<in> set xs \<Longrightarrow> nothrow P (f x)) \<Longrightarrow> nothrow P (mapM f xs)"
proof (induction xs)
  case Nil
  then show ?case by (simp add: nothrow_def)
next
  case (Cons x xs)
  then have "nothrow P (f x)" "nothrow P (mapM f xs)" by auto
  then show ?case by (fastforce simp: nothrow_def mbind_def)
qed

lemma foldM_invariant:
  assumes "\<And>x a s. x \<in> set xs \<Longrightarrow> I a s \<Longrightarrow> \<exists>a' s'. f x a s = Inr (a', s') \<and> I a' s'" and "I a s"
  shows "\<exists>a' s'. foldM f xs a s = Inr (a', s') \<and> I a' s'"
  using assms
proof (induction xs arbitrary: a s)
  case Nil
  then show ?case by simp
next
  case (Cons x xs)
  from Cons.prems(1) [of x a s] Cons.prems(2) obtain a1 s1 where "f x a s = Inr (a1, s1)" "I a1 s1" by auto
  with Cons.IH [of a1 s1] Cons.prems(1) show ?case by (simp add: mbind_def)
qed

section \<open>Actions\<close>

text \<open>A Convex action is not a transaction: it calls queries and mutations one after the other, and
  what a mutation committed stays when the action throws later. So an action returns its state with
  the error, too.\<close>

type_synonym ('s, 'a) act = "'s \<Rightarrow> (error + 'a) \<times> 's"

definition aret :: "'a \<Rightarrow> ('s, 'a) act" where
  "aret x s = (Inr x, s)"

definition athrow :: "error \<Rightarrow> ('s, 'a) act" where
  "athrow e s = (Inl e, s)"

definition abind :: "('s, 'a) act \<Rightarrow> ('a \<Rightarrow> ('s, 'b) act) \<Rightarrow> ('s, 'b) act" where
  "abind m f s = (case m s of (Inl e, s') \<Rightarrow> (Inl e, s') | (Inr x, s') \<Rightarrow> f x s')"

definition runQuery :: "('s \<Rightarrow> error + 'a) \<Rightarrow> ('s, 'a) act" where
  "runQuery f s = (f s, s)"

definition runMutation :: "('s, 'a) mut \<Rightarrow> ('s, 'a) act" where
  "runMutation m s = (case m s of Inl e \<Rightarrow> (Inl e, s) | Inr (x, s') \<Rightarrow> (Inr x, s'))"

text \<open>A result of the outside world, or of a pure check that may throw.\<close>

definition lift :: "error + 'a \<Rightarrow> ('s, 'a) act" where
  "lift r s = (r, s)"

text \<open>\<open>try { m } catch (e) { h(e) }\<close>.\<close>

definition attempt :: "('s, 'a) act \<Rightarrow> (error \<Rightarrow> ('s, 'a) act) \<Rightarrow> ('s, 'a) act" where
  "attempt m h s = (case m s of (Inl e, s') \<Rightarrow> h e s' | (Inr x, s') \<Rightarrow> (Inr x, s'))"

fun each :: "('a \<Rightarrow> ('s, 'b) act) \<Rightarrow> 'a list \<Rightarrow> ('s, 'b list) act" where
  "each f [] = aret []"
| "each f (x # xs) = abind (f x) (\<lambda>y. abind (each f xs) (\<lambda>ys. aret (y # ys)))"

lemma act_simps [simp]:
  "aret x s = (Inr x, s)" "athrow e s = (Inl e, s)" "runQuery f s = (f s, s)" "lift r s = (r, s)"
  by (simp_all add: aret_def athrow_def runQuery_def lift_def)

text \<open>\<open>akeeps I m\<close>: the action keeps \<open>I\<close>, however it ends.\<close>

definition akeeps :: "('s \<Rightarrow> bool) \<Rightarrow> ('s, 'a) act \<Rightarrow> bool" where
  "akeeps I m \<longleftrightarrow> (\<forall>s. I s \<longrightarrow> I (snd (m s)))"

lemma akeepsD: "akeeps I m \<Longrightarrow> I s \<Longrightarrow> m s = (r, s') \<Longrightarrow> I s'"
  by (metis akeeps_def snd_conv)

lemma akeeps_basic [keeps_intro]:
  "akeeps I (aret x)" "akeeps I (athrow e)" "akeeps I (runQuery f)" "akeeps I (lift r)"
  by (simp_all add: akeeps_def)

lemma akeeps_abind [keeps_intro]: "akeeps I m \<Longrightarrow> (\<And>x. akeeps I (f x)) \<Longrightarrow> akeeps I (abind m f)"
  by (auto simp: akeeps_def abind_def split: prod.splits sum.splits)

lemma akeeps_runMutation [keeps_intro]: "keeps I m \<Longrightarrow> akeeps I (runMutation m)"
  by (auto simp: akeeps_def runMutation_def dest: keepsD split: sum.splits)

lemma akeeps_attempt [keeps_intro]: "akeeps I m \<Longrightarrow> (\<And>e. akeeps I (h e)) \<Longrightarrow> akeeps I (attempt m h)"
  by (auto simp: akeeps_def attempt_def split: prod.splits sum.splits)

lemma akeeps_each [keeps_intro]: "(\<And>x. akeeps I (f x)) \<Longrightarrow> akeeps I (each f xs)"
  by (induction xs) (auto intro: keeps_intro)

lemma akeeps_if [keeps_intro]: "akeeps I m \<Longrightarrow> akeeps I n \<Longrightarrow> akeeps I (if b then m else n)"
  by simp

lemma akeeps_case_option [keeps_intro]:
  "akeeps I m \<Longrightarrow> (\<And>x. akeeps I (f x)) \<Longrightarrow> akeeps I (case z of None \<Rightarrow> m | Some x \<Rightarrow> f x)"
  by (cases z) auto

lemma akeeps_Let [keeps_intro]: "(\<And>x. akeeps I (f x)) \<Longrightarrow> akeeps I (let x = z in f x)"
  by simp

section \<open>Lists\<close>

lemma filter_map_update_other:
  "(\<And>x. x \<in> set xs \<Longrightarrow> P (f x) = P x) \<Longrightarrow> filter P (map f xs) = map f (filter P xs)"
  by (induction xs) auto

lemma filter_key_unique:
  "distinct (map key xs) \<Longrightarrow> length (filter (\<lambda>x. key x = k) xs) \<le> 1"
proof (induction xs)
  case (Cons a xs)
  show ?case
  proof (cases "key a = k")
    case True
    with Cons.prems have "filter (\<lambda>x. key x = k) xs = []"
      by (auto simp: filter_empty_conv) (metis image_eqI)
    then show ?thesis by simp
  next
    case False
    with Cons show ?thesis by simp
  qed
qed simp

lemma length_le_1_cases: "length xs \<le> 1 \<longleftrightarrow> xs = [] \<or> (\<exists>x. xs = [x])"
  by (cases xs) auto

section \<open>Capped counters\<close>

text \<open>\<open>steps\<close> is a run of labelled steps. The locale is the argument behind every quota and rate
  limit: when a step that takes something adds one to a counter that never goes down and ends at or
  below a cap, a run takes at most what was left.\<close>

inductive steps :: "('s \<Rightarrow> 'l \<Rightarrow> 's \<Rightarrow> bool) \<Rightarrow> 's \<Rightarrow> 'l list \<Rightarrow> 's \<Rightarrow> bool" for step where
  stop: "steps step s [] s"
| more: "step s l s' \<Longrightarrow> steps step s' ls s'' \<Longrightarrow> steps step s (l # ls) s''"

inductive_simps steps_Nil [simp]: "steps step s [] s'"
inductive_simps steps_Cons: "steps step s (l # ls) s'"

lemma steps_invariant:
  assumes "steps step s ls s'" and "I s" and "\<And>s l s'. I s \<Longrightarrow> step s l s' \<Longrightarrow> I s'"
  shows "I s'"
  using assms(1,2) by induction (auto intro: assms(3))

locale capped_counter =
  fixes step :: "'s \<Rightarrow> 'l \<Rightarrow> 's \<Rightarrow> bool"
    and inv :: "'s \<Rightarrow> bool"
    and view :: "'s \<Rightarrow> int"
    and taken :: "'l \<Rightarrow> bool"
    and cap :: int
  assumes inv_step: "inv s \<Longrightarrow> step s l s' \<Longrightarrow> inv s'"
    and view_mono: "inv s \<Longrightarrow> step s l s' \<Longrightarrow> view s \<le> view s'"
    and view_taken: "inv s \<Longrightarrow> step s l s' \<Longrightarrow> taken l \<Longrightarrow> view s + 1 \<le> view s' \<and> view s' \<le> cap"
begin

lemma run_cap:
  assumes "steps step s ls s'" and "inv s"
  shows "int (length (filter taken ls)) \<le> max 0 (cap - view s)"
  using assms
proof induction
  case (stop s)
  then show ?case by simp
next
  case (more s l s' ls s'')
  then have IH: "int (length (filter taken ls)) \<le> max 0 (cap - view s')" by (simp add: inv_step)
  show ?case
  proof (cases "taken l")
    case True
    with view_taken [OF more.prems more.hyps(1)] IH show ?thesis by simp
  next
    case False
    with view_mono [OF more.prems more.hyps(1)] IH show ?thesis by simp
  qed
qed

end

end
