(* ===== verification/Store.thy ===== *)
theory Store
  imports Prelude
begin

text \<open>
  The Convex document store: a table is the list of its documents in insertion order,
  each with its id and creation time. \<open>tget\<close>, \<open>tpatch\<close>, \<open>tdel\<close> and \<open>tselect\<close>
  are \<open>ctx.db.get\<close>, \<open>patch\<close>, \<open>delete\<close> and an index query by equality (whose results come in
  creation order); \<open>uniqueRow\<close> and \<open>firstRow\<close> are \<open>.unique()\<close> and \<open>.first()\<close>. Ids are drawn from a
  counter, so a new id is fresh. The locale \<open>counter_table\<close> is the idiom of the
  rate-limit windows, the quotas and the daily rollups: look a row up by its unique key, then
  patch its count or insert it.
\<close>

datatype 'a row = Row (rid: nat) (ctime: int) (doc: 'a)

type_synonym 'a table = "'a row list"

definition tget :: "'a table \<Rightarrow> nat \<Rightarrow> 'a row option" where
  "tget t i = find (\<lambda>r. rid r = i) t"

definition tpatch :: "nat \<Rightarrow> ('a \<Rightarrow> 'a) \<Rightarrow> 'a table \<Rightarrow> 'a table" where
  "tpatch i f t = map (\<lambda>r. if rid r = i then Row i (ctime r) (f (doc r)) else r) t"

definition tdel :: "nat \<Rightarrow> 'a table \<Rightarrow> 'a table" where
  "tdel i t = filter (\<lambda>r. rid r \<noteq> i) t"

definition tselect :: "('a \<Rightarrow> bool) \<Rightarrow> 'a table \<Rightarrow> 'a table" where
  "tselect P t = filter (\<lambda>r. P (doc r)) t"

fun uniqueRow :: "'a table \<Rightarrow> error + 'a row option" where
  "uniqueRow [] = Inr None"
| "uniqueRow [r] = Inr (Some r)"
| "uniqueRow (r # r' # t) = Inl NotUnique"

fun firstRow :: "'a table \<Rightarrow> 'a row option" where
  "firstRow [] = None"
| "firstRow (r # t) = Some r"

text \<open>Deleting a list of documents one after the other.\<close>

definition tdel_all :: "'a table \<Rightarrow> 'a table \<Rightarrow> 'a table" where
  "tdel_all rs t = fold (\<lambda>r. tdel (rid r)) rs t"

section \<open>Well-formed tables\<close>

definition wf_table :: "nat \<Rightarrow> 'a table \<Rightarrow> bool" where
  "wf_table n t \<longleftrightarrow> distinct (map rid t) \<and> (\<forall>r \<in> set t. rid r < n)"

definition keyed :: "('a \<Rightarrow> 'k) \<Rightarrow> 'a table \<Rightarrow> bool" where
  "keyed key t \<longleftrightarrow> distinct (map (\<lambda>r. key (doc r)) t)"

lemma wf_table_Nil [simp]: "wf_table n []"
  by (simp add: wf_table_def)

lemma keyed_Nil [simp]: "keyed key []"
  by (simp add: keyed_def)

lemma wf_table_mono: "wf_table n t \<Longrightarrow> n \<le> m \<Longrightarrow> wf_table m t"
  by (fastforce simp: wf_table_def)

lemma tget_Some: "tget t i = Some r \<Longrightarrow> r \<in> set t \<and> rid r = i"
  by (auto simp: tget_def find_Some_iff)

lemma tget_rid: "tget t i = Some r \<Longrightarrow> rid r = i"
  by (simp add: tget_Some)

lemma tget_None_iff: "tget t i = None \<longleftrightarrow> i \<notin> rid ` set t"
  by (auto simp: tget_def find_None_iff)

lemma tget_in: "wf_table n t \<Longrightarrow> r \<in> set t \<Longrightarrow> tget t (rid r) = Some r"
  by (induction t) (auto simp: wf_table_def tget_def)

lemma tget_Cons: "tget (r # t) i = (if rid r = i then Some r else tget t i)"
  by (simp add: tget_def)

lemma tget_Nil [simp]: "tget [] i = None"
  by (simp add: tget_def)

lemma tget_append: "tget (t @ u) i = (case tget t i of None \<Rightarrow> tget u i | Some r \<Rightarrow> Some r)"
  by (induction t) (auto simp: tget_Cons)

lemma tget_snoc_fresh: "wf_table n t \<Longrightarrow> tget (t @ [Row n now d]) n = Some (Row n now d)"
proof -
  assume "wf_table n t"
  then have "tget t n = None" by (fastforce simp: tget_None_iff wf_table_def)
  then show ?thesis by (simp add: tget_append tget_Cons)
qed

lemma tget_snoc_other: "i \<noteq> j \<Longrightarrow> tget (t @ [Row j now d]) i = tget t i"
  by (auto simp: tget_append tget_Cons split: option.splits)

lemma tget_tpatch:
  "tget (tpatch i f t) j =
     map_option (\<lambda>r. if j = i then Row i (ctime r) (f (doc r)) else r) (tget t j)"
  by (induction t) (auto simp: tpatch_def tget_def)

lemma tget_tdel: "tget (tdel i t) j = (if i = j then None else tget t j)"
  by (induction t) (auto simp: tdel_def tget_def)

lemma tselect_snoc: "tselect P (t @ [Row n now d]) = tselect P t @ (if P d then [Row n now d] else [])"
  by (simp add: tselect_def)

lemma set_tselect: "r \<in> set (tselect P t) \<longleftrightarrow> r \<in> set t \<and> P (doc r)"
  by (simp add: tselect_def)

lemma tselect_tpatch_other:
  "(\<And>d. P (f d) = P d) \<Longrightarrow> tselect P (tpatch i f t) = tpatch i f (tselect P t)"
  by (induction t) (auto simp: tselect_def tpatch_def)

lemma tpatch_not_in: "i \<notin> rid ` set t \<Longrightarrow> tpatch i f t = t"
  by (induction t) (auto simp: tpatch_def)

lemma map_rid_tpatch [simp]: "map rid (tpatch i f t) = map rid t"
  by (simp add: tpatch_def)

lemma rid_set_tpatch [simp]: "rid ` set (tpatch i f t) = rid ` set t"
  by (metis list.set_map map_rid_tpatch)

lemma length_tpatch [simp]: "length (tpatch i f t) = length t"
  by (simp add: tpatch_def)

lemma set_tpatch:
  "r \<in> set (tpatch i f t) \<longleftrightarrow>
     (\<exists>q \<in> set t. r = (if rid q = i then Row i (ctime q) (f (doc q)) else q))"
  by (auto simp: tpatch_def)

lemma wf_tpatch [simp]: "wf_table n (tpatch i f t) = wf_table n t"
  by (simp add: wf_table_def) (metis (no_types, lifting) image_iff rid_set_tpatch)

lemma wf_snoc: "wf_table n t \<Longrightarrow> wf_table (Suc n) (t @ [Row n now d])"
  by (fastforce simp: wf_table_def)

lemma wf_tdel: "wf_table n t \<Longrightarrow> wf_table n (tdel i t)"
  by (auto simp: wf_table_def tdel_def distinct_map_filter)

lemma set_tdel: "r \<in> set (tdel i t) \<longleftrightarrow> r \<in> set t \<and> rid r \<noteq> i"
  by (auto simp: tdel_def)

lemma wf_tselect: "wf_table n t \<Longrightarrow> wf_table n (tselect P t)"
  by (auto simp: wf_table_def tselect_def distinct_map_filter)

lemma tdel_all_filter: "tdel_all rs t = filter (\<lambda>r. rid r \<notin> rid ` set rs) t"
proof (induction rs arbitrary: t)
  case Nil
  then show ?case by (simp add: tdel_all_def)
next
  case (Cons q rs)
  have "tdel_all (q # rs) t = tdel_all rs (tdel (rid q) t)" by (simp add: tdel_all_def)
  also have "\<dots> = filter (\<lambda>r. rid r \<notin> rid ` set (q # rs)) t"
    by (auto simp: Cons.IH tdel_def intro: filter_cong)
  finally show ?case .
qed

lemma set_tdel_all: "r \<in> set (tdel_all rs t) \<longleftrightarrow> r \<in> set t \<and> rid r \<notin> rid ` set rs"
  by (auto simp: tdel_all_filter)

lemma wf_tdel_all: "wf_table n t \<Longrightarrow> wf_table n (tdel_all rs t)"
  by (auto simp: wf_table_def tdel_all_filter distinct_map_filter)

lemma keyed_tdel_all: "keyed key t \<Longrightarrow> keyed key (tdel_all rs t)"
  by (auto simp: keyed_def tdel_all_filter distinct_map_filter)

lemma keyed_tdel: "keyed key t \<Longrightarrow> keyed key (tdel i t)"
  by (auto simp: keyed_def tdel_def distinct_map_filter)

lemma keyed_tpatch: "(\<And>d. key (f d) = key d) \<Longrightarrow> keyed key (tpatch i f t) = keyed key t"
proof -
  assume "\<And>d. key (f d) = key d"
  then have "map (\<lambda>r. key (doc r)) (tpatch i f t) = map (\<lambda>r. key (doc r)) t"
    by (simp add: tpatch_def)
  then show ?thesis by (simp only: keyed_def)
qed

lemma keyed_snoc: "keyed key (t @ [Row n now d]) \<longleftrightarrow> keyed key t \<and> key d \<notin> (\<lambda>r. key (doc r)) ` set t"
  by (auto simp: keyed_def)

section \<open>Unique lookups\<close>

lemma uniqueRow_keyed:
  assumes "keyed key t"
  shows "uniqueRow (tselect (\<lambda>d. key d = k) t) = Inr (firstRow (tselect (\<lambda>d. key d = k) t))"
proof -
  have "length (tselect (\<lambda>d. key d = k) t) \<le> 1"
    unfolding tselect_def using assms by (intro filter_key_unique) (simp add: keyed_def)
  then show ?thesis unfolding length_le_1_cases by auto
qed

lemma uniqueRow_Some: "uniqueRow t = Inr (Some r) \<Longrightarrow> t = [r]"
  by (cases t rule: uniqueRow.cases) auto

lemma uniqueRow_None: "uniqueRow t = Inr None \<Longrightarrow> t = []"
  by (cases t rule: uniqueRow.cases) auto

lemma uniqueRow_in: "uniqueRow (tselect P t) = Inr (Some r) \<Longrightarrow> r \<in> set t \<and> P (doc r)"
  by (metis list.set_intros(1) set_tselect uniqueRow_Some)

lemma uniqueRow_keyed_Some:
  assumes "keyed key t" and "r \<in> set t" and "key (doc r) = k"
  shows "uniqueRow (tselect (\<lambda>d. key d = k) t) = Inr (Some r)"
proof -
  have "length (tselect (\<lambda>d. key d = k) t) \<le> 1"
    unfolding tselect_def using assms(1) by (intro filter_key_unique) (simp add: keyed_def)
  moreover have "r \<in> set (tselect (\<lambda>d. key d = k) t)" using assms by (simp add: set_tselect)
  ultimately show ?thesis unfolding length_le_1_cases by auto
qed

lemma uniqueRow_keyed_None:
  assumes "\<forall>r \<in> set t. key (doc r) \<noteq> k"
  shows "uniqueRow (tselect (\<lambda>d. key d = k) t) = Inr None"
proof -
  have "tselect (\<lambda>d. key d = k) t = []" using assms by (auto simp: tselect_def filter_empty_conv)
  then show ?thesis by simp
qed

lemma firstRow_in: "firstRow (tselect P t) = Some r \<Longrightarrow> r \<in> set t \<and> P (doc r)"
  by (cases "tselect P t") (auto simp: set_tselect [symmetric])

section \<open>Counters\<close>

text \<open>
  \<open>upsert\<close> is the code's idiom \<open>existing = query.unique(); if (existing) patch(existing._id, \<dots>)
  else insert(\<dots>)\<close> on a table whose rows count something per key: it returns the new
  count, the table and the next free id. \<open>tally\<close> is what the table says about a key.
\<close>

definition upsert ::
  "('d \<Rightarrow> 'k) \<Rightarrow> ('d \<Rightarrow> 'c) \<Rightarrow> ('k \<Rightarrow> 'c \<Rightarrow> 'd) \<Rightarrow> ('c \<Rightarrow> 'd \<Rightarrow> 'd) \<Rightarrow>
   int \<Rightarrow> 'k \<Rightarrow> 'c::comm_monoid_add \<Rightarrow> nat \<times> 'd table \<Rightarrow> error + ('c \<times> nat \<times> 'd table)" where
  "upsert key cnt mk setc now k c s =
     (case s of (n, t) \<Rightarrow>
      case uniqueRow (tselect (\<lambda>d. key d = k) t) of
        Inl e \<Rightarrow> Inl e
      | Inr None \<Rightarrow> Inr (c, Suc n, t @ [Row n now (mk k c)])
      | Inr (Some r) \<Rightarrow> Inr (cnt (doc r) + c, n, tpatch (rid r) (setc (cnt (doc r) + c)) t))"

definition tally :: "('d \<Rightarrow> 'k) \<Rightarrow> ('d \<Rightarrow> 'c::comm_monoid_add) \<Rightarrow> 'd table \<Rightarrow> 'k \<Rightarrow> 'c" where
  "tally key cnt t k = sum_list (map (\<lambda>r. cnt (doc r)) (tselect (\<lambda>d. key d = k) t))"

lemma tally_Nil [simp]: "tally key cnt [] k = 0"
  by (simp add: tally_def tselect_def)

lemma tally_snoc:
  "tally key cnt (t @ [Row n now d]) k = tally key cnt t k + (if key d = k then cnt d else 0)"
  by (simp add: tally_def tselect_snoc)

lemma tally_none: "tselect (\<lambda>d. key d = k) t = [] \<Longrightarrow> tally key cnt t k = 0"
  by (simp add: tally_def)

lemma tally_one: "tselect (\<lambda>d. key d = k) t = [r] \<Longrightarrow> tally key cnt t k = cnt (doc r)"
  by (simp add: tally_def)

lemma tselect_in: "tselect P t = [r] \<Longrightarrow> r \<in> set t \<and> P (doc r)"
  by (metis list.set_intros(1) set_tselect)

locale counter_table =
  fixes key :: "'d \<Rightarrow> 'k"
    and cnt :: "'d \<Rightarrow> 'c::comm_monoid_add"
    and mk :: "'k \<Rightarrow> 'c \<Rightarrow> 'd"
    and setc :: "'c \<Rightarrow> 'd \<Rightarrow> 'd"
  assumes key_mk: "key (mk k c) = k"
    and cnt_mk: "cnt (mk k c) = c"
    and key_setc: "key (setc c d) = key d"
    and cnt_setc: "cnt (setc c d) = c"
begin

lemma select_other_rid:
  assumes "wf_table n t" and "tselect (\<lambda>d. key d = k) t = [r]" and "k' \<noteq> k"
  shows "rid r \<notin> rid ` set (tselect (\<lambda>d. key d = k') t)"
proof
  assume "rid r \<in> rid ` set (tselect (\<lambda>d. key d = k') t)"
  then obtain q where q: "q \<in> set t" "key (doc q) = k'" "rid q = rid r"
    by (auto simp: set_tselect)
  have r: "r \<in> set t" "key (doc r) = k" using tselect_in [OF assms(2)] by auto
  from q r assms(1) have "q = r" by (metis option.inject tget_in)
  with q r assms(3) show False by simp
qed

lemma tally_patch:
  assumes "wf_table n t" and "tselect (\<lambda>d. key d = k) t = [r]"
  shows "tally key cnt (tpatch (rid r) (setc c) t) k' = (if k' = k then c else tally key cnt t k')"
proof (cases "k' = k")
  case True
  have "tselect (\<lambda>d. key d = k) (tpatch (rid r) (setc c) t) = tpatch (rid r) (setc c) [r]"
    by (simp add: tselect_tpatch_other key_setc assms)
  with True show ?thesis by (simp add: tally_def tpatch_def cnt_setc)
next
  case False
  have "rid r \<notin> rid ` set (tselect (\<lambda>d. key d = k') t)"
    by (rule select_other_rid [OF assms False])
  then have "tselect (\<lambda>d. key d = k') (tpatch (rid r) (setc c) t) = tselect (\<lambda>d. key d = k') t"
    by (simp add: tselect_tpatch_other key_setc tpatch_not_in)
  with False show ?thesis by (simp add: tally_def)
qed

text \<open>The rows of other keys are not touched.\<close>

lemma upsert_select_other:
  assumes "wf_table n t" and "upsert key cnt mk setc now k c (n, t) = Inr (v, n', t')" and "k' \<noteq> k"
  shows "tselect (\<lambda>d. key d = k') t' = tselect (\<lambda>d. key d = k') t"
proof (cases "uniqueRow (tselect (\<lambda>d. key d = k) t)")
  case (Inl e)
  with assms(2) show ?thesis by (simp add: upsert_def)
next
  case (Inr res)
  show ?thesis
  proof (cases res)
    case None
    with Inr assms(2,3) show ?thesis by (auto simp: upsert_def tselect_snoc key_mk)
  next
    case (Some r)
    with Inr have one: "tselect (\<lambda>d. key d = k) t = [r]" by (simp add: uniqueRow_Some)
    have "rid r \<notin> rid ` set (tselect (\<lambda>d. key d = k') t)"
      by (rule select_other_rid [OF assms(1) one assms(3)])
    with Inr Some assms(2) show ?thesis
      by (auto simp: upsert_def tselect_tpatch_other key_setc tpatch_not_in)
  qed
qed

text \<open>The contract: no exception, the key's count goes up by \<open>c\<close>, every other count is
  untouched, and the table stays well formed with one row per key.\<close>

lemma upsert_spec:
  assumes "wf_table n t" and "keyed key t"
  shows "\<exists>n' t'. upsert key cnt mk setc now k c (n, t) = Inr (tally key cnt t k + c, n', t')
    \<and> n \<le> n' \<and> wf_table n' t' \<and> keyed key t'
    \<and> tally key cnt t' = (tally key cnt t)(k := tally key cnt t k + c)"
proof (cases "tselect (\<lambda>d. key d = k) t")
  case Nil
  then have "k \<notin> (\<lambda>r. key (doc r)) ` set t"
    by (auto simp: tselect_def filter_empty_conv)
  with Nil assms show ?thesis
    by (auto simp: upsert_def tally_snoc tally_none key_mk cnt_mk keyed_snoc wf_snoc fun_eq_iff)
next
  case (Cons r rs)
  have "length (tselect (\<lambda>d. key d = k) t) \<le> 1"
    unfolding tselect_def using assms(2) by (intro filter_key_unique) (simp add: keyed_def)
  with Cons have one: "tselect (\<lambda>d. key d = k) t = [r]" by simp
  then show ?thesis
    using assms
    by (auto simp: upsert_def tally_one tally_patch keyed_tpatch key_setc fun_eq_iff)
qed

lemma upsert_Inr:
  assumes "wf_table n t" and "keyed key t" and "upsert key cnt mk setc now k c (n, t) = Inr (v, n', t')"
  shows "v = tally key cnt t k + c" and "n \<le> n'" and "wf_table n' t'" and "keyed key t'"
    and "tally key cnt t' = (tally key cnt t)(k := tally key cnt t k + c)"
  using upsert_spec [OF assms(1,2), of now k c] assms(3) by auto

end

end
