(* ===== verification/Calendar.thy ===== *)
theory Calendar
  imports Prelude
begin

text \<open>
  \<open>lib/time.ts\<close> and the UTC calendar it takes from the language: the ECMAScript day, year and
  month functions on integer time values (milliseconds since 1970), \<open>Date.UTC\<close>,
  \<open>toISOString\<close> as far as its date part is used, fixed windows, and the day and month periods
  of \<open>quotaPeriod\<close> in \<open>gateway.ts\<close>. The lemmas show that the year and month of a time are the
  ones whose span contains it, so a quota period contains the time it is computed from.
\<close>

definition MINUTE_MS :: int where
  "MINUTE_MS = 60000"

definition DAY_MS :: int where
  "DAY_MS = 86400000"

section \<open>Days, years and months\<close>

definition day_of :: "int \<Rightarrow> int" where
  "day_of t = t div DAY_MS"

definition day_from_year :: "int \<Rightarrow> int" where
  "day_from_year y = 365 * (y - 1970) + (y - 1969) div 4 - (y - 1901) div 100 + (y - 1601) div 400"

text \<open>The largest year that starts on or before day \<open>d\<close>: an estimate from the mean length of a
  year, corrected by one.\<close>

definition year_of_day :: "int \<Rightarrow> int" where
  "year_of_day d =
     (let e = (400 * d) div 146097 + 1970 in
      if day_from_year (e + 1) \<le> d then e + 1
      else if day_from_year e \<le> d then e else e - 1)"

definition is_leap :: "int \<Rightarrow> bool" where
  "is_leap y = (y mod 4 = 0 \<and> (y mod 100 \<noteq> 0 \<or> y mod 400 = 0))"

text \<open>The day of the year on which month \<open>m\<close> (0 to 11) starts; \<open>lp\<close> is 1 in leap years.\<close>

definition month_start :: "int \<Rightarrow> int \<Rightarrow> int" where
  "month_start lp m =
     (if m \<le> 0 then 0 else if m = 1 then 31 else if m = 2 then 59 + lp else if m = 3 then 90 + lp
      else if m = 4 then 120 + lp else if m = 5 then 151 + lp else if m = 6 then 181 + lp
      else if m = 7 then 212 + lp else if m = 8 then 243 + lp else if m = 9 then 273 + lp
      else if m = 10 then 304 + lp else if m = 11 then 334 + lp else 365 + lp)"

definition leap_day :: "int \<Rightarrow> int" where
  "leap_day y = (if is_leap y then 1 else 0)"

definition month_of_yday :: "int \<Rightarrow> int \<Rightarrow> int" where
  "month_of_yday lp dw =
     (if dw < 31 then 0 else if dw < 59 + lp then 1 else if dw < 90 + lp then 2
      else if dw < 120 + lp then 3 else if dw < 151 + lp then 4 else if dw < 181 + lp then 5
      else if dw < 212 + lp then 6 else if dw < 243 + lp then 7 else if dw < 273 + lp then 8
      else if dw < 304 + lp then 9 else if dw < 334 + lp then 10 else 11)"

definition getUTCFullYear :: "int \<Rightarrow> int" where
  "getUTCFullYear t = year_of_day (day_of t)"

definition getUTCMonth :: "int \<Rightarrow> int" where
  "getUTCMonth t = (let y = getUTCFullYear t in month_of_yday (leap_day y) (day_of t - day_from_year y))"

definition getUTCDate :: "int \<Rightarrow> int" where
  "getUTCDate t = (let y = getUTCFullYear t in
     day_of t - day_from_year y - month_start (leap_day y) (getUTCMonth t) + 1)"

definition make_day :: "int \<Rightarrow> int \<Rightarrow> int \<Rightarrow> int" where
  "make_day y m dt = (let ym = y + m div 12 in
     day_from_year ym + month_start (leap_day ym) (m mod 12) + dt - 1)"

text \<open>\<open>Date.UTC\<close> reads the years 0 to 99 as 1900 to 1999.\<close>

definition date_UTC :: "int \<Rightarrow> int \<Rightarrow> int \<Rightarrow> int" where
  "date_UTC y m dt = DAY_MS * make_day (if 0 \<le> y \<and> y \<le> 99 then 1900 + y else y) m dt"

section \<open>lib/time.ts\<close>

definition iso_year :: "int \<Rightarrow> string" where
  "iso_year y =
     (if 0 \<le> y \<and> y \<le> 9999 then pad_start 4 (show_nat (nat y))
      else (if y < 0 then ''-'' else ''+'') @ pad_start 6 (show_nat (nat \<bar>y\<bar>)))"

text \<open>The date part of \<open>new Date(t).toISOString()\<close>; the time part never reaches a result.\<close>

definition iso_date :: "int \<Rightarrow> string" where
  "iso_date t = iso_year (getUTCFullYear t) @ ''-'' @ pad_start 2 (show_nat (nat (getUTCMonth t + 1)))
     @ ''-'' @ pad_start 2 (show_nat (nat (getUTCDate t)))"

definition utcDay :: "int \<Rightarrow> string" where
  "utcDay t = slice0 10 (iso_date t)"

definition utcMonthStartDay :: "int \<Rightarrow> string" where
  "utcMonthStartDay t = slice0 8 (iso_date t) @ ''01''"

definition windowStart :: "int \<Rightarrow> int \<Rightarrow> int" where
  "windowStart timestamp windowMs = timestamp div windowMs * windowMs"

section \<open>quotaPeriod\<close>

datatype period = Day | Month

definition quotaPeriod :: "int \<Rightarrow> period \<Rightarrow> int \<times> int" where
  "quotaPeriod now p =
     (let start = (case p of
          Day \<Rightarrow> date_UTC (getUTCFullYear now) (getUTCMonth now) (getUTCDate now)
        | Month \<Rightarrow> date_UTC (getUTCFullYear now) (getUTCMonth now) 1);
          reset = (case p of
          Day \<Rightarrow> start + 24 * 60 * MINUTE_MS
        | Month \<Rightarrow> date_UTC (getUTCFullYear now) (getUTCMonth now + 1) 1)
      in (start, reset))"

section \<open>Correctness of the calendar\<close>

lemma div_succ: "0 < n \<Longrightarrow> (x + 1) div n = x div n + (if (x + 1) mod n = 0 then 1 else 0)" for x n :: int
proof -
  assume n: "0 < n"
  have x: "x = n * (x div n) + x mod n" by simp
  have r: "0 \<le> x mod n" "x mod n < n" using n by simp_all
  show ?thesis
  proof (cases "x mod n + 1 = n")
    case True
    then have "x + 1 = n * (x div n) + n" using x by linarith
    then have eq: "x + 1 = n * (x div n + 1)" by (simp add: distrib_left)
    show ?thesis using n unfolding eq by simp
  next
    case False
    then have "x mod n + 1 < n" using r by linarith
    moreover have "x + 1 = n * (x div n) + (x mod n + 1)" using x by linarith
    ultimately have "(x + 1) div n = x div n" "(x + 1) mod n = x mod n + 1"
      using r int_div_pos_eq [of "x + 1" n "x div n" "x mod n + 1"]
        int_mod_pos_eq [of "x + 1" n "x div n" "x mod n + 1"] by linarith+
    then show ?thesis using r by simp
  qed
qed

lemma mod_shift: "n dvd k \<Longrightarrow> (y - k) mod n = 0 \<longleftrightarrow> y mod n = 0" for y n k :: int
proof -
  assume "n dvd k"
  then have "n dvd (y - k) + k \<longleftrightarrow> n dvd y - k" by (rule dvd_add_left_iff)
  then show ?thesis by (simp add: mod_eq_0_iff_dvd)
qed

lemma div_step:
  fixes y n k :: int
  assumes "0 < n" and "n dvd k"
  shows "(y - k) div n = (y - k - 1) div n + (if y mod n = 0 then 1 else 0)"
proof -
  have eq: "y - k - 1 + 1 = y - k" by linarith
  show ?thesis
    by (rule div_succ [OF assms(1), of "y - k - 1", unfolded eq mod_shift [OF assms(2)]])
qed

lemma leap_count:
  "(q \<Longrightarrow> p) \<Longrightarrow> (r \<Longrightarrow> q) \<Longrightarrow>
   365 + (if p then 1 else 0) - (if q then 1 else 0) + (if r then 1 else 0)
     = (365 :: int) + (if p \<and> (\<not> q \<or> r) then 1 else 0)"
  by auto

lemma year_len: "day_from_year (y + 1) - day_from_year y = 365 + leap_day y"
proof -
  have a: "(y - 1968) div 4 = (y - 1968 - 1) div 4 + (if y mod 4 = 0 then 1 else 0)"
    by (rule div_step) simp_all
  have b: "(y - 1900) div 100 = (y - 1900 - 1) div 100 + (if y mod 100 = 0 then 1 else 0)"
    by (rule div_step) simp_all
  have c: "(y - 1600) div 400 = (y - 1600 - 1) div 400 + (if y mod 400 = 0 then 1 else 0)"
    by (rule div_step) simp_all
  have d: "y mod 100 = 0 \<Longrightarrow> y mod 4 = 0" "y mod 400 = 0 \<Longrightarrow> y mod 100 = 0"
    using mod_mod_cancel [of 4 100 y] mod_mod_cancel [of 100 400 y] by auto
  have e: "y + 1 - 1969 = y - 1968" "y + 1 - 1901 = y - 1900" "y + 1 - 1601 = y - 1600"
    "y - 1969 = y - 1968 - 1" "y - 1901 = y - 1900 - 1" "y - 1601 = y - 1600 - 1"
    "365 * (y + 1 - 1970) = 365 * (y - 1970) + 365"
    by simp_all
  have ar: "(x + 365 + (A + a') - (B + b') + (C + c')) - (x + A - B + C) = 365 + a' - b' + c'"
    for x A B C a' b' c' :: int by simp
  have "day_from_year (y + 1) - day_from_year y = 365
      + (if y mod 4 = 0 then 1 else 0) - (if y mod 100 = 0 then 1 else 0) + (if y mod 400 = 0 then 1 else 0)"
    unfolding day_from_year_def e a b c by (rule ar)
  also have "\<dots> = 365 + leap_day y"
    unfolding leap_day_def is_leap_def by (rule leap_count [OF d])
  finally show ?thesis .
qed

lemma div_between: "0 < n \<Longrightarrow> n * (x div n) \<le> x \<and> x < n * (x div n) + n" for x n :: int
  using pos_mod_sign [of n x] pos_mod_bound [of n x] mult_div_mod_eq [of n x] by linarith

lemma day_from_year_bounds:
  "146097 * (y - 1970) - 700 \<le> 400 * day_from_year y
   \<and> 400 * day_from_year y \<le> 146097 * (y - 1970) + 700"
proof -
  note b = div_between [of 4 "y - 1969", simplified] div_between [of 100 "y - 1901", simplified]
    div_between [of 400 "y - 1601", simplified]
  note b' = b [THEN conjunct1] b [THEN conjunct2]
  have "146097 * (y - 1970) - 700 \<le> 400 * day_from_year y"
    unfolding day_from_year_def using b' by (simp add: algebra_simps)
  moreover have "400 * day_from_year y \<le> 146097 * (y - 1970) + 700"
    unfolding day_from_year_def using b' by (simp add: algebra_simps)
  ultimately show ?thesis ..
qed

lemma year_of_day_span: "day_from_year (year_of_day d) \<le> d \<and> d < day_from_year (year_of_day d + 1)"
proof -
  define e where "e = (400 * d) div 146097 + 1970"
  have e: "e - 1970 = (400 * d) div 146097" by (simp add: e_def)
  note b = div_between [of 146097 "400 * d", simplified, folded e]
  have lo: "day_from_year (e - 1) \<le> d"
    using conjunct1 [OF b] conjunct2 [OF day_from_year_bounds [of "e - 1"]] by (simp add: algebra_simps)
  have hi: "d < day_from_year (e + 1 + 1)"
    using conjunct2 [OF b] conjunct1 [OF day_from_year_bounds [of "e + 1 + 1"]] by (simp add: algebra_simps)
  show ?thesis
    using lo hi by (auto simp: year_of_day_def Let_def e_def [symmetric])
qed

lemma day_from_year_strict: "y < z \<Longrightarrow> day_from_year y + 365 \<le> day_from_year z"
proof -
  assume "y < z"
  then obtain k where z: "z = y + 1 + int k" by (metis zle_iff_zadd add1_zle_eq)
  have "day_from_year y + 365 \<le> day_from_year (y + 1 + int k)"
  proof (induction k)
    case 0
    show ?case using year_len [of y] by (simp add: leap_day_def split: if_splits)
  next
    case (Suc k)
    have "day_from_year (y + 1 + int k) \<le> day_from_year (y + 1 + int k + 1)"
      using year_len [of "y + 1 + int k"] by (simp add: leap_day_def split: if_splits)
    with Suc show ?case by (simp add: algebra_simps)
  qed
  with z show ?thesis by simp
qed

lemma year_of_day_unique:
  assumes "day_from_year y \<le> d" and "d < day_from_year (y + 1)"
  shows "year_of_day d = y"
proof (rule ccontr)
  let ?z = "year_of_day d"
  assume "?z \<noteq> y"
  then consider "?z + 1 < y \<or> ?z + 1 = y" | "y + 1 < ?z \<or> y + 1 = ?z" by linarith
  then show False
    using assms year_of_day_span [of d] day_from_year_strict [of "?z + 1" y]
      day_from_year_strict [of "y + 1" ?z]
    by cases auto
qed

lemma leap_day_01: "leap_day y = 0 \<or> leap_day y = 1"
  by (simp add: leap_day_def)

lemma month_span:
  assumes "lp = 0 \<or> lp = 1" and "0 \<le> dw" and "dw < 365 + lp"
  shows "month_start lp (month_of_yday lp dw) \<le> dw" "dw < month_start lp (month_of_yday lp dw + 1)"
    "0 \<le> month_of_yday lp dw" "month_of_yday lp dw \<le> 11"
  using assms by (auto simp: month_of_yday_def month_start_def)

lemma yday_range:
  "0 \<le> day_of t - day_from_year (getUTCFullYear t)"
  "day_of t - day_from_year (getUTCFullYear t) < 365 + leap_day (getUTCFullYear t)"
  using year_of_day_span [of "day_of t"] year_len [of "getUTCFullYear t"]
  by (auto simp: getUTCFullYear_def)

lemma getUTCMonth_range: "0 \<le> getUTCMonth t" "getUTCMonth t \<le> 11"
  using month_span(3,4) [OF leap_day_01 yday_range] by (simp_all add: getUTCMonth_def Let_def)

lemma month_start_12: "month_start lp 12 = 365 + lp"
  by (simp add: month_start_def)

lemma month_len:
  "lp = 0 \<or> lp = 1 \<Longrightarrow> 0 \<le> m \<Longrightarrow> m \<le> 11 \<Longrightarrow>
   28 \<le> month_start lp (m + 1) - month_start lp m \<and> month_start lp (m + 1) - month_start lp m \<le> 31"
  by (auto simp: month_start_def) presburger+

lemma getUTCDate_range: "1 \<le> getUTCDate t" "getUTCDate t \<le> 31"
proof -
  let ?lp = "leap_day (getUTCFullYear t)" and ?m = "getUTCMonth t"
  note sp = month_span(1,2) [OF leap_day_01 yday_range [of t]]
  have "month_start ?lp (?m + 1) - month_start ?lp ?m \<le> 31"
    using month_len [OF leap_day_01, of ?m] getUTCMonth_range [of t] by blast
  with sp show "1 \<le> getUTCDate t" "getUTCDate t \<le> 31"
    by (simp_all add: getUTCDate_def getUTCMonth_def Let_def)
qed

text \<open>Taking the fields of a time apart and putting them together gives its day back.\<close>

lemma make_day_fields: "make_day (getUTCFullYear t) (getUTCMonth t) (getUTCDate t) = day_of t"
  using getUTCMonth_range [of t]
  by (simp add: make_day_def getUTCDate_def Let_def div_pos_pos_trivial)

lemma make_day_next_month:
  "make_day (getUTCFullYear t) (getUTCMonth t + 1) 1 =
     day_from_year (getUTCFullYear t) + month_start (leap_day (getUTCFullYear t)) (getUTCMonth t + 1)"
proof (cases "getUTCMonth t = 11")
  case True
  then show ?thesis
    using year_len [of "getUTCFullYear t"] by (simp add: make_day_def month_start_12) (simp add: month_start_def)
next
  case False
  with getUTCMonth_range [of t] show ?thesis
    by (simp add: make_day_def Let_def div_pos_pos_trivial)
qed

lemma make_day_month:
  "make_day (getUTCFullYear t) (getUTCMonth t) 1 \<le> day_of t"
  "day_of t < make_day (getUTCFullYear t) (getUTCMonth t + 1) 1"
proof -
  note sp = month_span(1,2) [OF leap_day_01 yday_range [of t]]
  show "make_day (getUTCFullYear t) (getUTCMonth t) 1 \<le> day_of t"
    using sp(1) getUTCMonth_range [of t]
    by (simp add: make_day_def Let_def div_pos_pos_trivial getUTCMonth_def)
  show "day_of t < make_day (getUTCFullYear t) (getUTCMonth t + 1) 1"
    unfolding make_day_next_month using sp(2) by (simp add: getUTCMonth_def Let_def)
qed

lemma day_of_bounds: "DAY_MS * day_of t \<le> t" "t < DAY_MS * day_of t + DAY_MS"
  unfolding day_of_def DAY_MS_def by presburger+

lemma year_of_epoch: "0 \<le> t \<Longrightarrow> 1970 \<le> getUTCFullYear t"
proof (rule ccontr)
  assume t: "0 \<le> t" and "\<not> 1970 \<le> getUTCFullYear t"
  then have "getUTCFullYear t + 1 \<le> 1970" by simp
  then have "day_from_year (getUTCFullYear t + 1) \<le> day_from_year 1970"
    using day_from_year_strict [of "getUTCFullYear t + 1" 1970] by (cases "getUTCFullYear t + 1 = 1970") auto
  moreover have "0 \<le> day_of t" using t by (simp add: day_of_def DAY_MS_def)
  moreover have "day_of t < day_from_year (getUTCFullYear t + 1)"
    using year_of_day_span [of "day_of t"] by (simp add: getUTCFullYear_def)
  ultimately show False by (simp add: day_from_year_def)
qed

lemma quotaPeriod_Day: "0 \<le> now \<Longrightarrow> quotaPeriod now Day = (DAY_MS * day_of now, DAY_MS * day_of now + DAY_MS)"
  using year_of_epoch [of now] make_day_fields [of now]
  by (simp add: quotaPeriod_def date_UTC_def MINUTE_MS_def DAY_MS_def Let_def)

lemma quotaPeriod_Month:
  "0 \<le> now \<Longrightarrow> quotaPeriod now Month =
     (DAY_MS * make_day (getUTCFullYear now) (getUTCMonth now) 1,
      DAY_MS * make_day (getUTCFullYear now) (getUTCMonth now + 1) 1)"
  using year_of_epoch [of now] by (simp add: quotaPeriod_def date_UTC_def Let_def)

lemma quotaPeriod_contains:
  assumes "0 \<le> now"
  shows "fst (quotaPeriod now p) \<le> now \<and> now < snd (quotaPeriod now p)"
proof (cases p)
  case Day
  then show ?thesis using assms day_of_bounds [of now] by (simp add: quotaPeriod_Day)
next
  case Month
  have "DAY_MS * (day_of now + 1) \<le> DAY_MS * make_day (getUTCFullYear now) (getUTCMonth now + 1) 1"
    using make_day_month(2) [of now] by (simp add: DAY_MS_def)
  moreover have "DAY_MS * make_day (getUTCFullYear now) (getUTCMonth now) 1 \<le> DAY_MS * day_of now"
    using make_day_month(1) [of now] by (simp add: DAY_MS_def)
  ultimately show ?thesis
    unfolding Month quotaPeriod_Month [OF assms] fst_conv snd_conv distrib_left mult_1_right
    using day_of_bounds [of now] by linarith
qed

lemma windowStart_bounds: "0 < w \<Longrightarrow> windowStart t w \<le> t \<and> t < windowStart t w + w"
  using pos_mod_sign [of w t] pos_mod_bound [of w t] div_mult_mod_eq [of t w]
  unfolding windowStart_def by linarith

lemma windowStart_same: "0 < w \<Longrightarrow> windowStart t w \<le> u \<Longrightarrow> u < windowStart t w + w \<Longrightarrow> windowStart u w = windowStart t w"
proof -
  assume w: "0 < w" and lo: "windowStart t w \<le> u" and hi: "u < windowStart t w + w"
  have "u div w = t div w"
    using w lo hi
    by (intro int_div_pos_eq [of u w "t div w" "u - t div w * w"]) (auto simp: windowStart_def mult.commute)
  then show ?thesis by (simp add: windowStart_def)
qed

end
