(* ===== verification/Schema.thy ===== *)
theory Schema
  imports Store Calendar
begin

text \<open>
  \<open>schema.ts\<close>: the documents of each table as records (an optional field is an
  \<open>option\<close>), the database as a record of tables, and \<open>ctx.db.insert\<close>, \<open>patch\<close> and \<open>delete\<close>
  through the update function of a table. The locale \<open>table_lens\<close> says what a table of the database
  is and is interpreted for every table; \<open>wf_ids\<close> is the well-formedness of ids that every operation
  keeps, \<open>wf_windows\<close> and the other uniqueness invariants say that the queries which the code
  ends in \<open>.unique()\<close> find at most one document.
\<close>

section \<open>Documents\<close>

datatype PaidPlan = Starter | Essentials | Pro

record user =
  u_name :: "string option"
  u_image :: "string option"
  u_email :: "string option"
  u_emailVerificationTime :: "int option"
  u_phone :: "string option"
  u_phoneVerificationTime :: "int option"
  u_isAnonymous :: "bool option"
  u_isSystem :: "bool option"
  u_disabledAt :: "int option"
  u_updatedAt :: "int option"
  u_plan :: "PaidPlan option"
  u_planExpiresAt :: "int option"
  u_freeTierActivatedAt :: "int option"
  u_freeRequestsUsed :: "int option"

datatype keyEnvironment = Live | Test

record apiKey =
  k_userId :: nat
  k_name :: string
  k_keyPrefix :: string
  k_keyHash :: string
  k_environment :: "keyEnvironment option"
  k_endpoints :: "string list option"
  k_rateLimitPerMinute :: "jsnum option"
  k_isSiteKey :: "bool option"
  k_lastUsedAt :: "rat option"
  k_expiresAt :: "int option"
  k_revokedAt :: "int option"

record apiRequest =
  q_apiKeyId :: nat
  q_userId :: nat
  q_endpoint :: string
  q_method :: string
  q_statusCode :: int
  q_responseTimeMs :: int
  q_timestamp :: rat

record usageDay =
  d_userId :: nat
  d_apiKeyId :: nat
  d_endpoint :: string
  d_day :: string
  d_total :: int
  d_successful :: int
  d_failed :: int
  d_totalResponseTimeMs :: int

record rateLimitWindow =
  w_bucket :: string
  w_windowStart :: int
  w_count :: int

record quotaWindow =
  z_bucket :: string
  z_period :: period
  z_periodStart :: int
  z_units :: int

datatype severity = INFO | WARNING | HIGH | CRITICAL

datatype outcome = Success | Failure

record auditEvent =
  a_event :: string
  a_severity :: severity
  a_outcome :: outcome
  a_tenantId :: "nat option"
  a_apiKeyId :: "nat option"
  a_detail :: "string option"
  a_timestamp :: int

record playgroundToken =
  t_tokenHash :: string
  t_apiKeyId :: nat
  t_userId :: nat
  t_expiresAt :: int

datatype paymentStatus = Pending | Succeeded | Failed

record payment =
  p_userId :: nat
  p_plan :: PaidPlan
  p_paymentIntentId :: string
  p_amountMinor :: int
  p_currency :: string
  p_status :: paymentStatus
  p_createdAt :: int
  p_paidAt :: "int option"
  p_checkoutUrl :: "string option"

text \<open>The two tables of Convex Auth the code reads.\<close>

record authSession =
  s_userId :: nat
  s_expirationTime :: int

record authAccount =
  c_userId :: nat
  c_provider :: string
  c_providerAccountId :: string

section \<open>The database\<close>

record db =
  nextId :: nat
  users :: "user table"
  apiKeys :: "apiKey table"
  apiRequests :: "apiRequest table"
  usageDaily :: "usageDay table"
  rateLimitWindows :: "rateLimitWindow table"
  quotaWindows :: "quotaWindow table"
  securityAuditEvents :: "auditEvent table"
  playgroundTokens :: "playgroundToken table"
  payments :: "payment table"
  authSessions :: "authSession table"
  authAccounts :: "authAccount table"
  scheduled :: "string list"

definition empty_db :: db where
  "empty_db = \<lparr>nextId = 0, users = [], apiKeys = [], apiRequests = [], usageDaily = [],
     rateLimitWindows = [], quotaWindows = [], securityAuditEvents = [], playgroundTokens = [],
     payments = [], authSessions = [], authAccounts = [], scheduled = []\<rparr>"

definition db_insert :: "(('a table \<Rightarrow> 'a table) \<Rightarrow> db \<Rightarrow> db) \<Rightarrow> int \<Rightarrow> 'a \<Rightarrow> db \<Rightarrow> nat \<times> db" where
  "db_insert upd now d s =
     (nextId s, upd (\<lambda>t. t @ [Row (nextId s) now d]) (s\<lparr>nextId := Suc (nextId s)\<rparr>))"

definition db_patch :: "(('a table \<Rightarrow> 'a table) \<Rightarrow> db \<Rightarrow> db) \<Rightarrow> nat \<Rightarrow> ('a \<Rightarrow> 'a) \<Rightarrow> db \<Rightarrow> db" where
  "db_patch upd i f s = upd (tpatch i f) s"

definition db_delete :: "(('a table \<Rightarrow> 'a table) \<Rightarrow> db \<Rightarrow> db) \<Rightarrow> nat \<Rightarrow> db \<Rightarrow> db" where
  "db_delete upd i s = upd (tdel i) s"

definition db_delete_all :: "(('a table \<Rightarrow> 'a table) \<Rightarrow> db \<Rightarrow> db) \<Rightarrow> 'a table \<Rightarrow> db \<Rightarrow> db" where
  "db_delete_all upd rs s = upd (tdel_all rs) s"

lemmas db_ops = db_insert_def db_patch_def db_delete_def db_delete_all_def

section \<open>Tables of the database\<close>

locale table_lens =
  fixes sel :: "db \<Rightarrow> 'a table"
    and upd :: "('a table \<Rightarrow> 'a table) \<Rightarrow> db \<Rightarrow> db"
  assumes sel_upd: "sel (upd f s) = f (sel s)"
    and nextId_upd: "nextId (upd f s) = nextId s"
    and sel_nextId: "sel (s\<lparr>nextId := n\<rparr>) = sel s"
begin

lemma insert_id: "fst (db_insert upd now d s) = nextId s"
  by (simp add: db_insert_def)

lemma insert_rows: "sel (snd (db_insert upd now d s)) = sel s @ [Row (nextId s) now d]"
  by (simp add: db_insert_def sel_upd sel_nextId)

lemma insert_nextId: "nextId (snd (db_insert upd now d s)) = Suc (nextId s)"
  by (simp add: db_insert_def nextId_upd)

lemma insert_wf:
  "wf_table (nextId s) (sel s) \<Longrightarrow>
   wf_table (nextId (snd (db_insert upd now d s))) (sel (snd (db_insert upd now d s)))"
  by (simp add: insert_rows insert_nextId wf_snoc)

lemma insert_get:
  "wf_table (nextId s) (sel s) \<Longrightarrow>
   tget (sel (snd (db_insert upd now d s))) (fst (db_insert upd now d s)) = Some (Row (nextId s) now d)"
  by (simp add: insert_rows insert_id tget_snoc_fresh)

lemma insert_get_old:
  "wf_table (nextId s) (sel s) \<Longrightarrow> tget (sel s) i = Some r \<Longrightarrow>
   tget (sel (snd (db_insert upd now d s))) i = Some r"
  by (simp add: insert_rows tget_append)

lemma patch_rows: "sel (db_patch upd i f s) = tpatch i f (sel s)"
  by (simp add: db_patch_def sel_upd)

lemma patch_get:
  "tget (sel (db_patch upd i f s)) j =
     map_option (\<lambda>r. if j = i then Row i (ctime r) (f (doc r)) else r) (tget (sel s) j)"
  by (simp add: patch_rows tget_tpatch)

lemma patch_wf: "wf_table (nextId s) (sel s) \<Longrightarrow> wf_table (nextId (db_patch upd i f s)) (sel (db_patch upd i f s))"
  by (simp add: patch_rows db_patch_def nextId_upd sel_upd)

lemma delete_wf: "wf_table (nextId s) (sel s) \<Longrightarrow> wf_table (nextId (db_delete upd i s)) (sel (db_delete upd i s))"
  by (simp add: db_delete_def nextId_upd sel_upd wf_tdel)

lemma delete_all_wf:
  "wf_table (nextId s) (sel s) \<Longrightarrow> wf_table (nextId (db_delete_all upd rs s)) (sel (db_delete_all upd rs s))"
  by (simp add: db_delete_all_def nextId_upd sel_upd wf_tdel_all)

end

interpretation usr: table_lens users users_update
  by unfold_locales simp_all

interpretation keyt: table_lens apiKeys apiKeys_update
  by unfold_locales simp_all

interpretation reqt: table_lens apiRequests apiRequests_update
  by unfold_locales simp_all

interpretation dayt: table_lens usageDaily usageDaily_update
  by unfold_locales simp_all

interpretation wint: table_lens rateLimitWindows rateLimitWindows_update
  by unfold_locales simp_all

interpretation quot: table_lens quotaWindows quotaWindows_update
  by unfold_locales simp_all

interpretation audt: table_lens securityAuditEvents securityAuditEvents_update
  by unfold_locales simp_all

interpretation tokt: table_lens playgroundTokens playgroundTokens_update
  by unfold_locales simp_all

interpretation payt: table_lens payments payments_update
  by unfold_locales simp_all

section \<open>Well-formed databases\<close>

definition wf_ids :: "db \<Rightarrow> bool" where
  "wf_ids s \<longleftrightarrow> wf_table (nextId s) (users s) \<and> wf_table (nextId s) (apiKeys s)
     \<and> wf_table (nextId s) (apiRequests s) \<and> wf_table (nextId s) (usageDaily s)
     \<and> wf_table (nextId s) (rateLimitWindows s) \<and> wf_table (nextId s) (quotaWindows s)
     \<and> wf_table (nextId s) (securityAuditEvents s) \<and> wf_table (nextId s) (playgroundTokens s)
     \<and> wf_table (nextId s) (payments s)"

definition wkey :: "rateLimitWindow \<Rightarrow> string \<times> int" where
  "wkey d = (w_bucket d, w_windowStart d)"

definition zkey :: "quotaWindow \<Rightarrow> string \<times> period \<times> int" where
  "zkey d = (z_bucket d, z_period d, z_periodStart d)"

definition dkey :: "usageDay \<Rightarrow> nat \<times> string \<times> string" where
  "dkey d = (d_apiKeyId d, d_endpoint d, d_day d)"

definition wf_windows :: "db \<Rightarrow> bool" where
  "wf_windows s \<longleftrightarrow> keyed wkey (rateLimitWindows s)"

definition wf_quotas :: "db \<Rightarrow> bool" where
  "wf_quotas s \<longleftrightarrow> keyed zkey (quotaWindows s)"

definition wf_rollups :: "db \<Rightarrow> bool" where
  "wf_rollups s \<longleftrightarrow> keyed dkey (usageDaily s)"

definition wf_intents :: "db \<Rightarrow> bool" where
  "wf_intents s \<longleftrightarrow> keyed p_paymentIntentId (payments s)"

text \<open>Key and token hashes are unique because the secrets are random; the code does not check it.\<close>

definition wf_hashes :: "db \<Rightarrow> bool" where
  "wf_hashes s \<longleftrightarrow> keyed k_keyHash (apiKeys s) \<and> keyed t_tokenHash (playgroundTokens s)"

definition wf_db :: "db \<Rightarrow> bool" where
  "wf_db s \<longleftrightarrow> wf_ids s \<and> wf_windows s \<and> wf_quotas s \<and> wf_rollups s \<and> wf_intents s \<and> wf_hashes s"

lemmas wf_defs = wf_db_def wf_ids_def wf_windows_def wf_quotas_def wf_rollups_def wf_intents_def
  wf_hashes_def

lemma wf_empty_db: "wf_db empty_db"
  by (simp add: wf_defs empty_db_def)

lemma wf_db_patch_users: "wf_db s \<Longrightarrow> wf_db (db_patch users_update i f s)"
  by (simp add: wf_defs db_patch_def)

end
