(* ===== verification/Session.thy ===== *)
theory Session
  imports Plans
begin

text \<open>
  \<open>lib/session.ts\<close> and \<open>lib/audit.ts\<close>: who is signed in, and the audit log. The identity a request
  carries (\<open>getAuthUserId\<close>, \<open>getAuthSessionId\<close> of Convex Auth) is the argument \<open>auth\<close>; whether
  it may still be used is decided by the code from the database.
\<close>

record authContext =
  authUserId :: "nat option"
  authSessionId :: "nat option"

definition isSessionActive :: "db \<Rightarrow> int \<Rightarrow> nat \<Rightarrow> nat \<Rightarrow> bool" where
  "isSessionActive s now userId sessionId =
     (case tget (authSessions s) sessionId of
        None \<Rightarrow> False
      | Some session \<Rightarrow>
          if s_userId (doc session) \<noteq> userId \<or> s_expirationTime (doc session) \<le> now then False
          else (case tget (users s) userId of
              None \<Rightarrow> False
            | Some user \<Rightarrow> u_disabledAt (doc user) = None \<and> u_isSystem (doc user) \<noteq> Some True))"

definition currentUserId :: "db \<Rightarrow> int \<Rightarrow> authContext \<Rightarrow> nat option" where
  "currentUserId s now auth =
     (case (authUserId auth, authSessionId auth) of
        (Some userId, Some sessionId) \<Rightarrow> if isSessionActive s now userId sessionId then Some userId else None
      | _ \<Rightarrow> None)"

definition requireUserId :: "int \<Rightarrow> authContext \<Rightarrow> db \<Rightarrow> error + nat" where
  "requireUserId now auth s =
     (case currentUserId s now auth of
        None \<Rightarrow> Inl (ConvexError ''You need to sign in.'')
      | Some userId \<Rightarrow> Inr userId)"

lemma requireUserId_Inr:
  "requireUserId now auth s = Inr u \<longleftrightarrow>
     authUserId auth = Some u \<and> (\<exists>sid. authSessionId auth = Some sid \<and> isSessionActive s now u sid)"
  by (auto simp: requireUserId_def currentUserId_def split: option.splits)

lemma isSessionActive_user:
  "isSessionActive s now u sid \<Longrightarrow>
   \<exists>r. tget (users s) u = Some r \<and> u_disabledAt (doc r) = None \<and> u_isSystem (doc r) \<noteq> Some True"
  by (auto simp: isSessionActive_def split: option.splits if_splits)

section \<open>Audit log\<close>

definition auditDoc ::
  "int \<Rightarrow> string \<Rightarrow> severity \<Rightarrow> outcome \<Rightarrow> nat option \<Rightarrow> nat option \<Rightarrow> string option \<Rightarrow> auditEvent" where
  "auditDoc now event sev out tenantId apiKeyId detail =
     \<lparr>a_event = slice0 80 event, a_severity = sev, a_outcome = out,
      a_tenantId = tenantId, a_apiKeyId = apiKeyId,
      a_detail = (case detail of None \<Rightarrow> None | Some d \<Rightarrow> if d = [] then None else Some (slice0 120 d)),
      a_timestamp = now\<rparr>"

definition writeAudit ::
  "int \<Rightarrow> string \<Rightarrow> severity \<Rightarrow> outcome \<Rightarrow> nat option \<Rightarrow> nat option \<Rightarrow> string option \<Rightarrow> (db, unit) mut" where
  "writeAudit now event sev out tenantId apiKeyId detail =
     modify (\<lambda>s. snd (db_insert securityAuditEvents_update now
       (auditDoc now event sev out tenantId apiKeyId detail) s))"

text \<open>An audit entry touches no other table; \<open>sameButAudit\<close> says that two databases differ at
  most in the log (and the id counter).\<close>

definition sameButAudit :: "db \<Rightarrow> db \<Rightarrow> bool" where
  "sameButAudit s s' \<longleftrightarrow> users s' = users s \<and> apiKeys s' = apiKeys s \<and> apiRequests s' = apiRequests s
     \<and> usageDaily s' = usageDaily s \<and> rateLimitWindows s' = rateLimitWindows s
     \<and> quotaWindows s' = quotaWindows s \<and> playgroundTokens s' = playgroundTokens s
     \<and> payments s' = payments s \<and> authSessions s' = authSessions s \<and> authAccounts s' = authAccounts s
     \<and> scheduled s' = scheduled s"

lemma sameButAudit_refl [simp]: "sameButAudit s s"
  by (simp add: sameButAudit_def)

lemma sameButAudit_trans: "sameButAudit s t \<Longrightarrow> sameButAudit t u \<Longrightarrow> sameButAudit s u"
  by (simp add: sameButAudit_def)

definition audited :: "int \<Rightarrow> string \<Rightarrow> severity \<Rightarrow> outcome \<Rightarrow> nat option \<Rightarrow> nat option \<Rightarrow> string option \<Rightarrow> db \<Rightarrow> db" where
  "audited now event sev out tenantId apiKeyId detail s =
     snd (db_insert securityAuditEvents_update now (auditDoc now event sev out tenantId apiKeyId detail) s)"

lemma writeAudit_eq: "writeAudit now ev sev out t k d s = Inr ((), audited now ev sev out t k d s)"
  by (simp add: writeAudit_def audited_def)

lemma mthen_writeAudit: "mthen (writeAudit now ev sev out t k d) m s = m (audited now ev sev out t k d s)"
  by (simp add: mthen_def mbind_def writeAudit_eq)

lemma audited_tables [simp]:
  "users (audited now ev sev out t k d s) = users s"
  "apiKeys (audited now ev sev out t k d s) = apiKeys s"
  "apiRequests (audited now ev sev out t k d s) = apiRequests s"
  "usageDaily (audited now ev sev out t k d s) = usageDaily s"
  "rateLimitWindows (audited now ev sev out t k d s) = rateLimitWindows s"
  "quotaWindows (audited now ev sev out t k d s) = quotaWindows s"
  "playgroundTokens (audited now ev sev out t k d s) = playgroundTokens s"
  "payments (audited now ev sev out t k d s) = payments s"
  "authSessions (audited now ev sev out t k d s) = authSessions s"
  "authAccounts (audited now ev sev out t k d s) = authAccounts s"
  "scheduled (audited now ev sev out t k d s) = scheduled s"
  "nextId (audited now ev sev out t k d s) = Suc (nextId s)"
  by (simp_all add: audited_def db_insert_def)

lemma audited_log:
  "securityAuditEvents (audited now ev sev out t k d s)
     = securityAuditEvents s @ [Row (nextId s) now (auditDoc now ev sev out t k d)]"
  by (simp add: audited_def audt.insert_rows)

lemma sameButAudit_audited [simp]: "sameButAudit s (audited now ev sev out t k d s)"
  by (simp add: sameButAudit_def)

lemma wf_ids_audited: "wf_ids s \<Longrightarrow> wf_ids (audited now ev sev out t k d s)"
  by (auto simp: wf_ids_def audited_log wf_snoc intro: wf_table_mono)

lemma wf_db_audited: "wf_db s \<Longrightarrow> wf_db (audited now ev sev out t k d s)"
  by (auto simp: wf_db_def wf_ids_audited wf_windows_def wf_quotas_def wf_rollups_def wf_intents_def wf_hashes_def)

lemma keeps_writeAudit [keeps_intro]: "keeps wf_db (writeAudit now ev sev out t k d)"
  by (rule keepsI) (auto simp: writeAudit_eq wf_db_audited)

end
