(* ===== verification/Crypto.thy ===== *)
theory Crypto
  imports Prelude "HOL-Library.Word"
begin

unbundle bit_operations_syntax

text \<open>
  \<open>lib/crypto.ts\<close>: random strings by rejection sampling, HMAC in hexadecimal and the constant-time
  comparison. The bytes that \<open>crypto.getRandomValues\<close> delivers are an argument (one list per call,
  each as long as the code's buffer or of any other length), as is the HMAC-SHA-256 function of
  Web Crypto. A string is encoded to the bytes it is represented by.
\<close>

type_synonym byte = "8 word"

definition BASE62 :: string where
  "BASE62 = ''ABCDEFGHIJKLMNOPQRSTUVWXYZabcdefghijklmnopqrstuvwxyz0123456789''"

definition UNBIASED_LIMIT :: nat where
  "UNBIASED_LIMIT = 248"

definition encode :: "string \<Rightarrow> byte list" where
  "encode s = map (\<lambda>c. of_nat (code c)) s"

section \<open>randomString\<close>

text \<open>The inner loop over one buffer; \<open>result\<close> is the array built so far.\<close>

fun randomBytes :: "nat \<Rightarrow> nat \<Rightarrow> string \<Rightarrow> byte list \<Rightarrow> string \<Rightarrow> string" where
  "randomBytes len limit alphabet [] result = result"
| "randomBytes len limit alphabet (b # bytes) result =
     (if unat b < limit
      then (let result' = result @ [alphabet ! (unat b mod length alphabet)] in
            if length result' = len then result' else randomBytes len limit alphabet bytes result')
      else randomBytes len limit alphabet bytes result)"

text \<open>The outer loop; it waits for more bytes (\<open>None\<close>) when the given buffers are used up.\<close>

fun randomLoop :: "nat \<Rightarrow> nat \<Rightarrow> string \<Rightarrow> byte list list \<Rightarrow> string \<Rightarrow> string option" where
  "randomLoop len limit alphabet [] result = (if length result < len then None else Some result)"
| "randomLoop len limit alphabet (B # Bs) result =
     (if length result < len then randomLoop len limit alphabet Bs (randomBytes len limit alphabet B result)
      else Some result)"

definition byteLimit :: "string \<Rightarrow> nat" where
  "byteLimit alphabet = (if alphabet = BASE62 then UNBIASED_LIMIT else 256 - 256 mod length alphabet)"

definition randomString :: "nat \<Rightarrow> string \<Rightarrow> byte list list \<Rightarrow> string option" where
  "randomString len alphabet buffers = randomLoop len (byteLimit alphabet) alphabet buffers []"

section \<open>hmacSha256Hex\<close>

definition hex_char :: "nat \<Rightarrow> char" where
  "hex_char n = (if n < 10 then char_of (n + 48) else char_of (n + 87))"

text \<open>\<open>b.toString(16).padStart(2, "0")\<close>.\<close>

definition byteHex :: "byte \<Rightarrow> string" where
  "byteHex b = pad_start 2 (if unat b < 16 then [hex_char (unat b)]
                            else [hex_char (unat b div 16), hex_char (unat b mod 16)])"

definition toHex :: "byte list \<Rightarrow> string" where
  "toHex bs = concat (map byteHex bs)"

type_synonym hmac = "byte list \<Rightarrow> byte list \<Rightarrow> byte list"

definition hmacSha256Hex :: "hmac \<Rightarrow> string \<Rightarrow> string \<Rightarrow> string" where
  "hmacSha256Hex hmac secret text = toHex (hmac (encode secret) (encode text))"

section \<open>timingSafeEqual\<close>

definition byte_at :: "byte list \<Rightarrow> nat \<Rightarrow> 32 word" where
  "byte_at bs i = (if i < length bs then ucast (bs ! i) else 0)"

text \<open>The bitwise operators of JavaScript work on 32 bits, lengths included.\<close>

definition timingSafeEqual :: "string \<Rightarrow> string \<Rightarrow> bool" where
  "timingSafeEqual a b =
     (let left = encode a; right = encode b;
          diff0 = (of_nat (length left) :: 32 word) XOR of_nat (length right);
          diff = fold (\<lambda>i diff. diff OR (byte_at left i XOR byte_at right i))
                   [0..<max (length left) (length right)] diff0
      in diff = 0)"

section \<open>Correctness\<close>

lemma randomBytes_take:
  "length result < len \<Longrightarrow>
   randomBytes len limit alphabet bytes result =
     take len (result @ map (\<lambda>b. alphabet ! (unat b mod length alphabet)) (filter (\<lambda>b. unat b < limit) bytes))"
proof (induction bytes arbitrary: result)
  case (Cons b bytes)
  show ?case
  proof (cases "unat b < limit \<and> Suc (length result) \<noteq> len")
    case True
    with Cons.prems have "length (result @ [alphabet ! (unat b mod length alphabet)]) < len" by simp
    from Cons.IH [OF this] True show ?thesis by simp
  next
    case False
    with Cons show ?thesis by auto
  qed
qed simp

lemma randomLoop_take:
  "length result \<le> len \<Longrightarrow>
   randomLoop len limit alphabet Bs result =
     (let all = result @ map (\<lambda>b. alphabet ! (unat b mod length alphabet))
                 (filter (\<lambda>b. unat b < limit) (concat Bs))
      in if len \<le> length all then Some (take len all) else None)"
proof (induction Bs arbitrary: result)
  case (Cons B Bs)
  show ?case
  proof (cases "length result < len")
    case True
    let ?more = "map (\<lambda>b. alphabet ! (unat b mod length alphabet)) (filter (\<lambda>b. unat b < limit) B)"
    have "length (randomBytes len limit alphabet B result) \<le> len"
      by (simp add: randomBytes_take [OF True])
    from Cons.IH [OF this] True show ?thesis
      by (cases "len \<le> length result + length ?more")
        (auto simp: randomBytes_take [OF True] Let_def)
  qed (use Cons.prems in auto)
qed auto

lemma randomString_eq:
  "randomString len alphabet buffers =
     (let ok = filter (\<lambda>b. unat b < byteLimit alphabet) (concat buffers)
      in if len \<le> length ok then Some (map (\<lambda>b. alphabet ! (unat b mod length alphabet)) (take len ok))
         else None)"
  unfolding randomString_def by (subst randomLoop_take) (simp_all add: take_map Let_def)

lemma randomString_Some:
  assumes "randomString len alphabet buffers = Some s" and "alphabet \<noteq> []"
  shows "length s = len" and "set s \<subseteq> set alphabet"
  using assms by (auto simp: randomString_eq Let_def split: if_splits)

lemma length_BASE62: "length BASE62 = 62"
  by (simp add: BASE62_def)

lemma byteLimit_BASE62: "byteLimit BASE62 = 256 - 256 mod 62"
  by (simp add: byteLimit_def UNBIASED_LIMIT_def)

lemma byteLimit_multiple: "alphabet \<noteq> [] \<Longrightarrow> byteLimit alphabet = 256 div length alphabet * length alphabet"
proof -
  have "256 - 256 mod n = 256 div n * n" for n :: nat
    by (simp add: minus_mod_eq_div_mult)
  moreover have "byteLimit alphabet = 256 - 256 mod length alphabet"
    by (cases "alphabet = BASE62") (simp add: byteLimit_BASE62 length_BASE62, simp add: byteLimit_def)
  ultimately show ?thesis by simp
qed

text \<open>Below the limit every residue of the alphabet's length occurs equally often.\<close>

lemma card_residues: "i < n \<Longrightarrow> card {b. b < q * n \<and> b mod n = i} = q" for i n q :: nat
proof -
  assume i: "i < n"
  have "{b. b < q * n \<and> b mod n = i} = (\<lambda>j. j * n + i) ` {..<q}" (is "?A = ?B")
  proof (rule set_eqI, rule iffI)
    fix b assume "b \<in> ?A"
    then have "b = b div n * n + i" "b div n < q"
      by (auto simp: less_mult_imp_div_less)
    then show "b \<in> ?B" by blast
  next
    fix b assume "b \<in> ?B"
    then obtain j where j: "b = j * n + i" "j < q" by auto
    then have "Suc j * n \<le> q * n" by (intro mult_le_mono1) simp
    with j i show "b \<in> ?A" by simp
  qed
  moreover have "inj_on (\<lambda>j. j * n + i) {..<q}"
    using i by (auto intro!: inj_onI)
  ultimately show ?thesis by (simp add: card_image)
qed

lemma fold_or_zero:
  "fold (\<lambda>i d. d OR f i) xs d0 = (0 :: 32 word) \<longleftrightarrow> d0 = 0 \<and> (\<forall>i \<in> set xs. f i = 0)"
  by (induction xs arbitrary: d0) (auto simp: or_eq_0_iff)

lemma xor_zero_iff: "a XOR b = 0 \<longleftrightarrow> a = b" for a b :: "32 word"
proof
  assume "a XOR b = 0"
  then have "(a XOR b) XOR b = 0 XOR b" by simp
  then show "a = b" by (simp add: xor.assoc)
qed simp

lemma of_nat_32_inj: "m < 2 ^ 32 \<Longrightarrow> n < 2 ^ 32 \<Longrightarrow> (of_nat m :: 32 word) = of_nat n \<longleftrightarrow> m = n"
  by (simp add: word_of_nat_eq_iff take_bit_nat_eq_self)

lemma ucast_byte_inj: "(ucast (x :: byte) :: 32 word) = ucast y \<longleftrightarrow> x = y"
proof
  assume "(ucast x :: 32 word) = ucast y"
  then have "uint (ucast x :: 32 word) = uint (ucast y :: 32 word)" by simp
  then show "x = y" by (simp add: uint_up_ucast is_up word_uint_eq_iff)
qed simp

lemma code_less: "code c < 256"
  by (simp add: code_def)

lemma encode_inj: "encode a = encode b \<longleftrightarrow> a = b"
proof
  assume "encode a = encode b"
  moreover have "inj (\<lambda>c. of_nat (code c) :: byte)"
  proof (rule injI)
    fix c d assume "(of_nat (code c) :: byte) = of_nat (code d)"
    then have "code c = code d"
      using code_less [of c] code_less [of d] by (simp add: word_of_nat_eq_iff take_bit_nat_eq_self)
    then show "c = d" by (simp add: code_def)
  qed
  ultimately show "a = b" by (simp add: encode_def inj_map_eq_map)
qed simp

lemma length_encode [simp]: "length (encode s) = length s"
  by (simp add: encode_def)

lemma timingSafeEqual_iff:
  assumes "length a < 2 ^ 32" and "length b < 2 ^ 32"
  shows "timingSafeEqual a b \<longleftrightarrow> a = b"
proof -
  have "timingSafeEqual a b \<longleftrightarrow> length a = length b
      \<and> (\<forall>i < max (length a) (length b). byte_at (encode a) i = byte_at (encode b) i)"
    using assms by (simp add: timingSafeEqual_def Let_def fold_or_zero xor_zero_iff of_nat_32_inj Ball_def)
  also have "\<dots> \<longleftrightarrow> encode a = encode b"
  proof -
    have "byte_at (encode a) i = byte_at (encode b) i \<longleftrightarrow> encode a ! i = encode b ! i"
      if "length a = length b" and "i < length a" for i
      using that by (auto simp: byte_at_def ucast_byte_inj)
    then show ?thesis by (auto simp: list_eq_iff_nth_eq)
  qed
  finally show ?thesis by (simp add: encode_inj)
qed

end
