(* ===== verification/Endpoints.thy ===== *)
theory Endpoints
  imports Prelude
begin

text \<open>\<open>lib/endpoints.ts\<close>: the public endpoints and the folding of the legacy value
  \<open>reverse-geocode\<close> into \<open>geocode\<close>.\<close>

definition API_ENDPOINTS :: "string list" where
  "API_ENDPOINTS = [''geocode'', ''route'']"

definition normalizeEndpoint :: "string \<Rightarrow> string option" where
  "normalizeEndpoint endpoint =
     (if endpoint = ''reverse-geocode'' then Some ''geocode''
      else if endpoint \<in> set API_ENDPOINTS then Some endpoint else None)"

text \<open>The set built by the loop, then the endpoints in their fixed order.\<close>

definition normalizeEndpoints :: "string list \<Rightarrow> string list" where
  "normalizeEndpoints endpoints =
     (let out = fold (\<lambda>e out. case normalizeEndpoint e of None \<Rightarrow> out | Some n \<Rightarrow> out @ [n]) endpoints []
      in filter (\<lambda>e. e \<in> set out) API_ENDPOINTS)"

lemma fold_normalize_set:
  "set (fold (\<lambda>e out. case normalizeEndpoint e of None \<Rightarrow> out | Some n \<Rightarrow> out @ [n]) es acc) =
     set acc \<union> {n. \<exists>e \<in> set es. normalizeEndpoint e = Some n}"
  by (induction es arbitrary: acc) (auto split: option.split)

lemma normalizeEndpoint_API: "normalizeEndpoint e = Some n \<Longrightarrow> n \<in> set API_ENDPOINTS"
  by (auto simp: normalizeEndpoint_def API_ENDPOINTS_def split: if_splits)

lemma set_normalizeEndpoints:
  "set (normalizeEndpoints es) = {n. \<exists>e \<in> set es. normalizeEndpoint e = Some n}"
  by (auto simp: normalizeEndpoints_def Let_def fold_normalize_set dest: normalizeEndpoint_API)

lemma normalizeEndpoints_filter:
  "normalizeEndpoints es = filter (\<lambda>n. \<exists>e \<in> set es. normalizeEndpoint e = Some n) API_ENDPOINTS"
  by (simp add: normalizeEndpoints_def fold_normalize_set)

lemma distinct_normalizeEndpoints: "distinct (normalizeEndpoints es)"
  unfolding normalizeEndpoints_filter by (rule distinct_filter) (simp add: API_ENDPOINTS_def)

lemma normalizeEndpoint_idem: "normalizeEndpoint e = Some n \<Longrightarrow> normalizeEndpoint n = Some n"
  by (auto simp: normalizeEndpoint_def API_ENDPOINTS_def split: if_splits)

lemma normalizeEndpoints_idem: "normalizeEndpoints (normalizeEndpoints es) = normalizeEndpoints es"
proof -
  have eq: "(\<exists>e \<in> set (normalizeEndpoints es). normalizeEndpoint e = Some n)
      \<longleftrightarrow> (\<exists>e \<in> set es. normalizeEndpoint e = Some n)" for n
    unfolding set_normalizeEndpoints by (auto dest: normalizeEndpoint_idem) (metis normalizeEndpoint_idem option.inject)
  have "normalizeEndpoints (normalizeEndpoints es) =
      filter (\<lambda>n. \<exists>e \<in> set (normalizeEndpoints es). normalizeEndpoint e = Some n) API_ENDPOINTS"
    by (rule normalizeEndpoints_filter)
  also have "\<dots> = normalizeEndpoints es"
    unfolding eq by (rule normalizeEndpoints_filter [symmetric])
  finally show ?thesis .
qed

end
