(* ===== verification/Keys.thy ===== *)
theory Keys
  imports Crypto Endpoints
begin

text \<open>
  \<open>lib/keys.ts\<close>: the format of API keys and playground tokens, the visible prefix, and the checks on a
  key's name, endpoints and expiry. Regular expressions are unfolded into the alternatives they
  match; a check that throws returns \<open>Inl\<close> of its message.
\<close>

definition KEY_PREFIX :: string where
  "KEY_PREFIX = ''geo_''"

definition KEY_SECRET_LENGTH :: nat where
  "KEY_SECRET_LENGTH = 32"

definition KEY_VISIBLE_CHARS :: nat where
  "KEY_VISIBLE_CHARS = 4"

definition PLAYGROUND_TOKEN_PREFIX :: string where
  "PLAYGROUND_TOKEN_PREFIX = ''geo_pt_''"

definition PLAYGROUND_TOKEN_LENGTH :: nat where
  "PLAYGROUND_TOKEN_LENGTH = 40"

text \<open>Twelve bullets (U+2022), each three bytes of UTF-8.\<close>

definition MASK :: string where
  "MASK = concat (replicate 12 [char_of (226 :: nat), char_of (128 :: nat), char_of (162 :: nat)])"

definition MAX_ACTIVE_KEYS_PER_USER :: nat where
  "MAX_ACTIVE_KEYS_PER_USER = 25"

definition MAX_TOTAL_KEYS_PER_USER :: nat where
  "MAX_TOTAL_KEYS_PER_USER = 200"

definition MAX_PLAYGROUND_TOKENS_PER_KEY :: nat where
  "MAX_PLAYGROUND_TOKENS_PER_KEY = 5"

definition MAX_KEY_NAME_LENGTH :: nat where
  "MAX_KEY_NAME_LENGTH = 100"

definition PLAYGROUND_TOKEN_TTL_MS :: int where
  "PLAYGROUND_TOKEN_TTL_MS = 15 * 60 * 1000"

definition MIN_KEY_LIFETIME_MS :: int where
  "MIN_KEY_LIFETIME_MS = 60 * 60 * 1000"

definition MAX_KEY_LIFETIME_MS :: int where
  "MAX_KEY_LIFETIME_MS = 5 * 366 * 24 * 60 * 60 * 1000"

lemmas key_consts [const_defs] = KEY_PREFIX_def KEY_SECRET_LENGTH_def KEY_VISIBLE_CHARS_def
  PLAYGROUND_TOKEN_PREFIX_def PLAYGROUND_TOKEN_LENGTH_def MAX_ACTIVE_KEYS_PER_USER_def
  MAX_TOTAL_KEYS_PER_USER_def MAX_PLAYGROUND_TOKENS_PER_KEY_def MAX_KEY_NAME_LENGTH_def
  PLAYGROUND_TOKEN_TTL_MS_def MIN_KEY_LIFETIME_MS_def MAX_KEY_LIFETIME_MS_def

definition generateApiKey :: "byte list list \<Rightarrow> string option" where
  "generateApiKey buffers =
     map_option (\<lambda>s. KEY_PREFIX @ s) (randomString KEY_SECRET_LENGTH BASE62 buffers)"

definition generatePlaygroundToken :: "byte list list \<Rightarrow> string option" where
  "generatePlaygroundToken buffers =
     map_option (\<lambda>s. PLAYGROUND_TOKEN_PREFIX @ s) (randomString PLAYGROUND_TOKEN_LENGTH BASE62 buffers)"

text \<open>The match of \<open>/^geo_(?:live_|test_)?/\<close> at the start of a string, or the empty string.\<close>

definition legacyHead :: "string \<Rightarrow> string" where
  "legacyHead secret =
     (if starts_with secret ''geo_live_'' then ''geo_live_''
      else if starts_with secret ''geo_test_'' then ''geo_test_''
      else if starts_with secret ''geo_'' then ''geo_'' else '''')"

definition keyPrefix :: "string \<Rightarrow> string" where
  "keyPrefix secret = slice0 (length (legacyHead secret) + KEY_VISIBLE_CHARS) secret"

definition maskedKey :: "string \<Rightarrow> string" where
  "maskedKey shown = shown @ MASK"

definition alnum32 :: "string \<Rightarrow> bool" where
  "alnum32 s = (length s = 32 \<and> list_all is_alnum s)"

text \<open>\<open>/^geo_(?:(?:live|test)_)?[A-Za-z0-9]{32}$/\<close>.\<close>

definition isValidApiKey :: "string \<Rightarrow> bool" where
  "isValidApiKey secret =
     (starts_with secret ''geo_'' \<and>
      (let rest = drop 4 secret in
       alnum32 rest
       \<or> (starts_with rest ''live_'' \<and> alnum32 (drop 5 rest))
       \<or> (starts_with rest ''test_'' \<and> alnum32 (drop 5 rest))))"

text \<open>\<open>replace(/\s+/g, " ")\<close>.\<close>

function collapse_spaces :: "string \<Rightarrow> string" where
  "collapse_spaces [] = []"
| "collapse_spaces (c # s) =
     (if is_space c then CHR '' '' # collapse_spaces (dropWhile is_space s)
      else c # collapse_spaces s)"
  by pat_completeness auto
termination
  by (relation "measure length") (auto simp: le_imp_less_Suc length_dropWhile_le)

definition cleanKeyName :: "string \<Rightarrow> error + string" where
  "cleanKeyName name =
     (let cleaned = collapse_spaces (trim name) in
      if length cleaned = 0 \<or> MAX_KEY_NAME_LENGTH < length cleaned
      then Inl (PlainError (''Key name must be 1 to '' @ show_nat MAX_KEY_NAME_LENGTH @ '' characters.''))
      else Inr cleaned)"

definition cleanEndpoints :: "string list \<Rightarrow> error + string list" where
  "cleanEndpoints endpoints =
     (let chosen = filter (\<lambda>e. e \<in> set endpoints) API_ENDPOINTS in
      if chosen = [] then Inl (PlainError ''Choose at least one endpoint for the key.'') else Inr chosen)"

text \<open>\<open>null\<close> is \<open>None\<close>.\<close>

definition cleanExpiresAt :: "jsnum option \<Rightarrow> int \<Rightarrow> error + int option" where
  "cleanExpiresAt expiresAt now =
     (case expiresAt of
        None \<Rightarrow> Inr None
      | Some (Num x) \<Rightarrow>
          if x < of_int (now + MIN_KEY_LIFETIME_MS)
          then Inl (PlainError ''The expiry date must be in the future.'')
          else if of_int (now + MAX_KEY_LIFETIME_MS) < x
          then Inl (PlainError ''The expiry date can be at most 5 years ahead.'')
          else Inr (Some \<lfloor>x\<rfloor>)
      | Some _ \<Rightarrow> Inl (PlainError ''The expiry date must be in the future.''))"

section \<open>Generated keys and tokens\<close>

lemma is_alnum_BASE62: "list_all is_alnum BASE62"
  by (simp add: BASE62_def is_alnum_def is_digit_def is_upper_def is_lower_def code_def)

lemma random_alnum:
  assumes "randomString n BASE62 buffers = Some s"
  shows "length s = n \<and> list_all is_alnum s"
proof -
  have "BASE62 \<noteq> []" by (simp add: BASE62_def)
  with randomString_Some [OF assms] show ?thesis
    using is_alnum_BASE62 by (auto simp: list_all_iff)
qed

lemma underscore_not_alnum: "\<not> is_alnum (CHR ''_'')"
  by (simp add: is_alnum_def is_digit_def is_upper_def is_lower_def code_def)

lemma generateApiKey_Some:
  "generateApiKey buffers = Some key \<Longrightarrow> \<exists>s. key = ''geo_'' @ s \<and> alnum32 s"
  by (auto simp: generateApiKey_def KEY_PREFIX_def KEY_SECRET_LENGTH_def alnum32_def dest: random_alnum)

lemma starts_with_underscore: "starts_with s (p @ ''_'' @ q) \<Longrightarrow> \<not> list_all is_alnum s"
  by (auto simp: starts_with_iff underscore_not_alnum)

section \<open>Names\<close>

lemma hd_rev_dropWhile_rev: "rev (dropWhile P (rev u)) \<noteq> [] \<Longrightarrow> hd (rev (dropWhile P (rev u))) = hd u"
proof -
  assume ne: "rev (dropWhile P (rev u)) \<noteq> []"
  have "u = rev (takeWhile P (rev u) @ dropWhile P (rev u))" by simp
  then have u: "u = rev (dropWhile P (rev u)) @ rev (takeWhile P (rev u))" by (simp only: rev_append)
  have "hd (rev (dropWhile P (rev u)) @ rev (takeWhile P (rev u))) = hd (rev (dropWhile P (rev u)))"
    using ne by (rule hd_append2)
  with u show ?thesis by simp
qed

lemma trim_first: "trim s \<noteq> [] \<Longrightarrow> \<not> is_space (hd (trim s))"
proof -
  assume ne: "trim s \<noteq> []"
  then have "dropWhile is_space s \<noteq> []"
    unfolding trim_def by (metis dropWhile.simps(1) rev.simps(1))
  then have "\<not> is_space (hd (dropWhile is_space s))" by (rule hd_dropWhile)
  with ne show ?thesis unfolding trim_def by (simp only: hd_rev_dropWhile_rev not_False_eq_True)
qed

lemma trim_last: "trim s \<noteq> [] \<Longrightarrow> \<not> is_space (last (trim s))"
  using hd_dropWhile [of is_space "rev (dropWhile is_space s)"] by (auto simp: trim_def last_rev)

lemma trim_id: "s = [] \<or> \<not> is_space (hd s) \<and> \<not> is_space (last s) \<Longrightarrow> trim s = s"
proof (cases "s = []")
  case False
  assume "s = [] \<or> \<not> is_space (hd s) \<and> \<not> is_space (last s)"
  with False have "\<not> is_space (hd s)" "\<not> is_space (hd (rev s))" by (auto simp: hd_rev)
  with False have "dropWhile is_space s = s" "dropWhile is_space (rev s) = rev s"
    by (metis dropWhile_eq_self_iff, metis dropWhile_eq_self_iff)
  then show ?thesis by (simp add: trim_def)
qed (simp add: trim_def)

lemma is_space_space: "is_space (CHR '' '')"
  by (simp add: is_space_def code_def)

text \<open>A name is clean when every white-space character is a single blank between others.\<close>

fun single_spaced :: "string \<Rightarrow> bool" where
  "single_spaced [] = True"
| "single_spaced [c] = (is_space c \<longrightarrow> c = CHR '' '')"
| "single_spaced (c # d # s) =
     ((is_space c \<longrightarrow> c = CHR '' '' \<and> \<not> is_space d) \<and> single_spaced (d # s))"

lemma collapse_single_spaced:
  "single_spaced (collapse_spaces s) \<and> (s \<noteq> [] \<longrightarrow> collapse_spaces s \<noteq> []
     \<and> is_space (hd (collapse_spaces s)) = is_space (hd s))"
proof (induction s rule: collapse_spaces.induct)
  case (2 c s)
  show ?case
  proof (cases "is_space c")
    case True
    define t where "t = dropWhile is_space s"
    have IH: "single_spaced (collapse_spaces t)"
      "t \<noteq> [] \<longrightarrow> collapse_spaces t \<noteq> [] \<and> is_space (hd (collapse_spaces t)) = is_space (hd t)"
      using 2(1) [OF True] by (simp_all add: t_def)
    have "t \<noteq> [] \<Longrightarrow> \<not> is_space (hd t)" unfolding t_def by (rule hd_dropWhile)
    then show ?thesis
      using True IH by (cases "collapse_spaces t"; cases "t = []") (auto simp: t_def [symmetric] is_space_space)
  next
    case False
    have IH: "single_spaced (collapse_spaces s)" using 2(2) [OF False] by simp
    then show ?thesis using False by (cases "collapse_spaces s") auto
  qed
qed simp

lemma collapse_id: "single_spaced s \<Longrightarrow> collapse_spaces s = s"
  by (induction s rule: single_spaced.induct) auto

lemma collapse_last: "s \<noteq> [] \<Longrightarrow> \<not> is_space (last s) \<Longrightarrow> last (collapse_spaces s) = last s"
proof (induction s rule: collapse_spaces.induct)
  case (2 c s)
  show ?case
  proof (cases "is_space c")
    case True
    define t where "t = dropWhile is_space s"
    from True 2(3,4) have s: "s \<noteq> []" "\<not> is_space (last s)" by (auto split: if_splits)
    then have "\<exists>x \<in> set s. \<not> is_space x" using last_in_set by blast
    then have t: "t \<noteq> []" by (auto simp: t_def)
    have tl: "last t = last s"
      using t by (metis last_appendR t_def takeWhile_dropWhile_id)
    have "last (collapse_spaces t) = last t"
      using 2(1) [OF True] t tl s by (simp add: t_def)
    then show ?thesis
      using True s t tl collapse_single_spaced [of t] by (simp add: t_def [symmetric])
  next
    case False
    then show ?thesis
      using 2 collapse_single_spaced [of s] by (cases "s = []") auto
  qed
qed simp

lemma cleanKeyName_Inr:
  assumes "cleanKeyName name = Inr m"
  shows "1 \<le> length m" "length m \<le> 100" "single_spaced m" "\<not> is_space (hd m)" "\<not> is_space (last m)"
proof -
  from assms have m: "m = collapse_spaces (trim name)" "m \<noteq> []" "length m \<le> 100"
    by (auto simp: cleanKeyName_def Let_def MAX_KEY_NAME_LENGTH_def split: if_splits)
  then have ne: "trim name \<noteq> []" by auto
  show "1 \<le> length m" using m(2) by (cases m) auto
  show "length m \<le> 100" by (rule m(3))
  show "single_spaced m" using collapse_single_spaced m by simp
  show "\<not> is_space (hd m)" using collapse_single_spaced [of "trim name"] trim_first [OF ne] ne m by simp
  show "\<not> is_space (last m)" using collapse_last [OF ne trim_last [OF ne]] trim_last [OF ne] m by simp
qed

lemma cleanKeyName_fixed:
  assumes "cleanKeyName name = Inr m"
  shows "cleanKeyName m = Inr m"
proof -
  note props = cleanKeyName_Inr [OF assms]
  then have "collapse_spaces (trim m) = m" by (simp add: trim_id collapse_id)
  moreover have "m \<noteq> []" using props(1) by auto
  ultimately show ?thesis using props(2) by (simp add: cleanKeyName_def MAX_KEY_NAME_LENGTH_def)
qed

end
