(* ===== verification/RateLimit.thy ===== *)
theory RateLimit
  imports Session Env Keys "HOL-Library.Product_Lexorder"
begin

text \<open>
  The counting part of \<open>gateway.ts\<close>: \<open>clampLimit\<close>, fixed windows (\<open>hitWindow\<close>), the choice of the
  binding limit (\<open>combine\<close>) and the two-pass customer quotas. Both tables are counters: the
  locale \<open>counter_table\<close> is interpreted on them, and their abstract state is the function
  \<open>windowView\<close> or \<open>quotaView\<close> from keys to counts.
  What the functions take from the deployment (\<open>process.env\<close>, HMAC-SHA-256, the string form of
  document ids and its inverse \<open>normalizeId\<close>) is the record \<open>host\<close>.
\<close>

record host =
  h_env :: environment
  h_hmac :: hmac
  h_showId :: "nat \<Rightarrow> string"
  h_normalizeKeyId :: "string \<Rightarrow> nat option"

text \<open>Documented behaviour of Convex document ids: distinct ids have distinct strings, \<open>normalizeId\<close> inverts
  the string form, and the alphabet of ids has neither a bar nor a colon.\<close>

definition idLaws :: "host \<Rightarrow> bool" where
  "idLaws H \<longleftrightarrow> (\<forall>i. h_normalizeKeyId H (h_showId H i) = Some i
     \<and> CHR ''|'' \<notin> set (h_showId H i) \<and> CHR '':'' \<notin> set (h_showId H i))"

lemma showId_inj: "idLaws H \<Longrightarrow> h_showId H i = h_showId H j \<longleftrightarrow> i = j"
  unfolding idLaws_def by (metis option.inject)

record RateLimitState =
  r_limit :: rat
  r_remaining :: rat
  r_reset :: int
  r_allowed :: bool

definition MAX_LIMIT :: int where
  "MAX_LIMIT = 100000"

text \<open>\<open>/^[0-9a-fA-F:./]{2,48}$/\<close>.\<close>

definition is_ip_char :: "char \<Rightarrow> bool" where
  "is_ip_char c = (hex_val c \<noteq> None \<or> c = CHR '':'' \<or> c = CHR ''.'' \<or> c = CHR ''/'')"

definition IP_PATTERN :: "string \<Rightarrow> bool" where
  "IP_PATTERN s = (2 \<le> length s \<and> length s \<le> 48 \<and> list_all is_ip_char s)"

definition clampLimit :: "jsnum option \<Rightarrow> int \<Rightarrow> int" where
  "clampLimit v fallback =
     (case v of
        Some (Num x) \<Rightarrow> if 1 \<le> x then min \<lfloor>x\<rfloor> MAX_LIMIT else fallback
      | _ \<Rightarrow> fallback)"

section \<open>Windows\<close>

definition mkWindow :: "string \<times> int \<Rightarrow> int \<Rightarrow> rateLimitWindow" where
  "mkWindow k c = \<lparr>w_bucket = fst k, w_windowStart = snd k, w_count = c\<rparr>"

definition setCount :: "int \<Rightarrow> rateLimitWindow \<Rightarrow> rateLimitWindow" where
  "setCount c d = d\<lparr>w_count := c\<rparr>"

definition hitWindow :: "string \<Rightarrow> rat \<Rightarrow> int \<Rightarrow> int \<Rightarrow> int \<Rightarrow> (db, RateLimitState) mut" where
  "hitWindow bucket limit now durationMs cost s =
     (let start = windowStart now durationMs in
      case upsert wkey w_count mkWindow setCount now (bucket, start) cost (nextId s, rateLimitWindows s) of
        Inl e \<Rightarrow> Inl e
      | Inr (count, n', t') \<Rightarrow>
          Inr (\<lparr>r_limit = limit, r_remaining = max 0 (limit - of_int count),
                r_reset = (start + durationMs) div 1000, r_allowed = (of_int count \<le> limit)\<rparr>,
               s\<lparr>nextId := n', rateLimitWindows := t'\<rparr>))"

definition hit :: "string \<Rightarrow> rat \<Rightarrow> int \<Rightarrow> (db, RateLimitState) mut" where
  "hit bucket limit now = hitWindow bucket limit now MINUTE_MS 1"

interpretation wct: counter_table wkey w_count mkWindow setCount
  by unfold_locales (auto simp: wkey_def mkWindow_def setCount_def)

definition windowView :: "db \<Rightarrow> string \<times> int \<Rightarrow> int" where
  "windowView s = tally wkey w_count (rateLimitWindows s)"

text \<open>\<open>ratesOnly s s'\<close>: the databases differ at most in the windows and the id counter.\<close>

definition ratesOnly :: "db \<Rightarrow> db \<Rightarrow> bool" where
  "ratesOnly s s' \<longleftrightarrow> (\<exists>n t. nextId s \<le> n \<and> s' = s\<lparr>nextId := n, rateLimitWindows := t\<rparr>)"

lemma ratesOnly_refl [simp]: "ratesOnly s s"
  unfolding ratesOnly_def by (rule exI [of _ "nextId s"], rule exI [of _ "rateLimitWindows s"]) simp

lemma ratesOnly_trans: "ratesOnly s t \<Longrightarrow> ratesOnly t u \<Longrightarrow> ratesOnly s u"
proof -
  assume "ratesOnly s t" and "ratesOnly t u"
  then obtain n v m w where "nextId s \<le> n" "t = s\<lparr>nextId := n, rateLimitWindows := v\<rparr>"
    "nextId t \<le> m" "u = t\<lparr>nextId := m, rateLimitWindows := w\<rparr>"
    unfolding ratesOnly_def by blast
  then have "nextId s \<le> m" "u = s\<lparr>nextId := m, rateLimitWindows := w\<rparr>" by simp_all
  then show ?thesis unfolding ratesOnly_def by blast
qed

lemma ratesOnly_tables:
  assumes "ratesOnly s s'"
  shows "users s' = users s" "apiKeys s' = apiKeys s" "apiRequests s' = apiRequests s"
    "usageDaily s' = usageDaily s" "quotaWindows s' = quotaWindows s"
    "securityAuditEvents s' = securityAuditEvents s" "playgroundTokens s' = playgroundTokens s"
    "payments s' = payments s" "authSessions s' = authSessions s" "authAccounts s' = authAccounts s"
    "scheduled s' = scheduled s"
proof -
  obtain n t where s': "s' = s\<lparr>nextId := n, rateLimitWindows := t\<rparr>" using assms unfolding ratesOnly_def by blast
  show "users s' = users s" "apiKeys s' = apiKeys s" "apiRequests s' = apiRequests s"
    "usageDaily s' = usageDaily s" "quotaWindows s' = quotaWindows s"
    "securityAuditEvents s' = securityAuditEvents s" "playgroundTokens s' = playgroundTokens s"
    "payments s' = payments s" "authSessions s' = authSessions s" "authAccounts s' = authAccounts s"
    "scheduled s' = scheduled s"
    unfolding s' by simp_all
qed

lemma wf_ids_mono_windows:
  "wf_ids s \<Longrightarrow> nextId s \<le> n \<Longrightarrow> wf_table n t \<Longrightarrow> wf_ids (s\<lparr>nextId := n, rateLimitWindows := t\<rparr>)"
  by (auto simp: wf_ids_def intro: wf_table_mono)

text \<open>What one hit does: it always counts, and it is allowed when the new count is within the
  limit.\<close>

lemma hitWindow_spec:
  assumes "wf_ids s" and "wf_windows s"
  shows "\<exists>s'. hitWindow bucket limit now dur cost s =
      Inr (\<lparr>r_limit = limit,
            r_remaining = max 0 (limit - of_int (windowView s (bucket, windowStart now dur) + cost)),
            r_reset = (windowStart now dur + dur) div 1000,
            r_allowed = (of_int (windowView s (bucket, windowStart now dur) + cost) \<le> limit)\<rparr>, s')
    \<and> ratesOnly s s' \<and> wf_ids s' \<and> wf_windows s'
    \<and> windowView s' = (windowView s)((bucket, windowStart now dur) :=
                         windowView s (bucket, windowStart now dur) + cost)"
proof -
  let ?k = "(bucket, windowStart now dur)"
  have "wf_table (nextId s) (rateLimitWindows s)" "keyed wkey (rateLimitWindows s)"
    using assms by (auto simp: wf_ids_def wf_windows_def)
  from wct.upsert_spec [OF this, of now ?k cost] obtain n' t' where
    up: "upsert wkey w_count mkWindow setCount now ?k cost (nextId s, rateLimitWindows s)
        = Inr (windowView s ?k + cost, n', t')" and le: "nextId s \<le> n'"
    and wf: "wf_table n' t'" "keyed wkey t'"
    and tal: "tally wkey w_count t' = (windowView s)(?k := windowView s ?k + cost)"
    unfolding windowView_def by blast
  let ?s' = "s\<lparr>nextId := n', rateLimitWindows := t'\<rparr>"
  have "ratesOnly s ?s'" "wf_windows ?s'" "windowView ?s' = (windowView s)(?k := windowView s ?k + cost)"
    using le wf tal by (auto simp: ratesOnly_def wf_windows_def windowView_def)
  moreover have "wf_ids ?s'" by (rule wf_ids_mono_windows [OF assms(1) le wf(1)])
  ultimately show ?thesis by (auto simp: hitWindow_def up Let_def)
qed

lemma hitWindow_Inr:
  assumes "wf_ids s" and "wf_windows s" and "hitWindow bucket limit now dur cost s = Inr (r, s')"
  shows "r_limit r = limit"
    and "r_allowed r \<longleftrightarrow> of_int (windowView s (bucket, windowStart now dur) + cost) \<le> limit"
    and "ratesOnly s s'" and "wf_ids s'" and "wf_windows s'"
    and "windowView s' = (windowView s)((bucket, windowStart now dur) :=
           windowView s (bucket, windowStart now dur) + cost)"
  using hitWindow_spec [OF assms(1,2), of bucket limit now dur cost] assms(3) by auto

section \<open>combine\<close>

text \<open>The stable sort puts refused states first and then orders by what remains; the callers
  pass non-empty lists.\<close>

definition bindingKey :: "RateLimitState \<Rightarrow> bool \<times> rat" where
  "bindingKey st = (r_allowed st, r_remaining st)"

definition combine :: "RateLimitState list \<Rightarrow> RateLimitState" where
  "combine states = (hd (sort_key bindingKey states))\<lparr>r_allowed := list_all r_allowed states\<rparr>"

lemma hd_sort_key:
  assumes "xs \<noteq> []"
  shows "hd (sort_key f xs) \<in> set xs" and "x \<in> set xs \<Longrightarrow> f (hd (sort_key f xs)) \<le> f x"
proof -
  have ne: "sort_key f xs \<noteq> []" using assms by (metis length_0_conv length_sort)
  then show "hd (sort_key f xs) \<in> set xs" by (metis hd_in_set set_sort)
  show "f (hd (sort_key f xs)) \<le> f x" if "x \<in> set xs"
  proof -
    obtain y ys where y: "sort_key f xs = y # ys" using ne by (cases "sort_key f xs") auto
    have "sorted (map f (y # ys))" by (metis sorted_sort_key y)
    moreover have "x \<in> set (y # ys)" by (metis set_sort that y)
    ultimately show ?thesis unfolding y by auto
  qed
qed

lemma combine_allowed: "r_allowed (combine states) \<longleftrightarrow> (\<forall>st \<in> set states. r_allowed st)"
  by (simp add: combine_def list_all_iff)

lemma combine_binding:
  assumes "states \<noteq> []"
  shows "\<exists>st \<in> set states. combine states = st\<lparr>r_allowed := list_all r_allowed states\<rparr>
    \<and> (\<forall>st' \<in> set states. bindingKey st \<le> bindingKey st')"
  using hd_sort_key [OF assms, where f = bindingKey] unfolding combine_def by blast

section \<open>Customer quotas\<close>

record quotaSpec =
  qs_bucket :: string
  qs_period :: period
  qs_limit :: int

record quotaCheck = quotaSpec +
  qc_start :: int
  qc_reset :: int
  qc_existing :: "quotaWindow row option"
  qc_next :: int
  qc_allowed :: bool

definition quotaSpecs :: "host \<Rightarrow> nat \<Rightarrow> nat \<Rightarrow> string option \<Rightarrow> PaidPlan option \<Rightarrow> quotaSpec list" where
  "quotaSpecs H keyId userId endpoint plan =
     (let planQuota = (case plan of Some p \<Rightarrow> monthlyRequests p | None \<Rightarrow> FREE_TOTAL_REQUESTS);
          bounded = (\<lambda>configured. if plan \<noteq> None then planQuota else min planQuota configured);
          prefix' = (if plan \<noteq> None then '''' else ''free:'');
          endpointName = (case endpoint of
              Some e \<Rightarrow> if e \<in> set API_ENDPOINTS then e else ''unknown''
            | None \<Rightarrow> ''unknown'');
          k = h_showId H keyId; u = h_showId H userId; env = h_env H
      in [\<lparr>qs_bucket = prefix' @ ''key:'' @ k, qs_period = Day, qs_limit = bounded (keyDailyQuotaUnits env)\<rparr>,
          \<lparr>qs_bucket = prefix' @ ''key:'' @ k, qs_period = Month, qs_limit = bounded (keyMonthlyQuotaUnits env)\<rparr>,
          \<lparr>qs_bucket = prefix' @ ''tenant:'' @ u, qs_period = Day, qs_limit = bounded (tenantDailyQuotaUnits env)\<rparr>,
          \<lparr>qs_bucket = prefix' @ ''tenant:'' @ u, qs_period = Month, qs_limit = bounded (tenantMonthlyQuotaUnits env)\<rparr>,
          \<lparr>qs_bucket = prefix' @ ''tenant:'' @ u @ '':endpoint:'' @ endpointName, qs_period = Month,
            qs_limit = bounded (endpointMonthlyQuotaUnits env)\<rparr>])"

definition quotaKey :: "int \<Rightarrow> quotaSpec \<Rightarrow> string \<times> period \<times> int" where
  "quotaKey now spec = (qs_bucket spec, qs_period spec, fst (quotaPeriod now (qs_period spec)))"

text \<open>The first pass: read a quota and see whether one more unit (\<open>cost = 1\<close>) fits.\<close>

definition checkQuota :: "int \<Rightarrow> quotaSpec \<Rightarrow> db \<Rightarrow> error + quotaCheck" where
  "checkQuota now spec s =
     (let (start, reset) = quotaPeriod now (qs_period spec) in
      case uniqueRow (tselect (\<lambda>d. zkey d = (qs_bucket spec, qs_period spec, start)) (quotaWindows s)) of
        Inl e \<Rightarrow> Inl e
      | Inr existing \<Rightarrow>
          (let next' = (case existing of None \<Rightarrow> 0 | Some r \<Rightarrow> z_units (doc r)) + 1 in
           Inr \<lparr>qs_bucket = qs_bucket spec, qs_period = qs_period spec, qs_limit = qs_limit spec,
                qc_start = start, qc_reset = reset, qc_existing = existing, qc_next = next',
                qc_allowed = (next' \<le> qs_limit spec)\<rparr>))"

definition quotaState :: "quotaCheck \<Rightarrow> RateLimitState" where
  "quotaState item =
     \<lparr>r_limit = of_int (qs_limit item),
      r_remaining = (if qc_allowed item then of_int (max 0 (qs_limit item - qc_next item)) else 0),
      r_reset = qc_reset item div 1000, r_allowed = qc_allowed item\<rparr>"

text \<open>The second pass: write the counted value back.\<close>

definition writeQuota :: "int \<Rightarrow> quotaCheck \<Rightarrow> (db, unit) mut" where
  "writeQuota now item = modify (\<lambda>s.
     case qc_existing item of
       Some r \<Rightarrow> db_patch quotaWindows_update (rid r) (\<lambda>d. d\<lparr>z_units := qc_next item\<rparr>) s
     | None \<Rightarrow> snd (db_insert quotaWindows_update now
         \<lparr>z_bucket = qs_bucket item, z_period = qs_period item, z_periodStart = qc_start item,
          z_units = qc_next item\<rparr> s))"

definition consumeCustomerQuotas ::
  "host \<Rightarrow> int \<Rightarrow> nat \<Rightarrow> nat \<Rightarrow> string option \<Rightarrow> PaidPlan option \<Rightarrow> (db, RateLimitState) mut" where
  "consumeCustomerQuotas H now keyId userId endpoint plan =
     mbind (mapM (\<lambda>spec. reads (checkQuota now spec)) (quotaSpecs H keyId userId endpoint plan)) (\<lambda>checked.
       let combined = combine (map quotaState checked) in
       if \<not> r_allowed combined then ret combined
       else mthen (mapM (writeQuota now) checked) (ret combined))"

definition mkQuota :: "string \<times> period \<times> int \<Rightarrow> int \<Rightarrow> quotaWindow" where
  "mkQuota k c = \<lparr>z_bucket = fst k, z_period = fst (snd k), z_periodStart = snd (snd k), z_units = c\<rparr>"

definition setUnits :: "int \<Rightarrow> quotaWindow \<Rightarrow> quotaWindow" where
  "setUnits c d = d\<lparr>z_units := c\<rparr>"

interpretation qct: counter_table zkey z_units mkQuota setUnits
  by unfold_locales (auto simp: zkey_def mkQuota_def setUnits_def)

definition quotaView :: "db \<Rightarrow> string \<times> period \<times> int \<Rightarrow> int" where
  "quotaView s = tally zkey z_units (quotaWindows s)"

end
