(* ===== verification/Metering.thy ===== *)
theory Metering
  imports RateLimit
begin

text \<open>
  What the counters of \<open>RateLimit\<close> guarantee for a whole request: a list of hits on distinct
  buckets never throws, its states are the ones computed from the counts before the request, and
  every bucket is counted once (\<open>hits_spec\<close>); the quotas are all charged or none is
  (\<open>consume_spec\<close>); over any sequence of hits, a window admits at most its limit
  (\<open>hit_run_cap\<close>).
\<close>

section \<open>Several buckets\<close>

definition hitState :: "db \<Rightarrow> int \<Rightarrow> string \<times> rat \<Rightarrow> RateLimitState" where
  "hitState s now b =
     (let c = windowView s (fst b, windowStart now MINUTE_MS) + 1 in
      \<lparr>r_limit = snd b, r_remaining = max 0 (snd b - of_int c),
       r_reset = (windowStart now MINUTE_MS + MINUTE_MS) div 1000, r_allowed = (of_int c \<le> snd b)\<rparr>)"

lemma hits_spec:
  assumes "wf_ids s" and "wf_windows s" and "distinct (map fst bs)"
  shows "\<exists>s'. mapM (\<lambda>b. hit (fst b) (snd b) now) bs s = Inr (map (hitState s now) bs, s')
    \<and> ratesOnly s s' \<and> wf_ids s' \<and> wf_windows s'
    \<and> windowView s' = (\<lambda>k. windowView s k +
          (if k \<in> (\<lambda>b. (fst b, windowStart now MINUTE_MS)) ` set bs then 1 else 0))"
  using assms
proof (induction bs arbitrary: s)
  case Nil
  then show ?case by simp
next
  case (Cons b bs)
  let ?k = "(fst b, windowStart now MINUTE_MS)"
  from hitWindow_spec [OF Cons.prems(1,2), of "fst b" "snd b" now MINUTE_MS 1] obtain s1 where
    h: "hit (fst b) (snd b) now s = Inr (hitState s now b, s1)" and r1: "ratesOnly s s1"
    and wf: "wf_ids s1" "wf_windows s1"
    and v: "windowView s1 = (windowView s)(?k := windowView s ?k + 1)"
    unfolding hit_def hitState_def Let_def by blast
  have d: "distinct (map fst bs)" "fst b \<notin> fst ` set bs" using Cons.prems(3) by auto
  from Cons.IH [OF wf d(1)] obtain s2 where
    m: "mapM (\<lambda>b. hit (fst b) (snd b) now) bs s1 = Inr (map (hitState s1 now) bs, s2)"
    and r2: "ratesOnly s1 s2" "wf_ids s2" "wf_windows s2"
    and v2: "windowView s2 = (\<lambda>k. windowView s1 k +
          (if k \<in> (\<lambda>b. (fst b, windowStart now MINUTE_MS)) ` set bs then 1 else 0))" by blast
  have "fst x \<noteq> fst b" if "x \<in> set bs" for x using d(2) that by (metis imageI)
  then have "map (hitState s1 now) bs = map (hitState s now) bs"
    by (auto simp: hitState_def v Let_def)
  moreover have "ratesOnly s s2" by (rule ratesOnly_trans [OF r1 r2(1)])
  moreover have "windowView s2 = (\<lambda>k. windowView s k +
          (if k \<in> (\<lambda>b. (fst b, windowStart now MINUTE_MS)) ` set (b # bs) then 1 else 0))"
    using d(2) by (auto simp: v2 v fun_eq_iff image_iff)
  ultimately show ?case using r2 by (simp add: mbind_def h m)
qed

section \<open>Runs of hits\<close>

text \<open>A run of requests against one-minute buckets, in any interleaving of buckets and times.\<close>

fun hit_run :: "(string \<times> rat \<times> int) list \<Rightarrow> (db, (string \<times> int \<times> RateLimitState) list) mut" where
  "hit_run [] = ret []"
| "hit_run ((b, l, now) # hs) =
     mbind (hit b l now) (\<lambda>st. mbind (hit_run hs) (\<lambda>rs. ret ((b, now, st) # rs)))"

definition admitted :: "string \<Rightarrow> int \<Rightarrow> string \<times> int \<times> RateLimitState \<Rightarrow> bool" where
  "admitted b w h = (fst h = b \<and> windowStart (fst (snd h)) MINUTE_MS = w \<and> r_allowed (snd (snd h)))"

lemma hit_run_cap:
  assumes "wf_ids s" and "wf_windows s" and "hit_run hs s = Inr (rs, s')"
    and "\<forall>h \<in> set hs. fst h = b \<longrightarrow> fst (snd h) \<le> of_int L"
  shows "int (length (filter (admitted b w) rs)) \<le> max 0 (L - windowView s (b, w))"
  using assms
proof (induction hs arbitrary: s rs)
  case Nil
  then show ?case by simp
next
  case (Cons h hs)
  obtain c l now where h: "h = (c, l, now)" by (cases h) auto
  from Cons.prems(3) obtain st s1 rs' where
    st: "hitWindow c l now MINUTE_MS 1 s = Inr (st, s1)" and run: "hit_run hs s1 = Inr (rs', s')"
    and rs: "rs = (c, now, st) # rs'"
    by (auto simp: h mut_Inr hit_def)
  note one = hitWindow_Inr [OF Cons.prems(1,2) st]
  have adm: "admitted b w (c, now, st) \<longleftrightarrow> c = b \<and> windowStart now MINUTE_MS = w \<and> r_allowed st"
    by (simp add: admitted_def)
  have IH: "int (length (filter (admitted b w) rs')) \<le> max 0 (L - windowView s1 (b, w))"
    using Cons.IH [OF one(4,5) run] Cons.prems(4) by simp
  show ?case
  proof (cases "c = b \<and> windowStart now MINUTE_MS = w")
    case True
    then have v: "windowView s1 (b, w) = windowView s (b, w) + 1" by (simp add: one(6))
    have "r_allowed st \<Longrightarrow> windowView s (b, w) + 1 \<le> L"
    proof -
      assume "r_allowed st"
      then have "of_int (windowView s (b, w) + 1) \<le> l" using one(2) True by simp
      also have "l \<le> of_int L" using Cons.prems(4) True by (simp add: h)
      finally show ?thesis by (simp only: of_int_le_iff)
    qed
    have "length (filter (admitted b w) rs) = (if r_allowed st then 1 else 0) + length (filter (admitted b w) rs')"
      unfolding rs filter.simps adm using True by simp
    with IH v show ?thesis using \<open>r_allowed st \<Longrightarrow> windowView s (b, w) + 1 \<le> L\<close> by (cases "r_allowed st") auto
  next
    case False
    then have "windowView s1 (b, w) = windowView s (b, w)" by (auto simp: one(6))
    with IH False show ?thesis by (auto simp: rs adm)
  qed
qed

section \<open>Quotas\<close>

definition quotasOnly :: "db \<Rightarrow> db \<Rightarrow> bool" where
  "quotasOnly s s' \<longleftrightarrow> (\<exists>n t. nextId s \<le> n \<and> s' = s\<lparr>nextId := n, quotaWindows := t\<rparr>)"

lemma quotasOnly_refl [simp]: "quotasOnly s s"
  unfolding quotasOnly_def by (rule exI [of _ "nextId s"], rule exI [of _ "quotaWindows s"]) simp

lemma quotasOnly_trans: "quotasOnly s t \<Longrightarrow> quotasOnly t u \<Longrightarrow> quotasOnly s u"
proof -
  assume "quotasOnly s t" and "quotasOnly t u"
  then obtain n v m w where "nextId s \<le> n" "t = s\<lparr>nextId := n, quotaWindows := v\<rparr>"
    "nextId t \<le> m" "u = t\<lparr>nextId := m, quotaWindows := w\<rparr>"
    unfolding quotasOnly_def by blast
  then have "nextId s \<le> m" "u = s\<lparr>nextId := m, quotaWindows := w\<rparr>" by simp_all
  then show ?thesis unfolding quotasOnly_def by blast
qed

lemma quotasOnly_tables:
  assumes "quotasOnly s s'"
  shows "users s' = users s" "apiKeys s' = apiKeys s" "apiRequests s' = apiRequests s"
    "usageDaily s' = usageDaily s" "rateLimitWindows s' = rateLimitWindows s"
    "securityAuditEvents s' = securityAuditEvents s" "playgroundTokens s' = playgroundTokens s"
    "payments s' = payments s" "authSessions s' = authSessions s" "authAccounts s' = authAccounts s"
    "scheduled s' = scheduled s"
proof -
  obtain n t where s': "s' = s\<lparr>nextId := n, quotaWindows := t\<rparr>" using assms unfolding quotasOnly_def by blast
  show "users s' = users s" "apiKeys s' = apiKeys s" "apiRequests s' = apiRequests s"
    "usageDaily s' = usageDaily s" "rateLimitWindows s' = rateLimitWindows s"
    "securityAuditEvents s' = securityAuditEvents s" "playgroundTokens s' = playgroundTokens s"
    "payments s' = payments s" "authSessions s' = authSessions s" "authAccounts s' = authAccounts s"
    "scheduled s' = scheduled s"
    unfolding s' by simp_all
qed

definition quotaRows :: "db \<Rightarrow> string \<times> period \<times> int \<Rightarrow> quotaWindow table" where
  "quotaRows s k = tselect (\<lambda>d. zkey d = k) (quotaWindows s)"

text \<open>The result of the first pass on one quota.\<close>

definition checked :: "int \<Rightarrow> db \<Rightarrow> quotaSpec \<Rightarrow> quotaCheck" where
  "checked now s spec =
     (let k = quotaKey now spec; n = quotaView s k + 1 in
      \<lparr>qs_bucket = qs_bucket spec, qs_period = qs_period spec, qs_limit = qs_limit spec,
       qc_start = snd (snd k), qc_reset = snd (quotaPeriod now (qs_period spec)),
       qc_existing = firstRow (quotaRows s k), qc_next = n, qc_allowed = (n \<le> qs_limit spec)\<rparr>)"

lemma quotaView_first:
  assumes "wf_quotas s"
  shows "quotaView s k = (case firstRow (quotaRows s k) of None \<Rightarrow> 0 | Some r \<Rightarrow> z_units (doc r))"
proof -
  have "length (quotaRows s k) \<le> 1"
    unfolding quotaRows_def tselect_def using assms
    by (intro filter_key_unique) (simp add: wf_quotas_def keyed_def)
  then show ?thesis
    unfolding length_le_1_cases by (auto simp: quotaView_def tally_def quotaRows_def)
qed

lemma checkQuota_eq: "wf_quotas s \<Longrightarrow> checkQuota now spec s = Inr (checked now s spec)"
  using uniqueRow_keyed [of zkey "quotaWindows s" "quotaKey now spec"]
  by (cases "quotaPeriod now (qs_period spec)")
    (auto simp: checkQuota_def checked_def quotaView_first Let_def quotaKey_def quotaRows_def
      wf_quotas_def Let_def)

lemma mapM_reads: "(\<And>x. x \<in> set xs \<Longrightarrow> f x s = Inr (g x)) \<Longrightarrow> mapM (\<lambda>x. reads (f x)) xs s = Inr (map g xs, s)"
  by (induction xs) (auto simp: mbind_def reads_def)

text \<open>Writing one checked quota back is one step of the counter, and leaves the other rows alone.\<close>

lemma writeQuota_spec:
  assumes "wf_ids s" and "wf_quotas s"
  shows "\<exists>s'. writeQuota now (checked now s spec) s = Inr ((), s') \<and> quotasOnly s s' \<and> wf_ids s' \<and> wf_quotas s'
    \<and> quotaView s' = (quotaView s)(quotaKey now spec := quotaView s (quotaKey now spec) + 1)
    \<and> (\<forall>k. k \<noteq> quotaKey now spec \<longrightarrow> quotaRows s' k = quotaRows s k)"
proof -
  let ?k = "quotaKey now spec"
  have wf: "wf_table (nextId s) (quotaWindows s)" "keyed zkey (quotaWindows s)"
    using assms by (auto simp: wf_ids_def wf_quotas_def)
  from qct.upsert_spec [OF this, of now ?k 1] obtain n' t' where
    up: "upsert zkey z_units mkQuota setUnits now ?k 1 (nextId s, quotaWindows s)
        = Inr (quotaView s ?k + 1, n', t')" and le: "nextId s \<le> n'"
    and wf': "wf_table n' t'" "keyed zkey t'"
    and tal: "tally zkey z_units t' = (quotaView s)(?k := quotaView s ?k + 1)"
    unfolding quotaView_def by blast
  let ?s' = "s\<lparr>nextId := n', quotaWindows := t'\<rparr>"
  have first: "uniqueRow (tselect (\<lambda>d. zkey d = ?k) (quotaWindows s)) = Inr (firstRow (quotaRows s ?k))"
    unfolding quotaRows_def by (rule uniqueRow_keyed [OF wf(2)])
  have "writeQuota now (checked now s spec) s = Inr ((), ?s')"
  proof (cases "firstRow (quotaRows s ?k)")
    case None
    then have v: "quotaView s ?k = 0" by (simp add: quotaView_first [OF assms(2)])
    have t': "n' = Suc (nextId s)" "t' = quotaWindows s @ [Row (nextId s) now (mkQuota ?k 1)]"
      using up by (simp_all add: upsert_def first None)
    show ?thesis
      by (simp add: writeQuota_def checked_def Let_def None v db_ops t' mkQuota_def) (simp add: quotaKey_def)
  next
    case (Some r)
    then have v: "quotaView s ?k = z_units (doc r)" by (simp add: quotaView_first [OF assms(2)])
    have t': "n' = nextId s" "t' = tpatch (rid r) (setUnits (z_units (doc r) + 1)) (quotaWindows s)"
      using up v by (simp_all add: upsert_def first Some)
    show ?thesis
      by (simp add: writeQuota_def checked_def Let_def Some v db_ops t' setUnits_def [abs_def])
  qed
  moreover have "quotasOnly s ?s'" using le by (auto simp: quotasOnly_def)
  moreover have "wf_ids ?s'" using assms(1) le wf' by (auto simp: wf_ids_def intro: wf_table_mono)
  moreover have "\<forall>k. k \<noteq> ?k \<longrightarrow> quotaRows ?s' k = quotaRows s k"
    using qct.upsert_select_other [OF wf(1) up] by (simp add: quotaRows_def)
  ultimately show ?thesis using wf' tal by (auto simp: wf_quotas_def quotaView_def)
qed

lemma checked_cong: "wf_quotas s \<Longrightarrow> wf_quotas s' \<Longrightarrow> quotaRows s' (quotaKey now spec) = quotaRows s (quotaKey now spec)
   \<Longrightarrow> checked now s' spec = checked now s spec"
  by (simp add: checked_def quotaView_first)

lemma writeQuotas_spec:
  assumes "wf_ids s" and "wf_quotas s" and "distinct (map (quotaKey now) specs)"
  shows "\<exists>s'. (\<exists>us. mapM (writeQuota now) (map (checked now s) specs) s = Inr (us, s'))
    \<and> quotasOnly s s' \<and> wf_ids s' \<and> wf_quotas s'
    \<and> quotaView s' = (\<lambda>k. quotaView s k + (if k \<in> quotaKey now ` set specs then 1 else 0))"
  using assms
proof (induction specs arbitrary: s)
  case Nil
  then show ?case by simp
next
  case (Cons spec specs)
  from writeQuota_spec [OF Cons.prems(1,2), of now spec] obtain s1 where
    w: "writeQuota now (checked now s spec) s = Inr ((), s1)" and q1: "quotasOnly s s1"
    and wf: "wf_ids s1" "wf_quotas s1"
    and v: "quotaView s1 = (quotaView s)(quotaKey now spec := quotaView s (quotaKey now spec) + 1)"
    and other: "\<forall>k. k \<noteq> quotaKey now spec \<longrightarrow> quotaRows s1 k = quotaRows s k" by blast
  have d: "distinct (map (quotaKey now) specs)" "quotaKey now spec \<notin> quotaKey now ` set specs"
    using Cons.prems(3) by auto
  have "quotaRows s1 (quotaKey now x) = quotaRows s (quotaKey now x)" if "x \<in> set specs" for x
    using d(2) other that by (metis imageI)
  then have same: "map (checked now s) specs = map (checked now s1) specs"
    by (auto intro!: checked_cong [symmetric] Cons.prems(2) wf(2))
  from Cons.IH [OF wf d(1)] obtain us s2 where
    m: "mapM (writeQuota now) (map (checked now s1) specs) s1 = Inr (us, s2)"
    and q2: "quotasOnly s1 s2" "wf_ids s2" "wf_quotas s2"
    and v2: "quotaView s2 = (\<lambda>k. quotaView s1 k + (if k \<in> quotaKey now ` set specs then 1 else 0))" by blast
  have "quotaView s2 = (\<lambda>k. quotaView s k + (if k \<in> quotaKey now ` set (spec # specs) then 1 else 0))"
    using d(2) by (auto simp: v2 v fun_eq_iff)
  then show ?case using q2 quotasOnly_trans [OF q1 q2(1)] by (simp add: mbind_def w m same)
qed

lemma distinct_quotaSpecs: "distinct (map (quotaKey now) (quotaSpecs H keyId userId endpoint plan))"
  by (simp add: quotaSpecs_def Let_def quotaKey_def)

definition quotasAllow :: "int \<Rightarrow> quotaSpec list \<Rightarrow> db \<Rightarrow> bool" where
  "quotasAllow now specs s \<longleftrightarrow> (\<forall>spec \<in> set specs. quotaView s (quotaKey now spec) + 1 \<le> qs_limit spec)"

lemma consume_spec:
  assumes "wf_ids s" and "wf_quotas s"
    and specs: "specs = quotaSpecs H keyId userId endpoint plan"
  shows "\<exists>r s'. consumeCustomerQuotas H now keyId userId endpoint plan s = Inr (r, s')
    \<and> r_allowed r = quotasAllow now specs s
    \<and> quotasOnly s s' \<and> wf_ids s' \<and> wf_quotas s'
    \<and> (\<not> r_allowed r \<longrightarrow> s' = s)
    \<and> (r_allowed r \<longrightarrow> quotaView s' = (\<lambda>k. quotaView s k + (if k \<in> quotaKey now ` set specs then 1 else 0)))"
proof -
  let ?c = "map (checked now s) specs" and ?r = "combine (map quotaState (map (checked now s) specs))"
  have read: "mapM (\<lambda>spec. reads (checkQuota now spec)) specs s = Inr (?c, s)"
    by (rule mapM_reads) (simp add: checkQuota_eq assms(2))
  have ok: "r_allowed ?r = quotasAllow now specs s"
    by (simp add: combine_allowed quotasAllow_def quotaState_def checked_def Let_def)
  have dist: "distinct (map (quotaKey now) specs)" unfolding specs by (rule distinct_quotaSpecs)
  obtain us s' where w: "mapM (writeQuota now) ?c s = Inr (us, s')" "quotasOnly s s'" "wf_ids s'" "wf_quotas s'"
    "quotaView s' = (\<lambda>k. quotaView s k + (if k \<in> quotaKey now ` set specs then 1 else 0))"
    using writeQuotas_spec [OF assms(1,2) dist] by blast
  have run: "consumeCustomerQuotas H now keyId userId endpoint plan s
      = (if \<not> r_allowed ?r then ret ?r else mthen (mapM (writeQuota now) ?c) (ret ?r)) s"
    unfolding consumeCustomerQuotas_def specs [symmetric] mbind_Inr [of "mapM (\<lambda>spec. reads (checkQuota now spec)) specs", OF read] Let_def by (rule refl)
  have w': "mthen (mapM (writeQuota now) ?c) (ret ?r) s = Inr (?r, s')"
    unfolding mthen_def mbind_Inr [of "mapM (writeQuota now) (map (checked now s) specs)", OF w(1)] by simp
  show ?thesis
  proof (cases "r_allowed ?r")
    case True
    then have "consumeCustomerQuotas H now keyId userId endpoint plan s = Inr (?r, s')"
      unfolding run w' [symmetric] by (simp only: not_True_eq_False if_False)
    then show ?thesis using True ok w(2-5) by blast
  next
    case False
    then have "consumeCustomerQuotas H now keyId userId endpoint plan s = Inr (?r, s)"
      unfolding run by (simp only: not_False_eq_True if_True ret_apply)
    then show ?thesis using False ok assms(1,2) quotasOnly_refl by blast
  qed
qed

end
