(* ===== verification/Gateway.thy ===== *)
theory Gateway
  imports Metering
begin

text \<open>
  The operations of \<open>gateway.ts\<close> the API gateway calls before it serves a request: \<open>describe\<close>,
  \<open>authorize\<close> and \<open>authorizeDemo\<close>. The handler of \<open>authorize\<close> is cut where it can return early:
  \<open>resolveKey\<close> finds the key of a credential, \<open>checkKey\<close> its state and owner, \<open>checkAccess\<close> the plan
  and the endpoint scope; \<open>rateBuckets\<close> lists the limits that apply and \<open>meter\<close> counts the request
  against them, then against the quotas and the free tier.
\<close>

datatype credentialKind = KeyCredential | PlaygroundCredential

record authorizeArgs =
  g_kind :: credentialKind
  g_hash :: string
  g_endpoint :: "string option"
  g_defaultLimit :: jsnum
  g_clientIp :: "string option"
  g_perIpLimit :: "jsnum option"

record principal =
  pr_keyId :: nat
  pr_userId :: nat
  pr_tenantId :: nat
  pr_projectId :: nat
  pr_isSiteKey :: bool
  pr_viaPlayground :: bool

record rateLimit =
  rl_limit :: rat
  rl_remaining :: rat
  rl_reset :: int

datatype authorizeResult =
    AInvalid
  | AExpired
  | ARevoked
  | APaymentRequired
  | AEndpointNotAllowed principal "string list"
  | ARateLimited principal rateLimit
  | AQuotaExceeded principal rateLimit
  | AOk principal rateLimit

definition rateLimitOf :: "RateLimitState \<Rightarrow> rateLimit" where
  "rateLimitOf st = \<lparr>rl_limit = r_limit st, rl_remaining = r_remaining st, rl_reset = r_reset st\<rparr>"

section \<open>describe\<close>

record keyDescription =
  ds_keyId :: nat
  ds_userId :: nat
  ds_isSiteKey :: bool
  ds_rateLimitPerMinute :: "jsnum option"
  ds_accountLimit :: rat
  ds_routeLimit :: rat
  ds_endpoints :: "string list option"

datatype describeResult = DInvalid | DRevoked | DExpired | DPaymentRequired | DOk keyDescription

definition keyByHash :: "string \<Rightarrow> db \<Rightarrow> error + apiKey row option" where
  "keyByHash hash s = uniqueRow (tselect (\<lambda>d. k_keyHash d = hash) (apiKeys s))"

definition describe :: "host \<Rightarrow> int \<Rightarrow> string \<Rightarrow> db \<Rightarrow> error + describeResult" where
  "describe H now hash s =
     (case keyByHash hash s of
        Inl e \<Rightarrow> Inl e
      | Inr None \<Rightarrow> Inr DInvalid
      | Inr (Some r) \<Rightarrow>
          (let key = doc r in
           if k_revokedAt key \<noteq> None then Inr DRevoked
           else if (case k_expiresAt key of Some e \<Rightarrow> e \<le> now | None \<Rightarrow> False) then Inr DExpired
           else (case tget (users s) (k_userId key) of
               None \<Rightarrow> Inr DRevoked
             | Some owner \<Rightarrow>
                 if u_disabledAt (doc owner) \<noteq> None then Inr DRevoked
                 else if k_isSiteKey key \<noteq> Some True \<and> \<not> hasKeyAccess (doc owner) now
                 then Inr DPaymentRequired
                 else Inr (DOk \<lparr>ds_keyId = rid r, ds_userId = k_userId key,
                   ds_isSiteKey = (k_isSiteKey key = Some True),
                   ds_rateLimitPerMinute = k_rateLimitPerMinute key,
                   ds_accountLimit = accountRateLimitPerMinute (h_env H),
                   ds_routeLimit = routeRateLimitPerMinute (h_env H),
                   ds_endpoints = map_option normalizeEndpoints (k_endpoints key)\<rparr>))))"

section \<open>authorize\<close>

text \<open>\<open>await writeAudit(\<dots>); return result;\<close>\<close>

definition refuse ::
  "int \<Rightarrow> string \<Rightarrow> severity \<Rightarrow> apiKey row option \<Rightarrow> string option \<Rightarrow> 'r \<Rightarrow> (db, 'r) mut" where
  "refuse now event sev key detail result =
     mthen (writeAudit now event sev Failure (map_option (\<lambda>r. k_userId (doc r)) key)
       (map_option rid key) detail) (ret result)"

definition resolveKey ::
  "int \<Rightarrow> authorizeArgs \<Rightarrow> (db, authorizeResult + apiKey row \<times> bool) mut" where
  "resolveKey now args =
     (let event = ''api_authentication_failed'' in
      case g_kind args of
        PlaygroundCredential \<Rightarrow>
          mbind (reads (\<lambda>s. uniqueRow (tselect (\<lambda>d. t_tokenHash d = g_hash args) (playgroundTokens s)))) (\<lambda>found.
            case found of
              None \<Rightarrow> refuse now event WARNING None (Some ''invalid'') (Inl AInvalid)
            | Some token \<Rightarrow>
                if t_expiresAt (doc token) \<le> now
                then refuse now event INFO None (Some ''expired'') (Inl AExpired)
                else mbind (reads (\<lambda>s. Inr (tget (apiKeys s) (t_apiKeyId (doc token))))) (\<lambda>key.
                  case key of
                    None \<Rightarrow> refuse now event HIGH None (Some ''token_binding'') (Inl AInvalid)
                  | Some r \<Rightarrow>
                      if k_userId (doc r) \<noteq> t_userId (doc token)
                      then refuse now event HIGH None (Some ''token_binding'') (Inl AInvalid)
                      else ret (Inr (r, True))))
      | KeyCredential \<Rightarrow>
          mbind (reads (keyByHash (g_hash args))) (\<lambda>key.
            case key of
              None \<Rightarrow> refuse now event WARNING None (Some ''invalid'') (Inl AInvalid)
            | Some r \<Rightarrow> ret (Inr (r, False))))"

definition checkKey :: "int \<Rightarrow> apiKey row \<Rightarrow> (db, authorizeResult + user row) mut" where
  "checkKey now r =
     (let key = doc r; event = ''api_authentication_failed'' in
      if k_revokedAt key \<noteq> None
      then refuse now event WARNING (Some r) (Some ''revoked'') (Inl ARevoked)
      else if (case k_expiresAt key of Some e \<Rightarrow> e \<le> now | None \<Rightarrow> False)
      then refuse now event INFO (Some r) (Some ''expired'') (Inl AExpired)
      else mbind (reads (\<lambda>s. Inr (tget (users s) (k_userId key)))) (\<lambda>owner.
        case owner of
          None \<Rightarrow> refuse now event HIGH (Some r) (Some ''tenant_disabled'') (Inl ARevoked)
        | Some u \<Rightarrow>
            if u_disabledAt (doc u) \<noteq> None
            then refuse now event HIGH (Some r) (Some ''tenant_disabled'') (Inl ARevoked)
            else ret (Inr u)))"

text \<open>What the checks establish about an admitted request.\<close>

record admission =
  ad_key :: "apiKey row"
  ad_owner :: "user row"
  ad_isSiteKey :: bool
  ad_plan :: "PaidPlan option"
  ad_principal :: principal

definition principalOf :: "apiKey row \<Rightarrow> bool \<Rightarrow> bool \<Rightarrow> principal" where
  "principalOf r isSiteKey viaPlayground =
     \<lparr>pr_keyId = rid r, pr_userId = k_userId (doc r), pr_tenantId = k_userId (doc r),
      pr_projectId = rid r, pr_isSiteKey = isSiteKey, pr_viaPlayground = viaPlayground\<rparr>"

definition checkAccess ::
  "int \<Rightarrow> authorizeArgs \<Rightarrow> apiKey row \<Rightarrow> bool \<Rightarrow> user row \<Rightarrow> (db, authorizeResult + admission) mut" where
  "checkAccess now args r viaPlayground owner =
     (let key = doc r; event = ''api_authorization_failed'';
          isSiteKey = (k_isSiteKey key = Some True \<and> \<not> viaPlayground);
          plan = (if isSiteKey then None else activePlan (doc owner) now);
          principal = principalOf r isSiteKey viaPlayground;
          admitted = \<lparr>ad_key = r, ad_owner = owner, ad_isSiteKey = isSiteKey, ad_plan = plan,
            ad_principal = principal\<rparr>
      in if \<not> isSiteKey \<and> \<not> hasKeyAccess (doc owner) now
         then refuse now event INFO (Some r) (Some ''payment_required'') (Inl APaymentRequired)
         else (case k_endpoints key of
             None \<Rightarrow> ret (Inr admitted)
           | Some endpoints \<Rightarrow>
               (let allowed = normalizeEndpoints endpoints in
                if \<not> list_ex (\<lambda>endpoint. Some endpoint = g_endpoint args) allowed
                then refuse now event HIGH (Some r)
                  (Some (case g_endpoint args of None \<Rightarrow> ''missing_scope'' | Some e \<Rightarrow> e))
                  (Inl (AEndpointNotAllowed principal allowed))
                else ret (Inr admitted))))"

definition admit :: "int \<Rightarrow> authorizeArgs \<Rightarrow> (db, authorizeResult + admission) mut" where
  "admit now args =
     mbind (resolveKey now args) (\<lambda>found. case found of
         Inl res \<Rightarrow> ret (Inl res)
       | Inr (r, viaPlayground) \<Rightarrow> mbind (checkKey now r) (\<lambda>checked. case checked of
             Inl res \<Rightarrow> ret (Inl res)
           | Inr owner \<Rightarrow> checkAccess now args r viaPlayground owner))"

text \<open>The one-minute limits of a request, in the order they are counted.\<close>

definition siteBuckets ::
  "host \<Rightarrow> authorizeArgs \<Rightarrow> apiKey row \<Rightarrow> error + (string \<times> rat) list" where
  "siteBuckets H args r =
     (let ip = (case g_clientIp args of Some ip \<Rightarrow> if IP_PATTERN ip then ip else ''unknown'' | None \<Rightarrow> ''unknown'') in
      case requireEnv (h_env H) ''GATEWAY_SECRET'' of
        Inl e \<Rightarrow> Inl e
      | Inr secret \<Rightarrow>
          (let ipHash = slice0 32 (hmacSha256Hex (h_hmac H) secret (''ip:'' @ ip));
               perIp = clampLimit (g_perIpLimit args) 60
           in Inr ([(''ip:'' @ ipHash, of_int perIp),
                    (''key:'' @ h_showId H (rid r), of_int (clampLimit (k_rateLimitPerMinute (doc r)) 10000))]
                   @ (if g_endpoint args = Some ''route''
                      then [(''ip:'' @ ipHash @ '':route'', min (of_int perIp) (routeRateLimitPerMinute (h_env H)))]
                      else []))))"

text \<open>\<open>planRate\<close> is \<open>Some\<close> for every key that is not the site key, so the fallbacks to the key's own
  limit and to the account and endpoint settings (\<open>??\<close>) are never taken there.\<close>

definition planRateOf :: "bool \<Rightarrow> PaidPlan option \<Rightarrow> int option" where
  "planRateOf isSiteKey plan =
     (case plan of Some p \<Rightarrow> Some (requestsPerMinute p)
      | None \<Rightarrow> if isSiteKey then None else Some FREE_RATE_LIMIT_PER_MINUTE)"

definition customerBuckets ::
  "host \<Rightarrow> authorizeArgs \<Rightarrow> apiKey row \<Rightarrow> int option \<Rightarrow> (string \<times> rat) list" where
  "customerBuckets H args r planRate =
     (let key = doc r; env = h_env H; k = h_showId H (rid r); u = h_showId H (k_userId key);
          defaultLimit = clampLimit (Some (g_defaultLimit args)) 100;
          perKey = (case planRate of Some n \<Rightarrow> n | None \<Rightarrow> clampLimit (k_rateLimitPerMinute key) defaultLimit);
          perUser = (case planRate of Some n \<Rightarrow> of_int n
            | None \<Rightarrow> max (of_int perKey) (accountRateLimitPerMinute env));
          general = (case planRate of Some n \<Rightarrow> of_int n | None \<Rightarrow> endpointRateLimitPerMinute env);
          endpointLimit =
            (if g_endpoint args = Some ''route''
             then min (of_int perKey) (min general (routeRateLimitPerMinute env))
             else min (of_int perKey) general)
      in [(''key:'' @ k, of_int perKey),
          (''user:'' @ u, perUser),
          (''key:'' @ k @ '':endpoint:'' @ (case g_endpoint args of None \<Rightarrow> ''unknown'' | Some e \<Rightarrow> e), endpointLimit),
          (''customer:global'', globalRateLimitPerMinute env)])"

definition rateBuckets :: "host \<Rightarrow> authorizeArgs \<Rightarrow> admission \<Rightarrow> error + (string \<times> rat) list" where
  "rateBuckets H args a =
     (if ad_isSiteKey a then siteBuckets H args (ad_key a)
      else Inr (customerBuckets H args (ad_key a) (planRateOf (ad_isSiteKey a) (ad_plan a))))"

text \<open>The quotas and the free tier of a customer's request; \<open>Inl\<close> is the refusal.\<close>

definition chargeCustomer ::
  "host \<Rightarrow> int \<Rightarrow> authorizeArgs \<Rightarrow> admission \<Rightarrow> (db, authorizeResult + unit) mut" where
  "chargeCustomer H now args a =
     (let r = ad_key a; key = doc r; owner = ad_owner a in
      mbind (consumeCustomerQuotas H now (rid r) (k_userId key) (g_endpoint args) (ad_plan a)) (\<lambda>quota.
        if \<not> r_allowed quota
        then refuse now ''api_quota_exhausted'' WARNING (Some r) (g_endpoint args)
          (Inl (AQuotaExceeded (ad_principal a) (rateLimitOf quota)))
        else if ad_plan a = None
        then mthen (modify (db_patch users_update (rid owner)
            (\<lambda>u. u\<lparr>u_freeRequestsUsed :=
              Some ((case u_freeRequestsUsed (doc owner) of None \<Rightarrow> 0 | Some n \<Rightarrow> n) + 1)\<rparr>)))
          (ret (Inr ()))
        else ret (Inr ())))"

definition meter :: "host \<Rightarrow> int \<Rightarrow> authorizeArgs \<Rightarrow> admission \<Rightarrow> (db, authorizeResult) mut" where
  "meter H now args a =
     (let r = ad_key a in
      mbind (reads (\<lambda>s. rateBuckets H args a)) (\<lambda>buckets.
      mbind (mapM (\<lambda>b. hit (fst b) (snd b) now) buckets) (\<lambda>states.
        let state = combine states in
        if \<not> r_allowed state
        then refuse now ''api_rate_limit_violation'' WARNING (Some r) (g_endpoint args)
          (ARateLimited (ad_principal a) (rateLimitOf state))
        else orReturn (if ad_isSiteKey a then ret (Inr ()) else chargeCustomer H now args a) (\<lambda>_.
          mthen (writeAudit now ''api_authentication_succeeded'' INFO Success (Some (k_userId (doc r)))
              (Some (rid r)) (g_endpoint args))
            (ret (AOk (ad_principal a) (rateLimitOf state)))))))"

definition authorize :: "host \<Rightarrow> int \<Rightarrow> authorizeArgs \<Rightarrow> (db, authorizeResult) mut" where
  "authorize H now args = orReturn (admit now args) (meter H now args)"

section \<open>authorizeDemo\<close>

record demoArgs =
  dm_clientIp :: string
  dm_endpoint :: string
  dm_cost :: rat
  dm_minuteLimit :: jsnum
  dm_hourLimit :: jsnum
  dm_globalMinuteLimit :: jsnum

datatype demoResult = DemoOk rateLimit | DemoRateLimited rateLimit

definition demoEndpoint :: "string \<Rightarrow> string" where
  "demoEndpoint e = (if e \<in> set API_ENDPOINTS then e else if e = ''reverse'' then ''reverse'' else ''unknown'')"

text \<open>The windows of a demo request: bucket, limit and duration.\<close>

definition demoWindows :: "host \<Rightarrow> demoArgs \<Rightarrow> error + (string \<times> int \<times> int) list" where
  "demoWindows H args =
     (let endpoint = demoEndpoint (dm_endpoint args);
          ip = (if IP_PATTERN (dm_clientIp args) then dm_clientIp args else ''unknown'') in
      case requireEnv (h_env H) ''GATEWAY_SECRET'' of
        Inl e \<Rightarrow> Inl e
      | Inr secret \<Rightarrow>
          (let ipHash = slice0 32 (hmacSha256Hex (h_hmac H) secret (''demo:'' @ ip));
               minuteLimit = clampLimit (Some (dm_minuteLimit args)) 20;
               hourLimit = clampLimit (Some (dm_hourLimit args)) 100;
               globalLimit = clampLimit (Some (dm_globalMinuteLimit args)) 5000
           in Inr [(''demo:ip:'' @ ipHash @ '':minute'', minuteLimit, MINUTE_MS),
                   (''demo:ip:'' @ ipHash @ '':hour'', hourLimit, 60 * MINUTE_MS),
                   (''demo:ip:'' @ ipHash @ '':'' @ endpoint @ '':minute'', minuteLimit, MINUTE_MS),
                   (''demo:global:minute'', globalLimit, MINUTE_MS)]))"

definition demoCost :: "rat \<Rightarrow> int" where
  "demoCost cost = min 100 (max 1 \<lfloor>cost\<rfloor>)"

definition authorizeDemo :: "host \<Rightarrow> int \<Rightarrow> demoArgs \<Rightarrow> (db, demoResult) mut" where
  "authorizeDemo H now args =
     mbind (reads (\<lambda>s. demoWindows H args)) (\<lambda>windows.
     mbind (mapM (\<lambda>w. hitWindow (fst w) (of_int (fst (snd w))) now (snd (snd w)) (demoCost (dm_cost args))) windows)
       (\<lambda>states.
       let state = combine states in
       mthen (if \<not> r_allowed state
              then writeAudit now ''demo_rate_limit_violation'' WARNING Failure None None
                (Some (demoEndpoint (dm_endpoint args)))
              else ret ())
         (ret (if r_allowed state then DemoOk (rateLimitOf state) else DemoRateLimited (rateLimitOf state)))))"

end
