(* ===== verification/Samples.thy ===== *)
theory Samples
  imports Gateway
begin

text \<open>
  A small concrete deployment on which the theorems with hypotheses are applied: a free account (0)
  with the key 1 and a playground token, an account on the plan \<open>pro\<close> (2) whose key 3 is limited to
  one endpoint, and the system account (4) with the site key 5. The HMAC of the sample
  host is a concrete function of the right type, ids are shown in decimal.
\<close>

definition sampleNow :: int where
  "sampleNow = 1700000000000"

definition sampleHost :: host where
  "sampleHost = \<lparr>h_env = (\<lambda>name. if name = ''GATEWAY_SECRET'' then Some ''secret''
       else if name = ''API_KEY_PEPPER'' then Some ''pepper'' else None),
     h_hmac = (\<lambda>k m. m), h_showId = show_nat,
     h_normalizeKeyId = (\<lambda>s. if s = [] then None else Some (digits_value s))\<rparr>"

definition freeUser :: user where
  "freeUser = \<lparr>u_name = None, u_image = None, u_email = None, u_emailVerificationTime = None,
     u_phone = None, u_phoneVerificationTime = None, u_isAnonymous = None, u_isSystem = None,
     u_disabledAt = None, u_updatedAt = None, u_plan = None, u_planExpiresAt = None,
     u_freeTierActivatedAt = Some 1, u_freeRequestsUsed = Some 498\<rparr>"

definition proUser :: user where
  "proUser = freeUser\<lparr>u_plan := Some Pro, u_planExpiresAt := Some 2000000000000\<rparr>"

definition siteUser :: user where
  "siteUser = freeUser\<lparr>u_isSystem := Some True\<rparr>"

definition sampleKey :: apiKey where
  "sampleKey = \<lparr>k_userId = 0, k_name = ''demo'', k_keyPrefix = ''geo_ab12'', k_keyHash = ''h1'',
     k_environment = None, k_endpoints = None, k_rateLimitPerMinute = None,
     k_isSiteKey = None, k_lastUsedAt = None, k_expiresAt = None, k_revokedAt = None\<rparr>"

definition sampleToken :: playgroundToken where
  "sampleToken = \<lparr>t_tokenHash = ''t1'', t_apiKeyId = 1, t_userId = 0, t_expiresAt = sampleNow + 900000\<rparr>"

definition sampleSession :: authSession where
  "sampleSession = \<lparr>s_userId = 0, s_expirationTime = sampleNow + 3600000\<rparr>"

definition sampleAuth :: authContext where
  "sampleAuth = \<lparr>authUserId = Some 0, authSessionId = Some 7\<rparr>"

definition sampleDb :: db where
  "sampleDb = empty_db\<lparr>nextId := 8,
     users := [Row 0 0 freeUser, Row 2 0 proUser, Row 4 0 siteUser],
     apiKeys := [Row 1 0 sampleKey,
       Row 3 0 (sampleKey\<lparr>k_userId := 2, k_keyHash := ''h3'', k_endpoints := Some [''reverse-geocode'']\<rparr>),
       Row 5 0 (sampleKey\<lparr>k_userId := 4, k_keyHash := ''h5'', k_isSiteKey := Some True\<rparr>)],
     playgroundTokens := [Row 6 0 sampleToken],
     authSessions := [Row 7 0 sampleSession]\<rparr>"

definition keyArgs :: "string \<Rightarrow> string \<Rightarrow> authorizeArgs" where
  "keyArgs hash endpoint = \<lparr>g_kind = KeyCredential, g_hash = hash, g_endpoint = Some endpoint,
     g_defaultLimit = Num 100, g_clientIp = Some ''10.0.0.1'', g_perIpLimit = None\<rparr>"

text \<open>The authorization results of a list of calls, one after the other.\<close>

fun authorizeAll ::
  "host \<Rightarrow> (int \<times> authorizeArgs) list \<Rightarrow> (db, (int \<times> authorizeArgs \<times> authorizeResult) list) mut" where
  "authorizeAll H [] = ret []"
| "authorizeAll H ((now, args) # cs) =
     mbind (authorize H now args) (\<lambda>r. mbind (authorizeAll H cs) (\<lambda>ls. ret ((now, args, r) # ls)))"

lemma sample_wf: "wf_db sampleDb"
  by code_simp

lemma digits_value_snoc: "digits_value (s @ [c]) = digits_value s * 10 + (code c - 48)"
  by (simp add: digits_value_def)

lemma digits_value_show: "digits_value (show_nat n) = n"
proof (induction n rule: show_nat.induct)
  case (1 n)
  show ?case
  proof (cases "n < 10")
    case True
    then show ?thesis by (simp add: show_nat.simps [of n] digits_value_def code_digit_char)
  next
    case False
    with 1 show ?thesis by (simp add: show_nat.simps [of n] digits_value_snoc code_digit_char)
  qed
qed

lemma sample_idLaws: "idLaws sampleHost"
proof -
  have "CHR ''|'' \<notin> set (show_nat i)" "CHR '':'' \<notin> set (show_nat i)" for i
    using show_nat_digits [of "CHR ''|''" i] show_nat_digits [of "CHR '':''" i]
    by (auto simp: is_digit_def code_def)
  then show ?thesis
    by (simp add: idLaws_def sampleHost_def digits_value_show show_nat_nonempty)
qed

end
