(* ===== verification/Authorize.thy ===== *)
theory Authorize
  imports Samples
begin

text \<open>
  What \<open>authorize\<close> promises, as the relation \<open>authorizes\<close> between a database, a result and the next
  database (one rule per way a request can end), and the proof that the handler implements it:
  from a well-formed database it never throws, its result and writes are those of one rule, and
  the database stays well formed (\<open>authorize_refines\<close>). The properties of \<open>authorize\<close> are case
  analyses of that relation.
\<close>

fun metered :: "authorizeResult \<Rightarrow> bool" where
  "metered (ARateLimited p rl) = True"
| "metered (AQuotaExceeded p rl) = True"
| "metered (AOk p rl) = True"
| "metered _ = False"

definition logged :: "int \<Rightarrow> db \<Rightarrow> db \<Rightarrow> bool" where
  "logged now s s' \<longleftrightarrow> (\<exists>ev sev out t k d. s' = audited now ev sev out t k d s)"

lemma logged_audited [simp]: "logged now s (audited now ev sev out t k d s)"
  unfolding logged_def by blast

lemma logged_wf: "logged now s s' \<Longrightarrow> wf_db s \<Longrightarrow> wf_db s'"
  by (auto simp: logged_def wf_db_audited)

lemma logged_tables:
  assumes "logged now s s'"
  shows "users s' = users s" "apiKeys s' = apiKeys s" "apiRequests s' = apiRequests s"
    "usageDaily s' = usageDaily s" "rateLimitWindows s' = rateLimitWindows s"
    "quotaWindows s' = quotaWindows s" "playgroundTokens s' = playgroundTokens s"
    "payments s' = payments s" "authSessions s' = authSessions s" "authAccounts s' = authAccounts s"
    "scheduled s' = scheduled s"
  using assms by (auto simp: logged_def)

lemma refuse_eq: "refuse now ev sev key detail res s =
  Inr (res, audited now ev sev Failure (map_option (\<lambda>r. k_userId (doc r)) key) (map_option rid key) detail s)"
  by (simp add: refuse_def mthen_writeAudit)

section \<open>Admission\<close>

definition keyLive :: "int \<Rightarrow> apiKey \<Rightarrow> bool" where
  "keyLive now key \<longleftrightarrow> k_revokedAt key = None \<and> (\<forall>e. k_expiresAt key = Some e \<longrightarrow> now < e)"

definition credentialFor :: "int \<Rightarrow> authorizeArgs \<Rightarrow> db \<Rightarrow> apiKey row \<Rightarrow> bool" where
  "credentialFor now args s r =
     (case g_kind args of
        KeyCredential \<Rightarrow> k_keyHash (doc r) = g_hash args
      | PlaygroundCredential \<Rightarrow> \<exists>t \<in> set (playgroundTokens s). t_tokenHash (doc t) = g_hash args
          \<and> now < t_expiresAt (doc t) \<and> t_apiKeyId (doc t) = rid r \<and> t_userId (doc t) = k_userId (doc r))"

definition admissible :: "int \<Rightarrow> authorizeArgs \<Rightarrow> db \<Rightarrow> admission \<Rightarrow> bool" where
  "admissible now args s a \<longleftrightarrow>
     (let r = ad_key a; key = doc r; owner = ad_owner a; via = (g_kind args = PlaygroundCredential) in
      r \<in> set (apiKeys s) \<and> credentialFor now args s r
      \<and> keyLive now key
      \<and> tget (users s) (k_userId key) = Some owner \<and> u_disabledAt (doc owner) = None
      \<and> ad_isSiteKey a = (k_isSiteKey key = Some True \<and> \<not> via)
      \<and> (\<not> ad_isSiteKey a \<longrightarrow> hasKeyAccess (doc owner) now)
      \<and> ad_plan a = (if ad_isSiteKey a then None else activePlan (doc owner) now)
      \<and> (\<forall>es. k_endpoints key = Some es \<longrightarrow>
           (\<exists>e \<in> set (normalizeEndpoints es). g_endpoint args = Some e))
      \<and> ad_principal a = principalOf r (ad_isSiteKey a) via)"

lemma resolveKey_Inr:
  assumes "resolveKey now args s = Inr (x, s')"
  shows "case x of Inl res \<Rightarrow> \<not> metered res \<and> logged now s s'
    | Inr (r, via) \<Rightarrow> s' = s \<and> r \<in> set (apiKeys s) \<and> via = (g_kind args = PlaygroundCredential)
        \<and> credentialFor now args s r"
proof (cases "g_kind args")
  case KeyCredential
  with assms show ?thesis
    by (auto simp: resolveKey_def mut_Inr refuse_eq keyByHash_def Let_def credentialFor_def
        dest!: uniqueRow_in split: option.splits)
next
  case PlaygroundCredential
  with assms show ?thesis
    by (auto simp: resolveKey_def mbind_reads refuse_eq Let_def credentialFor_def
        dest!: tget_Some uniqueRow_in split: sum.splits option.splits if_splits)
qed

lemma checkKey_Inr:
  assumes "checkKey now r s = Inr (x, s')"
  shows "case x of Inl res \<Rightarrow> \<not> metered res \<and> logged now s s'
    | Inr owner \<Rightarrow> s' = s \<and> keyLive now (doc r)
        \<and> tget (users s) (k_userId (doc r)) = Some owner \<and> u_disabledAt (doc owner) = None"
  using assms
  by (auto simp: checkKey_def mut_Inr refuse_eq Let_def keyLive_def split: option.splits if_splits)

lemma checkAccess_Inr:
  assumes "checkAccess now args r via owner s = Inr (x, s')"
  shows "case x of Inl res \<Rightarrow> \<not> metered res \<and> logged now s s'
    | Inr a \<Rightarrow> s' = s \<and> ad_key a = r \<and> ad_owner a = owner
        \<and> ad_isSiteKey a = (k_isSiteKey (doc r) = Some True \<and> \<not> via)
        \<and> (\<not> ad_isSiteKey a \<longrightarrow> hasKeyAccess (doc owner) now)
        \<and> ad_plan a = (if ad_isSiteKey a then None else activePlan (doc owner) now)
        \<and> (\<forall>es. k_endpoints (doc r) = Some es \<longrightarrow>
             (\<exists>e \<in> set (normalizeEndpoints es). g_endpoint args = Some e))
        \<and> ad_principal a = principalOf r (ad_isSiteKey a) via"
proof (cases "\<not> (k_isSiteKey (doc r) = Some True \<and> \<not> via) \<and> \<not> hasKeyAccess (doc owner) now")
  case True
  with assms show ?thesis by (auto simp: checkAccess_def Let_def refuse_eq)
next
  case False
  then show ?thesis
  proof (cases "k_endpoints (doc r)")
    case None
    with assms False show ?thesis by (auto simp: checkAccess_def Let_def)
  next
    case (Some es)
    with assms False show ?thesis
      by (auto simp: checkAccess_def Let_def refuse_eq list_ex_iff split: if_splits) (metis)+
  qed
qed

lemma admit_Inr:
  assumes "admit now args s = Inr (x, s')"
  shows "case x of Inl res \<Rightarrow> \<not> metered res \<and> logged now s s'
    | Inr a \<Rightarrow> s' = s \<and> admissible now args s a"
proof -
  from assms obtain y s1 where found: "resolveKey now args s = Inr (y, s1)"
    and rest: "(case y of Inl res \<Rightarrow> ret (Inl res)
       | Inr (r, viaPlayground) \<Rightarrow> mbind (checkKey now r) (\<lambda>checked. case checked of
             Inl res \<Rightarrow> ret (Inl res)
           | Inr owner \<Rightarrow> checkAccess now args r viaPlayground owner)) s1 = Inr (x, s')"
    by (auto simp: admit_def mbind_eq_Inr)
  note one = resolveKey_Inr [OF found]
  show ?thesis
  proof (cases y)
    case (Inl res)
    with rest one show ?thesis by auto
  next
    case (Inr p)
    obtain r via where p: "p = (r, via)" by (cases p)
    with Inr rest obtain z s2 where checked: "checkKey now r s1 = Inr (z, s2)"
      and rest2: "(case z of Inl res \<Rightarrow> ret (Inl res)
        | Inr owner \<Rightarrow> checkAccess now args r via owner) s2 = Inr (x, s')"
      by (auto simp: mbind_eq_Inr)
    note two = checkKey_Inr [OF checked]
    have s1: "s1 = s" using one Inr p by simp
    show ?thesis
    proof (cases z)
      case (Inl res)
      with rest2 two s1 show ?thesis by auto
    next
      case (Inr owner)
      with rest2 have acc: "checkAccess now args r via owner s2 = Inr (x, s')" by simp
      have s2: "s2 = s" using two Inr s1 by simp
      show ?thesis
        using checkAccess_Inr [OF acc] one \<open>y = Inr p\<close> p two Inr s1 s2
        by (cases x) (auto simp: admissible_def Let_def)
    qed
  qed
qed

lemma keyByHash_total: "wf_hashes s \<Longrightarrow> \<exists>r. keyByHash hash s = Inr r"
  using uniqueRow_keyed [of k_keyHash "apiKeys s" hash] by (auto simp: keyByHash_def wf_hashes_def)

lemma resolveKey_total:
  assumes "wf_hashes s"
  shows "\<exists>x s'. resolveKey now args s = Inr (x, s')"
proof (cases "g_kind args")
  case KeyCredential
  obtain r where "keyByHash (g_hash args) s = Inr r" using keyByHash_total [OF assms] by blast
  with KeyCredential show ?thesis
    by (cases r) (simp_all add: resolveKey_def mbind_def reads_def refuse_eq Let_def)
next
  case PlaygroundCredential
  have u: "\<exists>t. uniqueRow (tselect (\<lambda>d. t_tokenHash d = g_hash args) (playgroundTokens s)) = Inr t"
    using assms uniqueRow_keyed [of t_tokenHash "playgroundTokens s" "g_hash args"]
    by (auto simp: wf_hashes_def)
  then obtain t where "uniqueRow (tselect (\<lambda>d. t_tokenHash d = g_hash args) (playgroundTokens s)) = Inr t"
    by blast
  with PlaygroundCredential show ?thesis
    by (auto simp: resolveKey_def mbind_def reads_def refuse_eq Let_def split: option.split)
qed

lemma checkKey_total: "\<exists>x s'. checkKey now r s = Inr (x, s')"
  by (auto simp: checkKey_def mbind_def reads_def refuse_eq Let_def split: option.split)

lemma checkAccess_total: "\<exists>x s'. checkAccess now args r via owner s = Inr (x, s')"
  by (auto simp: checkAccess_def refuse_eq Let_def split: option.split)

lemma admit_total:
  assumes "wf_hashes s"
  shows "\<exists>x s'. admit now args s = Inr (x, s')"
proof -
  obtain y s1 where y: "resolveKey now args s = Inr (y, s1)" using resolveKey_total [OF assms] by blast
  show ?thesis
  proof (cases y)
    case (Inl res)
    with y show ?thesis by (simp add: admit_def mbind_def)
  next
    case (Inr p)
    obtain r via where p: "p = (r, via)" by (cases p)
    obtain z s2 where z: "checkKey now r s1 = Inr (z, s2)" using checkKey_total by blast
    show ?thesis
      using checkAccess_total [of now args r via _ s2]
      by (cases z) (auto simp: admit_def mbind_def y Inr p z)
  qed
qed

section \<open>The buckets of a request\<close>

definition hasSecret :: "host \<Rightarrow> bool" where
  "hasSecret H \<longleftrightarrow> (\<exists>v. h_env H ''GATEWAY_SECRET'' = Some v \<and> v \<noteq> [])"

lemma hasSecret_iff: "hasSecret H \<longleftrightarrow> (\<exists>v. requireEnv (h_env H) ''GATEWAY_SECRET'' = Inr v)"
  by (simp add: hasSecret_def requireEnv_Inr)

lemma rateBuckets_total: "hasSecret H \<Longrightarrow> \<exists>bs. rateBuckets H args a = Inr bs"
  by (auto simp: hasSecret_iff rateBuckets_def siteBuckets_def Let_def)

lemma rateBuckets_distinct: "rateBuckets H args a = Inr bs \<Longrightarrow> distinct (map fst bs)"
  by (auto simp: rateBuckets_def siteBuckets_def customerBuckets_def Let_def
      split: if_splits sum.splits)

lemma rateBuckets_customer:
  assumes "rateBuckets H args a = Inr bs" and "\<not> ad_isSiteKey a"
  shows "(''user:'' @ h_showId H (k_userId (doc (ad_key a))),
      of_int (the (planRateOf False (ad_plan a)))) \<in> set bs"
  using assms by (auto simp: rateBuckets_def customerBuckets_def Let_def planRateOf_def split: option.splits)

lemma rateBuckets_nonempty: "rateBuckets H args a = Inr bs \<Longrightarrow> bs \<noteq> []"
  by (auto simp: rateBuckets_def siteBuckets_def customerBuckets_def Let_def split: if_splits sum.splits)

section \<open>The specification\<close>

definition ratesAllow :: "int \<Rightarrow> (string \<times> rat) list \<Rightarrow> db \<Rightarrow> bool" where
  "ratesAllow now bs s \<longleftrightarrow>
     (\<forall>b \<in> set bs. of_int (windowView s (fst b, windowStart now MINUTE_MS) + 1) \<le> snd b)"

definition counted :: "int \<Rightarrow> (string \<times> rat) list \<Rightarrow> db \<Rightarrow> db \<Rightarrow> bool" where
  "counted now bs s s' \<longleftrightarrow> ratesOnly s s' \<and>
     windowView s' = (\<lambda>k. windowView s k +
       (if k \<in> (\<lambda>b. (fst b, windowStart now MINUTE_MS)) ` set bs then 1 else 0))"

definition charged :: "int \<Rightarrow> quotaSpec list \<Rightarrow> db \<Rightarrow> db \<Rightarrow> bool" where
  "charged now specs s s' \<longleftrightarrow> quotasOnly s s' \<and>
     quotaView s' = (\<lambda>k. quotaView s k + (if k \<in> quotaKey now ` set specs then 1 else 0))"

definition specsOf :: "host \<Rightarrow> authorizeArgs \<Rightarrow> admission \<Rightarrow> quotaSpec list" where
  "specsOf H args a =
     quotaSpecs H (rid (ad_key a)) (k_userId (doc (ad_key a))) (g_endpoint args) (ad_plan a)"

definition freeCharged :: "admission \<Rightarrow> db \<Rightarrow> db" where
  "freeCharged a s =
     (if ad_plan a = None
      then db_patch users_update (rid (ad_owner a))
        (\<lambda>u. u\<lparr>u_freeRequestsUsed := Some (freeUsed (doc (ad_owner a)) + 1)\<rparr>) s
      else s)"

definition ratesOf :: "int \<Rightarrow> (string \<times> rat) list \<Rightarrow> db \<Rightarrow> rateLimit" where
  "ratesOf now bs s = rateLimitOf (combine (map (hitState s now) bs))"

inductive authorizes :: "host \<Rightarrow> int \<Rightarrow> authorizeArgs \<Rightarrow> db \<Rightarrow> authorizeResult \<Rightarrow> db \<Rightarrow> bool"
  for H now args where
  refused: "\<not> metered r \<Longrightarrow> logged now s s' \<Longrightarrow> authorizes H now args s r s'"
| limited: "admissible now args s a \<Longrightarrow> rateBuckets H args a = Inr bs \<Longrightarrow> counted now bs s s1 \<Longrightarrow>
    \<not> ratesAllow now bs s \<Longrightarrow> logged now s1 s' \<Longrightarrow>
    authorizes H now args s (ARateLimited (ad_principal a) (ratesOf now bs s)) s'"
| exhausted: "admissible now args s a \<Longrightarrow> rateBuckets H args a = Inr bs \<Longrightarrow> counted now bs s s1 \<Longrightarrow>
    ratesAllow now bs s \<Longrightarrow> \<not> ad_isSiteKey a \<Longrightarrow> \<not> quotasAllow now (specsOf H args a) s \<Longrightarrow>
    logged now s1 s' \<Longrightarrow> authorizes H now args s (AQuotaExceeded (ad_principal a) rl) s'"
| site: "admissible now args s a \<Longrightarrow> rateBuckets H args a = Inr bs \<Longrightarrow> counted now bs s s1 \<Longrightarrow>
    ratesAllow now bs s \<Longrightarrow> ad_isSiteKey a \<Longrightarrow> logged now s1 s' \<Longrightarrow>
    authorizes H now args s (AOk (ad_principal a) (ratesOf now bs s)) s'"
| customer: "admissible now args s a \<Longrightarrow> rateBuckets H args a = Inr bs \<Longrightarrow> counted now bs s s1 \<Longrightarrow>
    ratesAllow now bs s \<Longrightarrow> \<not> ad_isSiteKey a \<Longrightarrow> quotasAllow now (specsOf H args a) s \<Longrightarrow>
    charged now (specsOf H args a) s1 s2 \<Longrightarrow> logged now (freeCharged a s2) s' \<Longrightarrow>
    authorizes H now args s (AOk (ad_principal a) (ratesOf now bs s)) s'"

inductive_cases authorizes_okE: "authorizes H now args s (AOk p rl) s'"
inductive_cases authorizes_limitedE: "authorizes H now args s (ARateLimited p rl) s'"
inductive_cases authorizes_exhaustedE: "authorizes H now args s (AQuotaExceeded p rl) s'"

section \<open>The handler implements it\<close>

lemma wf_db_ratesOnly: "wf_db s \<Longrightarrow> ratesOnly s s' \<Longrightarrow> wf_ids s' \<Longrightarrow> wf_windows s' \<Longrightarrow> wf_db s'"
  by (simp add: wf_db_def wf_quotas_def wf_rollups_def wf_intents_def wf_hashes_def ratesOnly_tables)

lemma wf_db_quotasOnly: "wf_db s \<Longrightarrow> quotasOnly s s' \<Longrightarrow> wf_ids s' \<Longrightarrow> wf_quotas s' \<Longrightarrow> wf_db s'"
  by (simp add: wf_db_def wf_windows_def wf_rollups_def wf_intents_def wf_hashes_def quotasOnly_tables)

lemma wf_db_freeCharged: "wf_db s \<Longrightarrow> wf_db (freeCharged a s)"
  by (simp add: freeCharged_def wf_db_patch_users)

lemma quotasAllow_rates: "ratesOnly s s1 \<Longrightarrow> quotasAllow now specs s1 = quotasAllow now specs s"
  by (simp add: quotasAllow_def quotaView_def ratesOnly_tables)

lemma chargeCustomer_spec:
  assumes "wf_db s"
  shows "(\<not> quotasAllow now (specsOf H args a) s \<and>
       (\<exists>rl s'. chargeCustomer H now args a s = Inr (Inl (AQuotaExceeded (ad_principal a) rl), s') \<and> logged now s s'))
    \<or> (quotasAllow now (specsOf H args a) s \<and>
       (\<exists>s2. chargeCustomer H now args a s = Inr (Inr (), freeCharged a s2)
          \<and> charged now (specsOf H args a) s s2 \<and> wf_db s2))"
proof -
  let ?call = "consumeCustomerQuotas H now (rid (ad_key a)) (k_userId (doc (ad_key a))) (g_endpoint args) (ad_plan a)"
  have "wf_ids s" "wf_quotas s" using assms by (auto simp: wf_db_def)
  from consume_spec [OF this specsOf_def] obtain q s2 where
    q: "?call s = Inr (q, s2)" and ok: "r_allowed q = quotasAllow now (specsOf H args a) s"
    and s2: "quotasOnly s s2" "wf_ids s2" "wf_quotas s2"
    and no: "\<not> r_allowed q \<longrightarrow> s2 = s"
    and yes: "r_allowed q \<longrightarrow> quotaView s2 =
      (\<lambda>k. quotaView s k + (if k \<in> quotaKey now ` set (specsOf H args a) then 1 else 0))"
    by blast
  have wf2: "wf_db s2" by (rule wf_db_quotasOnly [OF assms s2])
  show ?thesis
  proof (cases "r_allowed q")
    case False
    then have "chargeCustomer H now args a s = Inr (Inl (AQuotaExceeded (ad_principal a) (rateLimitOf q)),
        audited now ''api_quota_exhausted'' WARNING Failure (Some (k_userId (doc (ad_key a))))
          (Some (rid (ad_key a))) (g_endpoint args) s)"
      using no by (simp add: chargeCustomer_def Let_def mbind_Inr [of ?call, OF q] refuse_eq)
    with False ok logged_audited show ?thesis by blast
  next
    case True
    then have "chargeCustomer H now args a s = Inr (Inr (), freeCharged a s2)"
      unfolding chargeCustomer_def Let_def mbind_Inr [of ?call, OF q]
      by (simp add: freeCharged_def freeUsed_def mthen_def mbind_def)
    moreover have "charged now (specsOf H args a) s s2" using s2(1) yes True by (simp add: charged_def)
    ultimately show ?thesis using True ok wf2 by blast
  qed
qed

lemma meter_spec:
  assumes wf: "wf_db s" and adm: "admissible now args s a" and bs: "rateBuckets H args a = Inr bs"
  shows "\<exists>r s'. meter H now args a s = Inr (r, s') \<and> authorizes H now args s r s' \<and> wf_db s'"
proof -
  let ?hits = "mapM (\<lambda>b. hit (fst b) (snd b) now) bs" and ?st = "combine (map (hitState s now) bs)"
  have ids: "wf_ids s" "wf_windows s" using wf by (auto simp: wf_db_def)
  from hits_spec [OF ids rateBuckets_distinct [OF bs], of now] obtain s1 where
    h: "?hits s = Inr (map (hitState s now) bs, s1)" and r1: "ratesOnly s s1"
    and wf1: "wf_ids s1" "wf_windows s1"
    and v1: "windowView s1 = (\<lambda>k. windowView s k +
          (if k \<in> (\<lambda>b. (fst b, windowStart now MINUTE_MS)) ` set bs then 1 else 0))" by blast
  have c: "counted now bs s s1" using r1 v1 by (simp add: counted_def)
  have wfd1: "wf_db s1" by (rule wf_db_ratesOnly [OF wf r1 wf1])
  have ok: "r_allowed ?st \<longleftrightarrow> ratesAllow now bs s"
    by (simp add: combine_allowed ratesAllow_def hitState_def Let_def)
  define k where "k = (\<lambda>states. let state = combine states in
        if \<not> r_allowed state
        then refuse now ''api_rate_limit_violation'' WARNING (Some (ad_key a)) (g_endpoint args)
          (ARateLimited (ad_principal a) (rateLimitOf state))
        else orReturn (if ad_isSiteKey a then ret (Inr ()) else chargeCustomer H now args a) (\<lambda>_.
          mthen (writeAudit now ''api_authentication_succeeded'' INFO Success (Some (k_userId (doc (ad_key a))))
              (Some (rid (ad_key a))) (g_endpoint args))
            (ret (AOk (ad_principal a) (rateLimitOf state)))))"
  have run: "meter H now args a s = k (map (hitState s now) bs) s1"
    by (simp add: meter_def Let_def k_def mbind_reads bs mbind_Inr [of ?hits, OF h])
  show ?thesis
  proof (cases "ratesAllow now bs s")
    case False
    then have "k (map (hitState s now) bs) s1 = Inr (ARateLimited (ad_principal a) (ratesOf now bs s),
      audited now ''api_rate_limit_violation'' WARNING Failure (Some (k_userId (doc (ad_key a))))
          (Some (rid (ad_key a))) (g_endpoint args) s1)"
      by (simp add: k_def Let_def ok refuse_eq ratesOf_def)
    with authorizes.limited [OF adm bs c False logged_audited] logged_wf [OF logged_audited wfd1] run
    show ?thesis by metis
  next
    case True
    have k: "k (map (hitState s now) bs) s1 =
      orReturn (if ad_isSiteKey a then ret (Inr ()) else chargeCustomer H now args a) (\<lambda>_.
          mthen (writeAudit now ''api_authentication_succeeded'' INFO Success (Some (k_userId (doc (ad_key a))))
              (Some (rid (ad_key a))) (g_endpoint args))
            (ret (AOk (ad_principal a) (ratesOf now bs s)))) s1"
      by (simp add: k_def Let_def ok True ratesOf_def)
    show ?thesis
    proof (cases "ad_isSiteKey a")
      case site: True
      then have "meter H now args a s = Inr (AOk (ad_principal a) (ratesOf now bs s),
        audited now ''api_authentication_succeeded'' INFO Success (Some (k_userId (doc (ad_key a))))
              (Some (rid (ad_key a))) (g_endpoint args) s1)"
        by (simp add: run k orReturn_def mthen_writeAudit)
      with authorizes.site [OF adm bs c True site logged_audited] logged_wf [OF logged_audited wfd1]
      show ?thesis by metis
    next
      case customer: False
      have allow: "quotasAllow now (specsOf H args a) s1 = quotasAllow now (specsOf H args a) s"
        by (rule quotasAllow_rates [OF r1])
      from chargeCustomer_spec [OF wfd1, of now H args a] show ?thesis
      proof
        assume "\<not> quotasAllow now (specsOf H args a) s1 \<and> (\<exists>rl s'. chargeCustomer H now args a s1 =
          Inr (Inl (AQuotaExceeded (ad_principal a) rl), s') \<and> logged now s1 s')"
        then obtain rl s' where no: "\<not> quotasAllow now (specsOf H args a) s"
          and run2: "chargeCustomer H now args a s1 = Inr (Inl (AQuotaExceeded (ad_principal a) rl), s')"
          and l: "logged now s1 s'" unfolding allow by blast
        have "meter H now args a s = Inr (AQuotaExceeded (ad_principal a) rl, s')"
          by (simp add: run k customer orReturn_Inl [of "chargeCustomer H now args a", OF run2])
        with authorizes.exhausted [OF adm bs c True customer no l] logged_wf [OF l wfd1] show ?thesis by blast
      next
        assume "quotasAllow now (specsOf H args a) s1 \<and> (\<exists>s2. chargeCustomer H now args a s1 =
          Inr (Inr (), freeCharged a s2) \<and> charged now (specsOf H args a) s1 s2 \<and> wf_db s2)"
        then obtain s2 where yes: "quotasAllow now (specsOf H args a) s"
          and run2: "chargeCustomer H now args a s1 = Inr (Inr (), freeCharged a s2)"
          and c2: "charged now (specsOf H args a) s1 s2" and wf2: "wf_db s2" unfolding allow by blast
        have "meter H now args a s = Inr (AOk (ad_principal a) (ratesOf now bs s),
          audited now ''api_authentication_succeeded'' INFO Success (Some (k_userId (doc (ad_key a))))
              (Some (rid (ad_key a))) (g_endpoint args) (freeCharged a s2))"
          by (simp add: run k customer orReturn_Inr [of "chargeCustomer H now args a", OF run2] mthen_writeAudit)
        with authorizes.customer [OF adm bs c True customer yes c2 logged_audited]
          logged_wf [OF logged_audited wf_db_freeCharged [OF wf2]] show ?thesis by metis
      qed
    qed
  qed
qed

lemma authorize_spec:
  assumes "wf_db s" and "hasSecret H"
  shows "\<exists>r s'. authorize H now args s = Inr (r, s') \<and> authorizes H now args s r s' \<and> wf_db s'"
proof -
  have "wf_hashes s" using assms(1) by (simp add: wf_db_def)
  then obtain x s1 where x: "admit now args s = Inr (x, s1)" using admit_total by blast
  note one = admit_Inr [OF x]
  show ?thesis
  proof (cases x)
    case (Inl r)
    with one assms(1) have "authorizes H now args s r s1" "wf_db s1"
      by (auto intro: authorizes.refused logged_wf)
    then show ?thesis using x Inl by (simp add: authorize_def orReturn_Inl)
  next
    case (Inr a)
    obtain bs where bs: "rateBuckets H args a = Inr bs" using rateBuckets_total [OF assms(2)] by blast
    from Inr one have "s1 = s" "admissible now args s a" by auto
    with meter_spec [OF assms(1) _ bs] x Inr show ?thesis by (simp add: authorize_def orReturn_Inr)
  qed
qed

lemma authorize_Inr:
  assumes "wf_db s" and "authorize H now args s = Inr (r, s')"
  shows "authorizes H now args s r s'" and "wf_db s'"
proof -
  obtain x s1 where x: "admit now args s = Inr (x, s1)"
    using assms(2) by (auto simp: authorize_def orReturn_eq_Inr)
  note one = admit_Inr [OF x]
  have "authorizes H now args s r s' \<and> wf_db s'"
  proof (cases x)
    case (Inl q)
    with x assms(2) have "q = r" "s1 = s'" by (auto simp: authorize_def orReturn_def mbind_def)
    with Inl one assms(1) show ?thesis by (auto intro: authorizes.refused logged_wf)
  next
    case (Inr a)
    with one have s1: "s1 = s" and adm: "admissible now args s a" by auto
    with x Inr assms(2) have m: "meter H now args a s = Inr (r, s')"
      by (auto simp: authorize_def orReturn_def mbind_def)
    then obtain bs where "rateBuckets H args a = Inr bs"
      by (auto simp: meter_def Let_def mut_Inr)
    from meter_spec [OF assms(1) adm this] m show ?thesis by auto
  qed
  then show "authorizes H now args s r s'" and "wf_db s'" by auto
qed

end
