(* ===== verification/AuthorizeRuns.thy ===== *)
theory AuthorizeRuns
  imports Authorize
begin

text \<open>
  Runs of \<open>authorize\<close>: any sequence of calls with any credentials, endpoints and clock readings. What
  one call does to the counters and to the accounts (\<open>authorizes_users\<close>, \<open>authorizes_windows\<close>,
  \<open>authorizes_quotas\<close>) gives three interpretations of \<open>capped_counter\<close>: the requests of an account
  per minute, its paid requests per month, and its free requests over its lifetime.
\<close>

section \<open>One call\<close>

lemma freeCharged_tables [simp]:
  "apiKeys (freeCharged a s) = apiKeys s" "apiRequests (freeCharged a s) = apiRequests s"
  "usageDaily (freeCharged a s) = usageDaily s" "rateLimitWindows (freeCharged a s) = rateLimitWindows s"
  "quotaWindows (freeCharged a s) = quotaWindows s" "playgroundTokens (freeCharged a s) = playgroundTokens s"
  "payments (freeCharged a s) = payments s" "authSessions (freeCharged a s) = authSessions s"
  "authAccounts (freeCharged a s) = authAccounts s" "scheduled (freeCharged a s) = scheduled s"
  by (simp_all add: freeCharged_def db_patch_def)

lemma freeCharged_users:
  "users (freeCharged a s) = (if ad_plan a = None
     then tpatch (rid (ad_owner a)) (\<lambda>u. u\<lparr>u_freeRequestsUsed := Some (freeUsed (doc (ad_owner a)) + 1)\<rparr>) (users s)
     else users s)"
  by (simp add: freeCharged_def usr.patch_rows)

lemma counted_frame:
  "counted now bs s s' \<Longrightarrow> users s' = users s \<and> apiKeys s' = apiKeys s \<and> apiRequests s' = apiRequests s
     \<and> usageDaily s' = usageDaily s \<and> playgroundTokens s' = playgroundTokens s \<and> payments s' = payments s
     \<and> authSessions s' = authSessions s \<and> authAccounts s' = authAccounts s \<and> scheduled s' = scheduled s
     \<and> quotaView s' = quotaView s
     \<and> windowView s' = (\<lambda>k. windowView s k +
       (if k \<in> (\<lambda>b. (fst b, windowStart now MINUTE_MS)) ` set bs then 1 else 0))"
  by (simp add: counted_def ratesOnly_tables [of s s'] quotaView_def)

lemma charged_frame:
  "charged now specs s s' \<Longrightarrow> users s' = users s \<and> apiKeys s' = apiKeys s \<and> apiRequests s' = apiRequests s
     \<and> usageDaily s' = usageDaily s \<and> playgroundTokens s' = playgroundTokens s \<and> payments s' = payments s
     \<and> authSessions s' = authSessions s \<and> authAccounts s' = authAccounts s \<and> scheduled s' = scheduled s
     \<and> windowView s' = windowView s
     \<and> quotaView s' = (\<lambda>k. quotaView s k + (if k \<in> quotaKey now ` set specs then 1 else 0))"
  by (simp add: charged_def quotasOnly_tables [of s s'] windowView_def)

lemma logged_frame:
  "logged now s s' \<Longrightarrow> users s' = users s \<and> apiKeys s' = apiKeys s \<and> apiRequests s' = apiRequests s
     \<and> usageDaily s' = usageDaily s \<and> playgroundTokens s' = playgroundTokens s \<and> payments s' = payments s
     \<and> authSessions s' = authSessions s \<and> authAccounts s' = authAccounts s \<and> scheduled s' = scheduled s
     \<and> windowView s' = windowView s \<and> quotaView s' = quotaView s"
  by (simp add: logged_tables [of now s s'] windowView_def quotaView_def)

lemma freeCharged_views [simp]:
  "windowView (freeCharged a s) = windowView s" "quotaView (freeCharged a s) = quotaView s"
  by (simp_all add: windowView_def quotaView_def)

text \<open>The accounts: only the counter of free requests of the owner can change.\<close>

lemma authorizes_users:
  assumes "authorizes H now args s r s'"
  shows "users s' = users s \<or>
    (\<exists>a rl. r = AOk (ad_principal a) rl \<and> admissible now args s a \<and> \<not> ad_isSiteKey a
      \<and> users s' = users (freeCharged a s))"
  using assms
proof cases
  case (customer a bs s1 s2)
  then have "users s' = users (freeCharged a s)"
    by (auto dest!: counted_frame charged_frame logged_frame simp: freeCharged_users)
  with customer show ?thesis by blast
qed (auto dest!: counted_frame logged_frame)

lemma authorizes_tables:
  assumes "authorizes H now args s r s'"
  shows "apiKeys s' = apiKeys s \<and> apiRequests s' = apiRequests s \<and> usageDaily s' = usageDaily s
    \<and> playgroundTokens s' = playgroundTokens s \<and> payments s' = payments s
    \<and> authSessions s' = authSessions s \<and> authAccounts s' = authAccounts s \<and> scheduled s' = scheduled s"
  using assms by cases (auto dest!: counted_frame charged_frame logged_frame)

lemma authorizes_windows:
  assumes "authorizes H now args s r s'"
  shows "windowView s k \<le> windowView s' k"
  using assms by cases (auto dest!: counted_frame charged_frame logged_frame)

lemma authorizes_quotas:
  assumes "authorizes H now args s r s'"
  shows "quotaView s k \<le> quotaView s' k"
  using assms by cases (auto dest!: counted_frame charged_frame logged_frame)

text \<open>An admitted request of a customer: everything it was checked against and what it used up.\<close>

lemma authorizes_ok_customer:
  assumes "authorizes H now args s (AOk p rl) s'" and "\<not> pr_isSiteKey p"
  obtains a bs where "admissible now args s a" "p = ad_principal a" "\<not> ad_isSiteKey a"
    "rateBuckets H args a = Inr bs" "ratesAllow now bs s" "quotasAllow now (specsOf H args a) s"
    "users s' = users (freeCharged a s)"
    "windowView s' = (\<lambda>k. windowView s k +
       (if k \<in> (\<lambda>b. (fst b, windowStart now MINUTE_MS)) ` set bs then 1 else 0))"
    "quotaView s' = (\<lambda>k. quotaView s k + (if k \<in> quotaKey now ` set (specsOf H args a) then 1 else 0))"
  using assms(1)
proof cases
  case refused
  then show thesis by simp
next
  case (site a bs s1)
  then have "pr_isSiteKey p" by (simp add: admissible_def Let_def principalOf_def)
  with assms(2) show thesis by simp
next
  case (customer a bs s1 s2)
  then show thesis
    by (intro that [of a bs])
      (auto dest!: counted_frame charged_frame logged_frame simp: freeCharged_users)
qed

section \<open>Runs\<close>

definition authStep :: "host \<Rightarrow> db \<Rightarrow> int \<times> authorizeArgs \<times> authorizeResult \<Rightarrow> db \<Rightarrow> bool" where
  "authStep H s l s' \<longleftrightarrow> (case l of (now, args, r) \<Rightarrow> authorize H now args s = Inr (r, s'))"

text \<open>A request admitted for customer \<open>u\<close>, with any of the account's keys or playground tokens.\<close>

fun customerOk :: "nat \<Rightarrow> authorizeResult \<Rightarrow> bool" where
  "customerOk u (AOk p rl) = (pr_userId p = u \<and> \<not> pr_isSiteKey p)"
| "customerOk u _ = False"

definition planCeiling :: "PaidPlan option \<Rightarrow> int" where
  "planCeiling plan = (case plan of None \<Rightarrow> FREE_RATE_LIMIT_PER_MINUTE | Some p \<Rightarrow> requestsPerMinute p)"

definition userBucket :: "host \<Rightarrow> nat \<Rightarrow> int \<Rightarrow> string \<times> int" where
  "userBucket H u w = (''user:'' @ h_showId H u, w)"

definition tenantMonth :: "host \<Rightarrow> nat \<Rightarrow> int \<Rightarrow> string \<times> period \<times> int" where
  "tenantMonth H u m = (''tenant:'' @ h_showId H u, Month, m)"

definition freeUsedBy :: "nat \<Rightarrow> db \<Rightarrow> int" where
  "freeUsedBy u s = (case tget (users s) u of None \<Rightarrow> 0 | Some r \<Rightarrow> freeUsed (doc r))"

definition onPlan :: "nat \<Rightarrow> PaidPlan option \<Rightarrow> int option \<Rightarrow> db \<Rightarrow> bool" where
  "onPlan u plan expires s \<longleftrightarrow> wf_db s \<and>
     (\<forall>r. tget (users s) u = Some r \<longrightarrow> u_plan (doc r) = plan \<and> u_planExpiresAt (doc r) = expires)"

lemma admissible_principal:
  "admissible now args s a \<Longrightarrow> pr_userId (ad_principal a) = k_userId (doc (ad_key a))
     \<and> pr_keyId (ad_principal a) = rid (ad_key a) \<and> pr_isSiteKey (ad_principal a) = ad_isSiteKey a"
  by (simp add: admissible_def Let_def principalOf_def)

lemma customerOk_cases:
  assumes "customerOk u r" and "authorizes H now args s r s'"
  obtains a bs rl where "r = AOk (ad_principal a) rl" "admissible now args s a" "\<not> ad_isSiteKey a"
    "k_userId (doc (ad_key a)) = u"
    "rateBuckets H args a = Inr bs" "ratesAllow now bs s" "quotasAllow now (specsOf H args a) s"
    "users s' = users (freeCharged a s)"
    "windowView s' = (\<lambda>k. windowView s k +
       (if k \<in> (\<lambda>b. (fst b, windowStart now MINUTE_MS)) ` set bs then 1 else 0))"
    "quotaView s' = (\<lambda>k. quotaView s k + (if k \<in> quotaKey now ` set (specsOf H args a) then 1 else 0))"
proof -
  obtain p rl where r: "r = AOk p rl" "pr_userId p = u" "\<not> pr_isSiteKey p"
    using assms(1) by (cases r) auto
  from assms(2) have "authorizes H now args s (AOk p rl) s'" by (simp only: r(1))
  then show thesis
  proof (rule authorizes_ok_customer [OF _ r(3)])
    fix a bs
    assume adm: "admissible now args s a" and p: "p = ad_principal a" and rest: "\<not> ad_isSiteKey a"
      "rateBuckets H args a = Inr bs" "ratesAllow now bs s" "quotasAllow now (specsOf H args a) s"
      "users s' = users (freeCharged a s)"
      "windowView s' = (\<lambda>k. windowView s k +
         (if k \<in> (\<lambda>b. (fst b, windowStart now MINUTE_MS)) ` set bs then 1 else 0))"
      "quotaView s' = (\<lambda>k. quotaView s k + (if k \<in> quotaKey now ` set (specsOf H args a) then 1 else 0))"
    have "k_userId (doc (ad_key a)) = u" using admissible_principal [OF adm] p r(2) by simp
    with r(1) adm p rest that show thesis by blast
  qed
qed

lemma admissible_owner:
  assumes "admissible now args s a"
  shows "tget (users s) (k_userId (doc (ad_key a))) = Some (ad_owner a)"
    and "rid (ad_owner a) = k_userId (doc (ad_key a))"
  using assms by (auto simp: admissible_def Let_def dest: tget_rid)

lemma admissible_plan:
  "admissible now args s a \<Longrightarrow> \<not> ad_isSiteKey a \<Longrightarrow>
     ad_plan a = activePlan (doc (ad_owner a)) now \<and> hasKeyAccess (doc (ad_owner a)) now"
  by (auto simp: admissible_def Let_def)

lemma onPlan_step:
  assumes "onPlan u plan expires s" and "authStep H s l s'"
  shows "onPlan u plan expires s'"
proof -
  obtain now args r where l: "authorize H now args s = Inr (r, s')"
    using assms(2) by (auto simp: authStep_def split: prod.splits)
  have wf: "wf_db s" using assms(1) by (simp add: onPlan_def)
  note step = authorize_Inr [OF wf l]
  have "u_plan (doc q) = plan \<and> u_planExpiresAt (doc q) = expires" if q: "tget (users s') u = Some q" for q
    using authorizes_users [OF step(1)]
  proof
    assume "users s' = users s"
    with q assms(1) show ?thesis by (simp add: onPlan_def)
  next
    assume "\<exists>a rl. r = AOk (ad_principal a) rl \<and> admissible now args s a \<and> \<not> ad_isSiteKey a
      \<and> users s' = users (freeCharged a s)"
    then obtain a where a: "admissible now args s a" "users s' = users (freeCharged a s)" by blast
    note o = admissible_owner [OF a(1)]
    show ?thesis
    proof (cases "tget (users s) u")
      case None
      with q a(2) show ?thesis by (auto simp: freeCharged_users tget_tpatch split: if_splits)
    next
      case (Some v)
      with assms(1) have "u_plan (doc v) = plan \<and> u_planExpiresAt (doc v) = expires" by (simp add: onPlan_def)
      with Some q a(2) show ?thesis by (auto simp: freeCharged_users tget_tpatch split: if_splits)
    qed
  qed
  with step(2) show ?thesis by (simp add: onPlan_def)
qed

lemma onPlan_wf: "onPlan u plan expires s \<Longrightarrow> wf_db s"
  by (simp add: onPlan_def)

lemma authStep_authorizes:
  assumes "onPlan u plan expires s" and "authStep H s (now, args, r) s'"
  shows "authorizes H now args s r s'"
  using assms by (auto simp: authStep_def dest: onPlan_wf authorize_Inr(1))

text \<open>The plan rate that applies is at most the ceiling of the stored plan.\<close>

lemma planRate_ceiling:
  assumes "u_plan usr = plan"
  shows "the (planRateOf False (activePlan usr now)) \<le> planCeiling plan"
  using assms by (cases plan; cases "the plan")
    (auto simp: planRateOf_def planCeiling_def activePlan_def FREE_RATE_LIMIT_PER_MINUTE_def split: option.split)

definition okInMinute :: "nat \<Rightarrow> int \<Rightarrow> int \<times> authorizeArgs \<times> authorizeResult \<Rightarrow> bool" where
  "okInMinute u w l = (customerOk u (snd (snd l)) \<and> windowStart (fst l) MINUTE_MS = w)"

interpretation minute: capped_counter "authStep H" "onPlan u plan expires"
    "\<lambda>s. windowView s (userBucket H u w)" "okInMinute u w" "planCeiling plan"
  for H u plan expires w
proof unfold_locales
  fix s l s'
  assume inv: "onPlan u plan expires s" and step: "authStep H s l s'"
  obtain now args r where l: "l = (now, args, r)" by (cases l) auto
  note auth = authStep_authorizes [OF inv step [unfolded l]]
  show "onPlan u plan expires s'" by (rule onPlan_step [OF inv step])
  show "windowView s (userBucket H u w) \<le> windowView s' (userBucket H u w)"
    by (rule authorizes_windows [OF auth])
  assume "okInMinute u w l"
  then have ok: "customerOk u r" "windowStart now MINUTE_MS = w" by (simp_all add: okInMinute_def l)
  from ok(1) auth show "windowView s (userBucket H u w) + 1 \<le> windowView s' (userBucket H u w)
      \<and> windowView s' (userBucket H u w) \<le> planCeiling plan"
  proof (cases rule: customerOk_cases)
    case (1 a bs rl)
    let ?rate = "the (planRateOf False (ad_plan a))"
    have "(''user:'' @ h_showId H u, of_int ?rate) \<in> set bs"
      using rateBuckets_customer [OF 1(5,3)] 1(4) by simp
    then have b: "userBucket H u w \<in> (\<lambda>b. (fst b, windowStart now MINUTE_MS)) ` set bs"
      and "of_int (windowView s (userBucket H u w) + 1) \<le> (of_int ?rate :: rat)"
      using 1(6) ok(2) by (force simp: userBucket_def, auto simp: ratesAllow_def userBucket_def)
    then have "windowView s (userBucket H u w) + 1 \<le> ?rate" by (simp only: of_int_le_iff)
    moreover have "u_plan (doc (ad_owner a)) = plan"
      using inv admissible_owner [OF 1(2)] 1(4) by (simp add: onPlan_def)
    then have "?rate \<le> planCeiling plan"
      using admissible_plan [OF 1(2,3)] planRate_ceiling by simp
    ultimately show ?thesis using b 1(9) by simp
  qed
qed

text \<open>C3. However many keys, playground tokens, endpoints and addresses an account uses, the requests
  admitted for it within one minute are at most the rate of its plan, less what the minute had
  already counted: more keys do not raise the ceiling.\<close>

theorem account_rate_ceiling:
  assumes "steps (authStep H) s ls s'" and "onPlan u plan expires s"
  shows "int (length (filter (okInMinute u w) ls)) \<le> max 0 (planCeiling plan - windowView s (userBucket H u w))"
  by (rule minute.run_cap [OF assms])

definition paidInMonth :: "nat \<Rightarrow> int option \<Rightarrow> int \<Rightarrow> int \<times> authorizeArgs \<times> authorizeResult \<Rightarrow> bool" where
  "paidInMonth u expires m l =
     (customerOk u (snd (snd l)) \<and> (case expires of None \<Rightarrow> False | Some e \<Rightarrow> e \<noteq> 0 \<and> fst l < e)
        \<and> fst (quotaPeriod (fst l) Month) = m)"

lemma specsOf_month:
  assumes "ad_plan a = Some p"
  shows "\<exists>spec \<in> set (specsOf H args a). qs_limit spec = monthlyRequests p \<and>
    quotaKey now spec = tenantMonth H (k_userId (doc (ad_key a))) (fst (quotaPeriod now Month))"
  using assms by (simp add: specsOf_def quotaSpecs_def Let_def quotaKey_def tenantMonth_def)

interpretation month: capped_counter "authStep H" "onPlan u (Some p) expires"
    "\<lambda>s. quotaView s (tenantMonth H u m)" "paidInMonth u expires m" "monthlyRequests p"
  for H u p expires m
proof unfold_locales
  fix s l s'
  assume inv: "onPlan u (Some p) expires s" and step: "authStep H s l s'"
  obtain now args r where l: "l = (now, args, r)" by (cases l) auto
  note auth = authStep_authorizes [OF inv step [unfolded l]]
  show "onPlan u (Some p) expires s'" by (rule onPlan_step [OF inv step])
  show "quotaView s (tenantMonth H u m) \<le> quotaView s' (tenantMonth H u m)"
    by (rule authorizes_quotas [OF auth])
  assume "paidInMonth u expires m l"
  then obtain e where ok: "customerOk u r" and e: "expires = Some e" "e \<noteq> 0" "now < e"
    and m: "fst (quotaPeriod now Month) = m"
    by (auto simp: paidInMonth_def l split: option.splits)
  from ok auth show "quotaView s (tenantMonth H u m) + 1 \<le> quotaView s' (tenantMonth H u m)
      \<and> quotaView s' (tenantMonth H u m) \<le> monthlyRequests p"
  proof (cases rule: customerOk_cases)
    case (1 a bs rl)
    have "u_plan (doc (ad_owner a)) = Some p" "u_planExpiresAt (doc (ad_owner a)) = Some e"
      using inv admissible_owner [OF 1(2)] 1(4) e(1) by (simp_all add: onPlan_def)
    then have "ad_plan a = Some p" using admissible_plan [OF 1(2,3)] e by (simp add: activePlan_def)
    from specsOf_month [OF this, of H args now] 1(4) m obtain spec where
      spec: "spec \<in> set (specsOf H args a)" "qs_limit spec = monthlyRequests p"
        "quotaKey now spec = tenantMonth H u m" by blast
    then have "quotaView s (tenantMonth H u m) + 1 \<le> monthlyRequests p"
      using 1(7) by (auto simp: quotasAllow_def)
    moreover have "tenantMonth H u m \<in> quotaKey now ` set (specsOf H args a)"
      using spec by (metis imageI)
    ultimately show ?thesis using 1(10) by simp
  qed
qed

text \<open>C4. While an account's paid plan is active, its keys together are admitted at most the plan's monthly
  allowance of requests in a calendar month (UTC).\<close>

theorem monthly_allowance:
  assumes "steps (authStep H) s ls s'" and "onPlan u (Some p) expires s"
  shows "int (length (filter (paidInMonth u expires m) ls))
    \<le> max 0 (monthlyRequests p - quotaView s (tenantMonth H u m))"
  by (rule month.run_cap [OF assms])

definition okFor :: "nat \<Rightarrow> int \<times> authorizeArgs \<times> authorizeResult \<Rightarrow> bool" where
  "okFor u l = customerOk u (snd (snd l))"

lemma freeUsedBy_freeCharged:
  assumes "admissible now args s a"
  shows "freeUsedBy u (s\<lparr>users := users (freeCharged a s)\<rparr>) =
    freeUsedBy u s + (if u = k_userId (doc (ad_key a)) \<and> ad_plan a = None then 1 else 0)"
  using admissible_owner [OF assms]
  by (auto simp: freeUsedBy_def freeCharged_users tget_tpatch freeUsed_def split: option.splits)

lemma freeUsedBy_cong: "users s' = users t \<Longrightarrow> freeUsedBy u s' = freeUsedBy u (s\<lparr>users := users t\<rparr>)"
  by (simp add: freeUsedBy_def)

interpretation lifetime: capped_counter "authStep H" "onPlan u None expires"
    "freeUsedBy u" "okFor u" FREE_TOTAL_REQUESTS
  for H u expires
proof unfold_locales
  fix s l s'
  assume inv: "onPlan u None expires s" and step: "authStep H s l s'"
  obtain now args r where l: "l = (now, args, r)" by (cases l) auto
  note auth = authStep_authorizes [OF inv step [unfolded l]]
  show "onPlan u None expires s'" by (rule onPlan_step [OF inv step])
  from authorizes_users [OF auth] show "freeUsedBy u s \<le> freeUsedBy u s'"
  proof
    assume "users s' = users s"
    then show ?thesis by (simp add: freeUsedBy_def)
  next
    assume "\<exists>a rl. r = AOk (ad_principal a) rl \<and> admissible now args s a \<and> \<not> ad_isSiteKey a
      \<and> users s' = users (freeCharged a s)"
    then obtain a where "admissible now args s a" "users s' = users (freeCharged a s)" by blast
    then show ?thesis by (simp add: freeUsedBy_cong [of s' _ u s] freeUsedBy_freeCharged)
  qed
  assume "okFor u l"
  then have ok: "customerOk u r" by (simp add: okFor_def l)
  from ok auth show "freeUsedBy u s + 1 \<le> freeUsedBy u s' \<and> freeUsedBy u s' \<le> FREE_TOTAL_REQUESTS"
  proof (cases rule: customerOk_cases)
    case (1 a bs rl)
    have owner: "u_plan (doc (ad_owner a)) = None" "tget (users s) u = Some (ad_owner a)"
      using inv admissible_owner [OF 1(2)] 1(4) by (simp_all add: onPlan_def)
    then have plan: "ad_plan a = None" "hasKeyAccess (doc (ad_owner a)) now"
      using admissible_plan [OF 1(2,3)] by (simp_all add: activePlan_def)
    have "activePlan (doc (ad_owner a)) now = None" using owner(1) by (simp add: activePlan_def)
    then have "freeUsed (doc (ad_owner a)) < FREE_TOTAL_REQUESTS" by (rule hasKeyAccess_free [OF plan(2)])
    then have "freeUsedBy u s < FREE_TOTAL_REQUESTS" using owner(2) by (simp add: freeUsedBy_def)
    then show ?thesis
      using freeUsedBy_cong [OF 1(8), of u s] freeUsedBy_freeCharged [OF 1(2), of u] 1(4) plan(1) by simp
  qed
qed


end
