(* ===== verification/AuthorizeProps.thy ===== *)
theory AuthorizeProps
  imports AuthorizeRuns
begin

text \<open>
  The properties of a single call of \<open>authorize\<close>, of \<open>describe\<close> and of \<open>authorizeDemo\<close>, and the
  applications of the run properties to the sample deployment.
\<close>

section \<open>Results\<close>

text \<open>C9. From a well-formed database, and with the gateway secret configured, \<open>authorize\<close> never
  throws (no lookup is ambiguous, no branch is missing) and leaves the database well formed.\<close>

theorem authorize_total:
  assumes "wf_db s" and "hasSecret H"
  shows "\<exists>r s'. authorize H now args s = Inr (r, s') \<and> wf_db s'"
  using authorize_spec [OF assms] by blast

lemma sample_secret: "hasSecret sampleHost"
  by (simp add: hasSecret_def sampleHost_def)

theorem authorize_total_witness:
  "\<exists>r s'. authorize sampleHost sampleNow (keyArgs ''h5'' ''route'') sampleDb = Inr (r, s') \<and> wf_db s'"
  by (rule authorize_total [OF sample_wf sample_secret])

definition okPrincipal :: "error + authorizeResult \<times> db \<Rightarrow> principal option" where
  "okPrincipal out = (case out of Inr (AOk p rl, s') \<Rightarrow> Some p | _ \<Rightarrow> None)"

lemma okPrincipal_Some: "okPrincipal out = Some p \<longleftrightarrow> (\<exists>rl s'. out = Inr (AOk p rl, s'))"
  by (auto simp: okPrincipal_def split: sum.splits prod.splits authorizeResult.splits)

text \<open>C1. A request is admitted only for a key that exists, matches the presented credential, is neither
  revoked nor expired, belongs to an enabled account that has a plan or free requests left (the site key
  excepted), and whose scope, if it has one, contains the endpoint; the principal returned names that key
  and its owner, whatever the gateway sent.\<close>

theorem authorize_ok_entitled:
  assumes "wf_db s" and "okPrincipal (authorize H now args s) = Some p"
  shows "\<exists>r owner. r \<in> set (apiKeys s) \<and> rid r = pr_keyId p \<and> k_userId (doc r) = pr_userId p
    \<and> credentialFor now args s r \<and> keyLive now (doc r)
    \<and> tget (users s) (pr_userId p) = Some owner \<and> u_disabledAt (doc owner) = None
    \<and> (pr_isSiteKey p \<or> hasKeyAccess (doc owner) now)
    \<and> (pr_isSiteKey p \<longrightarrow> k_isSiteKey (doc r) = Some True \<and> g_kind args = KeyCredential)
    \<and> (\<forall>es. k_endpoints (doc r) = Some es \<longrightarrow> (\<exists>e \<in> set es. normalizeEndpoint e \<noteq> None \<and> normalizeEndpoint e = g_endpoint args))"
proof -
  obtain rl s' where run: "authorize H now args s = Inr (AOk p rl, s')"
    using assms(2) by (auto simp: okPrincipal_Some)
  from authorize_Inr(1) [OF assms(1) run] obtain a where a: "admissible now args s a" "p = ad_principal a"
    by cases auto
  show ?thesis
    using a admissible_principal [OF a(1)]
    by (intro exI [of _ "ad_key a"] exI [of _ "ad_owner a"])
      (auto simp: admissible_def Let_def set_normalizeEndpoints; cases "g_kind args"; simp; metis)
qed

theorem authorize_ok_entitled_witness:
  "\<exists>r owner. r \<in> set (apiKeys sampleDb) \<and> rid r = 3 \<and> k_userId (doc r) = 2
    \<and> credentialFor sampleNow (keyArgs ''h3'' ''geocode'') sampleDb r \<and> keyLive sampleNow (doc r)
    \<and> tget (users sampleDb) 2 = Some owner \<and> hasKeyAccess (doc owner) sampleNow"
proof -
  have "okPrincipal (authorize sampleHost sampleNow (keyArgs ''h3'' ''geocode'') sampleDb) =
      Some \<lparr>pr_keyId = 3, pr_userId = 2, pr_tenantId = 2, pr_projectId = 3, pr_isSiteKey = False,
            pr_viaPlayground = False\<rparr>"
    by code_simp
  from authorize_ok_entitled [OF sample_wf this] show ?thesis by auto
qed

text \<open>C7. A request that is refused, for whatever reason, uses up nothing: no quota unit and no free request
  is charged (when one quota refuses, none of the others is consumed), and no account, key, token,
  payment or usage row changes. A refusal before the limits are counted changes only the audit log.\<close>

theorem authorize_refusal_free:
  assumes "wf_db s" and "authorize H now args s = Inr (r, s')" and "\<forall>p rl. r \<noteq> AOk p rl"
  shows "quotaView s' = quotaView s \<and> users s' = users s \<and> apiKeys s' = apiKeys s
    \<and> usageDaily s' = usageDaily s \<and> playgroundTokens s' = playgroundTokens s \<and> payments s' = payments s
    \<and> (\<not> metered r \<longrightarrow> sameButAudit s s')"
  using authorize_Inr(1) [OF assms(1,2)] assms(3)
  by cases (auto dest!: counted_frame logged_frame simp: logged_def sameButAudit_def quotaView_def)

text \<open>The sample account 0 with its free quota used up by an hour of calls on key 1.\<close>

definition exhaustedDb :: db where
  "exhaustedDb = sampleDb\<lparr>nextId := 9,
     quotaWindows := [Row 8 0 \<lparr>z_bucket = ''free:tenant:0'', z_period = Month, z_periodStart = 1698796800000,
       z_units = 500\<rparr>]\<rparr>"

theorem authorize_refusal_free_witness:
  "\<exists>p rl s'. authorize sampleHost sampleNow (keyArgs ''h1'' ''route'') exhaustedDb = Inr (AQuotaExceeded p rl, s')
    \<and> quotaView s' = quotaView exhaustedDb \<and> users s' = users exhaustedDb"
proof -
  have wf: "wf_db exhaustedDb" by code_simp
  have "(case authorize sampleHost sampleNow (keyArgs ''h1'' ''route'') exhaustedDb of
      Inr (AQuotaExceeded p rl, s') \<Rightarrow> True | _ \<Rightarrow> False)" by code_simp
  then obtain p rl s' where run:
    "authorize sampleHost sampleNow (keyArgs ''h1'' ''route'') exhaustedDb = Inr (AQuotaExceeded p rl, s')"
    by (auto split: sum.splits prod.splits authorizeResult.splits)
  from authorize_refusal_free [OF wf run] run show ?thesis by auto
qed



section \<open>describe and authorize\<close>

text \<open>What \<open>authorize\<close> may answer on a key that \<open>describe\<close> describes as \<open>d\<close>.\<close>

fun agrees :: "describeResult \<Rightarrow> authorizeResult \<Rightarrow> bool" where
  "agrees DInvalid r = (r = AInvalid)"
| "agrees DRevoked r = (r = ARevoked)"
| "agrees DExpired r = (r = AExpired)"
| "agrees DPaymentRequired r = (r = APaymentRequired)"
| "agrees (DOk k) r =
     (case r of
        AEndpointNotAllowed p es \<Rightarrow> pr_keyId p = ds_keyId k \<and> ds_endpoints k = Some es
      | ARateLimited p rl \<Rightarrow> pr_keyId p = ds_keyId k \<and> pr_isSiteKey p = ds_isSiteKey k
      | AQuotaExceeded p rl \<Rightarrow> pr_keyId p = ds_keyId k \<and> \<not> ds_isSiteKey k
      | AOk p rl \<Rightarrow> pr_keyId p = ds_keyId k \<and> pr_userId p = ds_userId k \<and> pr_isSiteKey p = ds_isSiteKey k
      | _ \<Rightarrow> False)"

lemma admit_describe:
  assumes "describe H now (g_hash args) s = Inr d" and "g_kind args = KeyCredential"
    and "admit now args s = Inr (x, s')"
  shows "case x of Inl r \<Rightarrow> agrees d r
    | Inr a \<Rightarrow> \<exists>k. d = DOk k \<and> ds_keyId k = rid (ad_key a) \<and> ds_userId k = k_userId (doc (ad_key a))
        \<and> ds_isSiteKey k = ad_isSiteKey a"
proof (cases "keyByHash (g_hash args) s")
  case (Inl e)
  with assms(1) show ?thesis by (simp add: describe_def)
next
  case (Inr found)
  show ?thesis
  proof (cases found)
    case None
    with Inr assms show ?thesis
      by (auto simp: describe_def admit_def resolveKey_def mbind_def reads_def refuse_eq Let_def)
  next
    case (Some r)
    have res: "resolveKey now args s = Inr (Inr (r, False), s)"
      using Inr Some assms(2) by (simp add: resolveKey_def mbind_reads Let_def)
    have adm: "admit now args s = mbind (checkKey now r) (\<lambda>checked. case checked of
             Inl res \<Rightarrow> ret (Inl res)
           | Inr owner \<Rightarrow> checkAccess now args r False owner) s"
      by (simp add: admit_def mbind_def [of "resolveKey now args"] res)
    show ?thesis
    proof (cases "k_revokedAt (doc r) \<noteq> None
        \<or> (case k_expiresAt (doc r) of Some e \<Rightarrow> e \<le> now | None \<Rightarrow> False)")
      case True
      with Inr Some assms(1,3) show ?thesis
        by (auto simp: describe_def adm mbind_def checkKey_def refuse_eq Let_def split: if_splits)
    next
      case live: False
      show ?thesis
      proof (cases "tget (users s) (k_userId (doc r))")
        case None
        with Inr Some live assms(1,3) show ?thesis
          by (auto simp: describe_def adm mbind_def reads_def checkKey_def refuse_eq Let_def)
      next
        case owner: (Some u)
        show ?thesis
        proof (cases "u_disabledAt (doc u)")
          case (Some t)
          with owner Inr \<open>found = Some r\<close> live assms(1,3) show ?thesis
            by (auto simp: describe_def adm mbind_def reads_def checkKey_def refuse_eq Let_def)
        next
          case None
          with owner live have "checkKey now r s = Inr (Inr u, s)"
            by (simp add: checkKey_def mbind_reads Let_def)
          then have acc: "checkAccess now args r False u s = Inr (x, s')"
            using assms(3) by (simp add: adm mbind_def)
          have d: "d = (if k_isSiteKey (doc r) \<noteq> Some True \<and> \<not> hasKeyAccess (doc u) now
                 then DPaymentRequired
                 else (DOk \<lparr>ds_keyId = rid r, ds_userId = k_userId (doc r),
                   ds_isSiteKey = (k_isSiteKey (doc r) = Some True),
                   ds_rateLimitPerMinute = k_rateLimitPerMinute (doc r),
                   ds_accountLimit = accountRateLimitPerMinute (h_env H),
                   ds_routeLimit = routeRateLimitPerMinute (h_env H),
                   ds_endpoints = map_option normalizeEndpoints (k_endpoints (doc r))\<rparr>))"
            using assms(1) Inr Some owner None live by (auto simp: describe_def Let_def \<open>found = Some r\<close>)
          show ?thesis
            using acc unfolding d
            by (auto simp: checkAccess_def Let_def refuse_eq principalOf_def split: if_splits option.splits)
        qed
      qed
    qed
  qed
qed

text \<open>C8. For an API key, \<open>describe\<close> (the gateway's cached lookup) and \<open>authorize\<close> (the counting call) agree:
  each refusal status of one is the refusal of the other, and on a valid key \<open>authorize\<close> can only refuse
  for the endpoint, a rate limit or a quota, and speaks of the same key, owner and site-key flag.\<close>

theorem describe_agrees_with_authorize:
  assumes "wf_db s" and "g_kind args = KeyCredential"
    and "describe H now (g_hash args) s = Inr d" and "authorize H now args s = Inr (r, s')"
  shows "agrees d r"
proof -
  obtain x s1 where x: "admit now args s = Inr (x, s1)"
    using assms(4) by (auto simp: authorize_def orReturn_eq_Inr)
  note d = admit_describe [OF assms(3,2) x]
  show ?thesis
  proof (cases x)
    case (Inl q)
    with x assms(4) have "q = r" by (simp add: authorize_def orReturn_def mbind_def)
    with Inl d show ?thesis by simp
  next
    case (Inr a)
    then obtain k where k: "d = DOk k" "ds_keyId k = rid (ad_key a)" "ds_userId k = k_userId (doc (ad_key a))"
      "ds_isSiteKey k = ad_isSiteKey a" using d by auto
    have s1: "s1 = s" "admissible now args s a" using admit_Inr [OF x] Inr by auto
    with x Inr assms(4) have m: "meter H now args a s = Inr (r, s')"
      by (simp add: authorize_def orReturn_def mbind_def)
    then obtain bs where "rateBuckets H args a = Inr bs" by (auto simp: meter_def Let_def mut_Inr)
    have "\<exists>rl. r = ARateLimited (ad_principal a) rl \<or> r = AOk (ad_principal a) rl
        \<or> (r = AQuotaExceeded (ad_principal a) rl \<and> \<not> ad_isSiteKey a)"
      using m by (auto simp: meter_def chargeCustomer_def Let_def mut_Inr orReturn_eq_Inr refuse_eq
          split: if_splits)
    then show ?thesis using k admissible_principal [OF s1(2)] by auto
  qed
qed

theorem describe_agrees_with_authorize_witness:
  "\<exists>r s'. authorize sampleHost sampleNow (keyArgs ''nothing'' ''route'') sampleDb = Inr (r, s') \<and> agrees DInvalid r"
proof -
  obtain r s' where run: "authorize sampleHost sampleNow (keyArgs ''nothing'' ''route'') sampleDb = Inr (r, s')"
    using authorize_spec [OF sample_wf sample_secret] by blast
  have d: "describe sampleHost sampleNow (g_hash (keyArgs ''nothing'' ''route'')) sampleDb = Inr DInvalid"
    by code_simp
  have k: "g_kind (keyArgs ''nothing'' ''route'') = KeyCredential" by (simp add: keyArgs_def)
  show ?thesis using describe_agrees_with_authorize [OF sample_wf k d run] run by blast
qed

section \<open>Runs on the sample deployment\<close>

lemma authorizeAll_steps:
  "authorizeAll H cs s = Inr (ls, s') \<Longrightarrow> steps (authStep H) s ls s'"
proof (induction cs arbitrary: s ls)
  case Nil
  then show ?case by simp
next
  case (Cons c cs)
  obtain now args where c: "c = (now, args)" by (cases c)
  from Cons.prems obtain r s1 ls' where "authorize H now args s = Inr (r, s1)"
    "authorizeAll H cs s1 = Inr (ls', s')" "ls = (now, args, r) # ls'" by (auto simp: c mut_Inr)
  then show ?case using Cons.IH by (auto simp: steps_Cons authStep_def)
qed

definition sampleRun :: "error + (int \<times> authorizeArgs \<times> authorizeResult) list \<times> db" where
  "sampleRun = authorizeAll sampleHost
     [(sampleNow, keyArgs ''h1'' ''route''), (sampleNow + 1, keyArgs ''h1'' ''geocode''),
      (sampleNow + 2, keyArgs ''h1'' ''route''), (sampleNow + 3, keyArgs ''h3'' ''geocode'')] sampleDb"

definition runLabels :: "error + 'l list \<times> db \<Rightarrow> 'l list" where
  "runLabels out = (case out of Inl e \<Rightarrow> [] | Inr (ls, s') \<Rightarrow> ls)"

lemma sampleRun_facts:
  "case sampleRun of Inl e \<Rightarrow> False
   | Inr (ls, s') \<Rightarrow> length (filter (okInMinute 0 1699999980000) ls) = 2
       \<and> length (filter (paidInMonth 2 (Some 2000000000000) 1698796800000) ls) = 1
       \<and> length (filter (okFor 0) ls) = 2"
  by code_simp

lemma sampleRun_Inr: "\<exists>ls s'. sampleRun = Inr (ls, s')"
proof (cases sampleRun)
  case (Inl e)
  have False using sampleRun_facts unfolding Inl sum.case .
  then show ?thesis ..
next
  case (Inr x)
  then show ?thesis by (cases x) blast
qed

lemma sampleRun_counts:
  "length (filter (okInMinute 0 1699999980000) (runLabels sampleRun)) = 2"
  "length (filter (paidInMonth 2 (Some 2000000000000) 1698796800000) (runLabels sampleRun)) = 1"
  "length (filter (okFor 0) (runLabels sampleRun)) = 2"
proof -
  obtain ls s' where run: "sampleRun = Inr (ls, s')" using sampleRun_Inr by blast
  have ls: "runLabels sampleRun = ls" unfolding run runLabels_def by simp
  note facts = sampleRun_facts [unfolded run sum.case prod.case]
  show "length (filter (okInMinute 0 1699999980000) (runLabels sampleRun)) = 2" unfolding ls using facts by blast
  show "length (filter (paidInMonth 2 (Some 2000000000000) 1698796800000) (runLabels sampleRun)) = 1"
    unfolding ls using facts by blast
  show "length (filter (okFor 0) (runLabels sampleRun)) = 2" unfolding ls using facts by blast
qed

lemma sampleRun_steps: "\<exists>s'. steps (authStep sampleHost) sampleDb (runLabels sampleRun) s'"
proof -
  obtain ls s' where run: "sampleRun = Inr (ls, s')" using sampleRun_facts by (auto split: sum.splits)
  then have "steps (authStep sampleHost) sampleDb ls s'"
    unfolding sampleRun_def by (rule authorizeAll_steps)
  then show ?thesis unfolding runLabels_def run by auto
qed

lemma sample_plans: "onPlan 0 None None sampleDb" "onPlan 2 (Some Pro) (Some 2000000000000) sampleDb"
  by (simp_all add: onPlan_def sample_wf) (simp_all add: sampleDb_def tget_def freeUser_def proUser_def siteUser_def)

theorem account_rate_ceiling_witness:
  "length (filter (okInMinute 0 1699999980000) (runLabels sampleRun)) = 2
   \<and> int (length (filter (okInMinute 0 1699999980000) (runLabels sampleRun)))
       \<le> max 0 (planCeiling None - windowView sampleDb (userBucket sampleHost 0 1699999980000))"
proof
  show "length (filter (okInMinute 0 1699999980000) (runLabels sampleRun)) = 2" by (rule sampleRun_counts)
  obtain s' where "steps (authStep sampleHost) sampleDb (runLabels sampleRun) s'" using sampleRun_steps by blast
  from account_rate_ceiling [OF this sample_plans(1)]
  show "int (length (filter (okInMinute 0 1699999980000) (runLabels sampleRun)))
       \<le> max 0 (planCeiling None - windowView sampleDb (userBucket sampleHost 0 1699999980000))" .
qed

theorem monthly_allowance_witness:
  "length (filter (paidInMonth 2 (Some 2000000000000) 1698796800000) (runLabels sampleRun)) = 1
   \<and> int (length (filter (paidInMonth 2 (Some 2000000000000) 1698796800000) (runLabels sampleRun)))
       \<le> max 0 (monthlyRequests Pro - quotaView sampleDb (tenantMonth sampleHost 2 1698796800000))"
proof
  show "length (filter (paidInMonth 2 (Some 2000000000000) 1698796800000) (runLabels sampleRun)) = 1" by (rule sampleRun_counts)
  obtain s' where "steps (authStep sampleHost) sampleDb (runLabels sampleRun) s'" using sampleRun_steps by blast
  from monthly_allowance [OF this sample_plans(2)]
  show "int (length (filter (paidInMonth 2 (Some 2000000000000) 1698796800000) (runLabels sampleRun)))
       \<le> max 0 (monthlyRequests Pro - quotaView sampleDb (tenantMonth sampleHost 2 1698796800000))" .
qed


end
