(* ===== verification/ApiKeys.thy ===== *)
theory ApiKeys
  imports RateLimit "HOL-Library.List_Lexorder" "HOL-Library.Char_ord"
begin

text \<open>
  \<open>apiKeys.ts\<close>: listing, creating, renaming, revoking and regenerating keys, and playground tokens. A
  query returns \<open>error + result\<close>, a mutation is a state transformer. The actions (\<open>create\<close>, \<open>regenerate\<close>,
  \<open>createPlaygroundToken\<close>) run a query and then a mutation; they are modelled as their composition, and
  the mutations are definitions of their own, since other transactions may run in between. The random secret is
  an argument: the value \<open>generateApiKey\<close> or \<open>generatePlaygroundToken\<close> returned.
\<close>

definition USAGE_LOOKBACK_DAYS :: int where
  "USAGE_LOOKBACK_DAYS = 30"

record ApiKeySummary =
  y_id :: nat
  y_name :: string
  y_maskedKey :: string
  y_endpoints :: "string list"
  y_createdAt :: int
  y_lastUsedAt :: "rat option"
  y_expiresAt :: "int option"
  y_revokedAt :: "int option"
  y_rateLimitPerMinute :: int
  y_requestsLast30Days :: int
  y_requestsThisMinute :: int

definition summarize :: "apiKey row \<Rightarrow> int \<Rightarrow> int \<Rightarrow> int \<Rightarrow> ApiKeySummary" where
  "summarize r requests thisMinute rate =
     (let key = doc r in
      \<lparr>y_id = rid r, y_name = k_name key, y_maskedKey = maskedKey (k_keyPrefix key),
       y_endpoints = (case k_endpoints key of Some es \<Rightarrow> normalizeEndpoints es | None \<Rightarrow> API_ENDPOINTS),
       y_createdAt = ctime r, y_lastUsedAt = k_lastUsedAt key, y_expiresAt = k_expiresAt key,
       y_revokedAt = k_revokedAt key, y_rateLimitPerMinute = rate,
       y_requestsLast30Days = requests, y_requestsThisMinute = thisMinute\<rparr>)"

text \<open>\<open>withIndex("by_user_day", \<dots> eq userId, gte day)\<close>: in the order of the index.\<close>

definition daysOfUser :: "nat \<Rightarrow> string \<Rightarrow> db \<Rightarrow> usageDay row list" where
  "daysOfUser userId since s =
     sort_key (\<lambda>r. d_day (doc r)) (tselect (\<lambda>d. d_userId d = userId \<and> since \<le> d_day d) (usageDaily s))"

definition keysOfUser :: "nat \<Rightarrow> db \<Rightarrow> apiKey row list" where
  "keysOfUser userId s = tselect (\<lambda>d. k_userId d = userId) (apiKeys s)"

text \<open>\<open>Promise.all(keys.map(\<dots>))\<close>: an error of any element is the error of the whole.\<close>

fun all_or_error :: "('a \<Rightarrow> error + 'b) \<Rightarrow> 'a list \<Rightarrow> error + 'b list" where
  "all_or_error f [] = Inr []"
| "all_or_error f (x # xs) =
     (case f x of Inl e \<Rightarrow> Inl e
      | Inr y \<Rightarrow> (case all_or_error f xs of Inl e \<Rightarrow> Inl e | Inr ys \<Rightarrow> Inr (y # ys)))"

definition planRateShown :: "user option \<Rightarrow> int \<Rightarrow> int" where
  "planRateShown user now =
     (case user of
        None \<Rightarrow> 0
      | Some u \<Rightarrow> (case activePlan u now of
            Some p \<Rightarrow> requestsPerMinute p
          | None \<Rightarrow> if hasKeyAccess u now then FREE_RATE_LIMIT_PER_MINUTE else 0))"

definition listKeys :: "host \<Rightarrow> int \<Rightarrow> authContext \<Rightarrow> db \<Rightarrow> error + ApiKeySummary list" where
  "listKeys H now auth s =
     (case requireUserId now auth s of
        Inl e \<Rightarrow> Inl e
      | Inr userId \<Rightarrow>
          (let user = map_option doc (tget (users s) userId);
               rate = planRateShown user now;
               since = utcDay (now - (USAGE_LOOKBACK_DAYS - 1) * DAY_MS);
               daily = daysOfUser userId since s;
               totals = (\<lambda>k. sum_list (map (\<lambda>r. d_total (doc r)) (filter (\<lambda>r. d_apiKeyId (doc r) = k) daily)));
               currentWindow = windowStart now MINUTE_MS
           in case all_or_error (\<lambda>r.
                (case uniqueRow (tselect (\<lambda>d. w_bucket d = ''key:'' @ h_showId H (rid r) \<and> w_windowStart d = currentWindow)
                    (rateLimitWindows s)) of
                   Inl e \<Rightarrow> Inl e
                 | Inr window \<Rightarrow> Inr (summarize r (totals (rid r))
                     (case window of None \<Rightarrow> 0 | Some w \<Rightarrow> w_count (doc w)) rate)))
                (keysOfUser userId s) of
                Inl e \<Rightarrow> Inl e
              | Inr summaries \<Rightarrow>
                  Inr (sort_key (\<lambda>y. (y_revokedAt y \<noteq> None, - y_createdAt y)) summaries)))"

definition ownedKey :: "nat \<Rightarrow> nat \<Rightarrow> db \<Rightarrow> apiKey row option" where
  "ownedKey keyId userId s =
     (case tget (apiKeys s) keyId of
        None \<Rightarrow> None
      | Some r \<Rightarrow> if k_userId (doc r) = userId then Some r else None)"

definition accessError :: "string \<Rightarrow> error" where
  "accessError what = ConvexError (''Activate the free tier or a paid plan to '' @ what @ ''.'')"

text \<open>\<open>if (!user || !hasKeyAccess(user)) throw \<dots>\<close>.\<close>

definition requireAccess :: "int \<Rightarrow> nat \<Rightarrow> string \<Rightarrow> (db, unit) mut" where
  "requireAccess now userId what =
     reads (\<lambda>s. case tget (users s) userId of
        None \<Rightarrow> Inl (accessError what)
      | Some u \<Rightarrow> if hasKeyAccess (doc u) now then Inr () else Inl (accessError what))"

record insertKeyArgs =
  i_userId :: nat
  i_name :: string
  i_keyPrefix :: string
  i_keyHash :: string
  i_endpoints :: "string list"
  i_expiresAt :: "int option"

definition newKey :: "insertKeyArgs \<Rightarrow> apiKey" where
  "newKey args = \<lparr>k_userId = i_userId args, k_name = i_name args, k_keyPrefix = i_keyPrefix args,
     k_keyHash = i_keyHash args, k_environment = None, k_endpoints = Some (i_endpoints args),
     k_rateLimitPerMinute = None, k_isSiteKey = None, k_lastUsedAt = None, k_expiresAt = i_expiresAt args,
     k_revokedAt = None\<rparr>"

definition insertKey :: "int \<Rightarrow> insertKeyArgs \<Rightarrow> (db, nat) mut" where
  "insertKey now args =
     mthen (requireAccess now (i_userId args) ''create API keys'')
    (mbind (reads (\<lambda>s. Inr (take (MAX_TOTAL_KEYS_PER_USER + 1) (keysOfUser (i_userId args) s)))) (\<lambda>all.
       if MAX_TOTAL_KEYS_PER_USER \<le> length all
       then throw (ConvexError ''This account has reached the maximum number of API keys. Contact support.'')
       else let active = filter (\<lambda>r. k_revokedAt (doc r) = None) all in
         if MAX_ACTIVE_KEYS_PER_USER \<le> length active
         then throw (ConvexError (''You can have at most '' @ show_nat MAX_ACTIVE_KEYS_PER_USER
           @ '' active API keys. Revoke one first.''))
         else mbind (\<lambda>s. Inr (db_insert apiKeys_update now (newKey args) s)) (\<lambda>keyId.
           mthen (writeAudit now ''api_key_created'' INFO Success (Some (i_userId args)) (Some keyId) None)
             (ret keyId))))"

text \<open>\<open>validated\<close> turns the message of a check into an error for the user.\<close>

fun validated :: "error + 'a \<Rightarrow> error + 'a" where
  "validated (Inr x) = Inr x"
| "validated (Inl (PlainError m)) = Inl (ConvexError m)"
| "validated (Inl e) = Inl e"

record createdKey =
  cr_id :: nat
  cr_secret :: string
  cr_maskedKey :: string

definition create ::
  "host \<Rightarrow> int \<Rightarrow> authContext \<Rightarrow> string \<Rightarrow> string list option \<Rightarrow> jsnum option \<Rightarrow> string \<Rightarrow> (db, createdKey) mut" where
  "create H now auth name endpoints expiresAt secret =
     mbind (reads (requireUserId now auth)) (\<lambda>userId.
     mbind (reads (\<lambda>s. validated (cleanKeyName name))) (\<lambda>cleanName.
     mbind (reads (\<lambda>s. validated (cleanEndpoints (case endpoints of None \<Rightarrow> API_ENDPOINTS | Some es \<Rightarrow> es)))) (\<lambda>chosen.
     mbind (reads (\<lambda>s. validated (cleanExpiresAt expiresAt now))) (\<lambda>expires.
     mbind (reads (\<lambda>s. requireEnv (h_env H) ''API_KEY_PEPPER'')) (\<lambda>pepper.
     mbind (insertKey now \<lparr>i_userId = userId, i_name = cleanName, i_keyPrefix = keyPrefix secret,
         i_keyHash = hmacSha256Hex (h_hmac H) pepper secret, i_endpoints = chosen, i_expiresAt = expires\<rparr>) (\<lambda>keyId.
       ret \<lparr>cr_id = keyId, cr_secret = secret, cr_maskedKey = maskedKey (keyPrefix secret)\<rparr>))))))"

definition requireOwnedKey :: "nat \<Rightarrow> nat \<Rightarrow> db \<Rightarrow> error + apiKey row" where
  "requireOwnedKey keyId userId s =
     (case tget (apiKeys s) keyId of
        None \<Rightarrow> Inl (ConvexError ''API key not found.'')
      | Some r \<Rightarrow> if k_userId (doc r) = userId then Inr r else Inl (ConvexError ''API key not found.''))"

definition rename :: "int \<Rightarrow> authContext \<Rightarrow> nat \<Rightarrow> string \<Rightarrow> (db, unit) mut" where
  "rename now auth keyId name =
     mbind (reads (requireUserId now auth)) (\<lambda>userId.
     mbind (reads (requireOwnedKey keyId userId)) (\<lambda>_.
     mbind (reads (\<lambda>s. validated (cleanKeyName name))) (\<lambda>cleanName.
       modify (db_patch apiKeys_update keyId (\<lambda>d. d\<lparr>k_name := cleanName\<rparr>)))))"

definition deletePlaygroundTokens :: "nat \<Rightarrow> (db, unit) mut" where
  "deletePlaygroundTokens keyId =
     modify (\<lambda>s. db_delete_all playgroundTokens_update
       (tselect (\<lambda>d. t_apiKeyId d = keyId) (playgroundTokens s)) s)"

text \<open>\<open>if (key.revokedAt === undefined) await ctx.db.patch(keyId, { revokedAt: now })\<close>.\<close>

definition revokeIfActive :: "int \<Rightarrow> apiKey row \<Rightarrow> (db, unit) mut" where
  "revokeIfActive now r =
     (if k_revokedAt (doc r) = None
      then modify (db_patch apiKeys_update (rid r) (\<lambda>d. d\<lparr>k_revokedAt := Some now\<rparr>)) else ret ())"

definition revoke :: "int \<Rightarrow> authContext \<Rightarrow> nat \<Rightarrow> (db, unit) mut" where
  "revoke now auth keyId =
     mbind (reads (requireUserId now auth)) (\<lambda>userId.
     mbind (reads (requireOwnedKey keyId userId)) (\<lambda>key.
     mthen (revokeIfActive now key)
    (mthen (deletePlaygroundTokens keyId)
       (writeAudit now ''api_key_revoked'' WARNING Success (Some userId) (Some keyId) None))))"

definition replaceSecret :: "int \<Rightarrow> nat \<Rightarrow> nat \<Rightarrow> string \<Rightarrow> string \<Rightarrow> (db, unit) mut" where
  "replaceSecret now keyId userId pre keyHash =
     mbind (reads (requireOwnedKey keyId userId)) (\<lambda>r.
     mthen (requireAccess now userId ''regenerate API keys'')
      (if k_revokedAt (doc r) \<noteq> None then throw (ConvexError ''A revoked key cannot be regenerated.'')
       else if (case k_expiresAt (doc r) of Some e \<Rightarrow> e \<le> now | None \<Rightarrow> False)
       then throw (ConvexError ''This key has expired. Create a new key instead.'')
       else mthen (modify (db_patch apiKeys_update keyId (\<lambda>d. d\<lparr>k_keyPrefix := pre, k_keyHash := keyHash\<rparr>)))
         (mthen (deletePlaygroundTokens keyId)
           (writeAudit now ''api_key_rotated'' WARNING Success (Some userId) (Some keyId) None))))"

definition regenerate :: "host \<Rightarrow> int \<Rightarrow> authContext \<Rightarrow> nat \<Rightarrow> string \<Rightarrow> (db, createdKey) mut" where
  "regenerate H now auth keyId secret =
     mbind (reads (requireUserId now auth)) (\<lambda>userId.
     mbind (reads (\<lambda>s. Inr (ownedKey keyId userId s))) (\<lambda>key.
       case key of
         None \<Rightarrow> throw (ConvexError ''API key not found.'')
       | Some r \<Rightarrow>
           mbind (reads (\<lambda>s. requireEnv (h_env H) ''API_KEY_PEPPER'')) (\<lambda>pepper.
           mthen (replaceSecret now keyId userId (keyPrefix secret) (hmacSha256Hex (h_hmac H) pepper secret))
             (ret \<lparr>cr_id = keyId, cr_secret = secret, cr_maskedKey = maskedKey (keyPrefix secret)\<rparr>))))"

definition insertPlaygroundToken :: "int \<Rightarrow> playgroundToken \<Rightarrow> (db, unit) mut" where
  "insertPlaygroundToken now args =
     mthen (requireAccess now (t_userId args) ''use API keys'')
      (modify (\<lambda>s.
        let oldestFirst = sort_key (\<lambda>r. t_expiresAt (doc r))
              (tselect (\<lambda>d. t_apiKeyId d = t_apiKeyId args) (playgroundTokens s));
            excess = take (length oldestFirst - (MAX_PLAYGROUND_TOKENS_PER_KEY - 1)) oldestFirst
        in snd (db_insert playgroundTokens_update now args
             (db_delete_all playgroundTokens_update excess s))))"

definition createPlaygroundToken :: "host \<Rightarrow> int \<Rightarrow> authContext \<Rightarrow> nat \<Rightarrow> string \<Rightarrow> (db, string \<times> int) mut" where
  "createPlaygroundToken H now auth keyId token =
     mbind (reads (requireUserId now auth)) (\<lambda>userId.
     mbind (reads (\<lambda>s. Inr (ownedKey keyId userId s))) (\<lambda>key.
       case key of
         None \<Rightarrow> throw (ConvexError ''API key not found.'')
       | Some r \<Rightarrow>
           if k_revokedAt (doc r) \<noteq> None
           then throw (ConvexError ''A revoked key cannot be used in the playground.'')
           else if (case k_expiresAt (doc r) of Some e \<Rightarrow> e \<le> now | None \<Rightarrow> False)
           then throw (ConvexError ''An expired key cannot be used in the playground.'')
           else mbind (reads (\<lambda>s. requireEnv (h_env H) ''API_KEY_PEPPER'')) (\<lambda>pepper.
             mthen (insertPlaygroundToken now \<lparr>t_tokenHash = hmacSha256Hex (h_hmac H) pepper token,
                 t_apiKeyId = keyId, t_userId = userId, t_expiresAt = now + PLAYGROUND_TOKEN_TTL_MS\<rparr>)
               (ret (token, now + PLAYGROUND_TOKEN_TTL_MS)))))"

end
