(* ===== verification/KeyLifecycle.thy ===== *)
theory KeyLifecycle
  imports ApiKeys AuthorizeProps
begin

text \<open>
  The life of a key: what each operation of \<open>apiKeys.ts\<close> does to the database, that it keeps the database
  well formed, and what that means for the gateway (a new key is accepted, a revoked or regenerated one
  is refused from the next request on, with its playground tokens).
\<close>

section \<open>Well-formedness\<close>

lemma wf_db_patch_keys:
  assumes "wf_db s" and "\<And>d. k_keyHash (f d) = k_keyHash d"
  shows "wf_db (db_patch apiKeys_update i f s)"
  using assms by (simp add: wf_defs db_patch_def keyed_tpatch)

lemma wf_db_delete_tokens: "wf_db s \<Longrightarrow> wf_db (db_delete_all playgroundTokens_update rs s)"
  by (simp add: wf_defs db_delete_all_def wf_tdel_all keyed_tdel_all)

definition freshKeyHash :: "string \<Rightarrow> db \<Rightarrow> bool" where
  "freshKeyHash h s \<longleftrightarrow> (\<forall>r \<in> set (apiKeys s). k_keyHash (doc r) \<noteq> h)"

definition freshTokenHash :: "string \<Rightarrow> db \<Rightarrow> bool" where
  "freshTokenHash h s \<longleftrightarrow> (\<forall>r \<in> set (playgroundTokens s). t_tokenHash (doc r) \<noteq> h)"

lemma wf_db_insert_key:
  assumes "wf_db s" and "freshKeyHash (k_keyHash d) s"
  shows "wf_db (snd (db_insert apiKeys_update now d s))"
  using assms
  by (auto simp: wf_defs db_insert_def wf_snoc keyed_snoc freshKeyHash_def intro: wf_table_mono)

lemma wf_db_insert_token:
  assumes "wf_db s" and "freshTokenHash (t_tokenHash d) s"
  shows "wf_db (snd (db_insert playgroundTokens_update now d s))"
  using assms
  by (auto simp: wf_defs db_insert_def wf_snoc keyed_snoc freshTokenHash_def intro: wf_table_mono)

lemma keyed_tpatch_fresh:
  assumes "keyed key t" and "wf_table n t" and "tget t i = Some r" and "\<forall>q \<in> set t. key (doc q) \<noteq> key (f (doc r))"
  shows "keyed key (tpatch i f t)"
proof -
  have "inj_on (\<lambda>q. key (doc (if rid q = i then Row i (ctime q) (f (doc q)) else q))) (set t)"
  proof (rule inj_onI)
    fix x y
    assume xy: "x \<in> set t" "y \<in> set t"
      and eq: "key (doc (if rid x = i then Row i (ctime x) (f (doc x)) else x)) =
        key (doc (if rid y = i then Row i (ctime y) (f (doc y)) else y))"
    have r: "rid q = i \<Longrightarrow> q \<in> set t \<Longrightarrow> q = r" for q
      using assms(2,3) by (metis option.inject tget_in)
    have ne: "q \<in> set t \<Longrightarrow> key (doc q) \<noteq> key (f (doc r))" for q using assms(4) by blast
    have "inj_on (\<lambda>r. key (doc r)) (set t)" using assms(1) by (simp add: keyed_def distinct_map)
    with eq xy r ne show "x = y" by (auto split: if_splits dest: inj_onD)
  qed
  moreover have "distinct t" using assms(1) by (auto simp: keyed_def distinct_map)
  ultimately show ?thesis by (simp add: keyed_def tpatch_def distinct_map comp_def)
qed

lemma wf_db_patch_hash:
  assumes "wf_db s" and "tget (apiKeys s) i = Some r" and "freshKeyHash (k_keyHash (f (doc r))) s"
  shows "wf_db (db_patch apiKeys_update i f s)"
  using assms keyed_tpatch_fresh [of k_keyHash "apiKeys s" "nextId s" i r f]
  by (simp add: wf_defs db_patch_def freshKeyHash_def)

section \<open>Looking keys up\<close>

lemma keyByHash_found: "wf_hashes s \<Longrightarrow> r \<in> set (apiKeys s) \<Longrightarrow> keyByHash (k_keyHash (doc r)) s = Inr (Some r)"
  by (simp add: keyByHash_def wf_hashes_def uniqueRow_keyed_Some)

lemma keyByHash_none: "freshKeyHash h s \<Longrightarrow> keyByHash h s = Inr None"
  by (simp add: keyByHash_def freshKeyHash_def uniqueRow_keyed_None)

lemma authorize_unknown:
  assumes "freshKeyHash (g_hash args) s" and "g_kind args = KeyCredential"
  shows "\<exists>s'. authorize H now args s = Inr (AInvalid, s')"
  using assms
  by (auto simp: authorize_def orReturn_def mbind_def admit_def resolveKey_def reads_def keyByHash_none
      refuse_eq Let_def)

lemma authorize_unknown_token:
  assumes "freshTokenHash (g_hash args) s" and "g_kind args = PlaygroundCredential"
  shows "\<exists>s'. authorize H now args s = Inr (AInvalid, s')"
proof -
  have "uniqueRow (tselect (\<lambda>d. t_tokenHash d = g_hash args) (playgroundTokens s)) = Inr None"
    using assms(1) by (simp add: freshTokenHash_def uniqueRow_keyed_None)
  with assms(2) show ?thesis
    by (auto simp: authorize_def orReturn_def mbind_def admit_def resolveKey_def reads_def refuse_eq Let_def)
qed

lemma authorize_revoked:
  assumes "wf_hashes s" and "r \<in> set (apiKeys s)" and "k_revokedAt (doc r) \<noteq> None"
    and "g_kind args = KeyCredential" and "g_hash args = k_keyHash (doc r)"
  shows "\<exists>s'. authorize H now args s = Inr (ARevoked, s')"
  using assms keyByHash_found [OF assms(1,2)]
  by (auto simp: authorize_def orReturn_def mbind_def admit_def resolveKey_def reads_def checkKey_def
      refuse_eq Let_def)

section \<open>Creating\<close>

lemma requireAccess_Inr:
  "requireAccess now u what s = Inr (x, s') \<longleftrightarrow> s' = s \<and> x = () \<and>
     (\<exists>r. tget (users s) u = Some r \<and> hasKeyAccess (doc r) now)"
  by (auto simp: requireAccess_def reads_eq_Inr split: option.splits if_splits)

definition activeKeysOfUser :: "nat \<Rightarrow> db \<Rightarrow> apiKey row list" where
  "activeKeysOfUser u s = filter (\<lambda>r. k_revokedAt (doc r) = None) (keysOfUser u s)"

lemma insertKey_Inr:
  assumes "insertKey now args s = Inr (keyId, s')"
  shows "\<exists>owner. tget (users s) (i_userId args) = Some owner \<and> hasKeyAccess (doc owner) now"
    and "length (keysOfUser (i_userId args) s) < MAX_TOTAL_KEYS_PER_USER"
    and "length (activeKeysOfUser (i_userId args) s) < MAX_ACTIVE_KEYS_PER_USER"
    and "keyId = nextId s"
    and "s' = audited now ''api_key_created'' INFO Success (Some (i_userId args)) (Some keyId) None
        (snd (db_insert apiKeys_update now (newKey args) s))"
proof -
  let ?all = "take (MAX_TOTAL_KEYS_PER_USER + 1) (keysOfUser (i_userId args) s)"
  from assms have a: "\<exists>owner. tget (users s) (i_userId args) = Some owner \<and> hasKeyAccess (doc owner) now"
    and b: "length ?all < MAX_TOTAL_KEYS_PER_USER"
    and c: "length (filter (\<lambda>r. k_revokedAt (doc r) = None) ?all) < MAX_ACTIVE_KEYS_PER_USER"
    and d: "keyId = fst (db_insert apiKeys_update now (newKey args) s)"
    and e: "s' = audited now ''api_key_created'' INFO Success (Some (i_userId args)) (Some keyId) None
        (snd (db_insert apiKeys_update now (newKey args) s))"
    by (auto simp: insertKey_def mut_Inr requireAccess_Inr Let_def writeAudit_eq split: if_splits)
  from b have len: "length (keysOfUser (i_userId args) s) < MAX_TOTAL_KEYS_PER_USER" by simp
  then have "?all = keysOfUser (i_userId args) s" by simp
  with a c d e len show "\<exists>owner. tget (users s) (i_userId args) = Some owner \<and> hasKeyAccess (doc owner) now"
    "length (keysOfUser (i_userId args) s) < MAX_TOTAL_KEYS_PER_USER"
    "length (activeKeysOfUser (i_userId args) s) < MAX_ACTIVE_KEYS_PER_USER"
    "keyId = nextId s"
    "s' = audited now ''api_key_created'' INFO Success (Some (i_userId args)) (Some keyId) None
        (snd (db_insert apiKeys_update now (newKey args) s))"
    by (simp_all add: activeKeysOfUser_def keyt.insert_id)
qed

text \<open>C16. An account never gets more than 25 active keys or 200 keys in all: whenever \<open>insertKey\<close> succeeds, the
  account has access, the new count is within both limits, exactly one key (active, with the given hash, scope
  and expiry) was added to it, and no other account's keys changed.\<close>

theorem key_limits:
  assumes "insertKey now args s = Inr (keyId, s')"
  shows "length (keysOfUser (i_userId args) s') \<le> 200 \<and> length (activeKeysOfUser (i_userId args) s') \<le> 25
    \<and> keysOfUser (i_userId args) s' = keysOfUser (i_userId args) s @ [Row keyId now (newKey args)]
    \<and> (\<forall>u. u \<noteq> i_userId args \<longrightarrow> keysOfUser u s' = keysOfUser u s)
    \<and> (\<exists>owner. tget (users s) (i_userId args) = Some owner \<and> hasKeyAccess (doc owner) now)"
  using insertKey_Inr [OF assms]
  by (auto simp: keysOfUser_def activeKeysOfUser_def keyt.insert_rows tselect_snoc newKey_def
      MAX_TOTAL_KEYS_PER_USER_def MAX_ACTIVE_KEYS_PER_USER_def)

definition sampleKeyArgs :: insertKeyArgs where
  "sampleKeyArgs = \<lparr>i_userId = 0, i_name = ''new'', i_keyPrefix = ''geo_wxyz'', i_keyHash = ''h9'',
     i_endpoints = [''route''], i_expiresAt = None\<rparr>"

theorem key_limits_witness:
  "\<exists>s'. insertKey sampleNow sampleKeyArgs sampleDb = Inr (8, s') \<and> length (keysOfUser 0 s') \<le> 200
    \<and> length (activeKeysOfUser 0 s') = 2 \<and> length (activeKeysOfUser 0 s') \<le> 25"
proof -
  have "(case insertKey sampleNow sampleKeyArgs sampleDb of
      Inr (k, s') \<Rightarrow> k = 8 \<and> length (activeKeysOfUser 0 s') = 2 | _ \<Rightarrow> False)" by code_simp
  then obtain s' where run: "insertKey sampleNow sampleKeyArgs sampleDb = Inr (8, s')"
    and n: "length (activeKeysOfUser 0 s') = 2"
    by (auto split: sum.splits prod.splits)
  have u: "i_userId sampleKeyArgs = 0" by (simp add: sampleKeyArgs_def)
  show ?thesis using key_limits [OF run, unfolded u] run n by auto
qed

section \<open>Creating and using\<close>

lemma create_Inr:
  assumes "create H now auth name endpoints expiresAt secret s = Inr (c, s')"
  obtains userId cleanName chosen expires pepper where
    "requireUserId now auth s = Inr userId" "cleanKeyName name = Inr cleanName"
    "cleanEndpoints (case endpoints of None \<Rightarrow> API_ENDPOINTS | Some es \<Rightarrow> es) = Inr chosen"
    "cleanExpiresAt expiresAt now = Inr expires" "requireEnv (h_env H) ''API_KEY_PEPPER'' = Inr pepper"
    "insertKey now \<lparr>i_userId = userId, i_name = cleanName, i_keyPrefix = keyPrefix secret,
         i_keyHash = hmacSha256Hex (h_hmac H) pepper secret, i_endpoints = chosen, i_expiresAt = expires\<rparr> s
       = Inr (cr_id c, s')"
    "cr_secret c = secret" "cr_maskedKey c = maskedKey (keyPrefix secret)"
proof -
  have v: "validated x = Inr y \<Longrightarrow> x = Inr y" for x :: "error + 'z" and y
    by (cases x rule: validated.cases) auto
  from assms show thesis
    by (auto simp: create_def mut_Inr intro: that dest!: v)
qed

lemma cleanEndpoints_Inr:
  assumes "cleanEndpoints es = Inr chosen"
  shows "chosen \<noteq> []" and "chosen = filter (\<lambda>e. e \<in> set es) API_ENDPOINTS"
    and "normalizeEndpoints chosen = chosen"
proof -
  show ne: "chosen \<noteq> []" and ch: "chosen = filter (\<lambda>e. e \<in> set es) API_ENDPOINTS"
    using assms by (auto simp: cleanEndpoints_def Let_def split: if_splits)
  have "(\<exists>e \<in> set chosen. normalizeEndpoint e = Some n) \<longleftrightarrow> n \<in> set chosen" if "n \<in> set API_ENDPOINTS" for n
    using that by (auto simp: ch normalizeEndpoint_def API_ENDPOINTS_def split: if_splits)
  then have "normalizeEndpoints chosen = filter (\<lambda>n. n \<in> set chosen) API_ENDPOINTS"
    unfolding normalizeEndpoints_filter by (auto intro!: filter_cong)
  also have "\<dots> = chosen" by (simp add: ch cong: filter_cong)
  finally show "normalizeEndpoints chosen = chosen" .
qed

lemma cleanExpiresAt_Inr:
  assumes "cleanExpiresAt expiresAt now = Inr (Some e)"
  shows "now + MIN_KEY_LIFETIME_MS \<le> e" and "e \<le> now + MAX_KEY_LIFETIME_MS"
proof -
  obtain x where x: "expiresAt = Some (Num x)" "of_int (now + MIN_KEY_LIFETIME_MS) \<le> x"
    "x \<le> of_int (now + MAX_KEY_LIFETIME_MS)" "e = \<lfloor>x\<rfloor>"
    using assms by (auto simp: cleanExpiresAt_def split: option.splits jsnum.splits if_splits)
  then show "now + MIN_KEY_LIFETIME_MS \<le> e" by (simp only: le_floor_iff)
  show "e \<le> now + MAX_KEY_LIFETIME_MS" using x(3) unfolding x(4) by (simp only: floor_le_iff)
qed


definition sampleSecret :: string where
  "sampleSecret = ''geo_AAAABBBBCCCCDDDDEEEEFFFFGGGGHHHH''"


section \<open>Revoking and regenerating\<close>

lemma tokens_after_delete:
  "playgroundTokens (db_delete_all playgroundTokens_update (tselect P (playgroundTokens s)) s)
     = filter (\<lambda>r. rid r \<notin> rid ` set (tselect P (playgroundTokens s))) (playgroundTokens s)"
  by (simp add: db_delete_all_def tdel_all_filter)

lemma deleted_tokens:
  assumes "r \<in> set (playgroundTokens (db_delete_all playgroundTokens_update
      (tselect (\<lambda>d. t_apiKeyId d = k) (playgroundTokens s)) s))"
  shows "r \<in> set (playgroundTokens s) \<and> t_apiKeyId (doc r) \<noteq> k"
  using assms by (auto simp: tokens_after_delete set_tselect)

lemma requireOwnedKey_Inr:
  "requireOwnedKey keyId userId s = Inr r \<longleftrightarrow> tget (apiKeys s) keyId = Some r \<and> k_userId (doc r) = userId"
  by (auto simp: requireOwnedKey_def split: option.splits)

text \<open>The database after \<open>revoke\<close>, before the audit entry.\<close>

definition revokedDb :: "int \<Rightarrow> apiKey row \<Rightarrow> db \<Rightarrow> db" where
  "revokedDb now r s =
     (let t = (if k_revokedAt (doc r) = None
               then db_patch apiKeys_update (rid r) (\<lambda>d. d\<lparr>k_revokedAt := Some now\<rparr>) s else s)
      in db_delete_all playgroundTokens_update
           (tselect (\<lambda>d. t_apiKeyId d = rid r) (playgroundTokens t)) t)"

lemma revoke_core:
  "mthen (revokeIfActive now r) (mthen (deletePlaygroundTokens (rid r)) m) s = m (revokedDb now r s)"
  by (simp add: revokeIfActive_def deletePlaygroundTokens_def revokedDb_def Let_def mthen_def mbind_def)

lemma revoke_Inr:
  assumes "revoke now auth keyId s = Inr (x, s')"
  shows "\<exists>userId r. requireUserId now auth s = Inr userId \<and> tget (apiKeys s) keyId = Some r
    \<and> k_userId (doc r) = userId
    \<and> s' = audited now ''api_key_revoked'' WARNING Success (Some userId) (Some keyId) None (revokedDb now r s)"
proof -
  from assms obtain userId r where u: "requireUserId now auth s = Inr userId"
    and r: "tget (apiKeys s) keyId = Some r" "k_userId (doc r) = userId"
    and run: "mthen (revokeIfActive now r) (mthen (deletePlaygroundTokens keyId)
       (writeAudit now ''api_key_revoked'' WARNING Success (Some userId) (Some keyId) None)) s = Inr (x, s')"
    by (auto simp: revoke_def mbind_eq_Inr reads_eq_Inr requireOwnedKey_Inr)
  have "rid r = keyId" using r(1) by (rule tget_rid)
  with run have "mthen (revokeIfActive now r) (mthen (deletePlaygroundTokens (rid r))
       (writeAudit now ''api_key_revoked'' WARNING Success (Some userId) (Some keyId) None)) s = Inr (x, s')"
    by simp
  then have "s' = audited now ''api_key_revoked'' WARNING Success (Some userId) (Some keyId) None (revokedDb now r s)"
    unfolding revoke_core writeAudit_eq by simp
  with u r show ?thesis by blast
qed

lemma wf_db_revokedDb: "wf_db s \<Longrightarrow> wf_db (revokedDb now r s)"
  by (simp add: revokedDb_def Let_def wf_db_delete_tokens wf_db_patch_keys)

lemma revokedDb_key:
  assumes "tget (apiKeys s) keyId = Some r"
  shows "\<exists>q. tget (apiKeys (revokedDb now r s)) keyId = Some q \<and> k_revokedAt (doc q) \<noteq> None
    \<and> k_keyHash (doc q) = k_keyHash (doc r)"
  using assms tget_rid [OF assms] by (auto simp: revokedDb_def Let_def db_delete_all_def db_patch_def tget_tpatch)

lemma revokedDb_tokens:
  "t \<in> set (playgroundTokens (revokedDb now r s)) \<Longrightarrow> t \<in> set (playgroundTokens s) \<and> t_apiKeyId (doc t) \<noteq> rid r"
  unfolding revokedDb_def Let_def by (drule deleted_tokens) (auto simp: db_patch_def split: if_splits)

text \<open>C17. Revoking a key takes effect at the gateway's next request: afterwards \<open>authorize\<close> refuses the key's hash as
  revoked and every playground token that was issued for it as invalid, at any time, for any endpoint and
  whatever the gateway sends.\<close>

theorem revoke_is_immediate:
  assumes "wf_db s" and "revoke now auth keyId s = Inr (x, s')" and "tget (apiKeys s) keyId = Some r"
  shows "(g_kind args = KeyCredential \<and> g_hash args = k_keyHash (doc r) \<longrightarrow>
      (\<exists>t. authorize H now' args s' = Inr (ARevoked, t)))
    \<and> (g_kind args = PlaygroundCredential \<and>
        (\<exists>tok \<in> set (playgroundTokens s). t_tokenHash (doc tok) = g_hash args \<and> t_apiKeyId (doc tok) = keyId) \<longrightarrow>
      (\<exists>t. authorize H now' args s' = Inr (AInvalid, t)))"
proof -
  obtain userId where s': "s' = audited now ''api_key_revoked'' WARNING Success (Some userId) (Some keyId) None (revokedDb now r s)"
    using revoke_Inr [OF assms(2)] assms(3) by auto
  have wf: "wf_db s'" unfolding s' by (rule wf_db_audited [OF wf_db_revokedDb [OF assms(1)]])
  have id: "rid r = keyId" using assms(3) by (rule tget_rid)
  obtain q where q: "tget (apiKeys (revokedDb now r s)) keyId = Some q" "k_revokedAt (doc q) \<noteq> None"
    "k_keyHash (doc q) = k_keyHash (doc r)" using revokedDb_key [OF assms(3)] by blast
  then have "q \<in> set (apiKeys s')" by (simp add: s' tget_Some)
  then have "g_kind args = KeyCredential \<and> g_hash args = k_keyHash (doc r) \<longrightarrow>
      (\<exists>t. authorize H now' args s' = Inr (ARevoked, t))"
    using authorize_revoked [of s' q args] wf q by (simp add: wf_db_def)
  moreover have "freshTokenHash (g_hash args) s'"
    if "tok \<in> set (playgroundTokens s)" "t_tokenHash (doc tok) = g_hash args" "t_apiKeyId (doc tok) = keyId" for tok
    unfolding freshTokenHash_def
  proof
    fix u
    assume "u \<in> set (playgroundTokens s')"
    then have u: "u \<in> set (playgroundTokens s)" "t_apiKeyId (doc u) \<noteq> keyId"
      using revokedDb_tokens [of u now r s] by (auto simp: s' id)
    have "inj_on (\<lambda>r. t_tokenHash (doc r)) (set (playgroundTokens s))"
      using assms(1) by (simp add: wf_db_def wf_hashes_def keyed_def distinct_map)
    with u that show "t_tokenHash (doc u) \<noteq> g_hash args" by (metis inj_onD)
  qed
  ultimately show ?thesis using authorize_unknown_token by blast
qed

theorem revoke_is_immediate_witness:
  "\<exists>s' t t'. revoke sampleNow sampleAuth 1 sampleDb = Inr ((), s')
    \<and> authorize sampleHost (sampleNow + 1) (keyArgs ''h1'' ''route'') s' = Inr (ARevoked, t)
    \<and> authorize sampleHost (sampleNow + 1) ((keyArgs ''t1'' ''route'')\<lparr>g_kind := PlaygroundCredential\<rparr>) s' = Inr (AInvalid, t')"
proof -
  have "(case revoke sampleNow sampleAuth 1 sampleDb of Inr x \<Rightarrow> True | _ \<Rightarrow> False)" by code_simp
  then obtain s' where run: "revoke sampleNow sampleAuth 1 sampleDb = Inr ((), s')" by (auto split: sum.splits)
  have k: "tget (apiKeys sampleDb) 1 = Some (Row 1 0 sampleKey)" by code_simp
  have tok: "\<exists>tok \<in> set (playgroundTokens sampleDb). t_tokenHash (doc tok) = ''t1'' \<and> t_apiKeyId (doc tok) = 1"
    by code_simp
  show ?thesis
    using revoke_is_immediate [OF sample_wf run k, of "keyArgs ''h1'' ''route''" sampleHost "sampleNow + 1"]
      revoke_is_immediate [OF sample_wf run k, of "(keyArgs ''t1'' ''route'')\<lparr>g_kind := PlaygroundCredential\<rparr>" sampleHost "sampleNow + 1"]
      run tok by (auto simp: keyArgs_def sampleKey_def)
qed

lemma replaceSecret_Inr:
  assumes "replaceSecret now keyId userId pre h s = Inr (x, s')"
  shows "\<exists>r. tget (apiKeys s) keyId = Some r \<and> k_userId (doc r) = userId \<and> k_revokedAt (doc r) = None
    \<and> (\<forall>e. k_expiresAt (doc r) = Some e \<longrightarrow> now < e)
    \<and> (\<exists>owner. tget (users s) userId = Some owner \<and> hasKeyAccess (doc owner) now)
    \<and> s' = audited now ''api_key_rotated'' WARNING Success (Some userId) (Some keyId) None
        (let t = db_patch apiKeys_update keyId (\<lambda>d. d\<lparr>k_keyPrefix := pre, k_keyHash := h\<rparr>) s
         in db_delete_all playgroundTokens_update (tselect (\<lambda>d. t_apiKeyId d = keyId) (playgroundTokens t)) t)"
proof -
  from assms obtain r where r: "tget (apiKeys s) keyId = Some r" "k_userId (doc r) = userId"
    and acc: "\<exists>owner. tget (users s) userId = Some owner \<and> hasKeyAccess (doc owner) now"
    and rest: "(if k_revokedAt (doc r) \<noteq> None then throw (ConvexError ''A revoked key cannot be regenerated.'')
       else if (case k_expiresAt (doc r) of Some e \<Rightarrow> e \<le> now | None \<Rightarrow> False)
       then throw (ConvexError ''This key has expired. Create a new key instead.'')
       else mthen (modify (db_patch apiKeys_update keyId (\<lambda>d. d\<lparr>k_keyPrefix := pre, k_keyHash := h\<rparr>)))
         (mthen (deletePlaygroundTokens keyId)
           (writeAudit now ''api_key_rotated'' WARNING Success (Some userId) (Some keyId) None))) s = Inr (x, s')"
    by (auto simp: replaceSecret_def mbind_eq_Inr mthen_eq_Inr reads_eq_Inr requireOwnedKey_Inr requireAccess_Inr)
  from rest have "k_revokedAt (doc r) = None" "\<forall>e. k_expiresAt (doc r) = Some e \<longrightarrow> now < e"
    by (auto split: if_splits option.splits)
  moreover from rest this have "s' = audited now ''api_key_rotated'' WARNING Success (Some userId) (Some keyId) None
        (let t = db_patch apiKeys_update keyId (\<lambda>d. d\<lparr>k_keyPrefix := pre, k_keyHash := h\<rparr>) s
         in db_delete_all playgroundTokens_update (tselect (\<lambda>d. t_apiKeyId d = keyId) (playgroundTokens t)) t)"
    by (auto simp: mthen_def mbind_def deletePlaygroundTokens_def writeAudit_eq Let_def split: if_splits option.splits)
  ultimately show ?thesis using r acc by blast
qed



section \<open>Playground tokens\<close>

definition tokensOfKey :: "nat \<Rightarrow> db \<Rightarrow> playgroundToken row list" where
  "tokensOfKey k s = tselect (\<lambda>d. t_apiKeyId d = k) (playgroundTokens s)"

lemma filter_not_in_length:
  assumes "distinct xs" and "set ys \<subseteq> set xs" and "distinct ys"
  shows "length (filter (\<lambda>x. x \<notin> set ys) xs) = length xs - length ys"
proof -
  have "set (filter (\<lambda>x. x \<notin> set ys) xs) = set xs - set ys" by auto
  then have "length (filter (\<lambda>x. x \<notin> set ys) xs) = card (set xs - set ys)"
    using assms(1) by (metis distinct_card distinct_filter)
  also have "\<dots> = length xs - length ys"
    using assms by (simp add: card_Diff_subset distinct_card)
  finally show ?thesis .
qed

text \<open>A key never has more than five playground tokens: inserting one first deletes the ones that expire
  first, so that at most five remain, the new one among them, and no token of another key is deleted.\<close>

theorem playground_token_bound:
  assumes "wf_db s" and "insertPlaygroundToken now tok s = Inr (x, s')"
  shows "length (tokensOfKey (t_apiKeyId tok) s') \<le> 5
    \<and> Row (nextId s) now tok \<in> set (tokensOfKey (t_apiKeyId tok) s')
    \<and> (\<forall>k. k \<noteq> t_apiKeyId tok \<longrightarrow> tokensOfKey k s' = tokensOfKey k s)"
proof -
  let ?k = "t_apiKeyId tok"
  let ?old = "sort_key (\<lambda>r. t_expiresAt (doc r)) (tokensOfKey ?k s)"
  let ?gone = "take (length ?old - 4) ?old"
  have "s' = snd (db_insert playgroundTokens_update now tok (db_delete_all playgroundTokens_update ?gone s))"
    using assms(2) by (auto simp: insertPlaygroundToken_def mthen_eq_Inr requireAccess_Inr Let_def tokensOfKey_def
        MAX_PLAYGROUND_TOKENS_PER_KEY_def)
  then have toks: "playgroundTokens s' = filter (\<lambda>r. rid r \<notin> rid ` set ?gone) (playgroundTokens s) @ [Row (nextId s) now tok]"
    by (simp add: tokt.insert_rows) (simp add: db_delete_all_def tdel_all_filter)
  have wf: "wf_table (nextId s) (playgroundTokens s)" using assms(1) by (simp add: wf_db_def wf_ids_def)
  have sub: "set ?gone \<subseteq> set (tokensOfKey ?k s)" by (metis set_sort set_take_subset)
  have inj: "x \<in> set (playgroundTokens s) \<Longrightarrow> y \<in> set (playgroundTokens s) \<Longrightarrow> rid x = rid y \<Longrightarrow> x = y" for x y
    using wf by (metis option.inject tget_in)
  have subT: "set (tokensOfKey j s) \<subseteq> set (playgroundTokens s)" for j by (auto simp: tokensOfKey_def set_tselect)
  have gone: "rid r \<in> rid ` set ?gone \<longleftrightarrow> r \<in> set ?gone" if "r \<in> set (playgroundTokens s)" for r
    using that inj sub subT by blast
  have split: "tokensOfKey j s' = filter (\<lambda>r. r \<notin> set ?gone) (tokensOfKey j s) @ (if ?k = j then [Row (nextId s) now tok] else [])" for j
    using gone by (auto simp: tokensOfKey_def toks tselect_def intro!: filter_cong)
  have dist: "distinct (tokensOfKey ?k s)"
    using wf by (auto simp: tokensOfKey_def tselect_def wf_table_def distinct_map intro: distinct_filter)
  then have "distinct ?gone" by (simp add: distinct_take)
  then have "length (filter (\<lambda>r. r \<notin> set ?gone) (tokensOfKey ?k s)) = length (tokensOfKey ?k s) - length ?gone"
    by (rule filter_not_in_length [OF dist sub])
  also have "\<dots> \<le> 4" by simp
  finally have "length (filter (\<lambda>r. r \<notin> set ?gone) (tokensOfKey ?k s)) \<le> 4" .
  then have "length (tokensOfKey ?k s') \<le> 5" unfolding split by simp
  moreover have "Row (nextId s) now tok \<in> set (tokensOfKey ?k s')" unfolding split by simp
  moreover have "tokensOfKey j s' = tokensOfKey j s" if "j \<noteq> ?k" for j
  proof -
    have "r \<notin> set ?gone" if "r \<in> set (tokensOfKey j s)" for r
      using that \<open>j \<noteq> ?k\<close> sub by (auto simp: tokensOfKey_def set_tselect)
    then have "filter (\<lambda>r. r \<notin> set ?gone) (tokensOfKey j s) = tokensOfKey j s"
      by (simp only: filter_id_conv) blast
    then show ?thesis unfolding split using that by simp
  qed
  ultimately show ?thesis by blast
qed

theorem playground_token_bound_witness:
  "\<exists>s'. insertPlaygroundToken sampleNow (sampleToken\<lparr>t_tokenHash := ''t2''\<rparr>) sampleDb = Inr ((), s')
    \<and> length (tokensOfKey 1 s') \<le> 5"
proof -
  have "(case insertPlaygroundToken sampleNow (sampleToken\<lparr>t_tokenHash := ''t2''\<rparr>) sampleDb of
      Inr x \<Rightarrow> True | _ \<Rightarrow> False)" by code_simp
  then obtain s' where run: "insertPlaygroundToken sampleNow (sampleToken\<lparr>t_tokenHash := ''t2''\<rparr>) sampleDb = Inr ((), s')"
    by (auto split: sum.splits)
  from playground_token_bound [OF sample_wf this] run show ?thesis by (auto simp: sampleToken_def)
qed

end
