(* ===== verification/UsageRecord.thy ===== *)
theory UsageRecord
  imports RateLimit "HOL-Library.AList"
begin

text \<open>
  \<open>recordUsage\<close> of \<open>gateway.ts\<close>: the batch of request records the gateway reports. A record is dropped
  unless it is plausible and its key belongs to the user it names (\<open>acceptEntry\<close>); accepted records are
  stored one by one (\<open>recordEntry\<close>) and folded into per-day rollups, which are then merged into
  \<open>usageDaily\<close> (\<open>mergeRollup\<close>). A JavaScript \<open>Map\<close> that is iterated is an association list in
  insertion order (\<open>AList.update\<close> is \<open>Map.set\<close>). The numbers of a rollup form a commutative monoid, so
  the daily table is one more counter.
\<close>

record usageEntry =
  e_keyId :: string
  e_userId :: string
  e_endpoint :: string
  e_method :: string
  e_statusCode :: jsnum
  e_responseTimeMs :: jsnum
  e_timestamp :: jsnum

definition FAILED_STATUS_FROM :: int where
  "FAILED_STATUS_FROM = 400"

definition MAX_USAGE_ENTRIES :: nat where
  "MAX_USAGE_ENTRIES = 200"

definition ENDPOINT_PATHS :: "string list" where
  "ENDPOINT_PATHS = map (\<lambda>e. ''/v1/'' @ e) API_ENDPOINTS"

definition METHODS :: "string list" where
  "METHODS = [''GET'', ''HEAD'']"

definition MAX_RECORD_AGE_MS :: int where
  "MAX_RECORD_AGE_MS = 24 * 60 * MINUTE_MS"

definition MAX_CLOCK_SKEW_MS :: int where
  "MAX_CLOCK_SKEW_MS = 5 * MINUTE_MS"

definition MAX_RESPONSE_TIME_MS :: int where
  "MAX_RESPONSE_TIME_MS = 10 * MINUTE_MS"

lemmas usage_consts [const_defs] = FAILED_STATUS_FROM_def MAX_USAGE_ENTRIES_def MAX_RECORD_AGE_MS_def
  MAX_CLOCK_SKEW_MS_def MAX_RESPONSE_TIME_MS_def

text \<open>\<open>new Date(t)\<close> truncates a fractional time.\<close>

definition js_trunc :: "rat \<Rightarrow> int" where
  "js_trunc r = (if 0 \<le> r then \<lfloor>r\<rfloor> else \<lceil>r\<rceil>)"

section \<open>Counts\<close>

datatype counts = Counts (total: int) (successful: int) (failed: int) (responseTime: int)

instantiation counts :: comm_monoid_add
begin

definition zero_counts :: counts where
  "zero_counts = Counts 0 0 0 0"

fun plus_counts :: "counts \<Rightarrow> counts \<Rightarrow> counts" where
  "plus_counts (Counts a b c d) (Counts a' b' c' d') = Counts (a + a') (b + b') (c + c') (d + d')"

instance
proof
  fix x y z :: counts
  show "x + y + z = x + (y + z)" by (cases x; cases y; cases z) simp
  show "x + y = y + x" by (cases x; cases y) simp
  show "0 + x = x" by (cases x) (simp add: zero_counts_def)
qed

end

lemma counts_sel [simp]:
  "total (x + y) = total x + total y" "successful (x + y) = successful x + successful y"
  "failed (x + y) = failed x + failed y" "responseTime (x + y) = responseTime x + responseTime y"
  "total 0 = 0" "successful 0 = 0" "failed 0 = 0" "responseTime 0 = 0"
  by (cases x; cases y; simp add: zero_counts_def)+

definition countsOf :: "usageDay \<Rightarrow> counts" where
  "countsOf d = Counts (d_total d) (d_successful d) (d_failed d) (d_totalResponseTimeMs d)"

definition mkDay :: "nat \<Rightarrow> nat \<times> string \<times> string \<Rightarrow> counts \<Rightarrow> usageDay" where
  "mkDay u k c = \<lparr>d_userId = u, d_apiKeyId = fst k, d_endpoint = fst (snd k), d_day = snd (snd k),
     d_total = total c, d_successful = successful c, d_failed = failed c, d_totalResponseTimeMs = responseTime c\<rparr>"

definition setDay :: "counts \<Rightarrow> usageDay \<Rightarrow> usageDay" where
  "setDay c d = d\<lparr>d_total := total c, d_successful := successful c, d_failed := failed c,
     d_totalResponseTimeMs := responseTime c\<rparr>"

interpretation dct: counter_table dkey countsOf "mkDay u" setDay for u
  by unfold_locales (auto simp: dkey_def mkDay_def setDay_def countsOf_def)

definition dayView :: "db \<Rightarrow> nat \<times> string \<times> string \<Rightarrow> counts" where
  "dayView s = tally dkey countsOf (usageDaily s)"

section \<open>recordUsage\<close>

text \<open>The row an entry is stored as, or \<open>None\<close> when it is dropped.\<close>

definition acceptEntry :: "host \<Rightarrow> int \<Rightarrow> apiKey row option \<Rightarrow> usageEntry \<Rightarrow> apiRequest option" where
  "acceptEntry H now found entry =
     (case found of
        None \<Rightarrow> None
      | Some key \<Rightarrow>
          if h_showId H (k_userId (doc key)) \<noteq> e_userId entry then None
          else if e_endpoint entry \<notin> set ENDPOINT_PATHS \<or> e_method entry \<notin> set METHODS then None
          else (case (e_statusCode entry, e_timestamp entry) of
              (Num status, Num time) \<Rightarrow>
                if \<not> isInteger (Num status) \<or> status < 100 \<or> 599 < status then None
                else if time < of_int (now - MAX_RECORD_AGE_MS) \<or> of_int (now + MAX_CLOCK_SKEW_MS) < time then None
                else Some \<lparr>q_apiKeyId = rid key, q_userId = k_userId (doc key), q_endpoint = e_endpoint entry,
                  q_method = e_method entry, q_statusCode = \<lfloor>status\<rfloor>,
                  q_responseTimeMs = (case e_responseTimeMs entry of
                      Num t \<Rightarrow> min MAX_RESPONSE_TIME_MS (max 0 (js_round t)) | _ \<Rightarrow> 0),
                  q_timestamp = min time (of_int now)\<rparr>
            | _ \<Rightarrow> None))"

definition rowDay :: "apiRequest \<Rightarrow> nat \<times> string \<times> string" where
  "rowDay q = (q_apiKeyId q, q_endpoint q, utcDay (js_trunc (q_timestamp q)))"

definition rowCounts :: "apiRequest \<Rightarrow> counts" where
  "rowCounts q =
     (if FAILED_STATUS_FROM \<le> q_statusCode q then Counts 1 0 1 (q_responseTimeMs q)
      else Counts 1 1 0 (q_responseTimeMs q))"

definition rollupId :: "host \<Rightarrow> nat \<times> string \<times> string \<Rightarrow> string" where
  "rollupId H k = h_showId H (fst k) @ ''|'' @ fst (snd k) @ ''|'' @ snd (snd k)"

text \<open>The local variables of the loop: \<open>keys\<close>, \<open>lastUsed\<close>, \<open>rollups\<close>, \<open>written\<close>.\<close>

record usageLoop =
  l_keys :: "string \<Rightarrow> apiKey row option option"
  l_lastUsed :: "(nat \<times> rat) list"
  l_rollups :: "(string \<times> usageDay) list"
  l_written :: int

definition lookupKey :: "host \<Rightarrow> db \<Rightarrow> string \<Rightarrow> apiKey row option" where
  "lookupKey H s keyId = (case h_normalizeKeyId H keyId of None \<Rightarrow> None | Some i \<Rightarrow> tget (apiKeys s) i)"

definition addRollup :: "host \<Rightarrow> apiRequest \<Rightarrow> (string \<times> usageDay) list \<Rightarrow> (string \<times> usageDay) list" where
  "addRollup H q rollups =
     (let i = rollupId H (rowDay q);
          rollup = (case map_of rollups i of Some r \<Rightarrow> r | None \<Rightarrow> mkDay (q_userId q) (rowDay q) 0)
      in AList.update i (setDay (countsOf rollup + rowCounts q) rollup) rollups)"

definition addLastUsed :: "apiRequest \<Rightarrow> (nat \<times> rat) list \<Rightarrow> (nat \<times> rat) list" where
  "addLastUsed q lastUsed =
     AList.update (q_apiKeyId q)
       (max (case map_of lastUsed (q_apiKeyId q) of Some t \<Rightarrow> t | None \<Rightarrow> 0) (q_timestamp q)) lastUsed"

definition recordEntry :: "host \<Rightarrow> int \<Rightarrow> usageEntry \<Rightarrow> usageLoop \<Rightarrow> (db, usageLoop) mut" where
  "recordEntry H now entry acc s =
     (let keys = (if l_keys acc (e_keyId entry) = None
                  then (l_keys acc)(e_keyId entry \<mapsto> lookupKey H s (e_keyId entry)) else l_keys acc);
          key = (case keys (e_keyId entry) of None \<Rightarrow> None | Some k \<Rightarrow> k)
      in case acceptEntry H now key entry of
           None \<Rightarrow> Inr (acc\<lparr>l_keys := keys\<rparr>, s)
         | Some q \<Rightarrow>
             Inr (\<lparr>l_keys = keys, l_lastUsed = addLastUsed q (l_lastUsed acc),
                   l_rollups = addRollup H q (l_rollups acc), l_written = l_written acc + 1\<rparr>,
                  snd (db_insert apiRequests_update now q s)))"

text \<open>One row of \<open>usageDaily\<close>: add to the existing row or insert the rollup.\<close>

definition mergeRollup :: "int \<Rightarrow> usageDay \<Rightarrow> (db, unit) mut" where
  "mergeRollup now r s =
     (case upsert dkey countsOf (mkDay (d_userId r)) setDay now (dkey r) (countsOf r) (nextId s, usageDaily s) of
        Inl e \<Rightarrow> Inl e
      | Inr (c, n', t') \<Rightarrow> Inr ((), s\<lparr>nextId := n', usageDaily := t'\<rparr>))"

definition touchKey :: "host \<Rightarrow> (string \<Rightarrow> apiKey row option option) \<Rightarrow> nat \<times> rat \<Rightarrow> (db, unit) mut" where
  "touchKey H keys used = modify (\<lambda>s.
     (case keys (h_showId H (fst used)) of
        Some (Some key) \<Rightarrow>
          if (case k_lastUsedAt (doc key) of Some t \<Rightarrow> t | None \<Rightarrow> 0) < snd used
          then db_patch apiKeys_update (fst used) (\<lambda>d. d\<lparr>k_lastUsedAt := Some (snd used)\<rparr>) s
          else s
      | _ \<Rightarrow> s))"

record usageReport =
  ur_written :: int
  ur_dropped :: int

definition emptyLoop :: usageLoop where
  "emptyLoop = \<lparr>l_keys = (\<lambda>x. None), l_lastUsed = [], l_rollups = [], l_written = 0\<rparr>"

definition recordUsage :: "host \<Rightarrow> int \<Rightarrow> usageEntry list \<Rightarrow> (db, usageReport) mut" where
  "recordUsage H now entries =
     mbind (foldM (recordEntry H now) (take MAX_USAGE_ENTRIES entries) emptyLoop) (\<lambda>acc.
     mthen (mapM (\<lambda>r. mergeRollup now (snd r)) (l_rollups acc))
    (mthen (mapM (touchKey H (l_keys acc)) (l_lastUsed acc))
       (ret \<lparr>ur_written = l_written acc, ur_dropped = int (length entries) - l_written acc\<rparr>)))"

end
