(* ===== verification/UsageLedger.thy ===== *)
theory UsageLedger
  imports UsageRecord Samples
begin

text \<open>
  What \<open>recordUsage\<close> guarantees: it never throws, stores exactly the accepted records, each under the owner
  of its key, and adds to the daily table exactly their aggregation (\<open>recordUsage_spec\<close>). \<open>rowsView\<close> is
  that aggregation, computed from the stored rows alone.
\<close>

lemma append_sep_inj:
  "c \<notin> set a \<Longrightarrow> c \<notin> set b \<Longrightarrow> a @ c # x = b @ c # y \<longleftrightarrow> a = b \<and> x = y"
proof (induction a arbitrary: b)
  case Nil
  then show ?case by (cases b) auto
next
  case (Cons d a)
  then show ?case by (cases b) auto
qed

lemma rollupId_inj:
  assumes "idLaws H" and "CHR ''|'' \<notin> set (fst (snd k))" and "CHR ''|'' \<notin> set (fst (snd k'))"
  shows "rollupId H k = rollupId H k' \<longleftrightarrow> k = k'"
proof -
  have "CHR ''|'' \<notin> set (h_showId H (fst k))" "CHR ''|'' \<notin> set (h_showId H (fst k'))"
    using assms(1) by (auto simp: idLaws_def)
  then show ?thesis
    using assms by (auto simp: rollupId_def append_sep_inj showId_inj prod_eq_iff)
qed

section \<open>Aggregation\<close>

definition rowsView :: "apiRequest row list \<Rightarrow> nat \<times> string \<times> string \<Rightarrow> counts" where
  "rowsView rows k = sum_list (map (\<lambda>r. if rowDay (doc r) = k then rowCounts (doc r) else 0) rows)"

definition rollView :: "(string \<times> usageDay) list \<Rightarrow> nat \<times> string \<times> string \<Rightarrow> counts" where
  "rollView rollups k = sum_list (map (\<lambda>(i, r). if dkey r = k then countsOf r else 0) rollups)"

lemma rowsView_snoc: "rowsView (rows @ [Row n now q]) k = rowsView rows k + (if rowDay q = k then rowCounts q else 0)"
  by (simp add: rowsView_def)

lemma update_fresh: "map_of al i = None \<Longrightarrow> AList.update i v al = al @ [(i, v)]"
  by (induction al) (auto split: if_splits)

lemma sum_update:
  fixes f :: "'a \<times> 'b \<Rightarrow> 'c::comm_monoid_add"
  assumes "map_of al i = Some old" and "f (i, v) = f (i, old) + c"
  shows "sum_list (map f (AList.update i v al)) = sum_list (map f al) + c"
  using assms by (induction al) (auto simp: algebra_simps)

definition rollupsOk :: "host \<Rightarrow> (string \<times> usageDay) list \<Rightarrow> bool" where
  "rollupsOk H rollups \<longleftrightarrow> (\<forall>(i, r) \<in> set rollups. i = rollupId H (dkey r) \<and> CHR ''|'' \<notin> set (d_endpoint r))"

lemma dkey_mkDay [simp]: "dkey (mkDay u k c) = k"
  by (rule dct.key_mk)

lemma countsOf_mkDay [simp]: "countsOf (mkDay u k c) = c"
  by (rule dct.cnt_mk)

lemma dkey_setDay [simp]: "dkey (setDay c d) = dkey d"
  by (rule dct.key_setc)

lemma countsOf_setDay [simp]: "countsOf (setDay c d) = c"
  by (rule dct.cnt_setc)

lemma endpoint_mkDay [simp]: "d_endpoint (mkDay u k c) = fst (snd k)" "d_endpoint (setDay c d) = d_endpoint d"
  by (simp_all add: mkDay_def setDay_def)

lemma addRollup_spec:
  assumes "idLaws H" and "rollupsOk H rollups" and "CHR ''|'' \<notin> set (q_endpoint q)"
  shows "rollupsOk H (addRollup H q rollups)"
    and "rollView (addRollup H q rollups) k = rollView rollups k + (if rowDay q = k then rowCounts q else 0)"
proof -
  let ?i = "rollupId H (rowDay q)"
  show "rollupsOk H (addRollup H q rollups)"
  proof (cases "map_of rollups ?i")
    case None
    then show ?thesis using assms by (auto simp: addRollup_def update_fresh rollupsOk_def rowDay_def)
  next
    case (Some r)
    then have "(?i, r) \<in> set rollups" by (rule map_of_SomeD)
    then have r: "?i = rollupId H (dkey r)" "CHR ''|'' \<notin> set (d_endpoint r)" using assms(2) by (auto simp: rollupsOk_def)
    have sub: "set (AList.update ?i v rollups) \<subseteq> insert (?i, v) (set rollups)" for v
      by (induction rollups) auto
    have "rollupsOk H (AList.update ?i v rollups)" if v: "dkey v = dkey r" "d_endpoint v = d_endpoint r" for v
      unfolding rollupsOk_def
    proof (rule ballI)
      fix p
      assume "p \<in> set (AList.update ?i v rollups)"
      then have "p = (?i, v) \<or> p \<in> set rollups" using sub by blast
      then show "case p of (i, r) \<Rightarrow> i = rollupId H (dkey r) \<and> CHR ''|'' \<notin> set (d_endpoint r)"
        using assms(2) r v by (auto simp: rollupsOk_def)
    qed
    then show ?thesis by (simp add: addRollup_def Some Let_def)
  qed
  show "rollView (addRollup H q rollups) k = rollView rollups k + (if rowDay q = k then rowCounts q else 0)"
  proof (cases "map_of rollups ?i")
    case None
    then show ?thesis by (simp add: addRollup_def rollView_def update_fresh)
  next
    case (Some r)
    then have "(?i, r) \<in> set rollups" by (rule map_of_SomeD)
    then have "?i = rollupId H (dkey r)" "CHR ''|'' \<notin> set (d_endpoint r)" using assms(2) by (auto simp: rollupsOk_def)
    then have key: "dkey r = rowDay q"
      using rollupId_inj [OF assms(1), of "rowDay q" "dkey r"] assms(3) by (simp add: rowDay_def dkey_def)
    show ?thesis
      unfolding rollView_def addRollup_def Let_def Some option.case
      by (rule sum_update [OF Some]) (simp add: key)
  qed
qed

section \<open>The loop\<close>

text \<open>A stored row belongs to the owner of its key.\<close>

definition ownedBy :: "db \<Rightarrow> nat \<Rightarrow> nat \<Rightarrow> bool" where
  "ownedBy s keyId userId \<longleftrightarrow> (\<exists>key \<in> set (apiKeys s). rid key = keyId \<and> k_userId (doc key) = userId)"

definition plausible :: "int \<Rightarrow> apiRequest \<Rightarrow> bool" where
  "plausible now q \<longleftrightarrow> q_endpoint q \<in> set ENDPOINT_PATHS \<and> q_method q \<in> set METHODS
     \<and> 100 \<le> q_statusCode q \<and> q_statusCode q \<le> 599
     \<and> 0 \<le> q_responseTimeMs q \<and> q_responseTimeMs q \<le> MAX_RESPONSE_TIME_MS
     \<and> of_int (now - MAX_RECORD_AGE_MS) \<le> q_timestamp q \<and> q_timestamp q \<le> of_int now"

lemma acceptEntry_Some:
  assumes "acceptEntry H now found entry = Some q"
  shows "plausible now q \<and> (\<exists>key. found = Some key \<and> rid key = q_apiKeyId q \<and> k_userId (doc key) = q_userId q
    \<and> h_showId H (q_userId q) = e_userId entry)"
proof -
  obtain key where f: "found = Some key" using assms by (auto simp: acceptEntry_def split: option.splits)
  obtain status time where n: "e_statusCode entry = Num status" "e_timestamp entry = Num time"
    using assms f by (auto simp: acceptEntry_def split: if_splits jsnum.splits)
  have t: "of_int (now - MAX_RECORD_AGE_MS) \<le> time" "of_int \<lfloor>status\<rfloor> = status" "100 \<le> status" "status \<le> 599"
    "e_endpoint entry \<in> set ENDPOINT_PATHS" "e_method entry \<in> set METHODS"
    "h_showId H (k_userId (doc key)) = e_userId entry"
    "q = \<lparr>q_apiKeyId = rid key, q_userId = k_userId (doc key), q_endpoint = e_endpoint entry,
       q_method = e_method entry, q_statusCode = \<lfloor>status\<rfloor>,
       q_responseTimeMs = (case e_responseTimeMs entry of
           Num t \<Rightarrow> min MAX_RESPONSE_TIME_MS (max 0 (js_round t)) | _ \<Rightarrow> 0),
       q_timestamp = min time (of_int now)\<rparr>"
    using assms f n by (auto simp: acceptEntry_def split: if_splits)
  have "of_int 100 \<le> status" "status < of_int 600" using t by auto
  then have "100 \<le> \<lfloor>status\<rfloor>" "\<lfloor>status\<rfloor> \<le> 599" by (auto simp only: le_floor_iff floor_less_iff) linarith
  moreover have "of_int (now - MAX_RECORD_AGE_MS) \<le> (of_int now :: rat)"
    by (simp add: usage_consts MINUTE_MS_def)
  ultimately show ?thesis
    using t f by (auto simp: plausible_def usage_consts MINUTE_MS_def split: jsnum.split)
qed

lemma endpoint_no_bar: "e \<in> set ENDPOINT_PATHS \<Longrightarrow> CHR ''|'' \<notin> set e"
  by (auto simp: ENDPOINT_PATHS_def API_ENDPOINTS_def)

definition loopInv :: "host \<Rightarrow> int \<Rightarrow> db \<Rightarrow> usageLoop \<Rightarrow> db \<Rightarrow> bool" where
  "loopInv H now s0 acc s \<longleftrightarrow> (\<exists>R n. s = s0\<lparr>nextId := n, apiRequests := apiRequests s0 @ R\<rparr>
     \<and> wf_ids s \<and> l_written acc = int (length R)
     \<and> (\<forall>x k. l_keys acc x = Some k \<longrightarrow> k = lookupKey H s0 x)
     \<and> rollupsOk H (l_rollups acc) \<and> rollView (l_rollups acc) = rowsView R
     \<and> (\<forall>r \<in> set R. plausible now (doc r) \<and> ownedBy s0 (q_apiKeyId (doc r)) (q_userId (doc r))))"

lemma wf_ids_insert_request:
  "wf_ids s \<Longrightarrow> wf_ids (s\<lparr>nextId := Suc (nextId s), apiRequests := apiRequests s @ [Row (nextId s) now q]\<rparr>)"
  by (auto simp: wf_ids_def wf_snoc intro: wf_table_mono)

lemma lookupKey_requests [simp]: "lookupKey H (s\<lparr>nextId := n, apiRequests := t\<rparr>) x = lookupKey H s x"
  by (simp add: lookupKey_def split: option.split)

lemma recordEntry_inv:
  assumes "idLaws H" and "loopInv H now s0 acc s"
  shows "\<exists>acc' s'. recordEntry H now entry acc s = Inr (acc', s') \<and> loopInv H now s0 acc' s'"
proof -
  obtain R n where s: "s = s0\<lparr>nextId := n, apiRequests := apiRequests s0 @ R\<rparr>" and wf: "wf_ids s"
    and w: "l_written acc = int (length R)"
    and k: "\<forall>x k. l_keys acc x = Some k \<longrightarrow> k = lookupKey H s0 x"
    and r: "rollupsOk H (l_rollups acc)" "rollView (l_rollups acc) = rowsView R"
    and R: "\<forall>r \<in> set R. plausible now (doc r) \<and> ownedBy s0 (q_apiKeyId (doc r)) (q_userId (doc r))"
    using assms(2) unfolding loopInv_def by blast
  let ?keys = "if l_keys acc (e_keyId entry) = None
      then (l_keys acc)(e_keyId entry \<mapsto> lookupKey H s (e_keyId entry)) else l_keys acc"
  have keys: "\<forall>x k. ?keys x = Some k \<longrightarrow> k = lookupKey H s0 x" using k by (auto simp: s)
  have found: "(case ?keys (e_keyId entry) of None \<Rightarrow> None | Some k \<Rightarrow> k) = lookupKey H s0 (e_keyId entry)"
  proof (cases "l_keys acc (e_keyId entry)")
    case None
    then show ?thesis by (simp add: s)
  next
    case (Some found)
    with k have "found = lookupKey H s0 (e_keyId entry)" by blast
    with Some show ?thesis by simp
  qed
  show ?thesis
  proof (cases "acceptEntry H now (lookupKey H s0 (e_keyId entry)) entry")
    case None
    then have "recordEntry H now entry acc s = Inr (acc\<lparr>l_keys := ?keys\<rparr>, s)"
      unfolding recordEntry_def Let_def found by simp
    moreover have "loopInv H now s0 (acc\<lparr>l_keys := ?keys\<rparr>) s"
      unfolding loopInv_def using s wf w keys r R by (intro exI [of _ R] exI [of _ n]) simp
    ultimately show ?thesis by blast
  next
    case (Some q)
    let ?s' = "s\<lparr>nextId := Suc (nextId s), apiRequests := apiRequests s @ [Row (nextId s) now q]\<rparr>"
    let ?acc = "\<lparr>l_keys = ?keys, l_lastUsed = addLastUsed q (l_lastUsed acc),
                   l_rollups = addRollup H q (l_rollups acc), l_written = l_written acc + 1\<rparr>"
    have run: "recordEntry H now entry acc s = Inr (?acc, ?s')"
      unfolding recordEntry_def Let_def found Some option.case by (simp add: db_insert_def)
    from acceptEntry_Some [OF Some] obtain key where q: "plausible now q"
      and key: "lookupKey H s0 (e_keyId entry) = Some key" "rid key = q_apiKeyId q" "k_userId (doc key) = q_userId q"
      by blast
    have own: "ownedBy s0 (q_apiKeyId q) (q_userId q)"
      using key by (auto simp: ownedBy_def lookupKey_def split: option.splits dest!: tget_Some)
    have bar: "CHR ''|'' \<notin> set (q_endpoint q)" using q endpoint_no_bar by (simp add: plausible_def)
    note roll = addRollup_spec [OF assms(1) r(1) bar]
    have "rollView (addRollup H q (l_rollups acc)) = rowsView (R @ [Row (nextId s) now q])"
      by (rule ext) (simp add: roll(2) r(2) rowsView_snoc)
    then have "loopInv H now s0 ?acc ?s'"
      unfolding loopInv_def using s wf_ids_insert_request [OF wf] w keys roll(1) R q own
      by (intro exI [of _ "R @ [Row (nextId s) now q]"] exI [of _ "Suc (nextId s)"]) simp
    with run show ?thesis by blast
  qed
qed

section \<open>The daily table\<close>

definition daysOnly :: "db \<Rightarrow> db \<Rightarrow> bool" where
  "daysOnly s s' \<longleftrightarrow> (\<exists>n t. nextId s \<le> n \<and> s' = s\<lparr>nextId := n, usageDaily := t\<rparr>)"

lemma daysOnly_refl [simp]: "daysOnly s s"
  unfolding daysOnly_def by (rule exI [of _ "nextId s"], rule exI [of _ "usageDaily s"]) simp

lemma daysOnly_trans: "daysOnly s t \<Longrightarrow> daysOnly t u \<Longrightarrow> daysOnly s u"
proof -
  assume "daysOnly s t" and "daysOnly t u"
  then obtain n v m w where "nextId s \<le> n" "t = s\<lparr>nextId := n, usageDaily := v\<rparr>"
    "nextId t \<le> m" "u = t\<lparr>nextId := m, usageDaily := w\<rparr>"
    unfolding daysOnly_def by blast
  then have "nextId s \<le> m" "u = s\<lparr>nextId := m, usageDaily := w\<rparr>" by simp_all
  then show ?thesis unfolding daysOnly_def by blast
qed

lemma mergeRollup_spec:
  assumes "wf_ids s" and "wf_rollups s"
  shows "\<exists>s'. mergeRollup now r s = Inr ((), s') \<and> daysOnly s s' \<and> wf_ids s' \<and> wf_rollups s'
    \<and> dayView s' = (dayView s)(dkey r := dayView s (dkey r) + countsOf r)"
proof -
  have "wf_table (nextId s) (usageDaily s)" "keyed dkey (usageDaily s)"
    using assms by (auto simp: wf_ids_def wf_rollups_def)
  from dct.upsert_spec [OF this, of "d_userId r" now "dkey r" "countsOf r"] obtain n' t' where
    up: "upsert dkey countsOf (mkDay (d_userId r)) setDay now (dkey r) (countsOf r) (nextId s, usageDaily s)
        = Inr (dayView s (dkey r) + countsOf r, n', t')" and le: "nextId s \<le> n'"
    and wf: "wf_table n' t'" "keyed dkey t'"
    and tal: "tally dkey countsOf t' = (dayView s)(dkey r := dayView s (dkey r) + countsOf r)"
    unfolding dayView_def by blast
  let ?s' = "s\<lparr>nextId := n', usageDaily := t'\<rparr>"
  have "mergeRollup now r s = Inr ((), ?s')" by (simp add: mergeRollup_def up)
  moreover have "daysOnly s ?s'" using le by (auto simp: daysOnly_def)
  moreover have "wf_ids ?s'" using assms(1) le wf(1) by (auto simp: wf_ids_def intro: wf_table_mono)
  moreover have "wf_rollups ?s'" using wf(2) by (simp add: wf_rollups_def)
  moreover have "dayView ?s' = (dayView s)(dkey r := dayView s (dkey r) + countsOf r)"
    using tal by (simp add: dayView_def)
  ultimately show ?thesis by blast
qed

lemma mergeRollups_spec:
  assumes "wf_ids s" and "wf_rollups s"
  shows "\<exists>us s'. mapM (\<lambda>r. mergeRollup now (snd r)) rs s = Inr (us, s') \<and> daysOnly s s' \<and> wf_ids s' \<and> wf_rollups s'
    \<and> dayView s' = (\<lambda>k. dayView s k + rollView rs k)"
  using assms
proof (induction rs arbitrary: s)
  case Nil
  then show ?case by (simp add: rollView_def)
next
  case (Cons r rs)
  from mergeRollup_spec [OF Cons.prems, of now "snd r"] obtain s1 where
    m: "mergeRollup now (snd r) s = Inr ((), s1)" "daysOnly s s1" and wf: "wf_ids s1" "wf_rollups s1"
    and v: "dayView s1 = (dayView s)(dkey (snd r) := dayView s (dkey (snd r)) + countsOf (snd r))" by blast
  from Cons.IH [OF wf] obtain us s2 where
    n: "mapM (\<lambda>r. mergeRollup now (snd r)) rs s1 = Inr (us, s2)" "daysOnly s1 s2" "wf_ids s2" "wf_rollups s2"
    and v2: "dayView s2 = (\<lambda>k. dayView s1 k + rollView rs k)" by blast
  have "dayView s2 = (\<lambda>k. dayView s k + rollView (r # rs) k)"
    by (auto simp: v2 v rollView_def fun_eq_iff split_beta algebra_simps)
  with m n daysOnly_trans [OF m(2) n(2)] show ?case by (simp add: mbind_def)
qed

section \<open>lastUsedAt\<close>

text \<open>Databases that differ at most in the \<open>lastUsedAt\<close> of keys.\<close>

definition untouched :: "apiKey table \<Rightarrow> apiKey table" where
  "untouched t = map (\<lambda>r. Row (rid r) (ctime r) ((doc r)\<lparr>k_lastUsedAt := None\<rparr>)) t"

definition touchOnly :: "db \<Rightarrow> db \<Rightarrow> bool" where
  "touchOnly s s' \<longleftrightarrow> (\<exists>t. s' = s\<lparr>apiKeys := t\<rparr> \<and> untouched t = untouched (apiKeys s))"

lemma touchOnly_refl [simp]: "touchOnly s s"
  unfolding touchOnly_def by (rule exI [of _ "apiKeys s"]) simp

lemma touchOnly_trans: "touchOnly s t \<Longrightarrow> touchOnly t u \<Longrightarrow> touchOnly s u"
  unfolding touchOnly_def by auto

lemma untouched_tpatch: "untouched (tpatch i (\<lambda>d. d\<lparr>k_lastUsedAt := v\<rparr>) t) = untouched t"
  by (auto simp: untouched_def tpatch_def)

lemma untouched_maps:
  assumes "untouched t = untouched t'"
  shows "map rid t = map rid t'" and "map (\<lambda>r. k_keyHash (doc r)) t = map (\<lambda>r. k_keyHash (doc r)) t'"
    and "map (\<lambda>r. (rid r, k_userId (doc r))) t = map (\<lambda>r. (rid r, k_userId (doc r))) t'"
proof -
  have "map rid t = map rid (untouched t)" for t by (simp add: untouched_def)
  with assms show "map rid t = map rid t'" by metis
  have "map (\<lambda>r. k_keyHash (doc r)) t = map (\<lambda>r. k_keyHash (doc r)) (untouched t)" for t
    by (simp add: untouched_def)
  with assms show "map (\<lambda>r. k_keyHash (doc r)) t = map (\<lambda>r. k_keyHash (doc r)) t'" by metis
  have "map (\<lambda>r. (rid r, k_userId (doc r))) t = map (\<lambda>r. (rid r, k_userId (doc r))) (untouched t)" for t
    by (simp add: untouched_def)
  with assms show "map (\<lambda>r. (rid r, k_userId (doc r))) t = map (\<lambda>r. (rid r, k_userId (doc r))) t'" by metis
qed

lemma touchOnly_patch: "touchOnly s (db_patch apiKeys_update i (\<lambda>d. d\<lparr>k_lastUsedAt := v\<rparr>) s)"
  unfolding touchOnly_def db_patch_def
  by (rule exI [of _ "tpatch i (\<lambda>d. d\<lparr>k_lastUsedAt := v\<rparr>) (apiKeys s)"]) (simp add: untouched_tpatch)

lemma touchKey_spec: "\<exists>s'. touchKey H keys used s = Inr ((), s') \<and> touchOnly s s'"
  by (auto simp: touchKey_def touchOnly_patch split: option.split)

lemma touchKeys_spec: "\<exists>us s'. mapM (touchKey H keys) used s = Inr (us, s') \<and> touchOnly s s'"
proof (induction used arbitrary: s)
  case (Cons u used)
  obtain s1 where "touchKey H keys u s = Inr ((), s1)" "touchOnly s s1" using touchKey_spec by blast
  moreover obtain us s2 where "mapM (touchKey H keys) used s1 = Inr (us, s2)" "touchOnly s1 s2" using Cons.IH by blast
  ultimately show ?case using touchOnly_trans by (auto simp: mbind_def)
qed simp

lemma wf_db_touchOnly:
  assumes "touchOnly s s'" and "wf_db s"
  shows "wf_db s'"
proof -
  obtain t where s': "s' = s\<lparr>apiKeys := t\<rparr>" and t: "untouched t = untouched (apiKeys s)"
    using assms(1) unfolding touchOnly_def by blast
  note u = untouched_maps [OF t]
  have "wf_table (nextId s) t"
    using assms(2) u(1) by (auto simp: wf_defs wf_table_def) (metis (no_types, lifting) image_eqI image_iff list.set_map)
  moreover have "keyed k_keyHash t" using assms(2) u(2) by (simp add: wf_defs keyed_def)
  ultimately show ?thesis using assms(2) by (simp add: s' wf_defs)
qed

section \<open>The whole batch\<close>

lemma recordEntry_written:
  "recordEntry H now e acc s = Inr (acc', s') \<Longrightarrow> l_written acc' \<le> l_written acc + 1"
  by (auto simp: recordEntry_def Let_def split: option.splits)

lemma recordEntries_written:
  "foldM (recordEntry H now) es acc s = Inr (acc', s') \<Longrightarrow> l_written acc' \<le> l_written acc + int (length es)"
proof (induction es arbitrary: acc s)
  case Nil
  then show ?case by simp
next
  case (Cons e es)
  then obtain acc1 s1 where "recordEntry H now e acc s = Inr (acc1, s1)"
    "foldM (recordEntry H now) es acc1 s1 = Inr (acc', s')" by (auto simp: mut_Inr)
  then show ?case using Cons.IH recordEntry_written by fastforce
qed

lemma loopInv_start: "wf_ids s \<Longrightarrow> loopInv H now s emptyLoop s"
  unfolding loopInv_def
  by (rule exI [of _ "[]"], rule exI [of _ "nextId s"]) (simp add: emptyLoop_def rollupsOk_def rollView_def rowsView_def fun_eq_iff)

lemma wf_db_requests:
  "wf_db s \<Longrightarrow> wf_ids (s\<lparr>nextId := n, apiRequests := t\<rparr>) \<Longrightarrow> wf_db (s\<lparr>nextId := n, apiRequests := t\<rparr>)"
  by (simp add: wf_db_def wf_windows_def wf_quotas_def wf_rollups_def wf_intents_def wf_hashes_def)

lemma wf_db_daysOnly: "wf_db s \<Longrightarrow> daysOnly s s' \<Longrightarrow> wf_ids s' \<Longrightarrow> wf_rollups s' \<Longrightarrow> wf_db s'"
  by (auto simp: daysOnly_def wf_db_def wf_windows_def wf_quotas_def wf_intents_def wf_hashes_def)

lemma recordUsage_spec:
  assumes "wf_db s" and "idLaws H"
  shows "\<exists>rep s' R. recordUsage H now entries s = Inr (rep, s') \<and> wf_db s'
    \<and> apiRequests s' = apiRequests s @ R \<and> ur_written rep = int (length R) \<and> length R \<le> 200
    \<and> ur_written rep + ur_dropped rep = int (length entries)
    \<and> (\<forall>r \<in> set R. plausible now (doc r) \<and> ownedBy s (q_apiKeyId (doc r)) (q_userId (doc r)))
    \<and> (\<forall>k. dayView s' k = dayView s k + rowsView R k)
    \<and> untouched (apiKeys s') = untouched (apiKeys s)
    \<and> users s' = users s \<and> rateLimitWindows s' = rateLimitWindows s \<and> quotaWindows s' = quotaWindows s
    \<and> playgroundTokens s' = playgroundTokens s \<and> payments s' = payments s
    \<and> securityAuditEvents s' = securityAuditEvents s"
proof -
  have ids: "wf_ids s" using assms(1) by (simp add: wf_db_def)
  let ?es = "take MAX_USAGE_ENTRIES entries"
  have "\<exists>acc s1. foldM (recordEntry H now) ?es emptyLoop s = Inr (acc, s1) \<and> loopInv H now s acc s1"
    by (rule foldM_invariant [where I = "\<lambda>acc t. loopInv H now s acc t"])
      (auto intro: recordEntry_inv [OF assms(2)] loopInv_start ids)
  then obtain acc s1 where f: "foldM (recordEntry H now) ?es emptyLoop s = Inr (acc, s1)"
    and inv: "loopInv H now s acc s1" by blast
  obtain R n where s1: "s1 = s\<lparr>nextId := n, apiRequests := apiRequests s @ R\<rparr>" and wf1: "wf_ids s1"
    and w: "l_written acc = int (length R)" and roll: "rollView (l_rollups acc) = rowsView R"
    and R: "\<forall>r \<in> set R. plausible now (doc r) \<and> ownedBy s (q_apiKeyId (doc r)) (q_userId (doc r))"
    using inv unfolding loopInv_def by blast
  have wfd1: "wf_db s1" using wf_db_requests assms(1) wf1 unfolding s1 by blast
  then have "wf_rollups s1" by (simp add: wf_db_def)
  from mergeRollups_spec [OF wf1 this] obtain us s2 where
    m: "mapM (\<lambda>r. mergeRollup now (snd r)) (l_rollups acc) s1 = Inr (us, s2)"
    and d: "daysOnly s1 s2" "wf_ids s2" "wf_rollups s2"
    and v: "dayView s2 = (\<lambda>k. dayView s1 k + rollView (l_rollups acc) k)" by blast
  have wfd2: "wf_db s2" by (rule wf_db_daysOnly [OF wfd1 d])
  obtain vs s3 where t: "mapM (touchKey H (l_keys acc)) (l_lastUsed acc) s2 = Inr (vs, s3)" "touchOnly s2 s3"
    using touchKeys_spec by blast
  have len: "length R \<le> 200"
    using recordEntries_written [OF f] w by (simp add: emptyLoop_def MAX_USAGE_ENTRIES_def)
  obtain n2 t2 where s2: "s2 = s1\<lparr>nextId := n2, usageDaily := t2\<rparr>" using d(1) unfolding daysOnly_def by blast
  obtain t3 where s3: "s3 = s2\<lparr>apiKeys := t3\<rparr>" and u: "untouched t3 = untouched (apiKeys s2)"
    using t(2) unfolding touchOnly_def by blast
  have run: "recordUsage H now entries s =
      Inr (\<lparr>ur_written = l_written acc, ur_dropped = int (length entries) - l_written acc\<rparr>, s3)"
    by (simp add: recordUsage_def mbind_Inr [of "foldM (recordEntry H now) ?es emptyLoop", OF f] mthen_def
        mbind_Inr [of "mapM (\<lambda>r. mergeRollup now (snd r)) (l_rollups acc)", OF m]
        mbind_Inr [of "mapM (touchKey H (l_keys acc)) (l_lastUsed acc)", OF t(1)])
  have view: "dayView s3 k = dayView s k + rowsView R k" for k
    using v roll by (simp add: s3 dayView_def s1)
  have tabs: "apiRequests s3 = apiRequests s @ R" "users s3 = users s" "rateLimitWindows s3 = rateLimitWindows s"
    "quotaWindows s3 = quotaWindows s" "playgroundTokens s3 = playgroundTokens s" "payments s3 = payments s"
    "securityAuditEvents s3 = securityAuditEvents s" "untouched (apiKeys s3) = untouched (apiKeys s)"
    using u by (simp_all add: s3 s2 s1)
  have "wf_db s3" by (rule wf_db_touchOnly [OF t(2) wfd2])
  then show ?thesis
    by (intro exI [of _ "\<lparr>ur_written = l_written acc, ur_dropped = int (length entries) - l_written acc\<rparr>"]
        exI [of _ s3] exI [of _ R]) (simp add: run tabs view w len R [rule_format])
qed


text \<open>A batch of two records for key 1: a failure, and one that names another tenant (dropped).\<close>

definition sampleEntry :: usageEntry where
  "sampleEntry = \<lparr>e_keyId = ''1'', e_userId = ''0'', e_endpoint = ''/v1/route'', e_method = ''GET'',
     e_statusCode = Num 200, e_responseTimeMs = Num (25 / 2), e_timestamp = Num (of_int sampleNow)\<rparr>"

definition sampleBatch :: "usageEntry list" where
  "sampleBatch = [sampleEntry\<lparr>e_statusCode := Num 404\<rparr>, sampleEntry\<lparr>e_userId := ''2''\<rparr>]"


end
