(* ===== verification/JsMath.thy ===== *)
theory JsMath
  imports Prelude
begin

text \<open>
  The functions of \<open>Math\<close> on numbers from outside, \<open>NaN\<close> and the infinities included:
  \<open>floor\<close>, \<open>max\<close>, \<open>min\<close>, and the comparison \<open><\<close>, which is false as soon as one side is \<open>NaN\<close>.
\<close>

fun js_lt :: "jsnum \<Rightarrow> jsnum \<Rightarrow> bool" where
  "js_lt NaN y = False"
| "js_lt x NaN = False"
| "js_lt PosInf y = False"
| "js_lt x NegInf = False"
| "js_lt (Num a) (Num b) = (a < b)"
| "js_lt x y = True"

definition js_max :: "jsnum \<Rightarrow> jsnum \<Rightarrow> jsnum" where
  "js_max x y = (if x = NaN \<or> y = NaN then NaN else if js_lt x y then y else x)"

definition js_min :: "jsnum \<Rightarrow> jsnum \<Rightarrow> jsnum" where
  "js_min x y = (if x = NaN \<or> y = NaN then NaN else if js_lt y x then y else x)"

fun js_floor :: "jsnum \<Rightarrow> jsnum" where
  "js_floor (Num r) = Num (of_int \<lfloor>r\<rfloor>)"
| "js_floor x = x"

lemma js_max_Num [simp]: "js_max (Num a) (Num b) = Num (max a b)"
  by (simp add: js_max_def max_def)

lemma js_min_Num [simp]: "js_min (Num a) (Num b) = Num (min a b)"
  by (simp add: js_min_def min_def)

lemma js_max_special [simp]:
  "js_max (Num a) NaN = NaN" "js_max (Num a) PosInf = PosInf" "js_max (Num a) NegInf = Num a"
  by (simp_all add: js_max_def)

lemma js_min_special [simp]:
  "js_min NaN y = NaN" "js_min PosInf (Num b) = Num b" "js_min NegInf (Num b) = NegInf"
  by (simp_all add: js_min_def)

text \<open>\<open>Math.min(Math.max(lo, x), hi)\<close> is \<open>NaN\<close> or lies between the bounds.\<close>

lemma clamp_cases:
  assumes "lo \<le> hi"
  shows "js_min (js_max (Num lo) x) (Num hi) = NaN \<and> x = NaN
    \<or> (\<exists>v. js_min (js_max (Num lo) x) (Num hi) = Num v \<and> lo \<le> v \<and> v \<le> hi)"
  using assms by (cases x) auto

lemma js_Number_0: "js_Number ''0'' = Num 0"
  by (simp add: js_Number_def trim_def is_space_def code_def take_sign_def unsigned_decimal_def is_digit_def
      exponent_part_def clip_double_def scale10_def digits_value_def)

end
