(* ===== verification/Usage.thy ===== *)
theory Usage
  imports ApiKeys UsageRecord JsMath
begin

text \<open>
  \<open>usage.ts\<close>: the dashboard's queries. They read the daily rollups that \<open>recordUsage\<close> writes: the headline
  numbers of today and this month (\<open>summary\<close>), the series of the last days (\<open>daily\<close>), the totals per
  endpoint (\<open>endpoints\<close>), and the most recent raw requests (\<open>recent\<close>). Pagination is a function of
  Convex, an argument of \<open>recent\<close>.
\<close>

definition MAX_SERIES_DAYS :: rat where
  "MAX_SERIES_DAYS = 90"

definition MAX_PAGE_SIZE :: rat where
  "MAX_PAGE_SIZE = 100"

section \<open>summary\<close>

record Counts =
  n_total :: int
  n_successful :: int
  n_failed :: int

definition emptyCounts :: Counts where
  "emptyCounts = \<lparr>n_total = 0, n_successful = 0, n_failed = 0\<rparr>"

definition addDay :: "usageDay row \<Rightarrow> Counts \<Rightarrow> Counts" where
  "addDay r c = \<lparr>n_total = n_total c + d_total (doc r), n_successful = n_successful c + d_successful (doc r),
     n_failed = n_failed c + d_failed (doc r)\<rparr>"

record quotaUse =
  qu_used :: int
  qu_limit :: int

record usageSummary =
  su_today :: Counts
  su_month :: Counts
  su_rateLimitPerMinute :: int
  su_activeKeys :: nat
  su_totalKeys :: nat
  su_daily :: quotaUse
  su_monthly :: quotaUse

definition usedUnits :: "string \<Rightarrow> period \<Rightarrow> int \<Rightarrow> db \<Rightarrow> error + int option" where
  "usedUnits bucket p start s =
     (case uniqueRow (tselect (\<lambda>d. z_bucket d = bucket \<and> z_period d = p \<and> z_periodStart d = start) (quotaWindows s)) of
        Inl e \<Rightarrow> Inl e
      | Inr None \<Rightarrow> Inr None
      | Inr (Some r) \<Rightarrow> Inr (Some (z_units (doc r))))"

definition orElse :: "'a option \<Rightarrow> 'a \<Rightarrow> 'a" where
  "orElse x d = (case x of None \<Rightarrow> d | Some v \<Rightarrow> v)"

definition summary :: "host \<Rightarrow> int \<Rightarrow> authContext \<Rightarrow> db \<Rightarrow> error + usageSummary" where
  "summary H now auth s =
     (case requireUserId now auth s of
        Inl e \<Rightarrow> Inl e
      | Inr userId \<Rightarrow>
          (let user = map_option doc (tget (users s) userId);
               plan = (case user of None \<Rightarrow> None | Some u \<Rightarrow> activePlan u now);
               today = utcDay now;
               rows = daysOfUser userId (utcMonthStartDay now) s;
               (todayCounts, monthCounts) = fold (\<lambda>r (t, m).
                  (if d_day (doc r) = today then addDay r t else t, addDay r m)) rows (emptyCounts, emptyCounts);
               keys = keysOfUser userId s;
               active = filter (\<lambda>r. k_revokedAt (doc r) = None) keys;
               dayStart = date_UTC (getUTCFullYear now) (getUTCMonth now) (getUTCDate now);
               monthStart = date_UTC (getUTCFullYear now) (getUTCMonth now) 1;
               bucket = (if plan \<noteq> None then '''' else ''free:'') @ ''tenant:'' @ h_showId H userId
           in case usedUnits bucket Day dayStart s of
                Inl e \<Rightarrow> Inl e
              | Inr dailyQuota \<Rightarrow>
            (case usedUnits bucket Month monthStart s of
                Inl e \<Rightarrow> Inl e
              | Inr monthlyQuota \<Rightarrow>
                  (let lim = (case plan of Some p \<Rightarrow> monthlyRequests p | None \<Rightarrow> FREE_TOTAL_REQUESTS) in
                   Inr \<lparr>su_today = todayCounts, su_month = monthCounts,
                     su_rateLimitPerMinute = (case plan of Some p \<Rightarrow> requestsPerMinute p
                       | None \<Rightarrow> (case user of None \<Rightarrow> 0
                           | Some u \<Rightarrow> if 0 < freeRequestsRemaining u then FREE_RATE_LIMIT_PER_MINUTE else 0)),
                     su_activeKeys = length active, su_totalKeys = length keys,
                     su_daily = \<lparr>qu_used = orElse dailyQuota 0, qu_limit = lim\<rparr>,
                     su_monthly = \<lparr>qu_used = (if plan \<noteq> None then orElse monthlyQuota 0
                         else (case user of None \<Rightarrow> 0 | Some u \<Rightarrow> orElse (u_freeRequestsUsed u) 0)),
                       qu_limit = lim\<rparr>\<rparr>))))"

section \<open>daily\<close>

text \<open>\<open>Math.min(Math.max(1, Math.floor(days)), MAX_SERIES_DAYS)\<close>, and the time \<open>now - (span - 1) * DAY_MS\<close>
  whose day the query asks for: a date of \<open>NaN\<close> throws.\<close>

definition seriesSpan :: "jsnum \<Rightarrow> jsnum" where
  "seriesSpan days = js_min (js_max (Num 1) (js_floor days)) (Num MAX_SERIES_DAYS)"

definition spanDays :: "jsnum \<Rightarrow> error + int" where
  "spanDays days = (case seriesSpan days of Num n \<Rightarrow> Inr \<lfloor>n\<rfloor> | _ \<Rightarrow> Inl RangeError)"

definition ofKey :: "nat option \<Rightarrow> usageDay row \<Rightarrow> bool" where
  "ofKey keyId r = (case keyId of None \<Rightarrow> True | Some k \<Rightarrow> d_apiKeyId (doc r) = k)"

definition addToDay :: "nat option \<Rightarrow> usageDay row \<Rightarrow> (string \<Rightarrow> Counts option) \<Rightarrow> (string \<Rightarrow> Counts option)" where
  "addToDay keyId r byDay =
     (if \<not> ofKey keyId r then byDay
      else byDay(d_day (doc r) \<mapsto> addDay r (orElse (byDay (d_day (doc r))) emptyCounts)))"

definition daily :: "int \<Rightarrow> authContext \<Rightarrow> jsnum \<Rightarrow> nat option \<Rightarrow> db \<Rightarrow> error + (string \<times> Counts) list" where
  "daily now auth days keyId s =
     (case requireUserId now auth s of
        Inl e \<Rightarrow> Inl e
      | Inr userId \<Rightarrow>
     (case spanDays days of
        Inl e \<Rightarrow> Inl e
      | Inr ndays \<Rightarrow>
          (let start = now - (ndays - 1) * DAY_MS;
               byDay = fold (addToDay keyId) (daysOfUser userId (utcDay start) s) Map.empty
           in Inr (map (\<lambda>i. let day = utcDay (start + int i * DAY_MS) in (day, orElse (byDay day) emptyCounts))
                [0..<nat ndays]))))"

section \<open>endpoints\<close>

record endpointTotals =
  et_endpoint :: string
  et_total :: int
  et_successful :: int
  et_failed :: int
  et_avgResponseTimeMs :: int

definition addToEndpoint :: "nat option \<Rightarrow> usageDay row \<Rightarrow> (string \<times> counts) list \<Rightarrow> (string \<times> counts) list" where
  "addToEndpoint keyId r byEndpoint =
     (if \<not> ofKey keyId r then byEndpoint
      else AList.update (d_endpoint (doc r))
        (orElse (map_of byEndpoint (d_endpoint (doc r))) 0 + countsOf (doc r)) byEndpoint)"

definition endpointRow :: "string \<times> counts \<Rightarrow> endpointTotals" where
  "endpointRow ec = (let c = snd ec in
     \<lparr>et_endpoint = fst ec, et_total = total c, et_successful = successful c, et_failed = failed c,
      et_avgResponseTimeMs = (if total c \<noteq> 0 then js_round (of_int (responseTime c) / of_int (total c)) else 0)\<rparr>)"

definition endpoints :: "int \<Rightarrow> authContext \<Rightarrow> jsnum \<Rightarrow> nat option \<Rightarrow> db \<Rightarrow> error + endpointTotals list" where
  "endpoints now auth days keyId s =
     (case requireUserId now auth s of
        Inl e \<Rightarrow> Inl e
      | Inr userId \<Rightarrow>
     (case spanDays days of
        Inl e \<Rightarrow> Inl e
      | Inr ndays \<Rightarrow>
          (let rows = daysOfUser userId (utcDay (now - (ndays - 1) * DAY_MS)) s;
               byEndpoint = fold (addToEndpoint keyId) rows []
           in Inr (sort_key (\<lambda>e. - et_total e) (map endpointRow byEndpoint)))))"

section \<open>recent\<close>

record pageOpts =
  po_numItems :: jsnum
  po_cursor :: "string option"

record 'a page =
  pg_page :: "'a list"
  pg_isDone :: bool
  pg_continueCursor :: string

record recentRequest =
  rr_id :: nat
  rr_keyName :: string
  rr_endpoint :: string
  rr_method :: string
  rr_statusCode :: int
  rr_responseTimeMs :: int
  rr_timestamp :: rat

definition requestsNewestFirst :: "(apiRequest \<Rightarrow> bool) \<Rightarrow> db \<Rightarrow> apiRequest row list" where
  "requestsNewestFirst P s = rev (sort_key (\<lambda>r. q_timestamp (doc r)) (tselect P (apiRequests s)))"

text \<open>The loop over the page; \<open>names\<close> caches the names of the keys.\<close>

definition showRequest ::
  "db \<Rightarrow> nat \<Rightarrow> apiRequest row \<Rightarrow> (nat \<Rightarrow> string option) \<times> recentRequest list
    \<Rightarrow> (nat \<Rightarrow> string option) \<times> recentRequest list" where
  "showRequest s userId r acc =
     (let (names, rows) = acc; q = doc r in
      if q_userId q \<noteq> userId then acc
      else let names' = (if names (q_apiKeyId q) = None
               then names(q_apiKeyId q \<mapsto> (case tget (apiKeys s) (q_apiKeyId q) of
                  Some k \<Rightarrow> k_name (doc k) | None \<Rightarrow> ''Deleted key'')) else names)
           in (names', rows @ [\<lparr>rr_id = rid r, rr_keyName = orElse (names' (q_apiKeyId q)) '''', rr_endpoint = q_endpoint q,
                 rr_method = q_method q, rr_statusCode = q_statusCode q,
                 rr_responseTimeMs = q_responseTimeMs q, rr_timestamp = q_timestamp q\<rparr>]))"

definition recent ::
  "(pageOpts \<Rightarrow> apiRequest row list \<Rightarrow> apiRequest row page) \<Rightarrow> int \<Rightarrow> authContext \<Rightarrow> pageOpts \<Rightarrow> nat option \<Rightarrow> db
    \<Rightarrow> error + recentRequest page" where
  "recent paginate now auth requested keyId s =
     (case requireUserId now auth s of
        Inl e \<Rightarrow> Inl e
      | Inr userId \<Rightarrow>
          if (case keyId of None \<Rightarrow> False | Some k \<Rightarrow> ownedKey k userId s = None)
          then Inl (ConvexError ''API key not found.'')
          else (let opts = requested\<lparr>po_numItems := js_min (js_max (Num 1) (po_numItems requested)) (Num MAX_PAGE_SIZE)\<rparr>;
                    page = paginate opts (case keyId of
                       Some k \<Rightarrow> requestsNewestFirst (\<lambda>q. q_apiKeyId q = k) s
                     | None \<Rightarrow> requestsNewestFirst (\<lambda>q. q_userId q = userId) s);
                    rows = snd (fold (showRequest s userId) (pg_page page) (Map.empty, []))
                in Inr \<lparr>pg_page = rows, pg_isDone = pg_isDone page, pg_continueCursor = pg_continueCursor page\<rparr>))"

end
