(* ===== verification/DayOrder.thy ===== *)
theory DayOrder
  imports Calendar "HOL-Library.List_Lexorder" "HOL-Library.Char_ord"
begin

text \<open>
  Days as strings. The code compares days as \<open>YYYY-MM-DD\<close> strings (the index \<open>by_user_day\<close>, the keys of the
  rollups). \<open>utcDay_less\<close> shows that within the four-digit years the order of these strings is the order
  of the days, so a range of strings is a range of time.
\<close>

section \<open>Fixed-width decimals\<close>

fun fixed :: "nat \<Rightarrow> nat \<Rightarrow> string" where
  "fixed 0 n = []"
| "fixed (Suc w) n = fixed w (n div 10) @ [digit_char (n mod 10)]"

lemma length_fixed [simp]: "length (fixed w n) = w"
  by (induction w n rule: fixed.induct) auto

lemma digit_char_0: "digit_char 0 = CHR ''0''"
  by code_simp

lemma fixed_0: "fixed w 0 = replicate w (CHR ''0'')"
  by (induction w) (simp_all add: digit_char_0 replicate_append_same)

lemma pad_start_fixed: "n < 10 ^ Suc w \<Longrightarrow> pad_start (Suc w) (show_nat n) = fixed (Suc w) n"
proof (induction w arbitrary: n)
  case 0
  then show ?case by (simp add: pad_start_def show_nat.simps [of n])
next
  case (Suc w)
  show ?case
  proof (cases "n < 10")
    case True
    have "fixed (Suc w) 0 @ [digit_char n] = replicate (Suc w) (CHR ''0'') @ [digit_char n]"
      by (simp only: fixed_0)
    with True show ?thesis by (simp add: pad_start_def show_nat.simps [of n])
  next
    case False
    have "n div 10 < 10 ^ Suc w" using Suc.prems by (simp add: div_less_iff_less_mult mult.commute)
    with Suc.IH [of "n div 10"] False show ?thesis
      by (simp add: pad_start_def show_nat.simps [of n])
  qed
qed

lemma append_less: "length xs = length ys \<Longrightarrow> xs < ys \<Longrightarrow> xs @ u < ys @ v" for xs :: "'a::order list"
  by (induction xs ys rule: list_induct2) auto

lemma append_same_less: "xs @ u < xs @ v \<longleftrightarrow> u < v" for xs :: "'a::order list"
  by (induction xs) auto

lemma digit_char_less: "a < b \<Longrightarrow> b < 10 \<Longrightarrow> digit_char a < digit_char b"
  using code_digit_char [of a] code_digit_char [of b] by (simp add: less_char_def code_def)

lemma fixed_less: "a < b \<Longrightarrow> b < 10 ^ w \<Longrightarrow> fixed w a < fixed w b"
proof (induction w arbitrary: a b)
  case (Suc w)
  consider "a div 10 < b div 10" | "a div 10 = b div 10" "a mod 10 < b mod 10"
  proof -
    have "a div 10 \<le> b div 10" using Suc.prems(1) by (simp add: div_le_mono)
    moreover have "a mod 10 < b mod 10" if "a div 10 = b div 10"
      using that Suc.prems(1) div_mult_mod_eq [of a 10] div_mult_mod_eq [of b 10] by linarith
    ultimately show ?thesis using that by linarith
  qed
  then show ?case
  proof cases
    case 1
    moreover have "b div 10 < 10 ^ w" using Suc.prems(2) by (simp add: div_less_iff_less_mult mult.commute)
    ultimately show ?thesis by (simp add: Suc.IH append_less)
  next
    case 2
    then show ?thesis by (simp add: append_same_less digit_char_less)
  qed
qed simp

lemma pad_start_2: "n < 100 \<Longrightarrow> pad_start 2 (show_nat n) = fixed 2 n"
proof -
  have two: "Suc 1 = 2" by simp
  assume "n < 100"
  then show ?thesis by (intro pad_start_fixed [of n 1, unfolded two]) simp
qed

lemma pad_start_4: "n < 10000 \<Longrightarrow> pad_start 4 (show_nat n) = fixed 4 n"
proof -
  have four: "Suc 3 = 4" by simp
  assume "n < 10000"
  then show ?thesis by (intro pad_start_fixed [of n 3, unfolded four]) simp
qed

section \<open>The order of days\<close>

definition fields :: "int \<Rightarrow> string" where
  "fields t = fixed 4 (nat (getUTCFullYear t)) @ ''-'' @ fixed 2 (nat (getUTCMonth t + 1)) @ ''-''
     @ fixed 2 (nat (getUTCDate t))"

lemma iso_date_fields:
  assumes "0 \<le> t" and "getUTCFullYear t \<le> 9999"
  shows "iso_date t = fields t"
proof -
  have "nat (getUTCFullYear t) < 10000" "nat (getUTCMonth t + 1) < 100" "nat (getUTCDate t) < 100"
    using assms(2) getUTCMonth_range [of t] getUTCDate_range [of t] by simp_all
  note pads = pad_start_4 [OF this(1)] pad_start_2 [OF this(2)] pad_start_2 [OF this(3)]
  show ?thesis
    using year_of_epoch [OF assms(1)] assms(2) unfolding iso_date_def iso_year_def fields_def pads by simp
qed

lemma utcDay_fields: "0 \<le> t \<Longrightarrow> getUTCFullYear t \<le> 9999 \<Longrightarrow> utcDay t = fields t"
  by (simp add: utcDay_def iso_date_fields slice0_def fields_def)

lemma month_of_yday_mono:
  "lp = 0 \<or> lp = 1 \<Longrightarrow> a \<le> b \<Longrightarrow> month_of_yday lp a \<le> month_of_yday lp b"
  by (auto simp: month_of_yday_def)

lemma year_mono: "t \<le> t' \<Longrightarrow> getUTCFullYear t \<le> getUTCFullYear t'"
proof (rule ccontr)
  assume t: "t \<le> t'" and "\<not> getUTCFullYear t \<le> getUTCFullYear t'"
  then have "day_from_year (getUTCFullYear t' + 1) \<le> day_from_year (getUTCFullYear t)"
    using day_from_year_strict [of "getUTCFullYear t' + 1" "getUTCFullYear t"]
    by (cases "getUTCFullYear t' + 1 = getUTCFullYear t") auto
  moreover have "day_of t \<le> day_of t'" using t by (simp add: day_of_def DAY_MS_def zdiv_mono1)
  ultimately show False
    using year_of_day_span [of "day_of t"] year_of_day_span [of "day_of t'"]
    by (simp add: getUTCFullYear_def)
qed

lemma fields_less:
  assumes "0 \<le> t" and "day_of t < day_of t'" and "getUTCFullYear t' \<le> 9999"
  shows "fields t < fields t'"
proof -
  have "t \<le> t'" using assms(2) by (simp add: day_of_def DAY_MS_def)
  then consider "getUTCFullYear t < getUTCFullYear t'" | "getUTCFullYear t = getUTCFullYear t'"
    using year_mono [of t t'] by linarith
  then show ?thesis
  proof cases
    case 1
    moreover have "0 \<le> getUTCFullYear t" using year_of_epoch [OF assms(1)] by simp
    ultimately have "fixed 4 (nat (getUTCFullYear t)) < fixed 4 (nat (getUTCFullYear t'))"
      using assms(3) by (intro fixed_less) simp_all
    then show ?thesis unfolding fields_def by (rule append_less [rotated]) simp
  next
    case same: 2
    let ?lp = "leap_day (getUTCFullYear t)"
    let ?dw = "\<lambda>t. day_of t - day_from_year (getUTCFullYear t)"
    have m: "getUTCMonth t = month_of_yday ?lp (?dw t)" "getUTCMonth t' = month_of_yday ?lp (?dw t')"
      using same by (simp_all add: getUTCMonth_def Let_def)
    have "getUTCMonth t \<le> getUTCMonth t'"
      unfolding m by (rule month_of_yday_mono [OF leap_day_01]) (use assms(2) same in simp)
    then consider "getUTCMonth t < getUTCMonth t'" | "getUTCMonth t = getUTCMonth t'" by linarith
    then show ?thesis
    proof cases
      case 1
      then have "fixed 2 (nat (getUTCMonth t + 1)) < fixed 2 (nat (getUTCMonth t' + 1))"
        using getUTCMonth_range [of t] getUTCMonth_range [of t'] by (intro fixed_less) simp_all
      then show ?thesis
        unfolding fields_def same append_same_less by (rule append_less [rotated]) simp
    next
      case 2
      have "getUTCDate t < getUTCDate t'"
        using assms(2) same 2 by (simp add: getUTCDate_def Let_def)
      then have "fixed 2 (nat (getUTCDate t)) < fixed 2 (nat (getUTCDate t'))"
        using getUTCDate_range [of t] getUTCDate_range [of t'] by (intro fixed_less) simp_all
      then show ?thesis unfolding fields_def same 2 append_same_less .
    qed
  qed
qed

lemma fields_same_day: "day_of t = day_of t' \<Longrightarrow> fields t = fields t'"
  by (simp add: fields_def getUTCFullYear_def getUTCMonth_def getUTCDate_def)

lemma utcDay_less:
  assumes "0 \<le> t" and "0 \<le> t'" and "getUTCFullYear t \<le> 9999" and "getUTCFullYear t' \<le> 9999"
  shows "utcDay t < utcDay t' \<longleftrightarrow> day_of t < day_of t'"
proof -
  consider "day_of t < day_of t'" | "day_of t = day_of t'" | "day_of t' < day_of t" by linarith
  then show ?thesis
    using fields_less [of t t'] fields_less [of t' t] fields_same_day [of t t'] assms
    by cases (auto simp: utcDay_fields)
qed

lemma utcDay_eq:
  assumes "0 \<le> t" and "0 \<le> t'" and "getUTCFullYear t \<le> 9999" and "getUTCFullYear t' \<le> 9999"
  shows "utcDay t = utcDay t' \<longleftrightarrow> day_of t = day_of t'"
  using utcDay_less [OF assms] utcDay_less [OF assms(2,1,4,3)] fields_same_day [of t t'] assms
  by (auto simp: utcDay_fields)

lemma utcDay_mono:
  assumes "0 \<le> t" and "t \<le> t'" and "getUTCFullYear t' \<le> 9999"
  shows "utcDay t \<le> utcDay t'"
proof -
  have "getUTCFullYear t \<le> 9999" using year_mono [OF assms(2)] assms(3) by simp
  moreover have "day_of t \<le> day_of t'" using assms(2) by (simp add: day_of_def DAY_MS_def zdiv_mono1)
  moreover have "utcDay t \<le> utcDay t' \<longleftrightarrow> \<not> utcDay t' < utcDay t" by (simp add: not_less)
  ultimately show ?thesis using utcDay_less [of t' t] assms by simp
qed

lemma day_of_shift: "day_of (t + k * DAY_MS) = day_of t + k"
  by (simp add: day_of_def DAY_MS_def)

end
