(* ===== verification/UsageProps.thy ===== *)
theory UsageProps
  imports Usage DayOrder Samples UsageLedger "HOL-Library.Multiset"
begin

text \<open>
  What the dashboard shows: \<open>daily\<close> returns exactly the totals of the rollups for each of the last days
  (\<open>daily_series_exact\<close>), \<open>endpoints\<close> splits the same total without loss (\<open>endpoints_partition\<close>), and
  \<open>recent\<close> shows a user only their own requests (\<open>recent_own_requests\<close>).
\<close>

section \<open>Sums over rollups\<close>

text \<open>The reference: what the rollups of a user say about the days and keys in \<open>P\<close>.\<close>

definition rollupSum :: "(usageDay \<Rightarrow> bool) \<Rightarrow> db \<Rightarrow> counts" where
  "rollupSum P s = sum_list (map (\<lambda>r. countsOf (doc r)) (tselect P (usageDaily s)))"

definition threeCounts :: "counts \<Rightarrow> Counts" where
  "threeCounts c = \<lparr>n_total = total c, n_successful = successful c, n_failed = failed c\<rparr>"

lemma sum_list_sort: "sum_list (map f (sort_key k xs)) = sum_list (map f xs)" for f :: "'a \<Rightarrow> 'b::comm_monoid_add"
proof -
  have "sum_list (map f (sort_key k xs)) = sum_mset (image_mset f (mset (sort_key k xs)))"
    by (metis mset_map sum_mset_sum_list)
  also have "\<dots> = sum_list (map f xs)" by (metis mset_map mset_sort sum_mset_sum_list)
  finally show ?thesis .
qed

lemma fold_addDay:
  "fold addDay rows (threeCounts c) = threeCounts (c + sum_list (map (\<lambda>r. countsOf (doc r)) rows))"
proof (induction rows arbitrary: c)
  case (Cons r rows)
  have "addDay r (threeCounts c) = threeCounts (c + countsOf (doc r))"
    by (simp add: addDay_def threeCounts_def countsOf_def)
  with Cons show ?case by (simp add: add.assoc)
qed simp

lemma fold_byDay:
  "orElse (fold (addToDay keyId) rows m day) emptyCounts
     = fold addDay (filter (\<lambda>r. ofKey keyId r \<and> d_day (doc r) = day) rows) (orElse (m day) emptyCounts)"
  by (induction rows arbitrary: m) (auto simp: addToDay_def orElse_def)

lemma emptyCounts_zero: "emptyCounts = threeCounts 0"
  by (simp add: emptyCounts_def threeCounts_def)

definition keySel :: "nat option \<Rightarrow> usageDay \<Rightarrow> bool" where
  "keySel keyId d = (case keyId of None \<Rightarrow> True | Some k \<Rightarrow> d_apiKeyId d = k)"

lemma ofKey_keySel: "ofKey keyId r = keySel keyId (doc r)"
  by (simp add: ofKey_def keySel_def)

text \<open>The entry of one day, when the day is in the range of the index.\<close>

lemma byDay_entry:
  assumes "since \<le> day"
  shows "orElse (fold (addToDay keyId) (daysOfUser u since s) Map.empty day) emptyCounts
    = threeCounts (rollupSum (\<lambda>d. d_userId d = u \<and> d_day d = day \<and> keySel keyId d) s)"
proof -
  have sel: "filter (\<lambda>r. ofKey keyId r \<and> d_day (doc r) = day) (daysOfUser u since s)
      = sort_key (\<lambda>r. d_day (doc r)) (tselect (\<lambda>d. d_userId d = u \<and> d_day d = day \<and> keySel keyId d) (usageDaily s))"
    using assms by (auto simp: daysOfUser_def filter_sort tselect_def ofKey_keySel intro!: arg_cong2 [where f = sort_key]
        filter_cong)
  show ?thesis
    unfolding fold_byDay sel by (simp add: orElse_def emptyCounts_zero fold_addDay sum_list_sort rollupSum_def)
qed

lemma spanDays_Num: "spanDays (Num d) = Inr (min (max 1 \<lfloor>d\<rfloor>) 90)"
proof -
  have "max (1 :: rat) (of_int \<lfloor>d\<rfloor>) = of_int (max 1 \<lfloor>d\<rfloor>)" by (simp add: max_def)
  moreover have "min (of_int (max 1 \<lfloor>d\<rfloor>)) (90 :: rat) = of_int (min (max 1 \<lfloor>d\<rfloor>) 90)" by (auto simp: min_def)
  ultimately show ?thesis by (simp add: spanDays_def seriesSpan_def MAX_SERIES_DAYS_def)
qed

text \<open>C22. The series the dashboard draws is exact: \<open>daily\<close> returns one entry for each of the last
  \<open>min (max 1 (floor days)) 90\<close> UTC days, oldest first, today last, no day twice; and each entry is the sum of
  all rollups of that day, of this user and (when one is given) of this key. In particular the
  string range \<open>gte("day", utcDay(start))\<close> of the index query loses no row of the span.\<close>

theorem daily_series_exact:
  assumes "requireUserId now auth s = Inr u" and "90 * DAY_MS \<le> now" and "getUTCFullYear now \<le> 9999"
  shows "\<exists>xs n. daily now auth (Num d) keyId s = Inr xs \<and> int n = min (max 1 \<lfloor>d\<rfloor>) 90 \<and> length xs = n
    \<and> distinct (map fst xs)
    \<and> (\<forall>i < n. xs ! i = (utcDay (now - int (n - 1 - i) * DAY_MS),
         threeCounts (rollupSum (\<lambda>r. d_userId r = u \<and> d_day r = utcDay (now - int (n - 1 - i) * DAY_MS)
           \<and> keySel keyId r) s)))"
proof -
  define n where "n = nat (min (max 1 \<lfloor>d\<rfloor>) 90)"
  have n: "int n = min (max 1 \<lfloor>d\<rfloor>) 90" "1 \<le> n" "n \<le> 90" by (auto simp: n_def)
  define start where "start = now - (int n - 1) * DAY_MS"
  define tm where "tm i = start + int i * DAY_MS" for i
  have tm: "tm i = now - int (n - 1 - i) * DAY_MS" if "i < n" for i
    using that by (simp add: tm_def start_def of_nat_diff algebra_simps)
  have start0: "0 \<le> start" using assms(2) n by (simp add: start_def DAY_MS_def)
  have pos: "0 \<le> tm i" "start \<le> tm i" for i using start0 by (simp_all add: tm_def DAY_MS_def)
  have year: "getUTCFullYear (tm i) \<le> 9999" if "i < n" for i
  proof -
    have "tm i \<le> now" using tm [OF that] by (simp add: DAY_MS_def)
    then show ?thesis using year_mono assms(3) by (meson order_trans)
  qed
  define entry where "entry i = (utcDay (tm i), orElse (fold (addToDay keyId) (daysOfUser u (utcDay start) s)
      Map.empty (utcDay (tm i))) emptyCounts)" for i
  have run: "daily now auth (Num d) keyId s = Inr (map entry [0..<n])"
    by (simp add: daily_def assms(1) spanDays_Num n(1) [symmetric] Let_def start_def [symmetric] tm_def [symmetric]
        entry_def)
  have "entry i = (utcDay (tm i), threeCounts (rollupSum (\<lambda>r. d_userId r = u \<and> d_day r = utcDay (tm i)
      \<and> keySel keyId r) s))" if "i < n" for i
    unfolding entry_def by (simp add: byDay_entry utcDay_mono [OF start0 pos(2) year [OF that]])
  then have ent: "map entry [0..<n] ! i = (utcDay (now - int (n - 1 - i) * DAY_MS),
      threeCounts (rollupSum (\<lambda>r. d_userId r = u \<and> d_day r = utcDay (now - int (n - 1 - i) * DAY_MS)
        \<and> keySel keyId r) s))" if "i < n" for i
    unfolding tm [OF that, symmetric] using that by simp
  have "inj_on (\<lambda>i. utcDay (tm i)) {0..<n}"
  proof (rule inj_onI)
    fix i j assume ij: "i \<in> {0..<n}" "j \<in> {0..<n}" and eq: "utcDay (tm i) = utcDay (tm j)"
    then have "day_of (tm i) = day_of (tm j)" using utcDay_eq [of "tm i" "tm j"] pos year by simp
    then show "i = j" by (simp add: tm_def day_of_shift)
  qed
  then have "distinct (map fst (map entry [0..<n]))" by (simp add: distinct_map entry_def o_def)
  with run n(1) ent show ?thesis by (intro exI [of _ "map entry [0..<n]"] exI [of _ n]) simp
qed

theorem daily_series_exact_witness:
  "\<exists>xs. daily sampleNow sampleAuth (Num (5/2)) None sampleDb = Inr xs \<and> length xs = 2
     \<and> fst (xs ! 1) = utcDay sampleNow"
proof -
  have h: "requireUserId sampleNow sampleAuth sampleDb = Inr 0" "90 * DAY_MS \<le> sampleNow"
    "getUTCFullYear sampleNow \<le> 9999" by code_simp+
  have two: "min (max 1 \<lfloor>5/2 :: rat\<rfloor>) 90 = 2" by code_simp
  from daily_series_exact [OF h, of "5/2" None] show ?thesis unfolding two by fastforce
qed

section \<open>endpoints\<close>

lemma endpoint_entry:
  "orElse (map_of (fold (addToEndpoint keyId) rows al) e) 0 = orElse (map_of al e) 0
     + sum_list (map (\<lambda>r. countsOf (doc r)) (filter (\<lambda>r. ofKey keyId r \<and> d_endpoint (doc r) = e) rows))"
  by (induction rows arbitrary: al) (auto simp: addToEndpoint_def update_conv orElse_def add.assoc)

lemma endpoint_distinct: "distinct (map fst al) \<Longrightarrow> distinct (map fst (fold (addToEndpoint keyId) rows al))"
  by (induction rows arbitrary: al) (auto simp: addToEndpoint_def distinct_update)

lemma endpoint_keys:
  "fst ` set (fold (addToEndpoint keyId) rows al) = fst ` set al \<union> (\<lambda>r. d_endpoint (doc r)) ` {r \<in> set rows. ofKey keyId r}"
  by (induction rows arbitrary: al) (auto simp: addToEndpoint_def dom_update)

lemma sum_update_counts:
  fixes c :: "'c::comm_monoid_add"
  shows "sum_list (map snd (AList.update e (orElse (map_of al e) 0 + c) al)) = sum_list (map snd al) + c"
  by (induction al) (auto simp: orElse_def algebra_simps)

lemma endpoint_sum:
  "distinct (map fst al) \<Longrightarrow> sum_list (map snd (fold (addToEndpoint keyId) rows al)) = sum_list (map snd al)
     + sum_list (map (\<lambda>r. countsOf (doc r)) (filter (ofKey keyId) rows))"
proof (induction rows arbitrary: al)
  case (Cons r rows)
  have "sum_list (map snd (addToEndpoint keyId r al)) = sum_list (map snd al)
      + (if ofKey keyId r then countsOf (doc r) else 0)"
    by (simp add: addToEndpoint_def sum_update_counts)
  with Cons.IH [of "addToEndpoint keyId r al"] Cons.prems show ?case
    by (auto simp: addToEndpoint_def distinct_update add.assoc)
qed simp

lemma counts_sum_list:
  "total (sum_list cs) = sum_list (map total cs)" "successful (sum_list cs) = sum_list (map successful cs)"
  "failed (sum_list cs) = sum_list (map failed cs)" "responseTime (sum_list cs) = sum_list (map responseTime cs)"
  by (induction cs) auto

lemma sum_days:
  "sum_list (map (\<lambda>r. countsOf (doc r)) (filter (\<lambda>r. P (doc r)) (daysOfUser u since s)))
     = rollupSum (\<lambda>d. d_userId d = u \<and> since \<le> d_day d \<and> P d) s"
proof -
  have "filter (\<lambda>r. P (doc r)) (daysOfUser u since s)
      = sort_key (\<lambda>r. d_day (doc r)) (tselect (\<lambda>d. d_userId d = u \<and> since \<le> d_day d \<and> P d) (usageDaily s))"
    by (simp add: daysOfUser_def filter_sort tselect_def conj_ac)
  then show ?thesis by (simp add: sum_list_sort rollupSum_def)
qed

text \<open>The table of endpoints is a partition: \<open>endpoints\<close> lists every endpoint of the span once, busiest first, with
  the counts of the user's rollups for it and the rounded mean response time; and the totals, successes and
  failures of the rows add up to those of the whole span.\<close>

theorem endpoints_partition:
  assumes "requireUserId now auth s = Inr u"
    and "since = utcDay (now - (min (max 1 \<lfloor>d\<rfloor>) 90 - 1) * DAY_MS)"
    and "Q = (\<lambda>r. d_userId r = u \<and> since \<le> d_day r \<and> keySel keyId r)"
  shows "\<exists>xs. endpoints now auth (Num d) keyId s = Inr xs \<and> distinct (map et_endpoint xs)
    \<and> sorted_wrt (\<lambda>a b. et_total b \<le> et_total a) xs
    \<and> (\<forall>e \<in> set xs. e = endpointRow (et_endpoint e, rollupSum (\<lambda>r. Q r \<and> d_endpoint r = et_endpoint e) s))
    \<and> et_endpoint ` set xs = {d_endpoint (doc r) | r. r \<in> set (usageDaily s) \<and> Q (doc r)}
    \<and> sum_list (map et_total xs) = total (rollupSum Q s)
    \<and> sum_list (map et_successful xs) = successful (rollupSum Q s)
    \<and> sum_list (map et_failed xs) = failed (rollupSum Q s)"
proof -
  define rows where "rows = daysOfUser u since s"
  define al where "al = fold (addToEndpoint keyId) rows []"
  let ?xs = "sort_key (\<lambda>e. - et_total e) (map endpointRow al)"
  have run: "endpoints now auth (Num d) keyId s = Inr ?xs"
    by (simp add: endpoints_def assms(1,2) spanDays_Num Let_def al_def rows_def)
  have key: "ofKey keyId = (\<lambda>r. keySel keyId (doc r))" by (rule ext) (simp add: ofKey_keySel)
  have al_d: "distinct (map fst al)" unfolding al_def by (rule endpoint_distinct) simp
  have al_sum: "sum_list (map snd al) = rollupSum Q s"
    using endpoint_sum [of "[]" keyId rows] sum_days [of "keySel keyId" u since s]
    by (simp add: al_def rows_def key assms(3))
  have al_e: "orElse (map_of al e) 0 = rollupSum (\<lambda>r. Q r \<and> d_endpoint r = e) s" for e
    using endpoint_entry [of keyId rows "[]" e] sum_days [of "\<lambda>r. keySel keyId r \<and> d_endpoint r = e" u since s]
    by (simp add: al_def rows_def ofKey_keySel assms(3) orElse_def)
  have "et_endpoint ` set ?xs = fst ` set al" by (simp add: image_image endpointRow_def Let_def)
  also have "\<dots> = (\<lambda>r. d_endpoint (doc r)) ` {r \<in> set rows. ofKey keyId r}" by (simp add: al_def endpoint_keys)
  also have "\<dots> = {d_endpoint (doc r) | r. r \<in> set (usageDaily s) \<and> Q (doc r)}"
    by (auto simp: rows_def daysOfUser_def set_tselect ofKey_keySel assms(3))
  finally have names: "et_endpoint ` set ?xs = \<dots>" .
  have "mset (map et_endpoint ?xs) = mset (map fst al)"
    by (simp add: image_mset.compositionality o_def endpointRow_def Let_def)
  then have dist: "distinct (map et_endpoint ?xs)" using al_d mset_eq_imp_distinct_iff by blast
  have "sorted (map (\<lambda>e. - et_total e) ?xs)" by (rule sorted_sort_key)
  then have sorted: "sorted_wrt (\<lambda>a b. et_total b \<le> et_total a) ?xs" by (simp add: sorted_map)
  have sums: "sum_list (map (\<lambda>e. g (snd e)) al) = sum_list (map g (map snd al))" for g :: "counts \<Rightarrow> int"
    by (simp add: o_def)
  have tot: "sum_list (map et_total ?xs) = total (rollupSum Q s)"
    "sum_list (map et_successful ?xs) = successful (rollupSum Q s)"
    "sum_list (map et_failed ?xs) = failed (rollupSum Q s)"
    unfolding sum_list_sort al_sum [symmetric] counts_sum_list by (simp_all add: endpointRow_def Let_def o_def)
  have row: "\<forall>e \<in> set ?xs. e = endpointRow (et_endpoint e, rollupSum (\<lambda>r. Q r \<and> d_endpoint r = et_endpoint e) s)"
  proof
    fix e assume "e \<in> set ?xs"
    then obtain k c where e: "e = endpointRow (k, c)" "(k, c) \<in> set al" by auto
    then have "map_of al k = Some c" using al_d by simp
    with al_e [of k] have "c = rollupSum (\<lambda>r. Q r \<and> d_endpoint r = k) s" by (simp add: orElse_def)
    moreover have "et_endpoint e = k" by (simp add: e(1) endpointRow_def Let_def)
    ultimately show "e = endpointRow (et_endpoint e, rollupSum (\<lambda>r. Q r \<and> d_endpoint r = et_endpoint e) s)"
      using e(1) by simp
  qed
  from run dist sorted row names tot show ?thesis by blast
qed

definition usageDb :: db where
  "usageDb = sampleDb\<lparr>nextId := 10, usageDaily :=
     [Row 8 5 (mkDay 0 (1, ''/v1/route'', utcDay sampleNow) (Counts 1 1 0 7)),
      Row 9 5 (mkDay 0 (1, ''/v1/places'', utcDay sampleNow) (Counts 3 2 1 8))]\<rparr>"

theorem endpoints_partition_witness:
  "\<exists>xs. endpoints sampleNow sampleAuth (Num 7) None usageDb = Inr xs \<and> sum_list (map et_total xs) = 4"
proof -
  have h: "requireUserId sampleNow sampleAuth usageDb = Inr 0" by code_simp
  have c: "total (rollupSum (\<lambda>r. d_userId r = 0 \<and> utcDay (sampleNow - (min (max 1 \<lfloor>7 :: rat\<rfloor>) 90 - 1) * DAY_MS) \<le> d_day r
      \<and> keySel None r) usageDb) = 4" by code_simp
  from endpoints_partition [OF h refl refl, of 7 None] show ?thesis unfolding c by blast
qed

section \<open>recent\<close>

text \<open>The reference: a request as shown, its key's name read from the database each time.\<close>

definition keyNameOf :: "db \<Rightarrow> nat \<Rightarrow> string" where
  "keyNameOf s k = (case tget (apiKeys s) k of Some r \<Rightarrow> k_name (doc r) | None \<Rightarrow> ''Deleted key'')"

definition shownRequest :: "db \<Rightarrow> apiRequest row \<Rightarrow> recentRequest" where
  "shownRequest s r = (let q = doc r in
     \<lparr>rr_id = rid r, rr_keyName = keyNameOf s (q_apiKeyId q), rr_endpoint = q_endpoint q, rr_method = q_method q,
      rr_statusCode = q_statusCode q, rr_responseTimeMs = q_responseTimeMs q, rr_timestamp = q_timestamp q\<rparr>)"

lemma showRequest_fold:
  assumes "\<forall>k n. names k = Some n \<longrightarrow> n = keyNameOf s k"
  shows "snd (fold (showRequest s u) rs (names, rows)) = rows @ map (shownRequest s) (filter (\<lambda>r. q_userId (doc r) = u) rs)"
  using assms
proof (induction rs arbitrary: names rows)
  case (Cons r rs)
  show ?case
  proof (cases "q_userId (doc r) = u")
    case False
    then have "showRequest s u r (names, rows) = (names, rows)" by (simp add: showRequest_def Let_def)
    with False Cons show ?thesis by simp
  next
    case True
    define names' where "names' = (if names (q_apiKeyId (doc r)) = None
       then names(q_apiKeyId (doc r) \<mapsto> keyNameOf s (q_apiKeyId (doc r))) else names)"
    have inv: "\<forall>k n. names' k = Some n \<longrightarrow> n = keyNameOf s k" using Cons.prems by (simp add: names'_def)
    have "names' (q_apiKeyId (doc r)) = Some (keyNameOf s (q_apiKeyId (doc r)))"
      using Cons.prems by (auto simp: names'_def)
    moreover have "showRequest s u r (names, rows) = (names', rows @ [(shownRequest s r)
        \<lparr>rr_keyName := orElse (names' (q_apiKeyId (doc r))) ''''\<rparr>])"
      using True by (simp add: showRequest_def Let_def names'_def keyNameOf_def shownRequest_def)
    ultimately have "showRequest s u r (names, rows) = (names', rows @ [shownRequest s r])"
      by (simp add: orElse_def shownRequest_def Let_def)
    with True Cons.IH [OF inv] show ?thesis by simp
  qed
qed simp

text \<open>A developer sees only their own requests: whatever page the paginator returns from the query it is given, the
  rows of \<open>recent\<close> are requests of the signed-in user, of the key asked for when there is one (which the
  user must own), each with the name its key has now; the cache of names changes nothing. The page size
  asked for is a number between 1 and 100, or \<open>NaN\<close> when the caller sent \<open>NaN\<close>.\<close>

theorem recent_own_requests:
  assumes "\<And>opts rows. set (pg_page (paginate opts rows)) \<subseteq> set rows"
    and "recent paginate now auth requested keyId s = Inr result"
  shows "\<exists>u n. requireUserId now auth s = Inr u
    \<and> (\<forall>k. keyId = Some k \<longrightarrow> (\<exists>r. tget (apiKeys s) k = Some r \<and> k_userId (doc r) = u))
    \<and> (\<forall>row \<in> set (pg_page result). \<exists>r \<in> set (apiRequests s). row = shownRequest s r \<and> q_userId (doc r) = u
        \<and> (\<forall>k. keyId = Some k \<longrightarrow> q_apiKeyId (doc r) = k))
    \<and> pg_page result = map (shownRequest s) (filter (\<lambda>r. q_userId (doc r) = u) (pg_page (paginate
        (requested\<lparr>po_numItems := n\<rparr>)
        (requestsNewestFirst (\<lambda>q. case keyId of None \<Rightarrow> q_userId q = u | Some k \<Rightarrow> q_apiKeyId q = k) s))))
    \<and> (po_numItems requested = NaN \<and> n = NaN \<or> (\<exists>v. n = Num v \<and> 1 \<le> v \<and> v \<le> 100))"
proof -
  obtain u where u: "requireUserId now auth s = Inr u" using assms(2) by (auto simp: recent_def split: sum.splits)
  define n where "n = js_min (js_max (Num 1) (po_numItems requested)) (Num MAX_PAGE_SIZE)"
  define Q :: "apiRequest \<Rightarrow> bool" where "Q q = (case keyId of None \<Rightarrow> q_userId q = u | Some k \<Rightarrow> q_apiKeyId q = k)" for q
  have own: "\<not> (case keyId of None \<Rightarrow> False | Some k \<Rightarrow> ownedKey k u s = None)"
    using assms(2) u by (auto simp: recent_def split: if_splits)
  have rows: "requestsNewestFirst Q s = (case keyId of Some k \<Rightarrow> requestsNewestFirst (\<lambda>q. q_apiKeyId q = k) s
      | None \<Rightarrow> requestsNewestFirst (\<lambda>q. q_userId q = u) s)"
    by (simp add: Q_def [abs_def] split: option.split)
  have res: "pg_page result = map (shownRequest s) (filter (\<lambda>r. q_userId (doc r) = u)
      (pg_page (paginate (requested\<lparr>po_numItems := n\<rparr>) (requestsNewestFirst Q s))))"
    using assms(2) own by (auto simp: recent_def u Let_def showRequest_fold n_def rows)
  have sub: "r \<in> set (apiRequests s) \<and> Q (doc r)"
    if "r \<in> set (pg_page (paginate (requested\<lparr>po_numItems := n\<rparr>) (requestsNewestFirst Q s)))" for r
    using that assms(1) by (force simp: requestsNewestFirst_def set_tselect)
  have isolated: "\<forall>row \<in> set (pg_page result). \<exists>r \<in> set (apiRequests s). row = shownRequest s r \<and> q_userId (doc r) = u
        \<and> (\<forall>k. keyId = Some k \<longrightarrow> q_apiKeyId (doc r) = k)"
    using sub by (fastforce simp: res Q_def)
  have owned: "\<forall>k. keyId = Some k \<longrightarrow> (\<exists>r. tget (apiKeys s) k = Some r \<and> k_userId (doc r) = u)"
    using own by (auto simp: ownedKey_def split: option.splits if_splits)
  have bound: "po_numItems requested = NaN \<and> n = NaN \<or> (\<exists>v. n = Num v \<and> 1 \<le> v \<and> v \<le> 100)"
    using clamp_cases [of 1 MAX_PAGE_SIZE "po_numItems requested"] by (auto simp: n_def MAX_PAGE_SIZE_def)
  show ?thesis using u owned isolated res [unfolded Q_def [abs_def]] bound by blast
qed

definition firstPage :: "pageOpts \<Rightarrow> apiRequest row list \<Rightarrow> apiRequest row page" where
  "firstPage opts rows = \<lparr>pg_page = (case po_numItems opts of Num n \<Rightarrow> take (nat \<lfloor>n\<rfloor>) rows | _ \<Rightarrow> []),
     pg_isDone = True, pg_continueCursor = []\<rparr>"

definition requestDb :: db where
  "requestDb = sampleDb\<lparr>nextId := 9, apiRequests := [Row 8 5 \<lparr>q_apiKeyId = 1, q_userId = 0, q_endpoint = ''/v1/route'',
     q_method = ''GET'', q_statusCode = 200, q_responseTimeMs = 12, q_timestamp = of_int sampleNow\<rparr>]\<rparr>"

theorem recent_own_requests_witness:
  "\<exists>result. recent firstPage sampleNow sampleAuth \<lparr>po_numItems = Num 20, po_cursor = None\<rparr> (Some 1) requestDb = Inr result
     \<and> pg_page result = [shownRequest requestDb (hd (apiRequests requestDb))]"
proof -
  let ?o = "\<lparr>po_numItems = Num 20, po_cursor = None\<rparr>"
  have sub: "set (pg_page (firstPage opts rows)) \<subseteq> set rows" for opts rows
    by (auto simp: firstPage_def dest: in_set_takeD split: jsnum.splits)
  have "(case recent firstPage sampleNow sampleAuth ?o (Some 1) requestDb of Inr x \<Rightarrow> length (pg_page x) = 1 | Inl e \<Rightarrow> False)"
    by code_simp
  then obtain result where run: "recent firstPage sampleNow sampleAuth ?o (Some 1) requestDb = Inr result"
    and one: "length (pg_page result) = 1" by (auto split: sum.splits)
  then obtain row where row: "pg_page result = [row]" by (auto simp: length_Suc_conv)
  from recent_own_requests [OF sub run] have "\<exists>r \<in> set (apiRequests requestDb). row = shownRequest requestDb r"
    unfolding row by auto
  then have "row = shownRequest requestDb (hd (apiRequests requestDb))" by (simp add: requestDb_def)
  with run row show ?thesis by simp
qed

end
