(* ===== verification/Json.thy ===== *)
theory Json
  imports Prelude
begin

text \<open>
  JSON values, as \<open>JSON.parse\<close> and \<open>response.json()\<close> return them, and what the source does with values of
  unknown type: property access, \<open>typeof\<close> tests and the numeric conversion \<open>Number(value)\<close>. The
  parser itself is the standard library's and is an argument of the definitions that use it.
\<close>

datatype json =
    JNull
  | JBool bool
  | JNum jsnum
  | JStr string
  | JArr "json list"
  | JObj "(string \<times> json) list"

text \<open>\<open>body.name\<close>: \<open>None\<close> is \<open>undefined\<close>. The last of several equal names wins, as in \<open>JSON.parse\<close>.\<close>

definition jfield :: "string \<Rightarrow> json \<Rightarrow> json option" where
  "jfield name j = (case j of JObj fs \<Rightarrow> map_of (rev fs) name | _ \<Rightarrow> None)"

definition jstring :: "json option \<Rightarrow> string option" where
  "jstring v = (case v of Some (JStr s) \<Rightarrow> Some s | _ \<Rightarrow> None)"

definition jnumber :: "json option \<Rightarrow> jsnum option" where
  "jnumber v = (case v of Some (JNum n) \<Rightarrow> Some n | _ \<Rightarrow> None)"

text \<open>\<open>Number(v)\<close>. An array converts through its string: empty is 0, one element is that element's string
  (an element \<open>null\<close> is the empty string), anything else is not a number; an object is not a number.\<close>

fun toNumber :: "json \<Rightarrow> jsnum" where
  "toNumber JNull = Num 0"
| "toNumber (JBool b) = Num (if b then 1 else 0)"
| "toNumber (JNum n) = n"
| "toNumber (JStr s) = js_Number s"
| "toNumber (JArr []) = Num 0"
| "toNumber (JArr [x]) = (case x of JBool b \<Rightarrow> NaN | JObj fs \<Rightarrow> NaN | _ \<Rightarrow> toNumber x)"
| "toNumber (JArr (x # y # xs)) = NaN"
| "toNumber (JObj fs) = NaN"

definition js_number :: "json option \<Rightarrow> jsnum" where
  "js_number v = (case v of None \<Rightarrow> NaN | Some j \<Rightarrow> toNumber j)"

end
