(* ===== verification/Wire.thy ===== *)
theory Wire
  imports Json Crypto Env
begin

text \<open>
  \<open>lib/wire.ts\<close>: requests to the payment provider and the signature of its webhook. The network is an
  argument: \<open>fetch\<close> maps a request to the response, or to the error it rejects with. A payment intent is
  read from the JSON body field by field; a field of another type than the source declares reads as
  missing.
\<close>

definition API_BASE :: string where
  "API_BASE = ''https://api.wire.mn''"

record WireIntent =
  wi_id :: "string option"
  wi_status :: "string option"
  wi_amount :: "jsnum option"
  wi_currency :: "string option"
  wi_next_action :: "json option"

definition intentOf :: "json \<Rightarrow> WireIntent" where
  "intentOf body = \<lparr>wi_id = jstring (jfield ''id'' body), wi_status = jstring (jfield ''status'' body),
     wi_amount = jnumber (jfield ''amount'' body), wi_currency = jstring (jfield ''currency'' body),
     wi_next_action = jfield ''next_action'' body\<rparr>"

record wireOptions =
  wo_method :: "string option"
  wo_body :: "json option"
  wo_idempotencyKey :: "string option"

record fetchRequest =
  fr_url :: string
  fr_method :: string
  fr_headers :: "(string \<times> string) list"
  fr_body :: "json option"

record fetchResponse =
  fs_ok :: bool
  fs_status :: int
  fs_json :: "error + json"

type_synonym fetch = "fetchRequest \<Rightarrow> error + fetchResponse"

definition wireErrorCode :: "json \<Rightarrow> string" where
  "wireErrorCode body =
     (case jfield ''error'' body of
        Some details \<Rightarrow> (case jstring (jfield ''code'' details) of Some c \<Rightarrow> c | None \<Rightarrow> ''request_failed'')
      | None \<Rightarrow> ''request_failed'')"

definition wireRequest :: "environment \<Rightarrow> fetch \<Rightarrow> string \<Rightarrow> wireOptions \<Rightarrow> error + json" where
  "wireRequest env fetch path options =
     (let secret = env ''WIREPAYMENT_SECRET_KEY'' in
      if secret = None \<or> secret = Some [] then Inl (PlainError ''WIREPAYMENT_SECRET_KEY is not configured.'')
      else case fetch \<lparr>fr_url = API_BASE @ path,
          fr_method = (case wo_method options of None \<Rightarrow> ''GET'' | Some m \<Rightarrow> m),
          fr_headers = [(''Authorization'', ''Bearer '' @ the secret), (''Content-Type'', ''application/json'')]
            @ (case wo_idempotencyKey options of None \<Rightarrow> [] | Some k \<Rightarrow> if k = [] then [] else [(''Idempotency-Key'', k)]),
          fr_body = wo_body options\<rparr> of
        Inl e \<Rightarrow> Inl e
      | Inr response \<Rightarrow>
          (case fs_json response of
             Inl e \<Rightarrow> Inl e
           | Inr body \<Rightarrow>
               if \<not> fs_ok response then Inl (WireError (fs_status response) (wireErrorCode body))
               else Inr body))"

section \<open>The webhook's signature\<close>

definition timingSafeEqualBytes :: "byte list \<Rightarrow> byte list \<Rightarrow> bool" where
  "timingSafeEqualBytes a b =
     (if length a \<noteq> length b then False
      else fold (\<lambda>i diff. or diff (xor (ucast (a ! i) :: 32 word) (ucast (b ! i)))) [0..<length a] 0 = 0)"

text \<open>The bytes of an even number of hexadecimal digits.\<close>

fun hexBytes :: "string \<Rightarrow> byte list" where
  "hexBytes (c # d # s) =
     (case (hex_val c, hex_val d) of
        (Some x, Some y) \<Rightarrow> of_nat (16 * x + y) # hexBytes s
      | _ \<Rightarrow> [])"
| "hexBytes _ = []"

text \<open>\<open>entries.find(([name]) => name === n)?.[1]\<close>.\<close>

definition entryValue :: "string list list \<Rightarrow> string \<Rightarrow> string option" where
  "entryValue entries n =
     (case find (\<lambda>e. e \<noteq> [] \<and> hd e = n) entries of
        None \<Rightarrow> None
      | Some e \<Rightarrow> if 2 \<le> length e then Some (e ! 1) else None)"

definition headerEntries :: "string \<Rightarrow> string list list" where
  "headerEntries header = map (\<lambda>entry. split_on (CHR ''='') (trim entry)) (split_on (CHR '','') header)"

definition MAX_SAFE_INTEGER :: nat where
  "MAX_SAFE_INTEGER = 2 ^ 53 - 1"

definition verifyWireSignature :: "hmac \<Rightarrow> string \<Rightarrow> string option \<Rightarrow> string \<Rightarrow> int \<Rightarrow> bool" where
  "verifyWireSignature hmac body header secret nowMs =
     (case header of
        None \<Rightarrow> False
      | Some h \<Rightarrow>
          if h = [] \<or> secret = [] then False
          else (case (entryValue (headerEntries h) ''t'', entryValue (headerEntries h) ''v1'') of
              (Some timestamp, Some signature) \<Rightarrow>
                if timestamp = [] \<or> \<not> list_all is_digit timestamp
                   \<or> length signature \<noteq> 64 \<or> \<not> list_all (\<lambda>c. hex_val c \<noteq> None) signature then False
                else (let seconds = digits_value timestamp in
                  if MAX_SAFE_INTEGER < seconds \<or> 300 < \<bar>of_int nowMs / 1000 - (of_nat seconds :: rat)\<bar> then False
                  else timingSafeEqualBytes (hexBytes signature)
                    (hmac (encode secret) (encode (timestamp @ ''.'' @ body))))
            | _ \<Rightarrow> False))"

end
