(* ===== verification/Urls.thy ===== *)
theory Urls
  imports JsMath
begin

text \<open>
  Text as URLs carry it: \<open>encodeURIComponent\<close>, the form encoding of \<open>URLSearchParams\<close>, and \<open>String(x)\<close> of a
  number. Strings are bytes here. A number is written by its decimal expansion, of at most 20 decimals (a
  double has a finite one); exponent notation, which starts at 1e21, is not modelled.
\<close>

section \<open>Percent encoding\<close>

definition is_unreserved :: "char \<Rightarrow> bool" where
  "is_unreserved c = (is_alnum c \<or> c \<in> set ''-_.!~*()'' \<or> code c = 39)"

definition upper_hex :: "nat \<Rightarrow> char" where
  "upper_hex n = (if n < 10 then char_of (n + 48) else char_of (n + 55))"

definition percent :: "char \<Rightarrow> string" where
  "percent c = [CHR ''%'', upper_hex (code c div 16), upper_hex (code c mod 16)]"

definition encodeURIComponent :: "string \<Rightarrow> string" where
  "encodeURIComponent s = concat (map (\<lambda>c. if is_unreserved c then [c] else percent c) s)"

definition formByte :: "char \<Rightarrow> string" where
  "formByte c = (if is_alnum c \<or> c \<in> set ''*-._'' then [c] else if code c = 32 then ''+'' else percent c)"

definition formText :: "string \<Rightarrow> string" where
  "formText s = concat (map formByte s)"

fun join :: "string \<Rightarrow> string list \<Rightarrow> string" where
  "join sep [] = []"
| "join sep [x] = x"
| "join sep (x # y # xs) = x @ sep @ join sep (y # xs)"

text \<open>\<open>new URLSearchParams(pairs).toString()\<close>.\<close>

definition searchParams :: "(string \<times> string) list \<Rightarrow> string" where
  "searchParams ps = join ''&'' (map (\<lambda>(k, v). formText k @ ''='' @ formText v) ps)"

section \<open>Numbers\<close>

text \<open>The number of decimals of \<open>r\<close>, at most the fuel.\<close>

fun decimals :: "nat \<Rightarrow> rat \<Rightarrow> nat" where
  "decimals 0 r = 0"
| "decimals (Suc fuel) r = (if of_int \<lfloor>r\<rfloor> = r then 0 else Suc (decimals fuel (r * 10)))"

text \<open>\<open>r.toFixed(k)\<close> for \<open>0 \<le> r\<close>, and for any \<open>r\<close>.\<close>

definition fixed_nonneg :: "nat \<Rightarrow> rat \<Rightarrow> string" where
  "fixed_nonneg k r =
     (let n = nat (js_round (r * 10 ^ k)) in
      show_nat (n div 10 ^ k) @ (if k = 0 then [] else ''.'' @ pad_start k (show_nat (n mod 10 ^ k))))"

definition toFixed :: "nat \<Rightarrow> rat \<Rightarrow> string" where
  "toFixed k r = (if r < 0 then ''-'' @ fixed_nonneg k (- r) else fixed_nonneg k r)"

fun js_String :: "jsnum \<Rightarrow> string" where
  "js_String NaN = ''NaN''"
| "js_String PosInf = ''Infinity''"
| "js_String NegInf = ''-Infinity''"
| "js_String (Num r) = toFixed (decimals 20 \<bar>r\<bar>) r"

section \<open>Small string functions\<close>

text \<open>\<open>s.replace(/\/+$/, "")\<close>, \<open>(s ?? d)\<close>, \<open>s.replace(/\s+/g, "")\<close>.\<close>

definition strip_slashes :: "string \<Rightarrow> string" where
  "strip_slashes s = rev (dropWhile (\<lambda>c. c = CHR ''/'') (rev s))"

definition without_spaces :: "string \<Rightarrow> string" where
  "without_spaces s = filter (\<lambda>c. \<not> is_space c) s"

definition withDefault :: "'a option \<Rightarrow> 'a \<Rightarrow> 'a" where
  "withDefault v d = (case v of None \<Rightarrow> d | Some x \<Rightarrow> x)"

definition newline :: string where
  "newline = [CHR 0x0A]"

section \<open>Decoding\<close>

text \<open>The decoder of the form encoding, as a server applies it, and that it inverts the encoder.\<close>

fun formDecode :: "string \<Rightarrow> string" where
  "formDecode [] = []"
| "formDecode (c # s) =
     (if c = CHR ''+'' then CHR '' '' # formDecode s
      else if c = CHR ''%'' then
        (case s of
           h # l # r \<Rightarrow>
             (case (hex_val h, hex_val l) of
                (Some a, Some b) \<Rightarrow> char_of (16 * a + b) # formDecode r
              | _ \<Rightarrow> c # formDecode s)
         | _ \<Rightarrow> c # formDecode s)
      else c # formDecode s)"

definition splitPair :: "string \<Rightarrow> string \<times> string" where
  "splitPair s = (takeWhile (\<lambda>c. c \<noteq> CHR ''='') s, drop 1 (dropWhile (\<lambda>c. c \<noteq> CHR ''='') s))"

definition parseQuery :: "string \<Rightarrow> (string \<times> string) list" where
  "parseQuery s = (if s = [] then [] else map (\<lambda>p. map_prod formDecode formDecode (splitPair p)) (split_on (CHR ''&'') s))"

lemma hex_val_upper_hex: "n < 16 \<Longrightarrow> hex_val (upper_hex n) = Some n"
proof -
  assume n: "n < 16"
  then have "code (upper_hex n) = (if n < 10 then n + 48 else n + 55)" by (simp add: upper_hex_def code_def)
  with n show ?thesis by (auto simp: hex_val_def is_digit_def)
qed

lemma code_lt: "code c < 256"
  by (simp add: code_def)

lemma decode_percent: "formDecode (percent c @ s) = c # formDecode s"
proof -
  have "16 * (code c div 16) + code c mod 16 = code c" by simp
  moreover have "code c div 16 < 16" using code_lt [of c] by simp
  ultimately show ?thesis by (simp add: percent_def hex_val_upper_hex) (simp add: code_def)
qed

lemma plain_byte: "is_alnum c \<or> c \<in> set ''*-._'' \<Longrightarrow> c \<noteq> CHR ''+'' \<and> c \<noteq> CHR ''%'' \<and> c \<noteq> CHR ''&'' \<and> c \<noteq> CHR ''=''"
  by (auto simp: is_alnum_def is_digit_def is_upper_def is_lower_def code_def)

lemma decode_formByte: "formDecode (formByte c @ s) = c # formDecode s"
proof -
  consider (plain) "is_alnum c \<or> c \<in> set ''*-._''" | (space) "\<not> (is_alnum c \<or> c \<in> set ''*-._'')" "code c = 32"
    | (other) "\<not> (is_alnum c \<or> c \<in> set ''*-._'')" "code c \<noteq> 32" by blast
  then show ?thesis
  proof cases
    case plain
    then show ?thesis using plain_byte [OF plain] by (simp add: formByte_def)
  next
    case space
    have "c = char_of (code c)" by (simp add: code_def)
    also have "\<dots> = CHR '' ''" unfolding space(2) by code_simp
    finally show ?thesis using space by (simp add: formByte_def)
  next
    case other
    then show ?thesis using decode_percent by (simp add: formByte_def)
  qed
qed

lemma decode_formText: "formDecode (formText s) = s"
  by (induction s) (simp_all add: formText_def decode_formByte)

lemma upper_hex_plain: "n < 16 \<Longrightarrow> upper_hex n \<noteq> CHR ''&'' \<and> upper_hex n \<noteq> CHR ''=''"
proof -
  assume "n < 16"
  then have "code (upper_hex n) = (if n < 10 then n + 48 else n + 55)" by (simp add: upper_hex_def code_def)
  then show ?thesis by (auto simp: code_def split: if_splits)
qed

lemma formText_plain: "c \<in> set (formText s) \<Longrightarrow> c \<noteq> CHR ''&'' \<and> c \<noteq> CHR ''=''"
proof -
  assume "c \<in> set (formText s)"
  then obtain d where d: "c \<in> set (formByte d)" by (auto simp: formText_def)
  have "code d div 16 < 16" "code d mod 16 < 16" using code_lt [of d] by simp_all
  with d show ?thesis
    using plain_byte [of d] upper_hex_plain [of "code d div 16"] upper_hex_plain [of "code d mod 16"]
    by (auto simp: formByte_def percent_def split: if_splits)
qed

lemma split_on_none: "c \<notin> set s \<Longrightarrow> split_on c s = [s]"
  by (induction s) auto

lemma split_on_join: "c \<notin> set s \<Longrightarrow> split_on c (s @ c # t) = s # split_on c t"
  by (induction s) auto

lemma split_join: "(\<And>x. x \<in> set xs \<Longrightarrow> c \<notin> set x) \<Longrightarrow> xs \<noteq> [] \<Longrightarrow> split_on c (join [c] xs) = xs"
  by (induction "[c]" xs rule: join.induct) (auto simp: split_on_none split_on_join)

lemma splitPair_eq: "CHR ''='' \<notin> set k \<Longrightarrow> splitPair (k @ ''='' @ v) = (k, v)"
  by (induction k) (auto simp: splitPair_def)

text \<open>What a server reads is what the client wrote: no value can add or change a parameter.\<close>

lemma parseQuery_searchParams: "ps \<noteq> [] \<Longrightarrow> parseQuery (searchParams ps) = ps"
proof -
  let ?f = "\<lambda>(k, v). formText k @ ''='' @ formText v"
  assume ne: "ps \<noteq> []"
  have amp: "CHR ''&'' \<notin> set x" if "x \<in> set (map ?f ps)" for x
    using that formText_plain by fastforce
  have split: "split_on (CHR ''&'') (searchParams ps) = map ?f ps"
    unfolding searchParams_def using split_join [of "map ?f ps" "CHR ''&''"] amp ne by auto
  have nonempty: "searchParams ps \<noteq> []"
  proof
    assume "searchParams ps = []"
    then have "map ?f ps = [[]]" using split by simp
    then show False by (auto split: prod.splits)
  qed
  have "map_prod formDecode formDecode (splitPair (formText k @ ''='' @ formText v)) = (k, v)" for k v
  proof -
    have "CHR ''='' \<notin> set (formText k)" using formText_plain by blast
    from splitPair_eq [OF this] show ?thesis by (simp only: map_prod_simp decode_formText)
  qed
  then have "map (\<lambda>p. map_prod formDecode formDecode (splitPair p)) (map ?f ps) = ps"
    by (induction ps) (auto split: prod.splits)
  with split nonempty show ?thesis by (simp add: parseQuery_def)
qed

end
