(* ===== verification/Payments.thy ===== *)
theory Payments
  imports Wire Session Urls
begin

text \<open>
  \<open>payments.ts\<close>: the free tier, checkouts with the payment provider and the granting of plans. The row of
  a payment intent is the gate: \<open>settle\<close> (\<open>_settle\<close>) acts on a pending row only. The actions call the
  provider through the argument \<open>fetch\<close> and commit one mutation at a time, so they are actions of the
  prelude: what was written stays when a later call throws.
\<close>

fun planName :: "PaidPlan \<Rightarrow> string" where
  "planName Starter = ''starter''"
| "planName Essentials = ''essentials''"
| "planName Pro = ''pro''"

section \<open>Queries\<close>

record paymentSummary =
  ps_id :: nat
  ps_plan :: PaidPlan
  ps_status :: paymentStatus
  ps_amountMinor :: int
  ps_createdAt :: int
  ps_paidAt :: "int option"

record billing =
  b_plan :: "PaidPlan option"
  b_planExpiresAt :: "int option"
  b_canUseApiKeys :: bool
  b_activated :: bool
  b_remaining :: int
  b_total :: int
  b_priceMnt :: int
  b_payments :: "paymentSummary list"

text \<open>An index ending in \<open>createdAt\<close>, read in descending order.\<close>

definition newestFirst :: "payment row list \<Rightarrow> payment row list" where
  "newestFirst rows = rev (sort_key (\<lambda>r. p_createdAt (doc r)) rows)"

definition myBilling :: "int \<Rightarrow> authContext \<Rightarrow> db \<Rightarrow> error + billing" where
  "myBilling now auth s =
     (case requireUserId now auth s of
        Inl e \<Rightarrow> Inl e
      | Inr userId \<Rightarrow>
          (case tget (users s) userId of
             None \<Rightarrow> Inl (ConvexError ''Account not found.'')
           | Some r \<Rightarrow>
               (let u = doc r;
                    paid = take 20 (newestFirst (tselect (\<lambda>d. p_userId d = userId \<and> p_status d = Succeeded) (payments s)))
                in Inr \<lparr>b_plan = activePlan u now,
                     b_planExpiresAt = (if activePlan u now \<noteq> None then u_planExpiresAt u else None),
                     b_canUseApiKeys = hasKeyAccess u now,
                     b_activated = (u_freeTierActivatedAt u \<noteq> None),
                     b_remaining = freeRequestsRemaining u, b_total = FREE_TOTAL_REQUESTS,
                     b_priceMnt = PLAN_PRICE_MNT,
                     b_payments = map (\<lambda>p. \<lparr>ps_id = rid p, ps_plan = p_plan (doc p), ps_status = p_status (doc p),
                       ps_amountMinor = p_amountMinor (doc p), ps_createdAt = p_createdAt (doc p),
                       ps_paidAt = p_paidAt (doc p)\<rparr>) paid\<rparr>)))"

definition paymentStatusOf :: "int \<Rightarrow> authContext \<Rightarrow> nat \<Rightarrow> db \<Rightarrow> error + paymentStatus" where
  "paymentStatusOf now auth paymentId s =
     (case requireUserId now auth s of
        Inl e \<Rightarrow> Inl e
      | Inr userId \<Rightarrow>
          (case tget (payments s) paymentId of
             None \<Rightarrow> Inl (ConvexError ''Payment not found.'')
           | Some r \<Rightarrow> if p_userId (doc r) \<noteq> userId then Inl (ConvexError ''Payment not found.'')
               else Inr (p_status (doc r))))"

definition paymentForIntent :: "string \<Rightarrow> db \<Rightarrow> error + payment row option" where
  "paymentForIntent intentId s = uniqueRow (tselect (\<lambda>d. p_paymentIntentId d = intentId) (payments s))"

definition pendingPayments :: "db \<Rightarrow> payment row list" where
  "pendingPayments s = take 100 (newestFirst (tselect (\<lambda>d. p_status d = Pending) (payments s)))"

definition paymentById :: "nat \<Rightarrow> db \<Rightarrow> payment row option" where
  "paymentById paymentId s = tget (payments s) paymentId"

text \<open>\<open>user && !user.disabledAt && !user.isSystem\<close>: a \<open>disabledAt\<close> of 0 is falsy.\<close>

definition userForCheckout :: "nat \<Rightarrow> db \<Rightarrow> nat option" where
  "userForCheckout userId s =
     (case tget (users s) userId of
        None \<Rightarrow> None
      | Some r \<Rightarrow> if (u_disabledAt (doc r) = None \<or> u_disabledAt (doc r) = Some 0) \<and> u_isSystem (doc r) \<noteq> Some True
                  then Some userId else None)"

section \<open>Mutations\<close>

definition activateFreeTier :: "int \<Rightarrow> authContext \<Rightarrow> (db, unit) mut" where
  "activateFreeTier now auth =
     mbind (reads (requireUserId now auth)) (\<lambda>userId.
     mbind (reads (\<lambda>s. Inr (tget (users s) userId))) (\<lambda>user.
       case user of
         None \<Rightarrow> throw (ConvexError ''Account not found.'')
       | Some r \<Rightarrow>
           if u_isSystem (doc r) = Some True \<or> u_disabledAt (doc r) \<noteq> None
           then throw (ConvexError ''Account not found.'')
           else if u_freeTierActivatedAt (doc r) \<noteq> None then ret ()
           else modify (db_patch users_update userId
             (\<lambda>u. u\<lparr>u_freeTierActivatedAt := Some now, u_freeRequestsUsed := Some 0\<rparr>))))"

definition newPayment :: "int \<Rightarrow> nat \<Rightarrow> PaidPlan \<Rightarrow> string \<Rightarrow> payment" where
  "newPayment now userId plan intentId =
     \<lparr>p_userId = userId, p_plan = plan, p_paymentIntentId = intentId, p_amountMinor = PLAN_WIRE_AMOUNT,
      p_currency = ''MNT'', p_status = Pending, p_createdAt = now, p_paidAt = None, p_checkoutUrl = None\<rparr>"

definition recordPending :: "int \<Rightarrow> nat \<Rightarrow> PaidPlan \<Rightarrow> string \<Rightarrow> (db, nat) mut" where
  "recordPending now userId plan intentId =
     mbind (reads (paymentForIntent intentId)) (\<lambda>existing.
       case existing of
         Some r \<Rightarrow>
           if p_userId (doc r) \<noteq> userId \<or> p_plan (doc r) \<noteq> plan
           then throw (PlainError ''Payment intent already belongs to another checkout.'')
           else ret (rid r)
       | None \<Rightarrow> (\<lambda>s. Inr (db_insert payments_update now (newPayment now userId plan intentId) s)))"

text \<open>\<open>_settle\<close>: \<open>succeeded\<close> is \<open>args.status === "succeeded"\<close>.\<close>

definition settle :: "int \<Rightarrow> string \<Rightarrow> bool \<Rightarrow> jsnum \<Rightarrow> string \<Rightarrow> (db, bool) mut" where
  "settle now intentId succeeded amount currency =
     mbind (reads (paymentForIntent intentId)) (\<lambda>found.
       case found of
         None \<Rightarrow> ret False
       | Some r \<Rightarrow>
           (let payment = doc r in
            if p_status payment \<noteq> Pending then ret False
            else if amount \<noteq> Num (of_int (p_amountMinor payment)) \<or> currency \<noteq> p_currency payment then ret False
            else if \<not> succeeded
            then mthen (modify (db_patch payments_update (rid r) (\<lambda>d. d\<lparr>p_status := Failed\<rparr>))) (ret True)
            else mbind (reads (\<lambda>s. Inr (tget (users s) (p_userId payment)))) (\<lambda>user.
              case user of
                None \<Rightarrow> ret False
              | Some u \<Rightarrow>
                  (let existingExpiry = (case (activePlan (doc u) now, u_planExpiresAt (doc u)) of
                         (Some p, Some e) \<Rightarrow> e | _ \<Rightarrow> now) in
                   mthen (modify (db_patch users_update (rid u) (\<lambda>d. d\<lparr>u_plan := Some (p_plan payment),
                       u_planExpiresAt := Some (existingExpiry + PLAN_DURATION_MS)\<rparr>)))
                  (mthen (modify (db_patch payments_update (rid r)
                       (\<lambda>d. d\<lparr>p_status := Succeeded, p_paidAt := Some now\<rparr>)))
                     (ret True))))))"

section \<open>Actions\<close>

text \<open>The mutations that report an intent; a value of the wrong type fails the validator of \<open>_settle\<close>.\<close>

definition settleIntent :: "int \<Rightarrow> string \<Rightarrow> bool \<Rightarrow> WireIntent \<Rightarrow> (db, bool) act" where
  "settleIntent now intentId succeeded intent =
     (case (wi_amount intent, wi_currency intent) of
        (Some amount, Some currency) \<Rightarrow> runMutation (settle now intentId succeeded amount currency)
      | _ \<Rightarrow> athrow (PlainError ''ArgumentValidationError''))"

definition getOptions :: wireOptions where
  "getOptions = \<lparr>wo_method = None, wo_body = None, wo_idempotencyKey = None\<rparr>"

definition checkIntent :: "environment \<Rightarrow> fetch \<Rightarrow> int \<Rightarrow> string \<Rightarrow> (db, string option) act" where
  "checkIntent env fetch now intentId =
     abind (lift (wireRequest env fetch (''/v1/payment_intents/'' @ encodeURIComponent intentId) getOptions)) (\<lambda>body.
       let intent = intentOf body in
       if wi_id intent \<noteq> Some intentId then athrow (PlainError ''Wire returned an unexpected payment intent.'')
       else abind (if wi_status intent = Some ''succeeded'' then settleIntent now intentId True intent
                   else if wi_status intent \<in> {Some ''failed'', Some ''canceled'', Some ''expired''}
                   then settleIntent now intentId False intent
                   else aret False)
              (\<lambda>_. aret (wi_status intent)))"

definition isUuid :: "string \<Rightarrow> bool" where
  "isUuid s =
     (let hex = (\<lambda>c. hex_val c \<noteq> None); parts = split_on (CHR ''-'') s in
      map length parts = [8, 4, 4, 4, 12] \<and> list_all (list_all hex) parts
      \<and> hd (parts ! 2) \<in> set ''12345678'' \<and> hd (parts ! 3) \<in> set ''89abAB'')"

datatype checkout = Ready nat "json option" | Unavailable

definition isTestKey :: "string \<Rightarrow> bool" where
  "isTestKey key = starts_with key ''sk_test_''"

definition intentBody :: "string \<Rightarrow> PaidPlan \<Rightarrow> string \<Rightarrow> string \<Rightarrow> json" where
  "intentBody key plan reference userId =
     JObj ([(''amount'', JNum (Num (of_int PLAN_WIRE_AMOUNT))), (''currency'', JStr ''MNT''),
            (''description'', JStr (''Ubhub '' @ planName plan @ '' '' @ slice0 8 reference)),
            (''automatic_operator'', JBool True)]
           @ (if isTestKey key then [(''allowed_operators'', JArr [JStr ''sandbox''])] else [])
           @ [(''metadata'', JObj [(''userId'', JStr userId), (''plan'', JStr (planName plan))])])"

definition unavailableCodes :: "string list" where
  "unavailableCodes = [''connector_required'', ''settlement_account_required'', ''dan_verification_required'']"

definition validIntent :: "WireIntent \<Rightarrow> bool" where
  "validIntent intent =
     (wi_amount intent = Some (Num (of_int PLAN_WIRE_AMOUNT)) \<and> wi_currency intent = Some ''MNT'')"

text \<open>The last part of \<open>startCheckout\<close>: confirm the recorded intent.\<close>

definition confirmCheckout ::
  "environment \<Rightarrow> fetch \<Rightarrow> int \<Rightarrow> string \<Rightarrow> string \<Rightarrow> nat \<Rightarrow> (db, checkout) act" where
  "confirmCheckout env fetch now reference intentId paymentId =
     abind (lift (wireRequest env fetch (''/v1/payment_intents/'' @ encodeURIComponent intentId @ ''/confirm'')
         \<lparr>wo_method = Some ''POST'', wo_body = Some (JObj []), wo_idempotencyKey = Some (''confirm-'' @ reference)\<rparr>)) (\<lambda>body.
       let confirmed = intentOf body in
       if wi_id confirmed \<noteq> Some intentId \<or> \<not> validIntent confirmed
       then athrow (PlainError ''Invalid confirmed Wire payment intent.'')
       else abind (if wi_status confirmed = Some ''succeeded'' then settleIntent now intentId True confirmed else aret False)
              (\<lambda>_. aret (Ready paymentId (wi_next_action confirmed))))"

definition startCheckout ::
  "environment \<Rightarrow> (nat \<Rightarrow> string) \<Rightarrow> fetch \<Rightarrow> int \<Rightarrow> authContext \<Rightarrow> PaidPlan \<Rightarrow> string \<Rightarrow> (db, checkout) act" where
  "startCheckout env showId fetch now auth plan requestId =
     abind (runQuery (requireUserId now auth)) (\<lambda>userId.
       if \<not> isUuid requestId then athrow (ConvexError ''Invalid checkout request.'')
       else abind (runQuery (\<lambda>s. Inr (userForCheckout userId s))) (\<lambda>account.
         if account = None then athrow (ConvexError ''Account not found.'')
         else (case env ''WIREPAYMENT_SECRET_KEY'' of
             None \<Rightarrow> athrow (ConvexError ''Payments are not configured yet.'')
           | Some key \<Rightarrow>
               if key = [] then athrow (ConvexError ''Payments are not configured yet.'')
               else if isProduction env \<and> isTestKey key
               then athrow (ConvexError ''Live payments are not configured yet.'')
               else (case wireRequest env fetch ''/v1/payment_intents''
                   \<lparr>wo_method = Some ''POST'', wo_body = Some (intentBody key plan requestId (showId userId)),
                    wo_idempotencyKey = Some (''plan-'' @ requestId)\<rparr> of
                   Inl (WireError status errorCode) \<Rightarrow>
                     if errorCode \<in> set unavailableCodes then aret Unavailable else athrow (WireError status errorCode)
                 | Inl e \<Rightarrow> athrow e
                 | Inr body \<Rightarrow>
                     (case wi_id (intentOf body) of
                        None \<Rightarrow> athrow (PlainError ''Invalid Wire payment intent.'')
                      | Some intentId \<Rightarrow>
                          if intentId = [] \<or> \<not> validIntent (intentOf body)
                          then athrow (PlainError ''Invalid Wire payment intent.'')
                          else abind (runMutation (recordPending now userId plan intentId)) (\<lambda>paymentId.
                            confirmCheckout env fetch now requestId intentId paymentId))))))"

datatype refreshResult = Checked | Status paymentStatus

definition refreshPayment ::
  "environment \<Rightarrow> fetch \<Rightarrow> int \<Rightarrow> authContext \<Rightarrow> nat \<Rightarrow> (db, refreshResult) act" where
  "refreshPayment env fetch now auth paymentId =
     abind (runQuery (requireUserId now auth)) (\<lambda>userId.
     abind (runQuery (\<lambda>s. Inr (paymentById paymentId s))) (\<lambda>payment.
       case payment of
         None \<Rightarrow> athrow (ConvexError ''Payment not found.'')
       | Some r \<Rightarrow>
           if p_userId (doc r) \<noteq> userId then athrow (ConvexError ''Payment not found.'')
           else if p_status (doc r) \<noteq> Pending then aret (Status (p_status (doc r)))
           else abind (checkIntent env fetch now (p_paymentIntentId (doc r))) (\<lambda>_. aret Checked)))"

definition settleFromWebhook :: "environment \<Rightarrow> fetch \<Rightarrow> int \<Rightarrow> string \<Rightarrow> (db, string option) act" where
  "settleFromWebhook env fetch now intentId = checkIntent env fetch now intentId"

definition reconcilePending :: "environment \<Rightarrow> fetch \<Rightarrow> int \<Rightarrow> (db, unit) act" where
  "reconcilePending env fetch now =
     abind (runQuery (\<lambda>s. Inr (pendingPayments s))) (\<lambda>pending.
     abind (each (\<lambda>r. attempt (abind (checkIntent env fetch now (p_paymentIntentId (doc r))) (\<lambda>_. aret ()))
                        (\<lambda>e. aret ())) pending)
       (\<lambda>_. aret ()))"

end
