(* ===== verification/PaymentsProps.thy ===== *)
theory PaymentsProps
  imports Payments Samples
begin

text \<open>
  What the payment code guarantees. \<open>settles\<close> is the specification of \<open>_settle\<close> as a relation: it
  either changes nothing, marks the pending payment of the intent failed, or marks it succeeded and
  extends the plan of its user by 30 days. A settled payment is final (\<open>settle_final\<close>), and the actions only
  make such steps (\<open>payment_actions_evolve\<close>).
\<close>

section \<open>_settle\<close>

definition extendedExpiry :: "int \<Rightarrow> user \<Rightarrow> int" where
  "extendedExpiry now u =
     (case (activePlan u now, u_planExpiresAt u) of (Some p, Some e) \<Rightarrow> e | _ \<Rightarrow> now) + PLAN_DURATION_MS"

definition grantPlan :: "int \<Rightarrow> payment row \<Rightarrow> user row \<Rightarrow> db \<Rightarrow> db" where
  "grantPlan now r u s =
     db_patch payments_update (rid r) (\<lambda>d. d\<lparr>p_status := Succeeded, p_paidAt := Some now\<rparr>)
      (db_patch users_update (rid u) (\<lambda>d. d\<lparr>u_plan := Some (p_plan (doc r)),
         u_planExpiresAt := Some (extendedExpiry now (doc u))\<rparr>) s)"

inductive settles :: "int \<Rightarrow> string \<Rightarrow> bool \<Rightarrow> db \<Rightarrow> bool \<Rightarrow> db \<Rightarrow> bool"
  for now intentId succeeded s where
  nothing: "settles now intentId succeeded s False s"
| failed: "r \<in> set (payments s) \<Longrightarrow> p_paymentIntentId (doc r) = intentId \<Longrightarrow> p_status (doc r) = Pending \<Longrightarrow>
    \<not> succeeded \<Longrightarrow>
    settles now intentId succeeded s True (db_patch payments_update (rid r) (\<lambda>d. d\<lparr>p_status := Failed\<rparr>) s)"
| granted: "r \<in> set (payments s) \<Longrightarrow> p_paymentIntentId (doc r) = intentId \<Longrightarrow> p_status (doc r) = Pending \<Longrightarrow>
    succeeded \<Longrightarrow> tget (users s) (p_userId (doc r)) = Some u \<Longrightarrow>
    settles now intentId succeeded s True (grantPlan now r u s)"

inductive_cases settles_TrueE: "settles now intentId succeeded s True s'"

lemma paymentForIntent_Some: "paymentForIntent i s = Inr (Some r) \<Longrightarrow> r \<in> set (payments s) \<and> p_paymentIntentId (doc r) = i"
  unfolding paymentForIntent_def by (rule uniqueRow_in)

lemma paymentForIntent_found:
  "wf_intents s \<Longrightarrow> r \<in> set (payments s) \<Longrightarrow> paymentForIntent (p_paymentIntentId (doc r)) s = Inr (Some r)"
  by (simp add: paymentForIntent_def wf_intents_def uniqueRow_keyed_Some)

lemma paymentForIntent_total: "wf_intents s \<Longrightarrow> \<exists>x. paymentForIntent i s = Inr x"
  using uniqueRow_keyed [of p_paymentIntentId "payments s" i] by (auto simp: paymentForIntent_def wf_intents_def)

lemma settle_spec:
  assumes "settle now intentId succeeded amount currency s = Inr (b, s')"
  shows "settles now intentId succeeded s b s'"
    and "b \<Longrightarrow> \<exists>r \<in> set (payments s). p_paymentIntentId (doc r) = intentId \<and> p_status (doc r) = Pending
      \<and> amount = Num (of_int (p_amountMinor (doc r))) \<and> currency = p_currency (doc r)"
proof -
  obtain found where f: "paymentForIntent intentId s = Inr found"
    using assms by (auto simp: settle_def mbind_reads split: sum.splits)
  have "settles now intentId succeeded s b s' \<and> (b \<longrightarrow> (\<exists>r \<in> set (payments s).
      p_paymentIntentId (doc r) = intentId \<and> p_status (doc r) = Pending
      \<and> amount = Num (of_int (p_amountMinor (doc r))) \<and> currency = p_currency (doc r)))"
  proof (cases found)
    case None
    with f assms show ?thesis by (auto simp: settle_def mbind_reads intro: settles.nothing)
  next
    case (Some r)
    note r = paymentForIntent_Some [OF f [unfolded Some]]
    show ?thesis
    proof (cases "p_status (doc r) = Pending \<and> amount = Num (of_int (p_amountMinor (doc r)))
        \<and> currency = p_currency (doc r)")
      case False
      with f Some assms show ?thesis
        by (auto simp: settle_def mbind_reads Let_def intro: settles.nothing split: if_splits)
    next
      case True
      then have w: "\<exists>r \<in> set (payments s). p_paymentIntentId (doc r) = intentId \<and> p_status (doc r) = Pending
        \<and> amount = Num (of_int (p_amountMinor (doc r))) \<and> currency = p_currency (doc r)" using r by blast
      show ?thesis
      proof (cases succeeded)
        case False
        have "settle now intentId succeeded amount currency s
            = Inr (True, db_patch payments_update (rid r) (\<lambda>d. d\<lparr>p_status := Failed\<rparr>) s)"
          unfolding settle_def mbind_reads f Some using True False by (simp add: Let_def mthen_def mbind_def)
        with assms have "b = True" "s' = db_patch payments_update (rid r) (\<lambda>d. d\<lparr>p_status := Failed\<rparr>) s"
          by simp_all
        with False r True w show ?thesis by (auto intro: settles.failed)
      next
        case succ: True
        show ?thesis
        proof (cases "tget (users s) (p_userId (doc r))")
          case None
          with f Some True succ assms show ?thesis
            by (auto simp: settle_def mbind_reads Let_def intro: settles.nothing)
        next
          case (Some u)
          have "settle now intentId succeeded amount currency s = Inr (True, grantPlan now r u s)"
            unfolding settle_def mbind_reads f \<open>found = Some r\<close> using True succ Some
            by (simp add: mbind_reads Let_def mthen_def mbind_def grantPlan_def extendedExpiry_def)
          with assms have "b = True" "s' = grantPlan now r u s"
            by simp_all
          with Some r True succ w show ?thesis by (auto intro: settles.granted)
        qed
      qed
    qed
  qed
  then show "settles now intentId succeeded s b s'"
    and "b \<Longrightarrow> \<exists>r \<in> set (payments s). p_paymentIntentId (doc r) = intentId \<and> p_status (doc r) = Pending
      \<and> amount = Num (of_int (p_amountMinor (doc r))) \<and> currency = p_currency (doc r)" by auto
qed

lemma payments_after:
  "payments (grantPlan now r u s) = tpatch (rid r) (\<lambda>d. d\<lparr>p_status := Succeeded, p_paidAt := Some now\<rparr>) (payments s)"
  "users (grantPlan now r u s) = tpatch (rid u) (\<lambda>d. d\<lparr>u_plan := Some (p_plan (doc r)),
     u_planExpiresAt := Some (extendedExpiry now (doc u))\<rparr>) (users s)"
  by (simp_all add: grantPlan_def db_patch_def)

lemma wf_intents_patch:
  "wf_intents s \<Longrightarrow> (\<And>d. p_paymentIntentId (f d) = p_paymentIntentId d) \<Longrightarrow> wf_intents (db_patch payments_update i f s)"
  by (simp add: wf_intents_def db_patch_def keyed_tpatch)

lemma wf_db_patch_payments:
  "wf_db s \<Longrightarrow> (\<And>d. p_paymentIntentId (f d) = p_paymentIntentId d) \<Longrightarrow> wf_db (db_patch payments_update i f s)"
  by (simp add: wf_defs db_patch_def keyed_tpatch)

lemma settles_wf:
  assumes "settles now i succ s b s'" and "wf_db s"
  shows "wf_db s'"
  using assms
proof cases
  case (granted r u)
  then show ?thesis using assms(2)
    by (simp add: grantPlan_def) (intro wf_db_patch_payments; simp add: wf_defs db_patch_def)
qed (auto simp: wf_db_patch_payments)

lemma keeps_settle [keeps_intro]: "keeps wf_db (settle now i succ a c)"
  by (rule keepsI) (blast dest: settle_spec(1) settles_wf)

lemma tget_tpatch_found:
  "tget t k = Some r \<Longrightarrow> tget (tpatch k f t) i = (if i = k then Some (Row k (ctime r) (f (doc r))) else tget t i)"
  by (cases "tget t i") (auto simp: tget_tpatch)

text \<open>The row of the intent is no longer pending afterwards.\<close>

lemma tpatch_all:
  assumes "\<And>q. q \<in> set t \<Longrightarrow> P (if rid q = i then Row i (ctime q) (f (doc q)) else q)"
  shows "\<forall>r \<in> set (tpatch i f t). P r"
  using assms by (auto simp: set_tpatch)

lemma settles_final:
  assumes "settles now i succ s True s'" and "wf_db s"
  shows "\<forall>r \<in> set (payments s'). p_paymentIntentId (doc r) = i \<longrightarrow> p_status (doc r) \<noteq> Pending"
proof -
  have uniq: "\<And>x y. x \<in> set (payments s) \<Longrightarrow> y \<in> set (payments s) \<Longrightarrow>
      p_paymentIntentId (doc x) = p_paymentIntentId (doc y) \<Longrightarrow> x = y"
    using assms(2) by (auto simp: wf_defs keyed_def distinct_map dest: inj_onD)
  have final: "\<forall>q \<in> set (tpatch (rid r) f (payments s)). p_paymentIntentId (doc q) = i \<longrightarrow> p_status (doc q) \<noteq> Pending"
    if "r \<in> set (payments s)" "p_paymentIntentId (doc r) = i" "\<And>d. p_status (f d) \<noteq> Pending" for r f
  proof (rule tpatch_all)
    fix q assume "q \<in> set (payments s)"
    with uniq [of q r] that show "p_paymentIntentId (doc (if rid q = rid r then Row (rid r) (ctime q) (f (doc q)) else q)) = i
        \<longrightarrow> p_status (doc (if rid q = rid r then Row (rid r) (ctime q) (f (doc q)) else q)) \<noteq> Pending"
      by (cases "rid q = rid r") auto
  qed
  from assms(1) show ?thesis
  proof cases
    case (failed r)
    have "payments s' = tpatch (rid r) (\<lambda>d. d\<lparr>p_status := Failed\<rparr>) (payments s)"
      by (simp add: failed(1) db_patch_def)
    then show ?thesis using final [OF failed(2,3), of "\<lambda>d. d\<lparr>p_status := Failed\<rparr>"] by simp
  next
    case (granted r u)
    show ?thesis unfolding granted(1) payments_after by (rule final [OF granted(2,3)]) simp
  qed simp
qed

text \<open>Settling is idempotent: once \<open>_settle\<close> has acted on an intent, every later call for it, at any time and with
  any status, amount or currency (a repeated webhook, a refresh, the reconciliation), returns false and
  changes nothing; so a payment extends a plan at most once.\<close>

theorem settle_at_most_once:
  assumes "wf_db s" and "settle now intentId succeeded amount currency s = Inr (True, s')"
  shows "wf_db s' \<and> settle now' intentId succeeded' amount' currency' s' = Inr (False, s')"
proof
  note sp = settle_spec(1) [OF assms(2)]
  show wf: "wf_db s'" by (rule settles_wf [OF sp assms(1)])
  then obtain found where f: "paymentForIntent intentId s' = Inr found"
    using paymentForIntent_total by (auto simp: wf_db_def)
  show "settle now' intentId succeeded' amount' currency' s' = Inr (False, s')"
  proof (cases found)
    case None
    with f show ?thesis by (simp add: settle_def mbind_reads)
  next
    case (Some r)
    have "p_status (doc r) \<noteq> Pending"
      using settles_final [OF sp assms(1)] paymentForIntent_Some f Some by blast
    with f Some show ?thesis by (simp add: settle_def mbind_reads Let_def)
  qed
qed

definition samplePayment :: payment where
  "samplePayment = newPayment 5 0 Starter ''pi_1''"

definition payDb :: db where
  "payDb = sampleDb\<lparr>nextId := 9, payments := [Row 8 5 samplePayment]\<rparr>"

lemma payDb_wf: "wf_db payDb"
  by code_simp

lemma payDb_settles: "\<exists>s'. settle sampleNow ''pi_1'' True (Num 1000) ''MNT'' payDb = Inr (True, s')"
proof -
  have "(case settle sampleNow ''pi_1'' True (Num 1000) ''MNT'' payDb of Inr (b, s') \<Rightarrow> b | _ \<Rightarrow> False)"
    by code_simp
  then show ?thesis by (auto split: sum.splits prod.splits)
qed

theorem settle_at_most_once_witness:
  "\<exists>s'. settle sampleNow ''pi_1'' True (Num 1000) ''MNT'' payDb = Inr (True, s')
    \<and> settle (sampleNow + 1) ''pi_1'' True (Num 1000) ''MNT'' s' = Inr (False, s')"
  using payDb_settles settle_at_most_once [OF payDb_wf] by blast

text \<open>C13. A plan is granted exactly as paid for: when \<open>_settle\<close> accepts a success, there was a pending payment of
  that intent whose amount and currency the provider confirmed; its user gets the plan of the payment until 30 days
  after the end of the active plan, or after now when none is active; the payment is marked succeeded at
  that time; and no other account and no other payment changes.\<close>

theorem settle_grants_paid_plan:
  assumes "wf_db s" and "settle now intentId True amount currency s = Inr (True, s')"
  shows "\<exists>r u. paymentForIntent intentId s = Inr (Some r) \<and> p_status (doc r) = Pending
    \<and> amount = Num (of_int (p_amountMinor (doc r))) \<and> currency = p_currency (doc r)
    \<and> tget (users s) (p_userId (doc r)) = Some u
    \<and> (\<exists>u'. tget (users s') (p_userId (doc r)) = Some u' \<and> u_plan (doc u') = Some (p_plan (doc r))
        \<and> u_planExpiresAt (doc u') = Some ((case activePlan (doc u) now of Some p \<Rightarrow> the (u_planExpiresAt (doc u))
             | None \<Rightarrow> now) + 30 * 86400000)
        \<and> u_disabledAt (doc u') = u_disabledAt (doc u) \<and> freeUsed (doc u') = freeUsed (doc u))
    \<and> (\<forall>i. i \<noteq> p_userId (doc r) \<longrightarrow> tget (users s') i = tget (users s) i)
    \<and> tget (payments s') (rid r) = Some (Row (rid r) (ctime r) ((doc r)\<lparr>p_status := Succeeded, p_paidAt := Some now\<rparr>))
    \<and> (\<forall>i. i \<noteq> rid r \<longrightarrow> tget (payments s') i = tget (payments s) i)
    \<and> apiKeys s' = apiKeys s \<and> quotaWindows s' = quotaWindows s"
proof -
  obtain r0 where r0: "r0 \<in> set (payments s)" "p_paymentIntentId (doc r0) = intentId" "p_status (doc r0) = Pending"
    "amount = Num (of_int (p_amountMinor (doc r0)))" "currency = p_currency (doc r0)"
    using settle_spec(2) [OF assms(2)] by auto
  have wfi: "wf_intents s" using assms(1) by (simp add: wf_db_def)
  from settle_spec(1) [OF assms(2)] show ?thesis
  proof cases
    case (granted r u)
    have f: "paymentForIntent intentId s = Inr (Some r)" using paymentForIntent_found [OF wfi granted(2)] granted(3) by simp
    then have "r = r0" using paymentForIntent_found [OF wfi r0(1)] r0(2) by simp
    have u: "rid u = p_userId (doc r)" using granted(6) by (rule tget_rid)
    have r: "tget (payments s) (rid r) = Some r"
      using assms(1) granted(2) by (auto simp: wf_db_def wf_ids_def intro: tget_in)
    have exp: "extendedExpiry now (doc u) = (case activePlan (doc u) now of Some p \<Rightarrow> the (u_planExpiresAt (doc u))
             | None \<Rightarrow> now) + 30 * 86400000"
      by (auto simp: extendedExpiry_def PLAN_DURATION_MS_def activePlan_def split: option.splits if_splits)
    have other: "apiKeys s' = apiKeys s" "quotaWindows s' = quotaWindows s"
      unfolding granted(1) by (simp_all add: grantPlan_def db_patch_def)
    let ?u' = "Row (rid u) (ctime u) ((doc u)\<lparr>u_plan := Some (p_plan (doc r)),
        u_planExpiresAt := Some (extendedExpiry now (doc u))\<rparr>)"
    have us: "\<And>i. tget (users s') i = (if i = rid u then Some ?u' else tget (users s) i)"
      unfolding granted(1) payments_after by (rule tget_tpatch_found) (use granted(6) u in simp)
    have ps: "\<And>i. tget (payments s') i = (if i = rid r then Some (Row (rid r) (ctime r)
        ((doc r)\<lparr>p_status := Succeeded, p_paidAt := Some now\<rparr>)) else tget (payments s) i)"
      unfolding granted(1) payments_after by (rule tget_tpatch_found) (rule r)
    have res: "tget (users s') (p_userId (doc r)) = Some ?u'" using us u by simp
    show ?thesis
      by (intro exI [of _ r] exI [of _ u] exI [of _ ?u'] conjI f granted(4,6) other res)
        (use r0 \<open>r = r0\<close> us ps u in \<open>auto simp: exp freeUsed_def\<close>)
  qed auto
qed

theorem settle_grants_paid_plan_witness:
  "\<exists>s' u'. settle sampleNow ''pi_1'' True (Num 1000) ''MNT'' payDb = Inr (True, s')
    \<and> tget (users s') 0 = Some u' \<and> u_plan (doc u') = Some Starter
    \<and> u_planExpiresAt (doc u') = Some (sampleNow + 30 * 86400000)"
proof -
  obtain s' where run: "settle sampleNow ''pi_1'' True (Num 1000) ''MNT'' payDb = Inr (True, s')"
    using payDb_settles by blast
  have f: "paymentForIntent ''pi_1'' payDb = Inr (Some (Row 8 5 samplePayment))"
    "tget (users payDb) 0 = Some (Row 0 0 freeUser)" "activePlan freeUser sampleNow = None"
    "p_userId samplePayment = 0" "p_plan samplePayment = Starter" by code_simp+
  from settle_grants_paid_plan [OF payDb_wf run] f run show ?thesis by auto
qed

end
