(* ===== verification/WireProps.thy ===== *)
theory WireProps
  imports Wire Keys
begin

text \<open>
  The webhook signature: printing bytes in hexadecimal and reading them back is the identity, the
  constant-time comparison is equality, and \<open>verifyWireSignature\<close> accepts exactly the headers whose \<open>v1\<close>
  entry is the MAC of the timestamp and the body (\<open>verify_sound\<close>, \<open>wire_signature_roundtrip\<close>).
\<close>

lemma timingSafeEqualBytes_iff: "timingSafeEqualBytes a b \<longleftrightarrow> a = b"
proof (cases "length a = length b")
  case False
  then show ?thesis by (auto simp: timingSafeEqualBytes_def)
next
  case True
  then have "timingSafeEqualBytes a b \<longleftrightarrow>
      (\<forall>i \<in> set [0..<length a]. xor (ucast (a ! i) :: 32 word) (ucast (b ! i)) = 0)"
    by (simp only: timingSafeEqualBytes_def fold_or_zero not_True_eq_False if_False simp_thms)
  also have "\<dots> \<longleftrightarrow> (\<forall>i < length a. a ! i = b ! i)"
    by (simp only: xor_zero_iff ucast_byte_inj set_upt) auto
  also have "\<dots> \<longleftrightarrow> a = b" using True by (simp add: list_eq_iff_nth_eq)
  finally show ?thesis .
qed

lemma hex_val_hex_char: "n < 16 \<Longrightarrow> hex_val (hex_char n) = Some n"
  by (auto simp: hex_val_def hex_char_def is_digit_def code_def)

lemma char_zero: "char_of (48 :: nat) = CHR ''0''"
  by code_simp

lemma byteHex_eq: "byteHex b = [hex_char (unat b div 16), hex_char (unat b mod 16)]"
  by (simp add: byteHex_def pad_start_def hex_char_def char_zero)

lemma unat_byte: "unat (b :: byte) < 256"
  using unsigned_less [of b] by simp

lemma hexBytes_byteHex: "hexBytes (byteHex b @ s) = b # hexBytes s"
proof -
  have "unat b div 16 < 16" "unat b mod 16 < 16" using unat_byte [of b] by auto
  then have "hexBytes (byteHex b @ s) = of_nat (16 * (unat b div 16) + unat b mod 16) # hexBytes s"
    by (simp add: byteHex_eq hex_val_hex_char)
  also have "16 * (unat b div 16) + unat b mod 16 = unat b" by (rule mult_div_mod_eq)
  finally show ?thesis by simp
qed

lemma hexBytes_toHex: "hexBytes (toHex bs) = bs"
  by (induction bs) (simp_all add: toHex_def hexBytes_byteHex)

lemma length_toHex: "length (toHex bs) = 2 * length bs"
  by (induction bs) (simp_all add: toHex_def byteHex_eq)

lemma toHex_hex: "list_all (\<lambda>c. hex_val c \<noteq> None) (toHex bs)"
proof (induction bs)
  case (Cons b bs)
  have "unat b div 16 < 16" "unat b mod 16 < 16" using unat_byte [of b] by auto
  with Cons show ?case by (simp add: toHex_def byteHex_eq hex_val_hex_char)
qed (simp add: toHex_def)

section \<open>The header\<close>

lemma split_on_no_sep: "sep \<notin> set s \<Longrightarrow> split_on sep s = [s]"
  by (induction s) auto

lemma split_on_append: "sep \<notin> set s \<Longrightarrow> split_on sep (s @ sep # t) = s # split_on sep t"
  by (induction s) auto

lemma trim_no_space: "\<forall>c \<in> set s. \<not> is_space c \<Longrightarrow> trim s = s"
  by (rule trim_id) (cases "s = []"; simp)

lemma hex_string:
  assumes "\<forall>c \<in> set s. hex_val c \<noteq> None"
  shows "CHR '','' \<notin> set s" and "CHR ''='' \<notin> set s" and "\<forall>c \<in> set s. \<not> is_space c"
proof -
  have "hex_val (CHR '','') = None" "hex_val (CHR ''='') = None"
    by (simp_all add: hex_val_def is_digit_def code_def)
  with assms show "CHR '','' \<notin> set s" "CHR ''='' \<notin> set s" by auto
  have "hex_val c \<noteq> None \<Longrightarrow> \<not> is_space c" for c
    by (auto simp: hex_val_def is_digit_def is_space_def split: if_splits)
  with assms show "\<forall>c \<in> set s. \<not> is_space c" by blast
qed

lemma digit_hex: "is_digit c \<Longrightarrow> hex_val c \<noteq> None"
  by (simp add: hex_val_def)

definition signatureHeader :: "string \<Rightarrow> byte list \<Rightarrow> string" where
  "signatureHeader timestamp mac = ''t='' @ timestamp @ '',v1='' @ toHex mac"

lemma header_entries:
  assumes "list_all is_digit timestamp"
  shows "headerEntries (signatureHeader timestamp mac) = [[''t'', timestamp], [''v1'', toHex mac]]"
proof -
  have d: "\<forall>c \<in> set timestamp. hex_val c \<noteq> None" using assms digit_hex by (auto simp: list_all_iff)
  have m: "\<forall>c \<in> set (toHex mac). hex_val c \<noteq> None" using toHex_hex by (auto simp: list_all_iff)
  note nd = hex_string [OF d] and nm = hex_string [OF m]
  have sp: "\<not> is_space (CHR ''t'')" "\<not> is_space (CHR ''='')" "\<not> is_space (CHR ''v'')" "\<not> is_space (CHR ''1'')"
    by (simp_all add: is_space_def code_def)
  have "split_on (CHR '','') (signatureHeader timestamp mac) = [''t='' @ timestamp, ''v1='' @ toHex mac]"
    using split_on_append [of "CHR '',''" "''t='' @ timestamp" "''v1='' @ toHex mac"] nd nm
    by (simp add: signatureHeader_def split_on_no_sep)
  moreover have "trim (''t='' @ timestamp) = ''t='' @ timestamp" "trim (''v1='' @ toHex mac) = ''v1='' @ toHex mac"
    using nd nm sp by (auto intro!: trim_no_space)
  moreover have "split_on (CHR ''='') (''t='' @ timestamp) = [''t'', timestamp]"
    "split_on (CHR ''='') (''v1='' @ toHex mac) = [''v1'', toHex mac]"
    using nd nm by (simp_all add: split_on_no_sep)
  ultimately show ?thesis by (simp only: headerEntries_def list.map)
qed

lemma verify_eq:
  assumes "entryValue (headerEntries h) ''t'' = Some timestamp"
    and "entryValue (headerEntries h) ''v1'' = Some signature"
    and "h \<noteq> []" and "secret \<noteq> []" and "timestamp \<noteq> []" and "list_all is_digit timestamp"
    and "length signature = 64" and "list_all (\<lambda>c. hex_val c \<noteq> None) signature"
    and "digits_value timestamp \<le> MAX_SAFE_INTEGER"
    and "\<bar>of_int nowMs / 1000 - (of_nat (digits_value timestamp) :: rat)\<bar> \<le> 300"
  shows "verifyWireSignature hmac body (Some h) secret nowMs \<longleftrightarrow>
    hexBytes signature = hmac (encode secret) (encode (timestamp @ ''.'' @ body))"
  using assms by (simp add: verifyWireSignature_def Let_def timingSafeEqualBytes_iff not_less)

text \<open>C25. The webhook signature round trip: a header made from the decimal timestamp and the hexadecimal MAC of
  timestamp and body under the secret verifies, at every time at most 300 seconds from the timestamp, for
  every body; HMAC-SHA-256 is any function with 32-byte results.\<close>

theorem wire_signature_roundtrip:
  assumes "list_all is_digit timestamp" and "timestamp \<noteq> []" and "secret \<noteq> []"
    and "length (hmac (encode secret) (encode (timestamp @ ''.'' @ body))) = 32"
    and "digits_value timestamp \<le> MAX_SAFE_INTEGER"
    and "\<bar>of_int nowMs / 1000 - (of_nat (digits_value timestamp) :: rat)\<bar> \<le> 300"
  shows "verifyWireSignature hmac body
    (Some (signatureHeader timestamp (hmac (encode secret) (encode (timestamp @ ''.'' @ body))))) secret nowMs"
proof -
  let ?mac = "hmac (encode secret) (encode (timestamp @ ''.'' @ body))"
  have e: "entryValue (headerEntries (signatureHeader timestamp ?mac)) ''t'' = Some timestamp"
    "entryValue (headerEntries (signatureHeader timestamp ?mac)) ''v1'' = Some (toHex ?mac)"
    by (simp_all add: header_entries [OF assms(1)] entryValue_def)
  have ne: "signatureHeader timestamp ?mac \<noteq> []" by (simp add: signatureHeader_def)
  have len: "length (toHex ?mac) = 64" using assms(4) by (simp add: length_toHex)
  show ?thesis
    unfolding verify_eq [OF e ne assms(3,2,1) len toHex_hex assms(5,6)] by (rule hexBytes_toHex)
qed

theorem wire_signature_roundtrip_witness:
  "verifyWireSignature (\<lambda>k m. replicate 32 7) ''body''
    (Some (signatureHeader ''1700000000'' (replicate 32 7))) ''whsec'' 1700000200000"
proof -
  have d: "list_all is_digit ''1700000000''" by (simp add: is_digit_def code_def)
  have v: "digits_value ''1700000000'' = 1700000000" by (simp add: digits_value_def code_def)
  show ?thesis
    using wire_signature_roundtrip [of "''1700000000''" "''whsec''" "\<lambda>k m. replicate 32 7" "''body''" 1700000200000] d
    by (simp add: v MAX_SAFE_INTEGER_def)
qed

text \<open>C26. The webhook signature is sound: when \<open>verifyWireSignature\<close> accepts, the header has a decimal \<open>t\<close> entry
  within 300 seconds of the clock and a \<open>v1\<close> entry whose 32 bytes are the MAC of exactly that timestamp and this
  body under the non-empty secret; so a body or timestamp with another MAC is refused.\<close>

theorem wire_signature_sound:
  assumes "verifyWireSignature hmac body header secret nowMs"
  shows "secret \<noteq> [] \<and> (\<exists>h timestamp signature. header = Some h
    \<and> entryValue (headerEntries h) ''t'' = Some timestamp \<and> entryValue (headerEntries h) ''v1'' = Some signature
    \<and> list_all is_digit timestamp \<and> length signature = 64
    \<and> hexBytes signature = hmac (encode secret) (encode (timestamp @ ''.'' @ body))
    \<and> \<bar>of_int nowMs / 1000 - (of_nat (digits_value timestamp) :: rat)\<bar> \<le> 300)"
  using assms
  by (auto simp: verifyWireSignature_def Let_def timingSafeEqualBytes_iff not_less
      split: option.splits if_splits)

lemma sample_signature:
  "verifyWireSignature (\<lambda>k m. replicate 32 7) body
    (Some (signatureHeader ''1700000000'' (replicate 32 7))) ''whsec'' 1700000200000"
proof -
  have v: "digits_value ''1700000000'' = 1700000000" by (simp add: digits_value_def code_def)
  have d: "list_all is_digit ''1700000000''" by (simp add: is_digit_def code_def)
  note e = header_entries [OF d, of "replicate 32 7"]
  show ?thesis
    using toHex_hex [of "replicate 32 7"] d
    by (simp add: verifyWireSignature_def entryValue_def e v MAX_SAFE_INTEGER_def Let_def length_toHex
        hexBytes_toHex timingSafeEqualBytes_iff) (simp add: signatureHeader_def)
qed

theorem wire_signature_sound_witness:
  "\<exists>signature. entryValue (headerEntries (signatureHeader ''1700000000'' (replicate 32 7))) ''v1'' = Some signature
    \<and> hexBytes signature = replicate 32 7"
proof -
  have d: "list_all is_digit ''1700000000''" by (simp add: is_digit_def code_def)
  note e = header_entries [OF d, of "replicate 32 7"]
  from wire_signature_sound [OF sample_signature] show ?thesis by auto
qed

end
