(* ===== verification/Admin.thy ===== *)
theory Admin
  imports ApiKeys
begin

text \<open>
  \<open>admin.ts\<close>: what an operator can do in an incident. \<open>lockUser\<close> disables an account and revokes its keys and
  tokens, \<open>disableUser\<close> also ends its sessions (\<open>invalidateSessions\<close> of Convex Auth is an argument), \<open>enableUser\<close>
  lifts the lock and \<open>revokeKey\<close> revokes one key.
\<close>

definition userWithEmail :: "string \<Rightarrow> db \<Rightarrow> user row option" where
  "userWithEmail email s = firstRow (tselect (\<lambda>d. u_email d = Some email) (users s))"

record foundKey =
  fk_id :: nat
  fk_name :: string
  fk_keyPrefix :: string
  fk_revokedAt :: "int option"
  fk_lastUsedAt :: "rat option"

record foundUser =
  fu_id :: nat
  fu_email :: "string option"
  fu_disabledAt :: "int option"
  fu_isSystem :: bool
  fu_keys :: "foundKey list"

definition findUser :: "string \<Rightarrow> db \<Rightarrow> error + foundUser option" where
  "findUser email s =
     (case userWithEmail (toLowerCase (trim email)) s of
        None \<Rightarrow> Inr None
      | Some user \<Rightarrow> Inr (Some
          \<lparr>fu_id = rid user, fu_email = u_email (doc user), fu_disabledAt = u_disabledAt (doc user),
           fu_isSystem = (u_isSystem (doc user) = Some True),
           fu_keys = map (\<lambda>key. \<lparr>fk_id = rid key, fk_name = k_name (doc key), fk_keyPrefix = k_keyPrefix (doc key),
             fk_revokedAt = k_revokedAt (doc key), fk_lastUsedAt = k_lastUsedAt (doc key)\<rparr>)
             (keysOfUser (rid user) s)\<rparr>))"

definition revokeKey :: "int \<Rightarrow> nat \<Rightarrow> (db, nat) mut" where
  "revokeKey now keyId =
     mbind (reads (\<lambda>s. case tget (apiKeys s) keyId of
        None \<Rightarrow> Inl (PlainError ''No such key.'') | Some r \<Rightarrow> Inr r)) (\<lambda>key.
     mthen (revokeIfActive now key)
    (mthen (deletePlaygroundTokens keyId)
    (mthen (writeAudit now ''operator_api_key_revoked'' HIGH Success (Some (k_userId (doc key))) (Some (rid key)) None)
       (ret keyId))))"

definition lockable :: "nat \<Rightarrow> db \<Rightarrow> error + user row" where
  "lockable userId s =
     (case tget (users s) userId of
        None \<Rightarrow> Inl (PlainError ''No such user.'')
      | Some user \<Rightarrow>
          if u_isSystem (doc user) = Some True
          then Inl (PlainError ''Refusing to disable the system account; rotate SITE_API_KEY instead.'')
          else Inr user)"

text \<open>The body of the loop over the keys of the account.\<close>

definition lockKey :: "int \<Rightarrow> apiKey row \<Rightarrow> (db, unit) mut" where
  "lockKey now key = mthen (revokeIfActive now key) (deletePlaygroundTokens (rid key))"

definition lockUser :: "int \<Rightarrow> nat \<Rightarrow> (db, nat) mut" where
  "lockUser now userId =
     mbind (reads (lockable userId)) (\<lambda>user.
     mthen (modify (db_patch users_update userId (\<lambda>d. d\<lparr>u_disabledAt := Some now\<rparr>)))
    (mbind (reads (\<lambda>s. Inr (keysOfUser userId s))) (\<lambda>keys.
     mthen (mapM (lockKey now) keys)
    (mthen (writeAudit now ''tenant_disabled'' CRITICAL Success (Some userId) None None)
       (ret (length (filter (\<lambda>key. k_revokedAt (doc key) = None) keys)))))))"

type_synonym invalidator = "nat \<Rightarrow> nat list \<Rightarrow> (db, unit) act"

definition disableUser :: "invalidator \<Rightarrow> int \<Rightarrow> string \<Rightarrow> (db, nat \<times> nat) act" where
  "disableUser invalidateSessions now email =
     abind (runQuery (findUser email)) (\<lambda>user.
       case user of
         None \<Rightarrow> athrow (PlainError ''No user with that email.'')
       | Some u \<Rightarrow>
           abind (runMutation (lockUser now (fu_id u))) (\<lambda>revokedKeys.
           abind (invalidateSessions (fu_id u) []) (\<lambda>_.
             aret (fu_id u, revokedKeys))))"

definition enableUser :: "int \<Rightarrow> string \<Rightarrow> (db, nat) mut" where
  "enableUser now email =
     mbind (reads (\<lambda>s. case userWithEmail (toLowerCase (trim email)) s of
        None \<Rightarrow> Inl (PlainError ''No user with that email.'') | Some u \<Rightarrow> Inr u)) (\<lambda>user.
     mthen (modify (db_patch users_update (rid user) (\<lambda>d. d\<lparr>u_disabledAt := None\<rparr>)))
    (mthen (writeAudit now ''tenant_enabled'' HIGH Success (Some (rid user)) None None)
       (ret (rid user))))"

end
