(* ===== verification/Platform.thy ===== *)
theory Platform
  imports Admin
begin

text \<open>
  \<open>platform.ts\<close>: the set-up of a deployment. \<open>ensureSiteKey\<close> registers the website's key under the system
  account, which is found by its flag and never by its address; \<open>upsertKey\<close> revokes the previous site keys.
  \<open>seedDevelopment\<close> makes the demo account; \<open>createAccount\<close> of Convex Auth is an argument.
\<close>

definition SYSTEM_EMAIL :: string where
  "SYSTEM_EMAIL = ''platform@system.internal''"

definition SITE_KEY_NAME :: string where
  "SITE_KEY_NAME = ''Website (public map)''"

definition DEMO_KEY_NAME :: string where
  "DEMO_KEY_NAME = ''Development key''"

definition userByEmail :: "string \<Rightarrow> db \<Rightarrow> error + user row option" where
  "userByEmail email s = Inr (userWithEmail email s)"

definition newUser :: user where
  "newUser = \<lparr>u_name = None, u_image = None, u_email = None, u_emailVerificationTime = None, u_phone = None,
     u_phoneVerificationTime = None, u_isAnonymous = None, u_isSystem = None, u_disabledAt = None,
     u_updatedAt = None, u_plan = None, u_planExpiresAt = None, u_freeTierActivatedAt = None,
     u_freeRequestsUsed = None\<rparr>"

definition systemUser :: "db \<Rightarrow> user row option" where
  "systemUser s = firstRow (tselect (\<lambda>d. u_isSystem d = Some True) (users s))"

definition upsertSystemUser :: "host \<Rightarrow> int \<Rightarrow> (db, nat) mut" where
  "upsertSystemUser H now =
     mbind (reads (\<lambda>s. Inr (systemUser s))) (\<lambda>system.
       case system of
         Some u \<Rightarrow> ret (rid u)
       | None \<Rightarrow>
           mbind (reads (\<lambda>s. Inr (userWithEmail SYSTEM_EMAIL s))) (\<lambda>impostor.
             case impostor of
               Some u \<Rightarrow> throw (PlainError (''A regular account uses the reserved address '' @ SYSTEM_EMAIL @ '' (user ''
                 @ h_showId H (rid u) @ ''). Investigate and disable it (admin:disableUser) before registering the site key.''))
             | None \<Rightarrow> (\<lambda>s. Inr (db_insert users_update now (newUser\<lparr>u_email := Some SYSTEM_EMAIL,
                 u_name := Some ''Ubhub Location Service'', u_isSystem := Some True\<rparr>) s))))"

record upsertArgs =
  v_userId :: nat
  v_name :: string
  v_keyHash :: string
  v_keyPrefix :: string
  v_isSiteKey :: bool

definition upsertedKey :: "upsertArgs \<Rightarrow> apiKey" where
  "upsertedKey args = \<lparr>k_userId = v_userId args, k_name = v_name args, k_keyPrefix = v_keyPrefix args,
     k_keyHash = v_keyHash args, k_environment = None, k_endpoints = None, k_rateLimitPerMinute = None,
     k_isSiteKey = Some (v_isSiteKey args), k_lastUsedAt = None, k_expiresAt = None, k_revokedAt = None\<rparr>"

definition registerKey :: "int \<Rightarrow> upsertArgs \<Rightarrow> (db, unit) mut" where
  "registerKey now args =
     mbind (reads (\<lambda>s. uniqueRow (tselect (\<lambda>d. k_keyHash d = v_keyHash args) (apiKeys s)))) (\<lambda>existing.
       case existing of
         None \<Rightarrow> modify (\<lambda>s. snd (db_insert apiKeys_update now (upsertedKey args) s))
       | Some r \<Rightarrow>
           if k_revokedAt (doc r) \<noteq> None \<or> k_userId (doc r) \<noteq> v_userId args
           then throw (PlainError (''Key \"'' @ v_name args
             @ ''\" exists but is revoked or owned by another account; choose a new secret.''))
           else ret ())"

definition retireSiteKey :: "int \<Rightarrow> string \<Rightarrow> apiKey row \<Rightarrow> (db, unit) mut" where
  "retireSiteKey now keyHash key =
     (if k_isSiteKey (doc key) = Some True \<and> k_keyHash (doc key) \<noteq> keyHash \<and> k_revokedAt (doc key) = None
      then modify (db_patch apiKeys_update (rid key) (\<lambda>d. d\<lparr>k_revokedAt := Some now\<rparr>)) else ret ())"

definition upsertKey :: "int \<Rightarrow> upsertArgs \<Rightarrow> (db, unit) mut" where
  "upsertKey now args =
     mthen (registerKey now args)
       (if v_isSiteKey args
        then mbind (reads (\<lambda>s. Inr (keysOfUser (v_userId args) s))) (\<lambda>others.
          mthen (mapM (retireSiteKey now (v_keyHash args)) others) (ret ()))
        else ret ())"

definition ensureSiteKey :: "host \<Rightarrow> int \<Rightarrow> (db, string) act" where
  "ensureSiteKey H now =
     abind (runMutation (upsertSystemUser H now)) (\<lambda>userId.
       case h_env H ''SITE_API_KEY'' of
         None \<Rightarrow> aret ''not configured''
       | Some secret \<Rightarrow>
           if secret = [] then aret ''not configured''
           else if \<not> isValidApiKey secret
           then athrow (PlainError ''SITE_API_KEY must look like geo_ followed by 32 letters/digits.'')
           else abind (lift (requireEnv (h_env H) ''API_KEY_PEPPER'')) (\<lambda>pepper.
             abind (runMutation (upsertKey now \<lparr>v_userId = userId, v_name = SITE_KEY_NAME,
                 v_keyHash = hmacSha256Hex (h_hmac H) pepper secret, v_keyPrefix = keyPrefix secret, v_isSiteKey = True\<rparr>))
               (\<lambda>_. aret ''ok'')))"

record newAccount =
  na_email :: string
  na_secret :: string
  na_name :: string
  na_updatedAt :: int

type_synonym accountCreator = "newAccount \<Rightarrow> (db, user row) act"

definition seedDevelopment :: "host \<Rightarrow> accountCreator \<Rightarrow> int \<Rightarrow> (db, string) act" where
  "seedDevelopment H createAccount now =
     (if isProduction (h_env H) then athrow (PlainError ''Refusing to seed development data in production.'')
      else let email = toLowerCase (case h_env H ''DEMO_EMAIL'' of None \<Rightarrow> ''demo@example.com'' | Some e \<Rightarrow> e) in
        abind (lift (requireEnv (h_env H) ''DEMO_PASSWORD'')) (\<lambda>password.
        abind (lift (requireEnv (h_env H) ''DEMO_API_KEY'')) (\<lambda>apiKey.
          if \<not> isValidApiKey apiKey
          then athrow (PlainError ''DEMO_API_KEY must look like geo_ followed by 32 letters/digits.'')
          else abind (runQuery (userByEmail email)) (\<lambda>existing.
            abind (case existing of
                Some u \<Rightarrow> aret u
              | None \<Rightarrow> createAccount \<lparr>na_email = email, na_secret = password, na_name = ''Demo Developer'',
                  na_updatedAt = now\<rparr>) (\<lambda>user.
            abind (lift (requireEnv (h_env H) ''API_KEY_PEPPER'')) (\<lambda>pepper.
            abind (runMutation (upsertKey now \<lparr>v_userId = rid user, v_name = DEMO_KEY_NAME,
                v_keyHash = hmacSha256Hex (h_hmac H) pepper apiKey, v_keyPrefix = keyPrefix apiKey, v_isSiteKey = False\<rparr>))
              (\<lambda>_. aret email)))))))"

end
