(* ===== verification/AdminProps.thy ===== *)
theory AdminProps
  imports Platform KeyLifecycle
begin

text \<open>
  What the operator's functions achieve. \<open>lock_spec\<close> is the effect of \<open>lockUser\<close> on every table;
  \<open>disabled_account_locked_out\<close> says what it means at the dashboard and at the gateway, and
  \<open>site_key_rotation\<close> that at most one site key of the system account is usable after \<open>upsertKey\<close>.
\<close>

section \<open>Locking an account\<close>

lemma tdel_all_select:
  assumes "wf_table n t"
  shows "tdel_all (tselect P t) t = filter (\<lambda>r. \<not> P (doc r)) t"
  unfolding tdel_all_filter
proof (rule filter_cong [OF refl])
  fix r assume r: "r \<in> set t"
  have "rid r \<in> rid ` set (tselect P t) \<longleftrightarrow> P (doc r)"
  proof
    assume "rid r \<in> rid ` set (tselect P t)"
    then obtain q where "q \<in> set t" "P (doc q)" "rid q = rid r" by (auto simp: set_tselect)
    with tget_in [OF assms] r show "P (doc r)" by (metis option.inject)
  qed (use r in \<open>auto simp: set_tselect\<close>)
  then show "(rid r \<notin> rid ` set (tselect P t)) = (\<not> P (doc r))" by simp
qed

definition revokedNow :: "int \<Rightarrow> apiKey row \<Rightarrow> apiKey row" where
  "revokedNow now r = Row (rid r) (ctime r) ((doc r)\<lparr>k_revokedAt := Some now\<rparr>)"

lemma revokedDb_keys:
  "apiKeys (revokedDb now k s)
     = map (\<lambda>r. if rid r = rid k \<and> k_revokedAt (doc k) = None then revokedNow now r else r) (apiKeys s)"
  by (auto simp: revokedDb_def Let_def db_delete_all_def db_patch_def tpatch_def revokedNow_def)

lemma revokedDb_tokens_eq:
  "wf_ids s \<Longrightarrow> playgroundTokens (revokedDb now k s)
     = filter (\<lambda>t. t_apiKeyId (doc t) \<noteq> rid k) (playgroundTokens s)"
  by (auto simp: revokedDb_def Let_def db_delete_all_def db_patch_def wf_ids_def tdel_all_select)

lemma revokedDb_other:
  "users (revokedDb now k s) = users s" "nextId (revokedDb now k s) = nextId s"
  "authSessions (revokedDb now k s) = authSessions s" "payments (revokedDb now k s) = payments s"
  by (simp_all add: revokedDb_def Let_def db_delete_all_def db_patch_def)

lemma lockKeys: "mapM (lockKey now) keys s = Inr (map (\<lambda>_. ()) keys, fold (revokedDb now) keys s)"
proof (induction keys arbitrary: s)
  case (Cons k keys)
  have "lockKey now k s = Inr ((), revokedDb now k s)"
    using revoke_core [of now k "ret ()" s]
    by (simp add: lockKey_def mthen_def mbind_def split: sum.splits prod.splits)
  with Cons show ?case by (simp add: mbind_def)
qed simp

lemma fold_revoked:
  assumes "wf_db s"
  shows "wf_db (fold (revokedDb now) keys s)"
    and "apiKeys (fold (revokedDb now) keys s) = map (\<lambda>r. if \<exists>k \<in> set keys. rid k = rid r \<and> k_revokedAt (doc k) = None
      then revokedNow now r else r) (apiKeys s)"
    and "playgroundTokens (fold (revokedDb now) keys s)
      = filter (\<lambda>t. t_apiKeyId (doc t) \<notin> rid ` set keys) (playgroundTokens s)"
    and "users (fold (revokedDb now) keys s) = users s"
    and "authSessions (fold (revokedDb now) keys s) = authSessions s"
proof -
  have "wf_db (fold (revokedDb now) keys s)
    \<and> apiKeys (fold (revokedDb now) keys s) = map (\<lambda>r. if \<exists>k \<in> set keys. rid k = rid r \<and> k_revokedAt (doc k) = None
      then revokedNow now r else r) (apiKeys s)
    \<and> playgroundTokens (fold (revokedDb now) keys s)
      = filter (\<lambda>t. t_apiKeyId (doc t) \<notin> rid ` set keys) (playgroundTokens s)
    \<and> users (fold (revokedDb now) keys s) = users s
    \<and> authSessions (fold (revokedDb now) keys s) = authSessions s"
    using assms
  proof (induction keys arbitrary: s)
    case (Cons k keys)
    have wf: "wf_db (revokedDb now k s)" by (rule wf_db_revokedDb [OF Cons.prems])
    have ids: "wf_ids s" using Cons.prems by (simp add: wf_db_def)
    show ?case
      using Cons.IH [OF wf]
      by (auto simp: revokedDb_keys revokedDb_tokens_eq [OF ids] revokedDb_other revokedNow_def intro!: filter_cong)
  qed simp
  then show "wf_db (fold (revokedDb now) keys s)"
    and "apiKeys (fold (revokedDb now) keys s) = map (\<lambda>r. if \<exists>k \<in> set keys. rid k = rid r \<and> k_revokedAt (doc k) = None
      then revokedNow now r else r) (apiKeys s)"
    and "playgroundTokens (fold (revokedDb now) keys s)
      = filter (\<lambda>t. t_apiKeyId (doc t) \<notin> rid ` set keys) (playgroundTokens s)"
    and "users (fold (revokedDb now) keys s) = users s"
    and "authSessions (fold (revokedDb now) keys s) = authSessions s" by auto
qed

text \<open>The effect of \<open>lockUser\<close>: each key of the account that was active is revoked now, the tokens of all its keys
  are gone, the account is disabled, and nothing else changes.\<close>

lemma lock_spec:
  assumes "wf_db s" and "lockUser now userId s = Inr (n, s')"
  shows "wf_db s'"
    and "\<exists>u. tget (users s) userId = Some u \<and> u_isSystem (doc u) \<noteq> Some True"
    and "apiKeys s' = map (\<lambda>r. if k_userId (doc r) = userId \<and> k_revokedAt (doc r) = None
        then revokedNow now r else r) (apiKeys s)"
    and "playgroundTokens s' = filter (\<lambda>t. \<nexists>r. r \<in> set (apiKeys s) \<and> k_userId (doc r) = userId
        \<and> rid r = t_apiKeyId (doc t)) (playgroundTokens s)"
    and "users s' = tpatch userId (\<lambda>d. d\<lparr>u_disabledAt := Some now\<rparr>) (users s)"
    and "n = length (filter (\<lambda>r. k_userId (doc r) = userId \<and> k_revokedAt (doc r) = None) (apiKeys s))"
    and "authSessions s' = authSessions s"
proof -
  define t where "t = db_patch users_update userId (\<lambda>d. d\<lparr>u_disabledAt := Some now\<rparr>) s"
  define ks where "ks = keysOfUser userId t"
  obtain u where u: "lockable userId s = Inr u" using assms(2) by (auto simp: lockUser_def mut_Inr)
  have s': "s' = audited now ''tenant_disabled'' CRITICAL Success (Some userId) None None (fold (revokedDb now) ks t)"
    and n: "n = length (filter (\<lambda>key. k_revokedAt (doc key) = None) ks)"
    using assms(2) u
    by (simp_all add: lockUser_def mbind_reads mthen_def mbind_def reads_def lockKeys writeAudit_eq t_def [symmetric] ks_def
        split: sum.splits)
  have wft: "wf_db t" unfolding t_def by (rule wf_db_patch_users [OF assms(1)])
  note fr = fold_revoked [OF wft, of now ks]
  have ts: "apiKeys t = apiKeys s" "playgroundTokens t = playgroundTokens s" "authSessions t = authSessions s"
    by (simp_all add: t_def db_patch_def)
  have ks: "set ks = {r \<in> set (apiKeys s). k_userId (doc r) = userId}"
    by (auto simp: ks_def keysOfUser_def set_tselect ts)
  have inj: "r = q" if "r \<in> set (apiKeys s)" "q \<in> set (apiKeys s)" "rid r = rid q" for r q
    using that assms(1) by (metis option.inject tget_in wf_db_def wf_ids_def)
  show "wf_db s'" unfolding s' by (rule wf_db_audited [OF fr(1)])
  show "\<exists>u. tget (users s) userId = Some u \<and> u_isSystem (doc u) \<noteq> Some True"
    using u by (auto simp: lockable_def split: option.splits if_splits)
  show "apiKeys s' = map (\<lambda>r. if k_userId (doc r) = userId \<and> k_revokedAt (doc r) = None
        then revokedNow now r else r) (apiKeys s)"
  proof -
    have "(\<exists>k \<in> set ks. rid k = rid r \<and> k_revokedAt (doc k) = None) \<longleftrightarrow> k_userId (doc r) = userId \<and> k_revokedAt (doc r) = None"
      if "r \<in> set (apiKeys s)" for r
      using that inj [of _ r] by (auto simp: ks)
    then show ?thesis by (simp add: s' fr(2) ts)
  qed
  show "playgroundTokens s' = filter (\<lambda>t. \<nexists>r. r \<in> set (apiKeys s) \<and> k_userId (doc r) = userId
        \<and> rid r = t_apiKeyId (doc t)) (playgroundTokens s)"
    unfolding s' audited_tables fr(3) ts ks by (rule filter_cong) (auto simp: image_iff)
  show "users s' = tpatch userId (\<lambda>d. d\<lparr>u_disabledAt := Some now\<rparr>) (users s)"
    by (simp add: s' fr(4)) (simp add: t_def db_patch_def)
  show "n = length (filter (\<lambda>r. k_userId (doc r) = userId \<and> k_revokedAt (doc r) = None) (apiKeys s))"
    by (simp add: n ks_def keysOfUser_def tselect_def ts conj_commute)
  show "authSessions s' = authSessions s" by (simp add: s' fr(5) ts)
qed

lemma findUser_Some:
  assumes "findUser email s = Inr (Some u)"
  shows "\<exists>r \<in> set (users s). rid r = fu_id u \<and> u_email (doc r) = Some (toLowerCase (trim email))
    \<and> fu_isSystem u = (u_isSystem (doc r) = Some True)"
proof -
  from assms obtain r where r: "userWithEmail (toLowerCase (trim email)) s = Some r"
    and u: "fu_id u = rid r" "fu_isSystem u = (u_isSystem (doc r) = Some True)"
    by (auto simp: findUser_def split: option.splits)
  then show ?thesis using firstRow_in [of _ "users s" r] by (auto simp: userWithEmail_def)
qed

lemma filter_map_skip:
  "(\<And>x. P (f x) = P x) \<Longrightarrow> (\<And>x. P x \<Longrightarrow> f x = x) \<Longrightarrow> filter P (map f xs) = filter P xs"
  by (induction xs) auto

text \<open>The sessions library deletes sessions and touches no table of the platform, whether it fails or not.\<close>

definition sessionsOnly :: "invalidator \<Rightarrow> bool" where
  "sessionsOnly ends \<longleftrightarrow> (\<forall>u keep s. \<exists>r t. ends u keep s = (r, s\<lparr>authSessions := t\<rparr>))"

text \<open>C20. A disabled account is locked out at once and everywhere, even when ending its sessions fails after the lock was
  committed: no session of it, old or new, is accepted by the dashboard at any time; every key it
  ever had is refused by the gateway as revoked; and none of its keys has a playground token left. The
  system account cannot be disabled, and no other account, key or token is touched.\<close>

theorem disabled_account_locked_out:
  assumes "wf_db s" and "sessionsOnly ends" and "findUser email s = Inr (Some u)" and "\<not> fu_isSystem u"
    and "disableUser ends now email s = (res, s')"
  shows "(\<forall>now' sid. requireUserId now' \<lparr>authUserId = Some (fu_id u), authSessionId = sid\<rparr> s'
        = Inl (ConvexError ''You need to sign in.''))
    \<and> (\<forall>k \<in> set (apiKeys s'). k_userId (doc k) = fu_id u \<longrightarrow>
        (\<forall>H now' args. g_kind args = KeyCredential \<and> g_hash args = k_keyHash (doc k) \<longrightarrow>
          (\<exists>t. authorize H now' args s' = Inr (ARevoked, t)))
        \<and> (\<forall>tok \<in> set (playgroundTokens s'). t_apiKeyId (doc tok) \<noteq> rid k))
    \<and> (\<forall>i. i \<noteq> fu_id u \<longrightarrow> tget (users s') i = tget (users s) i)
    \<and> filter (\<lambda>k. k_userId (doc k) \<noteq> fu_id u) (apiKeys s') = filter (\<lambda>k. k_userId (doc k) \<noteq> fu_id u) (apiKeys s)"
proof -
  obtain r where r: "r \<in> set (users s)" "rid r = fu_id u" "u_isSystem (doc r) \<noteq> Some True"
    using findUser_Some [OF assms(3)] assms(4) by auto
  have "tget (users s) (fu_id u) = Some r" using tget_in [of _ "users s" r] r assms(1) by (auto simp: wf_defs)
  then have "lockable (fu_id u) s = Inr r" using r(3) by (simp add: lockable_def)
  then obtain n l where lock: "lockUser now (fu_id u) s = Inr (n, l)"
    by (simp add: lockUser_def mbind_reads mthen_def mbind_def lockKeys writeAudit_eq reads_def)
  note ls = lock_spec [OF assms(1) lock]
  obtain st where s': "s' = l\<lparr>authSessions := st\<rparr>"
    using assms(2) [unfolded sessionsOnly_def, rule_format, of "fu_id u" "[]" l] assms(3,5) lock
    by (auto simp: disableUser_def abind_def runMutation_def split: sum.splits)
  have wf: "wf_db s'" using ls(1) by (simp add: s' wf_defs)
  have out: "\<not> isSessionActive s' now' (fu_id u) sid" for now' sid
    by (auto simp: isSessionActive_def s' ls(5) tget_tpatch split: option.splits)
  have revoked: "k_revokedAt (doc k) \<noteq> None" if "k \<in> set (apiKeys s')" "k_userId (doc k) = fu_id u" for k
    using that by (auto simp: s' ls(3) revokedNow_def)
  have ids: "\<exists>q \<in> set (apiKeys s). rid q = rid k \<and> k_userId (doc q) = fu_id u"
    if "k \<in> set (apiKeys s')" "k_userId (doc k) = fu_id u" for k
    using that by (force simp: s' ls(3) revokedNow_def)
  have tok: "t_apiKeyId (doc tok) \<noteq> rid k"
    if "k \<in> set (apiKeys s')" "k_userId (doc k) = fu_id u" "tok \<in> set (playgroundTokens s')" for k tok
    using ids [OF that(1,2)] that(3) by (auto simp: s' ls(4))
  have others: "filter (\<lambda>k. k_userId (doc k) \<noteq> fu_id u) (apiKeys s') = filter (\<lambda>k. k_userId (doc k) \<noteq> fu_id u) (apiKeys s)"
  proof -
    have "apiKeys s' = apiKeys l" by (simp add: s')
    then show ?thesis unfolding ls(3) by (simp only:) (rule filter_map_skip; auto simp: revokedNow_def)
  qed
  have us: "\<forall>i. i \<noteq> fu_id u \<longrightarrow> tget (users s') i = tget (users s) i"
    by (auto simp: s' ls(5) tget_tpatch option.map_ident)
  show ?thesis
    using out revoked tok others us wf authorize_revoked [of s']
    by (auto simp: requireUserId_def currentUserId_def wf_db_def split: option.splits)
qed

definition endSessions :: invalidator where
  "endSessions u keep s = (Inr (), s\<lparr>authSessions := filter (\<lambda>r. s_userId (doc r) \<noteq> u \<or> rid r \<in> set keep) (authSessions s)\<rparr>)"

definition mailDb :: db where
  "mailDb = sampleDb\<lparr>users := [Row 0 0 (freeUser\<lparr>u_email := Some ''a@b.mn''\<rparr>), Row 2 0 proUser, Row 4 0 siteUser]\<rparr>"

theorem disabled_account_locked_out_witness:
  "\<exists>s' t. disableUser endSessions sampleNow '' A@b.mn'' mailDb = (Inr (0, 1), s')
     \<and> requireUserId sampleNow sampleAuth s' = Inl (ConvexError ''You need to sign in.'')
     \<and> authorize sampleHost sampleNow (keyArgs ''h1'' ''route'') s' = Inr (ARevoked, t)"
proof -
  have wf: "wf_db mailDb" by code_simp
  have ends: "sessionsOnly endSessions" by (auto simp: sessionsOnly_def endSessions_def)
  have "(case findUser '' A@b.mn'' mailDb of Inr (Some u) \<Rightarrow> fu_id u = 0 \<and> \<not> fu_isSystem u | _ \<Rightarrow> False)" by code_simp
  then obtain u where u: "findUser '' A@b.mn'' mailDb = Inr (Some u)" "fu_id u = 0" "\<not> fu_isSystem u"
    by (auto split: sum.splits option.splits)
  let ?run = "disableUser endSessions sampleNow '' A@b.mn'' mailDb"
  have r: "fst ?run = Inr (0, 1)" by code_simp
  then obtain s' where run: "?run = (Inr (0, 1), s')" by (metis prod.collapse)
  have "\<exists>k \<in> set (apiKeys (snd ?run)). k_userId (doc k) = 0 \<and> k_keyHash (doc k) = ''h1''" by code_simp
  then obtain k where k: "k \<in> set (apiKeys s')" "k_userId (doc k) = 0" "k_keyHash (doc k) = ''h1''"
    unfolding run snd_conv by blast
  note d = disabled_account_locked_out [OF wf ends u(1,3) run, unfolded u(2)]
  have "requireUserId sampleNow sampleAuth s' = Inl (ConvexError ''You need to sign in.'')"
    using d by (simp add: sampleAuth_def)
  moreover have "\<exists>t. authorize sampleHost sampleNow (keyArgs ''h1'' ''route'') s' = Inr (ARevoked, t)"
    using d k by (auto simp: keyArgs_def)
  ultimately show ?thesis using run by blast
qed

section \<open>Site keys\<close>

definition supersededBy :: "string \<Rightarrow> apiKey row \<Rightarrow> bool" where
  "supersededBy h k \<longleftrightarrow> k_isSiteKey (doc k) = Some True \<and> k_keyHash (doc k) \<noteq> h \<and> k_revokedAt (doc k) = None"

definition retire :: "int \<Rightarrow> string \<Rightarrow> apiKey row \<Rightarrow> db \<Rightarrow> db" where
  "retire now h k s = (if supersededBy h k
     then db_patch apiKeys_update (rid k) (\<lambda>d. d\<lparr>k_revokedAt := Some now\<rparr>) s else s)"

lemma retireAll: "mapM (retireSiteKey now h) ks s = Inr (map (\<lambda>_. ()) ks, fold (retire now h) ks s)"
  by (induction ks arbitrary: s) (auto simp: retireSiteKey_def retire_def supersededBy_def mbind_def)

lemma fold_retire:
  "fold (retire now h) ks s = s\<lparr>apiKeys := map (\<lambda>r. if \<exists>k \<in> set ks. rid k = rid r \<and> supersededBy h k
     then revokedNow now r else r) (apiKeys s)\<rparr>"
proof (induction ks arbitrary: s)
  case (Cons k ks)
  show ?case
    by (simp add: Cons.IH) (auto simp: retire_def db_patch_def tpatch_def revokedNow_def
        intro!: arg_cong [where f = "\<lambda>l. s\<lparr>apiKeys := l\<rparr>"])
qed simp

lemma registerKey_Inr:
  assumes "registerKey now args s = Inr (x, t)" and "wf_db s"
  shows "wf_db t \<and> (\<exists>r \<in> set (apiKeys t). k_keyHash (doc r) = v_keyHash args \<and> k_userId (doc r) = v_userId args
      \<and> k_revokedAt (doc r) = None) \<and> (t = s \<or> apiKeys t = apiKeys s @ [Row (nextId s) now (upsertedKey args)])"
proof -
  obtain found where f: "uniqueRow (tselect (\<lambda>d. k_keyHash d = v_keyHash args) (apiKeys s)) = Inr found"
    using assms(1) by (auto simp: registerKey_def mut_Inr)
  show ?thesis
  proof (cases found)
    case None
    then have "t = snd (db_insert apiKeys_update now (upsertedKey args) s)"
      using assms(1) f by (simp add: registerKey_def mbind_reads)
    moreover have "freshKeyHash (v_keyHash args) s"
      using uniqueRow_None [OF f [unfolded None]] by (auto simp: freshKeyHash_def tselect_def filter_empty_conv)
    ultimately show ?thesis
      using wf_db_insert_key [OF assms(2), of "upsertedKey args" now] keyt.insert_rows [of now "upsertedKey args" s]
      by (simp add: upsertedKey_def)
  next
    case (Some r)
    with uniqueRow_in [OF f [unfolded Some]] assms f show ?thesis
      by (auto simp: registerKey_def mbind_reads split: if_splits)
  qed
qed

text \<open>Registering a site key rotates it: after \<open>upsertKey\<close> the key is registered to the account and usable, every other
  site key of the account is revoked, the keys of other accounts and the other keys of this one are
  untouched; and registering it again, at any later time, changes nothing.\<close>

theorem site_key_rotation:
  assumes "wf_db s" and "v_isSiteKey args" and "upsertKey now args s = Inr ((), s')"
  shows "wf_db s'
    \<and> (\<exists>r \<in> set (apiKeys s'). k_keyHash (doc r) = v_keyHash args \<and> k_userId (doc r) = v_userId args
        \<and> k_revokedAt (doc r) = None)
    \<and> (\<forall>r \<in> set (apiKeys s'). k_userId (doc r) = v_userId args \<and> k_isSiteKey (doc r) = Some True
        \<and> k_revokedAt (doc r) = None \<longrightarrow> k_keyHash (doc r) = v_keyHash args)
    \<and> (\<forall>r \<in> set (apiKeys s). k_userId (doc r) \<noteq> v_userId args \<or> k_isSiteKey (doc r) \<noteq> Some True
        \<longrightarrow> r \<in> set (apiKeys s'))
    \<and> upsertKey now' args s' = Inr ((), s')"
proof -
  obtain t where reg: "registerKey now args s = Inr ((), t)" using assms(3) by (auto simp: upsertKey_def mut_Inr)
  note t = registerKey_Inr [OF reg assms(1)]
  define ks where "ks = keysOfUser (v_userId args) t"
  have s': "s' = t\<lparr>apiKeys := map (\<lambda>r. if \<exists>k \<in> set ks. rid k = rid r \<and> supersededBy (v_keyHash args) k
     then revokedNow now r else r) (apiKeys t)\<rparr>"
    using assms(2,3) reg by (simp add: upsertKey_def mthen_def mbind_def reads_def retireAll fold_retire ks_def)
  have inj: "r = q" if "r \<in> set (apiKeys t)" "q \<in> set (apiKeys t)" "rid r = rid q" for r q
    using that t by (metis option.inject tget_in wf_db_def wf_ids_def)
  have cond: "(\<exists>k \<in> set ks. rid k = rid r \<and> supersededBy (v_keyHash args) k)
      \<longleftrightarrow> k_userId (doc r) = v_userId args \<and> supersededBy (v_keyHash args) r" if "r \<in> set (apiKeys t)" for r
    using that by (auto simp: ks_def keysOfUser_def set_tselect dest: inj [OF _ that])
  have keys: "apiKeys s' = map (\<lambda>r. if k_userId (doc r) = v_userId args \<and> supersededBy (v_keyHash args) r
      then revokedNow now r else r) (apiKeys t)"
    by (simp add: s' cond)
  have hashes: "map (\<lambda>r. k_keyHash (doc r)) (apiKeys s') = map (\<lambda>r. k_keyHash (doc r)) (apiKeys t)"
    "map rid (apiKeys s') = map rid (apiKeys t)"
    by (simp_all add: keys revokedNow_def)
  have wf: "wf_db s'"
  proof -
    have "wf_table (nextId t) (apiKeys s')" using t hashes(2) unfolding wf_defs wf_table_def
      by (metis (no_types, lifting) list.set_map image_iff)
    moreover have "keyed k_keyHash (apiKeys s')" using t hashes(1) by (simp add: wf_defs keyed_def)
    ultimately show ?thesis using t by (simp add: s' wf_defs)
  qed
  obtain r where r: "r \<in> set (apiKeys t)" "k_keyHash (doc r) = v_keyHash args" "k_userId (doc r) = v_userId args"
    "k_revokedAt (doc r) = None" using t by blast
  then have r': "r \<in> set (apiKeys s')" by (force simp: keys supersededBy_def)
  have none: "\<not> supersededBy (v_keyHash args) q" if "q \<in> set (keysOfUser (v_userId args) s')" for q
    using that by (auto simp: keysOfUser_def set_tselect keys supersededBy_def revokedNow_def split: if_splits)
  have "wf_hashes s'" using wf by (simp add: wf_db_def)
  then have "uniqueRow (tselect (\<lambda>d. k_keyHash d = v_keyHash args) (apiKeys s')) = Inr (Some r)"
    using keyByHash_found [OF _ r'] r(2) by (simp add: keyByHash_def)
  then have again: "registerKey now' args s' = Inr ((), s')" using r by (simp add: registerKey_def mbind_reads)
  have idle: "fold (retire now' (v_keyHash args)) qs s' = s'"
    if "\<forall>q \<in> set qs. \<not> supersededBy (v_keyHash args) q" for qs
    using that by (induction qs) (auto simp: retire_def)
  have "upsertKey now' args s' = Inr ((), s')"
    using assms(2) again idle [of "keysOfUser (v_userId args) s'"] none
    by (simp add: upsertKey_def mthen_def mbind_def reads_def retireAll)
  moreover have "\<forall>q \<in> set (apiKeys s'). k_userId (doc q) = v_userId args \<and> k_isSiteKey (doc q) = Some True
        \<and> k_revokedAt (doc q) = None \<longrightarrow> k_keyHash (doc q) = v_keyHash args"
    using none by (fastforce simp: keysOfUser_def set_tselect supersededBy_def)
  moreover have "\<forall>q \<in> set (apiKeys s). k_userId (doc q) \<noteq> v_userId args \<or> k_isSiteKey (doc q) \<noteq> Some True
        \<longrightarrow> q \<in> set (apiKeys s')"
    using t by (force simp: keys supersededBy_def)
  ultimately show ?thesis using wf r r' by blast
qed

definition siteArgs :: upsertArgs where
  "siteArgs = \<lparr>v_userId = 4, v_name = SITE_KEY_NAME, v_keyHash = ''h9'', v_keyPrefix = ''geo_zz99'', v_isSiteKey = True\<rparr>"

theorem site_key_rotation_witness:
  "\<exists>s'. upsertKey sampleNow siteArgs sampleDb = Inr ((), s') \<and> upsertKey (sampleNow + 1) siteArgs s' = Inr ((), s')
    \<and> length (apiKeys s') = 4"
proof -
  have "(case upsertKey sampleNow siteArgs sampleDb of Inr x \<Rightarrow> length (apiKeys (snd x)) = 4 | _ \<Rightarrow> False)" by code_simp
  then obtain s' where run: "upsertKey sampleNow siteArgs sampleDb = Inr ((), s')" and l: "length (apiKeys s') = 4"
    by (auto split: sum.splits)
  have "v_isSiteKey siteArgs" by (simp add: siteArgs_def)
  from site_key_rotation [OF sample_wf this run] run l show ?thesis by blast
qed

end
