(* ===== verification/Maintenance.thy ===== *)
theory Maintenance
  imports ApiKeys
begin

text \<open>
  \<open>maintenance.ts\<close> and \<open>crons.ts\<close>: \<open>prune\<close> deletes, from five tables, at most 1000 of the rows whose time is over,
  oldest first, and schedules itself again when a batch was full.
\<close>

definition BATCH :: nat where
  "BATCH = 1000"

text \<open>\<open>query(table).withIndex(by_time, q => q.lt(time, bound)).take(BATCH)\<close>.\<close>

definition expiredBatch :: "('a \<Rightarrow> 'k::linorder) \<Rightarrow> 'k \<Rightarrow> 'a table \<Rightarrow> 'a row list" where
  "expiredBatch time bound t = take BATCH (sort_key (\<lambda>r. time (doc r)) (tselect (\<lambda>d. time d < bound) t))"

record pruned =
  pr_windows :: nat
  pr_tokens :: nat
  pr_requests :: nat
  pr_quotas :: nat
  pr_audit :: nat

definition windowsBound :: "int \<Rightarrow> int" where
  "windowsBound now = now - 5 * MINUTE_MS"

definition requestsBound :: "environment \<Rightarrow> int \<Rightarrow> rat" where
  "requestsBound env now = of_int now - usageRetentionDays env * of_int DAY_MS"

definition quotasBound :: "int \<Rightarrow> int" where
  "quotasBound now = now - 400 * DAY_MS"

definition auditBound :: "environment \<Rightarrow> int \<Rightarrow> int" where
  "auditBound env now = now - auditRetentionDays env * DAY_MS"

definition prune :: "environment \<Rightarrow> int \<Rightarrow> (db, pruned) mut" where
  "prune env now =
     mbind (reads (\<lambda>s. Inr (expiredBatch w_windowStart (windowsBound now) (rateLimitWindows s)))) (\<lambda>windows.
     mthen (modify (db_delete_all rateLimitWindows_update windows))
    (mbind (reads (\<lambda>s. Inr (expiredBatch t_expiresAt now (playgroundTokens s)))) (\<lambda>tokens.
     mthen (modify (db_delete_all playgroundTokens_update tokens))
    (mbind (reads (\<lambda>s. Inr (expiredBatch q_timestamp (requestsBound env now) (apiRequests s)))) (\<lambda>requests.
     mthen (modify (db_delete_all apiRequests_update requests))
    (mbind (reads (\<lambda>s. Inr (expiredBatch z_periodStart (quotasBound now) (quotaWindows s)))) (\<lambda>quotas.
     mthen (modify (db_delete_all quotaWindows_update quotas))
    (mbind (reads (\<lambda>s. Inr (expiredBatch a_timestamp (auditBound env now) (securityAuditEvents s)))) (\<lambda>audit.
     mthen (modify (db_delete_all securityAuditEvents_update audit))
    (mthen (if length windows = BATCH \<or> length tokens = BATCH \<or> length requests = BATCH
               \<or> length quotas = BATCH \<or> length audit = BATCH
            then modify (\<lambda>s. s\<lparr>scheduled := scheduled s @ [''maintenance.prune'']\<rparr>) else ret ())
      (ret \<lparr>pr_windows = length windows, pr_tokens = length tokens, pr_requests = length requests,
         pr_quotas = length quotas, pr_audit = length audit\<rparr>)))))))))))"

text \<open>\<open>crons.ts\<close>: the jobs and their intervals in minutes.\<close>

definition crons :: "(string \<times> nat \<times> string) list" where
  "crons = [(''prune expired usage and rate-limit data'', 10, ''maintenance.prune''),
     (''reconcile Wire payments'', 1, ''payments.reconcilePending'')]"

end
