(* ===== verification/MaintenanceProps.thy ===== *)
theory MaintenanceProps
  imports Maintenance Samples AdminProps "HOL-Library.Multiset"
begin

text \<open>
  What pruning does. \<open>prune_spec\<close>: it never fails and removes from each table exactly a batch of expired rows. It
  never removes a row that is not expired (\<open>prune_only_expired\<close>), and the runs it schedules end, with
  nothing expired left (\<open>pruning_drains\<close>). The last part shows what the bound on the rate-limit
  windows means for the hourly windows of the demo.
\<close>

section \<open>Batches\<close>

lemma set_expiredBatch: "r \<in> set (expiredBatch f b t) \<Longrightarrow> r \<in> set t \<and> f (doc r) < b"
  unfolding expiredBatch_def by (drule in_set_takeD) (simp add: set_tselect)

lemma length_expiredBatch: "length (expiredBatch f b t) = min BATCH (length (tselect (\<lambda>d. f d < b) t))"
  by (simp add: expiredBatch_def min.commute)

lemma distinct_expiredBatch: "wf_table n t \<Longrightarrow> distinct (map rid (expiredBatch f b t))"
proof -
  assume "wf_table n t"
  then have "distinct (map rid (tselect (\<lambda>d. f d < b) t))" by (simp add: wf_table_def tselect_def distinct_map_filter)
  moreover have "mset (map rid (sort_key (\<lambda>r. f (doc r)) (tselect (\<lambda>d. f d < b) t))) = mset (map rid (tselect (\<lambda>d. f d < b) t))"
    by simp
  ultimately have "distinct (map rid (sort_key (\<lambda>r. f (doc r)) (tselect (\<lambda>d. f d < b) t)))"
    using mset_eq_imp_distinct_iff by blast
  then show ?thesis by (simp add: expiredBatch_def take_map [symmetric])
qed

definition prunedTable :: "('a \<Rightarrow> 'k::linorder) \<Rightarrow> 'k \<Rightarrow> 'a table \<Rightarrow> 'a table" where
  "prunedTable f b t = tdel_all (expiredBatch f b t) t"

definition expired :: "('a \<Rightarrow> 'k::linorder) \<Rightarrow> 'k \<Rightarrow> 'a table \<Rightarrow> nat" where
  "expired f b t = length (tselect (\<lambda>d. f d < b) t)"

lemma in_batch:
  assumes "wf_table n t" and "r \<in> set t"
  shows "rid r \<in> rid ` set (expiredBatch f b t) \<longleftrightarrow> r \<in> set (expiredBatch f b t)"
proof
  assume "rid r \<in> rid ` set (expiredBatch f b t)"
  then obtain q where q: "q \<in> set (expiredBatch f b t)" "rid q = rid r" by auto
  with set_expiredBatch [OF q(1)] have "q = r" using tget_in [OF assms(1)] assms(2) by (metis option.inject)
  with q show "r \<in> set (expiredBatch f b t)" by simp
qed simp

lemma prunedTable_keeps:
  assumes "wf_table n t"
  shows "filter (\<lambda>r. b \<le> f (doc r)) (prunedTable f b t) = filter (\<lambda>r. b \<le> f (doc r)) t"
  unfolding prunedTable_def tdel_all_filter filter_filter
  by (rule filter_cong [OF refl]) (auto simp: in_batch [OF assms] dest: set_expiredBatch)

lemma prunedTable_set:
  assumes "wf_table n t"
  shows "set (prunedTable f b t) = {r \<in> set t. r \<notin> set (expiredBatch f b t)}"
  by (auto simp: prunedTable_def set_tdel_all in_batch [OF assms])

lemma wf_prunedTable: "wf_table n t \<Longrightarrow> wf_table n (prunedTable f b t)"
  by (simp add: prunedTable_def wf_tdel_all)

lemma keyed_prunedTable: "keyed k t \<Longrightarrow> keyed k (prunedTable f b t)"
  by (simp add: prunedTable_def keyed_tdel_all)

lemma length_prunedTable:
  assumes "wf_table n t"
  shows "length (prunedTable f b t) = length t - length (expiredBatch f b t)"
proof -
  have d: "distinct (map rid t)" using assms by (simp add: wf_table_def)
  have "set (map rid (expiredBatch f b t)) \<subseteq> set (map rid t)" by (auto dest: set_expiredBatch)
  from filter_not_in_length [OF d this distinct_expiredBatch [OF assms]]
  have "length (filter (\<lambda>x. x \<notin> set (map rid (expiredBatch f b t))) (map rid t)) = length t - length (expiredBatch f b t)"
    by simp
  then show ?thesis by (simp add: prunedTable_def tdel_all_filter filter_map o_def)
qed

text \<open>A batch that is not full was everything.\<close>

lemma batch_complete:
  assumes "wf_table n t" and "BATCH \<noteq> length (expiredBatch f b t)"
  shows "\<forall>r \<in> set (prunedTable f b t). b \<le> f (doc r)"
proof
  fix r assume r: "r \<in> set (prunedTable f b t)"
  have "length (tselect (\<lambda>d. f d < b) t) < BATCH" using assms(2) by (simp add: length_expiredBatch min_def split: if_splits)
  then have all: "set (expiredBatch f b t) = set (tselect (\<lambda>d. f d < b) t)" by (simp add: expiredBatch_def)
  from r have "r \<in> set t" "r \<notin> set (expiredBatch f b t)" by (auto simp: prunedTable_set [OF assms(1)])
  then show "b \<le> f (doc r)" by (auto simp: all set_tselect)
qed

section \<open>prune\<close>

definition prunedDb :: "environment \<Rightarrow> int \<Rightarrow> db \<Rightarrow> db" where
  "prunedDb env now s = s\<lparr>
     rateLimitWindows := prunedTable w_windowStart (windowsBound now) (rateLimitWindows s),
     playgroundTokens := prunedTable t_expiresAt now (playgroundTokens s),
     apiRequests := prunedTable q_timestamp (requestsBound env now) (apiRequests s),
     quotaWindows := prunedTable z_periodStart (quotasBound now) (quotaWindows s),
     securityAuditEvents := prunedTable a_timestamp (auditBound env now) (securityAuditEvents s)\<rparr>"

definition batchSizes :: "environment \<Rightarrow> int \<Rightarrow> db \<Rightarrow> nat list" where
  "batchSizes env now s =
     [length (expiredBatch w_windowStart (windowsBound now) (rateLimitWindows s)),
      length (expiredBatch t_expiresAt now (playgroundTokens s)),
      length (expiredBatch q_timestamp (requestsBound env now) (apiRequests s)),
      length (expiredBatch z_periodStart (quotasBound now) (quotaWindows s)),
      length (expiredBatch a_timestamp (auditBound env now) (securityAuditEvents s))]"

lemma prune_spec:
  "prune env now s = Inr (
     \<lparr>pr_windows = batchSizes env now s ! 0, pr_tokens = batchSizes env now s ! 1, pr_requests = batchSizes env now s ! 2,
      pr_quotas = batchSizes env now s ! 3, pr_audit = batchSizes env now s ! 4\<rparr>,
     if BATCH \<in> set (batchSizes env now s)
     then (prunedDb env now s)\<lparr>scheduled := scheduled s @ [''maintenance.prune'']\<rparr> else prunedDb env now s)"
  by (simp add: prune_def mbind_def mthen_def reads_def db_delete_all_def batchSizes_def prunedDb_def prunedTable_def
      eq_commute [of BATCH])

lemma wf_prunedDb: "wf_db s \<Longrightarrow> wf_db (prunedDb env now s)"
  by (simp add: prunedDb_def wf_defs wf_prunedTable keyed_prunedTable)

text \<open>Pruning deletes only what is over: \<open>prune\<close> never fails; every rate-limit window of the last five minutes, every
  token that has not expired, every request and audit entry within its retention and every quota row of
  the last 400 days is still there afterwards, in order; accounts, keys, rollups and payments are
  untouched; at most 1000 rows go from each table; and another run is scheduled exactly when some batch was full.\<close>

theorem prune_only_expired:
  assumes "wf_db s"
  shows "\<exists>p s'. prune env now s = Inr (p, s') \<and> wf_db s'
    \<and> filter (\<lambda>r. windowsBound now \<le> w_windowStart (doc r)) (rateLimitWindows s')
        = filter (\<lambda>r. windowsBound now \<le> w_windowStart (doc r)) (rateLimitWindows s)
    \<and> filter (\<lambda>r. now \<le> t_expiresAt (doc r)) (playgroundTokens s') = filter (\<lambda>r. now \<le> t_expiresAt (doc r)) (playgroundTokens s)
    \<and> filter (\<lambda>r. requestsBound env now \<le> q_timestamp (doc r)) (apiRequests s')
        = filter (\<lambda>r. requestsBound env now \<le> q_timestamp (doc r)) (apiRequests s)
    \<and> filter (\<lambda>r. quotasBound now \<le> z_periodStart (doc r)) (quotaWindows s')
        = filter (\<lambda>r. quotasBound now \<le> z_periodStart (doc r)) (quotaWindows s)
    \<and> filter (\<lambda>r. auditBound env now \<le> a_timestamp (doc r)) (securityAuditEvents s')
        = filter (\<lambda>r. auditBound env now \<le> a_timestamp (doc r)) (securityAuditEvents s)
    \<and> users s' = users s \<and> apiKeys s' = apiKeys s \<and> usageDaily s' = usageDaily s \<and> payments s' = payments s
    \<and> length (rateLimitWindows s') + pr_windows p = length (rateLimitWindows s) \<and> pr_windows p \<le> 1000
    \<and> length (apiRequests s') + pr_requests p = length (apiRequests s) \<and> pr_requests p \<le> 1000
    \<and> (scheduled s' = scheduled s @ [''maintenance.prune'']) =
        (1000 \<in> {pr_windows p, pr_tokens p, pr_requests p, pr_quotas p, pr_audit p})"
proof -
  have wfs: "wf_table (nextId s) (rateLimitWindows s)" "wf_table (nextId s) (playgroundTokens s)"
    "wf_table (nextId s) (apiRequests s)" "wf_table (nextId s) (quotaWindows s)"
    "wf_table (nextId s) (securityAuditEvents s)"
    using assms by (simp_all add: wf_defs)
  let ?s = "if BATCH \<in> set (batchSizes env now s)
     then (prunedDb env now s)\<lparr>scheduled := scheduled s @ [''maintenance.prune'']\<rparr> else prunedDb env now s"
  have wf: "wf_db ?s" using wf_prunedDb [OF assms, of env now] by (simp add: wf_defs)
  have le: "length (expiredBatch f b t) \<le> length t" for f :: "'x \<Rightarrow> 'y::linorder" and b and t :: "'x table"
    by (simp add: length_expiredBatch tselect_def min.coboundedI2)
  have "length (rateLimitWindows ?s) + batchSizes env now s ! 0 = length (rateLimitWindows s)"
    "length (apiRequests ?s) + batchSizes env now s ! 2 = length (apiRequests s)"
    by (simp_all add: prunedDb_def length_prunedTable [OF wfs(1)] length_prunedTable [OF wfs(3)] batchSizes_def le)
  moreover have "batchSizes env now s ! 0 \<le> 1000" "batchSizes env now s ! 2 \<le> 1000"
    by (simp_all add: batchSizes_def length_expiredBatch BATCH_def)
  moreover have "BATCH \<in> set (batchSizes env now s) \<longleftrightarrow> 1000 \<in> {batchSizes env now s ! 0, batchSizes env now s ! 1,
      batchSizes env now s ! 2, batchSizes env now s ! 3, batchSizes env now s ! 4}"
    by (simp add: batchSizes_def BATCH_def)
  ultimately show ?thesis
    unfolding prune_spec using wf
    by (simp add: prunedDb_def prunedTable_keeps [OF wfs(1)] prunedTable_keeps [OF wfs(2)] prunedTable_keeps [OF wfs(3)]
        prunedTable_keeps [OF wfs(4)] prunedTable_keeps [OF wfs(5)])
qed

theorem prune_only_expired_witness:
  "\<exists>p s'. prune (h_env sampleHost) (sampleNow + 900001) sampleDb = Inr (p, s') \<and> wf_db s' \<and> apiKeys s' = apiKeys sampleDb"
  using prune_only_expired [OF sample_wf] by blast

section \<open>Draining\<close>

text \<open>The runs that one cron run starts: run \<open>i\<close> sees the clock \<open>clock i\<close>, and the next one starts when a run scheduled
  it. \<open>None\<close> stands for a chain longer than the fuel.\<close>

fun pruneChain :: "nat \<Rightarrow> environment \<Rightarrow> (nat \<Rightarrow> int) \<Rightarrow> nat \<Rightarrow> db \<Rightarrow> (nat \<times> db) option" where
  "pruneChain 0 env clock i s = None"
| "pruneChain (Suc fuel) env clock i s =
     (case prune env (clock i) (s\<lparr>scheduled := []\<rparr>) of
        Inl e \<Rightarrow> None
      | Inr (p, s') \<Rightarrow> if scheduled s' = [] then Some (i, s') else pruneChain fuel env clock (Suc i) s')"

definition prunableRows :: "db \<Rightarrow> nat" where
  "prunableRows s = length (rateLimitWindows s) + length (playgroundTokens s) + length (apiRequests s)
     + length (quotaWindows s) + length (securityAuditEvents s)"

definition nothingExpired :: "environment \<Rightarrow> int \<Rightarrow> db \<Rightarrow> bool" where
  "nothingExpired env now s \<longleftrightarrow> (\<forall>r \<in> set (rateLimitWindows s). windowsBound now \<le> w_windowStart (doc r))
     \<and> (\<forall>r \<in> set (playgroundTokens s). now \<le> t_expiresAt (doc r))
     \<and> (\<forall>r \<in> set (apiRequests s). requestsBound env now \<le> q_timestamp (doc r))
     \<and> (\<forall>r \<in> set (quotaWindows s). quotasBound now \<le> z_periodStart (doc r))
     \<and> (\<forall>r \<in> set (securityAuditEvents s). auditBound env now \<le> a_timestamp (doc r))"

lemma prunable_pruned:
  assumes "wf_db s"
  shows "prunableRows (prunedDb env now s) + sum_list (batchSizes env now s) = prunableRows s"
proof -
  have wfs: "wf_table (nextId s) (rateLimitWindows s)" "wf_table (nextId s) (playgroundTokens s)"
    "wf_table (nextId s) (apiRequests s)" "wf_table (nextId s) (quotaWindows s)"
    "wf_table (nextId s) (securityAuditEvents s)"
    using assms by (simp_all add: wf_defs)
  have le: "length (expiredBatch f b t) \<le> length t" for f :: "'x \<Rightarrow> 'y::linorder" and b and t :: "'x table"
    by (simp add: length_expiredBatch tselect_def min.coboundedI2)
  note ls = length_prunedTable [OF wfs(1)] length_prunedTable [OF wfs(2)] length_prunedTable [OF wfs(3)]
    length_prunedTable [OF wfs(4)] length_prunedTable [OF wfs(5)]
  show ?thesis
    using le [of w_windowStart "windowsBound now" "rateLimitWindows s"] le [of t_expiresAt now "playgroundTokens s"]
      le [of q_timestamp "requestsBound env now" "apiRequests s"] le [of z_periodStart "quotasBound now" "quotaWindows s"]
      le [of a_timestamp "auditBound env now" "securityAuditEvents s"]
    by (simp add: prunableRows_def prunedDb_def batchSizes_def ls)
qed

lemma drained:
  assumes "wf_db s" and "BATCH \<notin> set (batchSizes env now s)"
  shows "nothingExpired env now (prunedDb env now s)"
proof -
  have wfs: "wf_table (nextId s) (rateLimitWindows s)" "wf_table (nextId s) (playgroundTokens s)"
    "wf_table (nextId s) (apiRequests s)" "wf_table (nextId s) (quotaWindows s)"
    "wf_table (nextId s) (securityAuditEvents s)"
    using assms(1) by (simp_all add: wf_defs)
  show ?thesis
    unfolding nothingExpired_def prunedDb_def using assms(2)
    by (auto simp: batchSizes_def dest: batch_complete [OF wfs(1)] batch_complete [OF wfs(2)] batch_complete [OF wfs(3)]
        batch_complete [OF wfs(4)] batch_complete [OF wfs(5)])
qed

lemma pruneChain_drains:
  assumes "wf_db s" and "prunableRows s div BATCH < fuel"
  shows "\<exists>k s'. pruneChain fuel env clock i s = Some (i + k, s') \<and> k \<le> prunableRows s div BATCH \<and> wf_db s'
    \<and> nothingExpired env (clock (i + k)) s'"
  using assms
proof (induction fuel arbitrary: i s)
  case (Suc fuel)
  let ?s = "s\<lparr>scheduled := []\<rparr>" and ?now = "clock i"
  have wf: "wf_db ?s" using Suc.prems(1) by (simp add: wf_defs)
  show ?case
  proof (cases "BATCH \<in> set (batchSizes env ?now ?s)")
    case False
    then have "pruneChain (Suc fuel) env clock i s = Some (i, prunedDb env ?now ?s)"
      by (simp add: prune_spec prunedDb_def)
    with drained [OF wf False] wf_prunedDb [OF wf] show ?thesis by (intro exI [of _ 0]) simp
  next
    case True
    define t where "t = (prunedDb env ?now ?s)\<lparr>scheduled := [''maintenance.prune'']\<rparr>"
    have run: "pruneChain (Suc fuel) env clock i s = pruneChain fuel env clock (Suc i) t"
      using True by (simp add: prune_spec t_def)
    have "BATCH \<le> sum_list (batchSizes env ?now ?s)" using True by (rule member_le_sum_list) simp
    moreover have "prunableRows t + sum_list (batchSizes env ?now ?s) = prunableRows s"
      using prunable_pruned [OF wf, of env ?now] by (simp add: t_def prunableRows_def)
    ultimately have less: "Suc (prunableRows t div BATCH) \<le> prunableRows s div BATCH"
      by (simp add: BATCH_def)
    have "wf_db t" using wf_prunedDb [OF wf, of env ?now] by (simp add: t_def wf_defs)
    moreover have "prunableRows t div BATCH < fuel" using less Suc.prems(2) by linarith
    ultimately obtain k s' where "pruneChain fuel env clock (Suc i) t = Some (Suc i + k, s')"
      "k \<le> prunableRows t div BATCH" "wf_db s'" "nothingExpired env (clock (Suc i + k)) s'"
      using Suc.IH [of t "Suc i"] by blast
    with run less show ?thesis by (intro exI [of _ "Suc k"] exI [of _ s']) simp
  qed
qed simp

text \<open>C23. Retention holds at any volume: the chain of runs that one cron run starts ends after at most
  \<open>rows / 1000 + 1\<close> runs, whatever the clock does between them, and then no expired row is left in any of the five
  tables, as of the clock of the last run.\<close>

theorem pruning_drains:
  assumes "wf_db s"
  shows "\<exists>runs s'. pruneChain (prunableRows s div 1000 + 1) env clock 0 s = Some (runs, s')
    \<and> runs \<le> prunableRows s div 1000 \<and> wf_db s' \<and> nothingExpired env (clock runs) s'"
  using pruneChain_drains [OF assms, of "prunableRows s div 1000 + 1" env clock 0] by (simp add: BATCH_def)

theorem pruning_drains_witness:
  "\<exists>s'. pruneChain 1 (h_env sampleHost) (\<lambda>i. sampleNow + 900001) 0 sampleDb = Some (0, s') \<and> playgroundTokens s' = []"
proof -
  have one: "prunableRows sampleDb div 1000 + 1 = 1" by code_simp
  from pruning_drains [OF sample_wf, of "h_env sampleHost" "\<lambda>i. sampleNow + 900001", unfolded one]
  obtain runs s' where run: "pruneChain 1 (h_env sampleHost) (\<lambda>i. sampleNow + 900001) 0 sampleDb = Some (runs, s')"
    by blast
  have "(case pruneChain 1 (h_env sampleHost) (\<lambda>i. sampleNow + 900001) 0 sampleDb of
      Some (r, t) \<Rightarrow> r = 0 \<and> playgroundTokens t = [] | None \<Rightarrow> False)" by code_simp
  with run show ?thesis by auto
qed

section \<open>The hourly windows of the demo\<close>

text \<open>\<open>authorizeDemo\<close> keeps its hourly limit in \<open>rateLimitWindows\<close> too, in a row whose \<open>windowStart\<close> is the start of
  the hour; the bound of \<open>prune\<close> is five minutes.\<close>

text \<open>(A defect.) From five minutes past the hour on, any run of \<open>prune\<close> that does not fill its batch forgets every
  demo request of the current hour: the count of each hourly window that was opened at the start of the
  hour is 0 again although the hour is not over, so the hourly limit of a visitor starts afresh with every
  run, that is every ten minutes.\<close>

theorem demo_hour_forgotten:
  assumes "wf_db s" and "expired w_windowStart (windowsBound now) (rateLimitWindows s) < 1000"
    and "windowStart now (60 * MINUTE_MS) + 5 * MINUTE_MS < now"
  shows "\<exists>p s'. prune env now s = Inr (p, s') \<and> windowView s' (bucket, windowStart now (60 * MINUTE_MS)) = 0
    \<and> now < windowStart now (60 * MINUTE_MS) + 60 * MINUTE_MS"
proof -
  let ?h = "windowStart now (60 * MINUTE_MS)"
  have wf: "wf_table (nextId s) (rateLimitWindows s)" using assms(1) by (simp add: wf_defs)
  have "BATCH \<noteq> length (expiredBatch w_windowStart (windowsBound now) (rateLimitWindows s))"
    using assms(2) by (simp add: length_expiredBatch expired_def BATCH_def)
  from batch_complete [OF wf this]
  have "\<forall>r \<in> set (rateLimitWindows (prunedDb env now s)). wkey (doc r) \<noteq> (bucket, ?h)"
    using assms(3) by (auto simp: prunedDb_def windowsBound_def wkey_def)
  then have "tselect (\<lambda>d. wkey d = (bucket, ?h)) (rateLimitWindows (prunedDb env now s)) = []"
    by (simp add: tselect_def filter_empty_conv)
  then have "windowView (prunedDb env now s) (bucket, ?h) = 0" by (simp add: windowView_def tally_none)
  moreover have "now < ?h + 60 * MINUTE_MS" using windowStart_bounds [of "60 * MINUTE_MS" now] by (simp add: MINUTE_MS_def)
  ultimately show ?thesis by (simp add: prune_spec windowView_def)
qed

definition demoCall :: demoArgs where
  "demoCall = \<lparr>dm_clientIp = ''10.0.0.9'', dm_endpoint = ''route'', dm_cost = 5, dm_minuteLimit = Num 20,
     dm_hourLimit = Num 9, dm_globalMinuteLimit = Num 5000\<rparr>"

definition hourNow :: int where
  "hourNow = windowStart sampleNow (60 * MINUTE_MS) + 10 * MINUTE_MS"

lemma demo_cases:
  "(case x of Inr (DemoOk st, s) \<Rightarrow> P st s | _ \<Rightarrow> False) \<longleftrightarrow> (\<exists>st s. x = Inr (DemoOk st, s) \<and> P st s)"
  "(case x of Inr (DemoRateLimited st, s) \<Rightarrow> P st s | _ \<Rightarrow> False) \<longleftrightarrow> (\<exists>st s. x = Inr (DemoRateLimited st, s) \<and> P st s)"
  "(case y of Inr (p, s) \<Rightarrow> Q p s | _ \<Rightarrow> False) \<longleftrightarrow> (\<exists>p s. y = Inr (p, s) \<and> Q p s)"
  by (auto split: sum.splits prod.splits demoResult.splits)

text \<open>Two calls of cost 5 exceed an hourly limit of 9; after a run of \<open>prune\<close> the next call of the hour is admitted.\<close>

theorem demo_hour_forgotten_witness:
  "\<exists>st s1 l s2 p s3 st' s4. authorizeDemo sampleHost hourNow demoCall sampleDb = Inr (DemoOk st, s1)
    \<and> authorizeDemo sampleHost (hourNow + 60000) demoCall s1 = Inr (DemoRateLimited l, s2)
    \<and> prune (h_env sampleHost) (hourNow + 120000) s2 = Inr (p, s3)
    \<and> (\<forall>b. windowView s3 (b, windowStart hourNow (60 * MINUTE_MS)) = 0)
    \<and> authorizeDemo sampleHost (hourNow + 180000) demoCall s3 = Inr (DemoOk st', s4)"
proof -
  have "(case authorizeDemo sampleHost hourNow demoCall sampleDb of Inr (DemoOk st, s1) \<Rightarrow>
      (case authorizeDemo sampleHost (hourNow + 60000) demoCall s1 of Inr (DemoRateLimited l, s2) \<Rightarrow>
        wf_db s2 \<and> expired w_windowStart (windowsBound (hourNow + 120000)) (rateLimitWindows s2) < 1000 \<and>
      (case prune (h_env sampleHost) (hourNow + 120000) s2 of Inr (p, s3) \<Rightarrow>
      (case authorizeDemo sampleHost (hourNow + 180000) demoCall s3 of Inr (DemoOk st', s4) \<Rightarrow> True
       | _ \<Rightarrow> False) | _ \<Rightarrow> False) | _ \<Rightarrow> False) | _ \<Rightarrow> False)" by code_simp
  then obtain st s1 l s2 p s3 st' s4 where r1: "authorizeDemo sampleHost hourNow demoCall sampleDb = Inr (DemoOk st, s1)"
    and r2: "authorizeDemo sampleHost (hourNow + 60000) demoCall s1 = Inr (DemoRateLimited l, s2)"
    and h: "wf_db s2" "expired w_windowStart (windowsBound (hourNow + 120000)) (rateLimitWindows s2) < 1000"
    and r3: "prune (h_env sampleHost) (hourNow + 120000) s2 = Inr (p, s3)"
    and r4: "authorizeDemo sampleHost (hourNow + 180000) demoCall s3 = Inr (DemoOk st', s4)"
    unfolding demo_cases by blast
  have late: "windowStart (hourNow + 120000) (60 * MINUTE_MS) + 5 * MINUTE_MS < hourNow + 120000"
    and hour: "windowStart (hourNow + 120000) (60 * MINUTE_MS) = windowStart hourNow (60 * MINUTE_MS)" by code_simp+
  have "\<forall>b. windowView s3 (b, windowStart hourNow (60 * MINUTE_MS)) = 0"
    using demo_hour_forgotten [OF h late, of "h_env sampleHost"] r3 unfolding hour by simp
  with r1 r2 r3 r4 show ?thesis by blast
qed

end
