(* ===== verification/Auth.thy ===== *)
theory Auth
  imports Session Crypto Env
begin

text \<open>
  \<open>auth.ts\<close>, \<open>lib/commonPasswords.ts\<close> and \<open>lib/passwordReset.ts\<close>: which addresses and passwords an account may
  have, the profile that sign-up stores, and the reset code by mail. The parameters of a sign-in are read
  as the library passes them: a missing parameter is \<open>None\<close>.
\<close>

definition MIN_PASSWORD_LENGTH :: nat where
  "MIN_PASSWORD_LENGTH = 10"

definition MAX_PASSWORD_LENGTH :: nat where
  "MAX_PASSWORD_LENGTH = 128"

definition MAX_NAME_LENGTH :: nat where
  "MAX_NAME_LENGTH = 120"

definition RESERVED_EMAIL_DOMAINS :: "string list" where
  "RESERVED_EMAIL_DOMAINS = [''.internal'', ''.local'', ''.localhost'', ''.invalid'', ''.test'', ''.example'']"

lemmas auth_consts [const_defs] = MIN_PASSWORD_LENGTH_def MAX_PASSWORD_LENGTH_def MAX_NAME_LENGTH_def

section \<open>Addresses\<close>

definition normalizeEmail :: "string option \<Rightarrow> string" where
  "normalizeEmail value = toLowerCase (trim (case value of None \<Rightarrow> [] | Some s \<Rightarrow> s))"

text \<open>\<open>email.slice(email.lastIndexOf("@") + 1)\<close>: what follows the last \<open>@\<close>, or everything.\<close>

definition emailDomain :: "string \<Rightarrow> string" where
  "emailDomain email = last (split_on (CHR ''@'') email)"

definition isReservedEmail :: "string \<Rightarrow> bool" where
  "isReservedEmail email = list_ex (\<lambda>suffix. ends_with (emailDomain email) suffix) RESERVED_EMAIL_DOMAINS"

text \<open>\<open>/^[^\s@]+@[^\s@]+\.[^\s@]+$/\<close>: one \<open>@\<close>, no white space, something before it, and after it a dot that is
  neither first nor last.\<close>

definition EMAIL_PATTERN :: "string \<Rightarrow> bool" where
  "EMAIL_PATTERN s =
     (list_all (\<lambda>c. \<not> is_space c) s \<and>
      (case split_on (CHR ''@'') s of
         [local, domain] \<Rightarrow> local \<noteq> [] \<and> CHR ''.'' \<in> set (butlast (tl domain))
       | _ \<Rightarrow> False))"

section \<open>Passwords\<close>

definition COMMON :: "string list" where
  "COMMON = [''1234567890'', ''12345678910'', ''123456789012'', ''0123456789'', ''0987654321'', ''9876543210'',
     ''1111111111'', ''0000000000'', ''1234512345'', ''1122334455'', ''123123123123'', ''1q2w3e4r5t'',
     ''1qaz2wsx3edc'', ''qwertyuiop'', ''qwertyuiop123'', ''asdfghjkl1'', ''zxcvbnm123'', ''qwerty12345'',
     ''qwerty123456'', ''password12'', ''password123'', ''password1234'', ''password12345'', ''passw0rd123'',
     ''p@ssword123'', ''p@ssw0rd123'', ''iloveyou123'', ''princess123'', ''sunshine123'', ''football123'',
     ''baseball123'', ''superman123'', ''trustno1234'', ''letmein1234'', ''welcome123'', ''welcome1234'',
     ''changeme123'', ''administrator'', ''admin123456'', ''abcdefghij'', ''abcd123456'', ''abc1234567'',
     ''a1b2c3d4e5'', ''qazwsxedcrfv'', ''mongolia123'', ''ulaanbaatar'', ''ulaanbaatar1'', ''ulaanbaatar123'',
     ''geoplatform'', ''geoplatform1'', ''geoplatform123'',
     ''ubhub'', ''ubhubdev'', ''ubhubdev1'', ''ubhubdev123'', ''ubhublocation'', ''ubhublocationservice'', ''monmap'', ''monmap123'']"

definition SEQUENCES :: "string list" where
  "SEQUENCES = [''0123456789012345'', ''9876543210987654'', ''abcdefghijklmnopqrstuvwxyz'', ''qwertyuiopasdfghjklzxcvbnm'']"

text \<open>\<open>.\<close> matches anything but a line terminator.\<close>

definition is_dot :: "char \<Rightarrow> bool" where
  "is_dot c = (code c \<noteq> 10 \<and> code c \<noteq> 13)"

text \<open>\<open>/^(.{1,3})\1+$/\<close>: a chunk of \<open>k\<close> characters, and the rest repeats it at least once.\<close>

fun repeats :: "string \<Rightarrow> nat \<Rightarrow> string \<Rightarrow> bool" where
  "repeats chunk 0 s = False"
| "repeats chunk (Suc fuel) s =
     (starts_with s chunk \<and> (let rest = drop (length chunk) s in rest = [] \<or> repeats chunk fuel rest))"

definition isRepeatedChunk :: "string \<Rightarrow> bool" where
  "isRepeatedChunk s =
     list_ex (\<lambda>k. k \<le> length s \<and> list_all is_dot (take k s) \<and> repeats (take k s) (length s) (drop k s)) [1, 2, 3]"

definition lettersOnly :: "string \<Rightarrow> string" where
  "lettersOnly s = filter is_lower s"

definition isCommonPassword :: "string \<Rightarrow> string option \<Rightarrow> bool" where
  "isCommonPassword password email =
     (let lower = toLowerCase password in
      lower \<in> set COMMON
      \<or> isRepeatedChunk lower
      \<or> list_ex (\<lambda>sequence. str_includes sequence lower) SEQUENCES
      \<or> (case email of
           None \<Rightarrow> False
         | Some e \<Rightarrow> e \<noteq> [] \<and>
             (let local = toLowerCase (hd (split_on (CHR ''@'') e)) in
              lower = toLowerCase e \<or> (4 \<le> length local \<and> lettersOnly lower = lettersOnly local))))"

definition validatePassword :: "string \<Rightarrow> string option \<Rightarrow> error + unit" where
  "validatePassword password email =
     (if length password < MIN_PASSWORD_LENGTH \<or> MAX_PASSWORD_LENGTH < length password
      then Inl (ConvexError (''Password must be between '' @ show_nat MIN_PASSWORD_LENGTH @ '' and ''
        @ show_nat MAX_PASSWORD_LENGTH @ '' characters.''))
      else if isCommonPassword password email
      then Inl (ConvexError ''This password is too common or easy to guess. Choose a different one.'')
      else Inr ())"

section \<open>The profile of an account\<close>

record authParams =
  ap_flow :: "string option"
  ap_email :: "string option"
  ap_password :: "string option"
  ap_newPassword :: "string option"
  ap_name :: "string option"

record profileFields =
  pf_email :: string
  pf_name :: "string option"
  pf_updatedAt :: "int option"

definition newPasswordOf :: "authParams \<Rightarrow> string option" where
  "newPasswordOf params =
     (if ap_flow params = Some ''signUp'' then ap_password params
      else if ap_flow params = Some ''reset-verification'' then ap_newPassword params else None)"

definition profile :: "int \<Rightarrow> authParams \<Rightarrow> error + profileFields" where
  "profile now params =
     (let email = normalizeEmail (ap_email params) in
      if \<not> EMAIL_PATTERN email \<or> 320 < length email \<or> isReservedEmail email
      then Inl (ConvexError ''Enter a valid email address.'')
      else case (case newPasswordOf params of None \<Rightarrow> Inr () | Some p \<Rightarrow> validatePassword p (Some email)) of
        Inl e \<Rightarrow> Inl e
      | Inr _ \<Rightarrow>
          if ap_flow params = Some ''signUp''
          then (let name = trim (case ap_name params of None \<Rightarrow> [] | Some n \<Rightarrow> n) in
                if name = [] \<or> MAX_NAME_LENGTH < length name
                then Inl (ConvexError (''Name must be 1 to '' @ show_nat MAX_NAME_LENGTH @ '' characters.''))
                else Inr \<lparr>pf_email = email, pf_name = Some name, pf_updatedAt = Some now\<rparr>)
          else Inr \<lparr>pf_email = email, pf_name = None, pf_updatedAt = None\<rparr>)"

section \<open>The reset code\<close>

definition CODE_LENGTH :: nat where
  "CODE_LENGTH = 8"

definition CODE_TTL_SECONDS :: nat where
  "CODE_TTL_SECONDS = 15 * 60"

text \<open>\<open>PasswordReset.authorize\<close>: the code must be used with the address of its account.\<close>

definition authorizeReset :: "string option \<Rightarrow> string option \<Rightarrow> error + unit" where
  "authorizeReset email providerAccountId =
     (let e = (case email of None \<Rightarrow> [] | Some s \<Rightarrow> toLowerCase (trim s)) in
      if e = [] \<or> e \<noteq> toLowerCase (trim (case providerAccountId of None \<Rightarrow> [] | Some s \<Rightarrow> s))
      then Inl (PlainError ''The reset code does not match this email address.'')
      else Inr ())"

definition generateVerificationToken :: "byte list list \<Rightarrow> string option" where
  "generateVerificationToken buffers = randomString CODE_LENGTH ''0123456789'' buffers"

record resetMail =
  rm_authorization :: string
  rm_from :: string
  rm_to :: string
  rm_subject :: string
  rm_text :: string

datatype mailResult = Mailed resetMail | Logged string

text \<open>\<open>sendVerificationRequest\<close>: \<open>send\<close> is the call of the mail provider, which returns \<open>response.ok\<close> and the status.\<close>

definition resetText :: "string \<Rightarrow> string" where
  "resetText token = ''Your password reset code is '' @ token @ ''.'' @ [CHR 0x0A, CHR 0x0A] @ ''It expires in ''
     @ show_nat (CODE_TTL_SECONDS div 60) @ '' minutes. If you did not ask to reset your password, ignore this email.''"

definition sendVerificationRequest ::
  "environment \<Rightarrow> (resetMail \<Rightarrow> bool \<times> int) \<Rightarrow> string \<Rightarrow> string \<Rightarrow> error + mailResult" where
  "sendVerificationRequest env send email token =
     (let backend = (case env ''EMAIL_BACKEND'' of None \<Rightarrow> ''console'' | Some b \<Rightarrow> b);
          subject = ''Your Ubhub Location Service password reset code'' in
      if backend = ''resend''
      then (let mail = \<lparr>rm_authorization = ''Bearer '' @ (case env ''RESEND_API_KEY'' of None \<Rightarrow> ''undefined'' | Some k \<Rightarrow> k),
                rm_from = (case env ''EMAIL_FROM'' of None \<Rightarrow> ''Ubhub Location Service <no-reply@example.com>'' | Some f \<Rightarrow> f),
                rm_to = email, rm_subject = subject, rm_text = resetText token\<rparr>;
                (ok, status) = send mail in
            if \<not> ok then Inl (PlainError (''Could not send the password reset email (HTTP '' @ show_int status @ '').''))
            else Inr (Mailed mail))
      else if isProduction env
      then Inl (PlainError ''EMAIL_BACKEND=console is not allowed in production.'')
      else Inr (Logged (''[DEV EMAIL] To: '' @ email @ '' | '' @ subject @ '' | code: '' @ token)))"

end
