(* ===== verification/Users.thy ===== *)
theory Users
  imports Auth Admin
begin

text \<open>
  \<open>users.ts\<close>: the signed-in developer's profile and password. The credentials are kept by Convex Auth, whose
  functions are arguments of \<open>changePassword\<close>.
\<close>

record viewerInfo =
  vi_id :: nat
  vi_name :: string
  vi_email :: string
  vi_createdAt :: int

definition viewer :: "int \<Rightarrow> authContext \<Rightarrow> db \<Rightarrow> viewerInfo option" where
  "viewer now auth s =
     (case currentUserId s now auth of
        None \<Rightarrow> None
      | Some userId \<Rightarrow>
          (case tget (users s) userId of
             None \<Rightarrow> None
           | Some r \<Rightarrow> Some \<lparr>vi_id = rid r, vi_name = (case u_name (doc r) of None \<Rightarrow> [] | Some n \<Rightarrow> n),
               vi_email = (case u_email (doc r) of None \<Rightarrow> [] | Some e \<Rightarrow> e), vi_createdAt = ctime r\<rparr>))"

definition updateProfile :: "int \<Rightarrow> authContext \<Rightarrow> string \<Rightarrow> (db, unit) mut" where
  "updateProfile now auth name =
     mbind (reads (requireUserId now auth)) (\<lambda>userId.
       let cleaned = trim name in
       if length cleaned = 0 \<or> MAX_NAME_LENGTH < length cleaned
       then throw (ConvexError (''Name must be 1 to '' @ show_nat MAX_NAME_LENGTH @ '' characters.''))
       else modify (db_patch users_update userId (\<lambda>u. u\<lparr>u_name := Some cleaned, u_updatedAt := Some now\<rparr>)))"

definition sessionIsActive :: "int \<Rightarrow> nat \<Rightarrow> nat \<Rightarrow> db \<Rightarrow> bool" where
  "sessionIsActive now userId sessionId s = isSessionActive s now userId sessionId"

definition passwordAccountId :: "nat \<Rightarrow> db \<Rightarrow> error + string option" where
  "passwordAccountId userId s =
     (case uniqueRow (tselect (\<lambda>d. c_userId d = userId \<and> c_provider d = ''password'') (authAccounts s)) of
        Inl e \<Rightarrow> Inl e
      | Inr account \<Rightarrow> Inr (map_option (\<lambda>r. c_providerAccountId (doc r)) account))"

text \<open>\<open>retrieveAccount\<close> and \<open>modifyAccountCredentials\<close> of Convex Auth, with the account's id and a secret.\<close>

type_synonym credentialCall = "string \<Rightarrow> string \<Rightarrow> (db, unit) act"

definition changePassword ::
  "credentialCall \<Rightarrow> credentialCall \<Rightarrow> invalidator \<Rightarrow> int \<Rightarrow> authContext \<Rightarrow> string \<Rightarrow> string \<Rightarrow> (db, unit) act" where
  "changePassword retrieveAccount modifyAccountCredentials invalidateSessions now auth currentPassword newPassword =
     abind (runQuery (requireUserId now auth)) (\<lambda>userId.
     abind (runQuery (passwordAccountId userId)) (\<lambda>account.
       case account of
         None \<Rightarrow> athrow (ConvexError ''Account not found.'')
       | Some email \<Rightarrow>
           abind (lift (validatePassword newPassword (Some email))) (\<lambda>_.
           abind (attempt (retrieveAccount email currentPassword)
               (\<lambda>e. athrow (ConvexError ''The current password is incorrect.''))) (\<lambda>_.
           abind (modifyAccountCredentials email newPassword) (\<lambda>_.
             invalidateSessions userId (case authSessionId auth of None \<Rightarrow> [] | Some i \<Rightarrow> [i]))))))"

end
