(* ===== verification/AuthProps.thy ===== *)
theory AuthProps
  imports Users Platform Keys Samples
begin

text \<open>
  What sign-up and password changes guarantee: the addresses an account can have (\<open>profile_sound\<close>), the
  meaning of the check for repeated chunks (\<open>repeated_chunk_iff\<close>), an address for which the check refuses every
  password without Latin letters (\<open>letterless_local_part_refuses\<close>), and the order of the steps of a password
  change (\<open>password_change_guarded\<close>).
\<close>

section \<open>Repeated chunks\<close>

lemma repeats_iff:
  assumes "chunk \<noteq> []" and "length s \<le> fuel"
  shows "repeats chunk fuel s \<longleftrightarrow> (\<exists>n. 1 \<le> n \<and> s = concat (replicate n chunk))"
  using assms(2)
proof (induction fuel arbitrary: s)
  case 0
  have "concat (replicate n chunk) \<noteq> []" if "1 \<le> n" for n using that assms(1) by (cases n) auto
  with 0 show ?case by auto
next
  case (Suc fuel)
  let ?rest = "drop (length chunk) s"
  have IH: "repeats chunk fuel ?rest \<longleftrightarrow> (\<exists>n. 1 \<le> n \<and> ?rest = concat (replicate n chunk))" if "starts_with s chunk"
  proof (rule Suc.IH)
    have "1 \<le> length chunk" using assms(1) by (cases chunk) auto
    with Suc.prems show "length ?rest \<le> fuel" by simp
  qed
  show ?case
  proof
    assume r: "repeats chunk (Suc fuel) s"
    then have st: "starts_with s chunk" and rest: "?rest = [] \<or> repeats chunk fuel ?rest" by (auto simp: Let_def)
    have s: "s = chunk @ ?rest" using st by (auto simp: starts_with_iff)
    from rest show "\<exists>n. 1 \<le> n \<and> s = concat (replicate n chunk)"
    proof
      assume "?rest = []"
      with s show ?thesis by (intro exI [of _ 1]) simp
    next
      assume "repeats chunk fuel ?rest"
      then obtain n where "1 \<le> n" "?rest = concat (replicate n chunk)" using IH [OF st] by blast
      with s show ?thesis by (intro exI [of _ "Suc n"]) simp
    qed
  next
    assume "\<exists>n. 1 \<le> n \<and> s = concat (replicate n chunk)"
    then obtain n where n: "s = chunk @ concat (replicate n chunk)" by (metis Suc_le_D One_nat_def concat.simps(2) replicate_Suc)
    then have st: "starts_with s chunk" by simp
    show "repeats chunk (Suc fuel) s"
    proof (cases n)
      case 0
      with n show ?thesis by (simp add: Let_def starts_with_iff)
    next
      case (Suc m)
      then have "repeats chunk fuel ?rest" using IH [OF st] n by auto
      with st show ?thesis by (simp add: Let_def)
    qed
  qed
qed

text \<open>The check for repeated chunks is exact: it holds of a password iff the password is some chunk of one to three
  characters (no line terminator) written at least twice, whatever its length; it always ends.\<close>

theorem repeated_chunk_iff:
  "isRepeatedChunk s \<longleftrightarrow> (\<exists>chunk n. length chunk \<in> {1, 2, 3} \<and> list_all is_dot chunk \<and> 2 \<le> n
     \<and> s = concat (replicate n chunk))"
proof
  assume "isRepeatedChunk s"
  then obtain k where k: "k \<in> {1, 2, 3}" "k \<le> length s" "list_all is_dot (take k s)" "repeats (take k s) (length s) (drop k s)"
    by (auto simp: isRepeatedChunk_def list_ex_iff)
  have "take k s \<noteq> []" using k(1,2) by auto
  then obtain n where n: "1 \<le> n" "drop k s = concat (replicate n (take k s))" using k(4) repeats_iff by fastforce
  then have "s = concat (replicate (Suc n) (take k s))" by (metis append_take_drop_id concat.simps(2) replicate_Suc)
  with k n show "\<exists>chunk n. length chunk \<in> {1, 2, 3} \<and> list_all is_dot chunk \<and> 2 \<le> n \<and> s = concat (replicate n chunk)"
    by (intro exI [of _ "take k s"] exI [of _ "Suc n"]) (simp add: min_def)
next
  assume "\<exists>chunk n. length chunk \<in> {1, 2, 3} \<and> list_all is_dot chunk \<and> 2 \<le> n \<and> s = concat (replicate n chunk)"
  then obtain chunk n where c: "length chunk \<in> {1, 2, 3}" "list_all is_dot chunk" "2 \<le> n" "s = concat (replicate n chunk)"
    by blast
  then obtain m where m: "n = Suc m" "1 \<le> m" by (cases n) auto
  have tk: "take (length chunk) s = chunk" "drop (length chunk) s = concat (replicate m chunk)" "length chunk \<le> length s"
    by (simp_all add: c(4) m(1))
  have "chunk \<noteq> []" using c(1) by auto
  then have "repeats chunk (length s) (drop (length chunk) s)"
    using repeats_iff [of chunk "drop (length chunk) s" "length s"] m(2) unfolding tk(2) [symmetric] by (metis diff_le_self length_drop tk(2))
  with c(1,2) tk show "isRepeatedChunk s" by (auto simp: isRepeatedChunk_def list_ex_iff)
qed

section \<open>The address of an account\<close>

lemma lower_char_idem: "lower_char (lower_char c) = lower_char c"
proof (cases "is_upper c")
  case True
  then have "code (char_of (code c + 32)) = code c + 32" by (simp add: is_upper_def code_def)
  with True show ?thesis by (simp add: lower_char_def is_upper_def)
qed (simp add: lower_char_def)

lemma is_space_lower: "is_space (lower_char c) = is_space c"
proof (cases "is_upper c")
  case True
  then have "code (char_of (code c + 32)) = code c + 32" by (simp add: is_upper_def code_def)
  with True show ?thesis by (simp add: lower_char_def is_upper_def is_space_def)
qed (simp add: lower_char_def)

lemma toLowerCase_idem: "toLowerCase (toLowerCase s) = toLowerCase s"
  by (simp add: toLowerCase_def lower_char_idem)

lemma normalizeEmail_idem: "normalizeEmail (Some (normalizeEmail v)) = normalizeEmail v"
proof -
  let ?t = "trim (case v of None \<Rightarrow> [] | Some s \<Rightarrow> s)"
  have "toLowerCase ?t = [] \<or> \<not> is_space (hd (toLowerCase ?t)) \<and> \<not> is_space (last (toLowerCase ?t))"
    using trim_first [of "case v of None \<Rightarrow> [] | Some s \<Rightarrow> s"] trim_last [of "case v of None \<Rightarrow> [] | Some s \<Rightarrow> s"]
    by (cases "?t = []") (auto simp: toLowerCase_def hd_map last_map is_space_lower)
  then have "trim (toLowerCase ?t) = toLowerCase ?t" by (rule trim_id)
  then show ?thesis by (simp add: normalizeEmail_def toLowerCase_idem)
qed

text \<open>An address is accepted only in its canonical form and outside the platform's own name space: when \<open>profile\<close>
  accepts a sign-up or a reset, the stored address is the normalised one (normalising again changes nothing),
  matches the pattern, is at most 320 long, and its domain ends in none of the reserved suffixes; so it is
  never the system account's. A new password is 10 to 128 characters and passed the check with that address;
  a sign-up stores a trimmed name of 1 to 120 characters.\<close>

theorem profile_sound:
  assumes "profile now params = Inr p"
  shows "pf_email p = normalizeEmail (ap_email params) \<and> normalizeEmail (Some (pf_email p)) = pf_email p
    \<and> EMAIL_PATTERN (pf_email p) \<and> length (pf_email p) \<le> 320
    \<and> (\<forall>suffix \<in> set RESERVED_EMAIL_DOMAINS. \<not> ends_with (emailDomain (pf_email p)) suffix)
    \<and> pf_email p \<noteq> SYSTEM_EMAIL
    \<and> (\<forall>pw. newPasswordOf params = Some pw \<longrightarrow> 10 \<le> length pw \<and> length pw \<le> 128
        \<and> \<not> isCommonPassword pw (Some (pf_email p)))
    \<and> (ap_flow params = Some ''signUp'' \<longrightarrow> (\<exists>n. pf_name p = Some n \<and> 1 \<le> length n \<and> length n \<le> 120 \<and> trim n = n))"
proof -
  define email where "email = normalizeEmail (ap_email params)"
  have guard: "EMAIL_PATTERN email" "length email \<le> 320" "\<not> isReservedEmail email"
    using assms by (auto simp: profile_def email_def Let_def split: if_splits)
  have pe: "pf_email p = email"
    using assms by (auto simp: profile_def email_def Let_def split: if_splits sum.splits)
  have pw: "10 \<le> length w \<and> length w \<le> 128 \<and> \<not> isCommonPassword w (Some email)" if "newPasswordOf params = Some w" for w
    using assms that guard
    by (auto simp: profile_def email_def [symmetric] Let_def validatePassword_def MIN_PASSWORD_LENGTH_def
        MAX_PASSWORD_LENGTH_def split: if_splits sum.splits)
  have trims: "trim (trim x) = trim x" for x
    using trim_id [of "trim x"] trim_first [of x] trim_last [of x] by (cases "trim x = []") auto
  have nm: "\<exists>n. pf_name p = Some n \<and> 1 \<le> length n \<and> length n \<le> 120 \<and> trim n = n" if "ap_flow params = Some ''signUp''"
    using assms that guard
    by (auto simp: profile_def email_def [symmetric] Let_def MAX_NAME_LENGTH_def trims Suc_le_eq
        split: if_splits sum.splits)
  have "isReservedEmail SYSTEM_EMAIL" by code_simp
  then have sys: "email \<noteq> SYSTEM_EMAIL" using guard(3) by blast
  have "normalizeEmail (Some email) = email" unfolding email_def by (rule normalizeEmail_idem)
  then show ?thesis using guard pe pw nm sys email_def by (auto simp: isReservedEmail_def list_ex_iff)
qed

definition signUpParams :: authParams where
  "signUpParams = \<lparr>ap_flow = Some ''signUp'', ap_email = Some '' Dev@Ubhub.mn '', ap_password = Some ''correct horse 42'',
     ap_newPassword = None, ap_name = Some ''Dev''\<rparr>"

theorem profile_sound_witness:
  "\<exists>p. profile sampleNow signUpParams = Inr p \<and> pf_email p = ''dev@ubhub.mn'' \<and> pf_email p \<noteq> SYSTEM_EMAIL"
proof -
  have "(case profile sampleNow signUpParams of Inr p \<Rightarrow> pf_email p = ''dev@ubhub.mn'' | Inl e \<Rightarrow> False)" by code_simp
  then obtain p where run: "profile sampleNow signUpParams = Inr p" and e: "pf_email p = ''dev@ubhub.mn''"
    by (auto split: sum.splits)
  from profile_sound [OF run] run e show ?thesis by blast
qed

section \<open>Passwords and the address\<close>

text \<open>(A defect.) When the part of the address before the \<open>@\<close> is at least four long and has no Latin letter, such as a
  phone number, every password without a Latin letter is refused as easy to guess, however long and random: both
  strip to the empty string and compare equal.\<close>

theorem letterless_local_part_refuses:
  assumes "email = local @ ''@'' @ rest" and "CHR ''@'' \<notin> set local" and "4 \<le> length local"
    and "list_all (\<lambda>c. \<not> is_lower (lower_char c)) local" and "list_all (\<lambda>c. \<not> is_lower (lower_char c)) password"
    and "10 \<le> length password" and "length password \<le> 128"
  shows "validatePassword password (Some email)
    = Inl (ConvexError ''This password is too common or easy to guess. Choose a different one.'')"
proof -
  have hd_split: "hd (split_on c (xs @ c # ys)) = xs" if "c \<notin> set xs" for c xs ys
    using that by (induction xs) (auto split: list.splits)
  have "hd (split_on (CHR ''@'') email) = local" unfolding assms(1) using hd_split [OF assms(2)] by simp
  moreover have "lettersOnly (toLowerCase local) = []" "lettersOnly (toLowerCase password) = []"
    using assms(4,5) by (auto simp: lettersOnly_def toLowerCase_def filter_empty_conv list_all_iff)
  ultimately have "isCommonPassword password (Some email)"
    using assms(1,3) by (simp add: isCommonPassword_def Let_def toLowerCase_def)
  then show ?thesis using assms(6,7) by (simp add: validatePassword_def MIN_PASSWORD_LENGTH_def MAX_PASSWORD_LENGTH_def)
qed

theorem letterless_local_part_refuses_witness:
  "validatePassword ''7#40-91=&35+28'' (Some ''99112233@ubhub.mn'')
    = Inl (ConvexError ''This password is too common or easy to guess. Choose a different one.'')"
  by (rule letterless_local_part_refuses [of _ "''99112233''" "''ubhub.mn''"])
    (simp_all add: is_lower_def lower_char_def is_upper_def code_def)

section \<open>Changing a password\<close>

lemma abind_Inr: "abind m f s = (Inr y, t) \<longleftrightarrow> (\<exists>x s'. m s = (Inr x, s') \<and> f x s' = (Inr y, t))"
  by (auto simp: abind_def split: prod.splits sum.splits)

text \<open>A password is changed only by its owner: when \<open>changePassword\<close> succeeds, the caller was signed in with an active
  session, the new password is 10 to 128 characters and not a guess from the account's address, the current
  password was verified for the caller's own account, the credentials of that account were replaced, in that
  order, and then every session but the caller's was ended.\<close>

theorem password_change_guarded:
  assumes "changePassword retrieve modify' invalidate now auth current new s = (Inr (), s')"
  shows "\<exists>u email s1 s2. requireUserId now auth s = Inr u \<and> passwordAccountId u s = Inr (Some email)
    \<and> 10 \<le> length new \<and> length new \<le> 128 \<and> \<not> isCommonPassword new (Some email)
    \<and> retrieve email current s = (Inr (), s1) \<and> modify' email new s1 = (Inr (), s2)
    \<and> invalidate u (case authSessionId auth of None \<Rightarrow> [] | Some i \<Rightarrow> [i]) s2 = (Inr (), s')
    \<and> authSessionId auth \<noteq> None"
proof -
  from assms obtain u email s1 s2 where u: "requireUserId now auth s = Inr u"
    and a: "passwordAccountId u s = Inr (Some email)" and v: "validatePassword new (Some email) = Inr ()"
    and r: "attempt (retrieve email current) (\<lambda>e. athrow (ConvexError ''The current password is incorrect.'')) s = (Inr (), s1)"
    and m: "modify' email new s1 = (Inr (), s2)"
    and i: "invalidate u (case authSessionId auth of None \<Rightarrow> [] | Some i \<Rightarrow> [i]) s2 = (Inr (), s')"
    by (auto simp: changePassword_def abind_Inr split: option.splits)
  from r have "retrieve email current s = (Inr (), s1)" by (auto simp: attempt_def split: prod.splits sum.splits)
  moreover from v have "10 \<le> length new" "length new \<le> 128" "\<not> isCommonPassword new (Some email)"
    by (auto simp: validatePassword_def MIN_PASSWORD_LENGTH_def MAX_PASSWORD_LENGTH_def split: if_splits)
  moreover have "authSessionId auth \<noteq> None" using u by (auto simp: requireUserId_Inr)
  ultimately show ?thesis using u a m i by blast
qed

definition accountDb :: db where
  "accountDb = sampleDb\<lparr>nextId := 9, authAccounts := [Row 8 0 \<lparr>c_userId = 0, c_provider = ''password'',
     c_providerAccountId = ''dev@ubhub.mn''\<rparr>]\<rparr>"

theorem password_change_guarded_witness:
  "\<exists>s'. changePassword (\<lambda>i p. aret ()) (\<lambda>i p. aret ()) (\<lambda>u k. aret ()) sampleNow sampleAuth ''old''
      ''correct horse 42'' accountDb = (Inr (), s') \<and> passwordAccountId 0 accountDb = Inr (Some ''dev@ubhub.mn'')"
proof -
  let ?run = "changePassword (\<lambda>i p. aret ()) (\<lambda>i p. aret ()) (\<lambda>u k. aret ()) sampleNow sampleAuth ''old''
      ''correct horse 42'' accountDb"
  have "fst ?run = Inr ()" by code_simp
  then obtain s' where run: "?run = (Inr (), s')" by (metis prod.collapse)
  from password_change_guarded [OF run] have "\<exists>u. requireUserId sampleNow sampleAuth accountDb = Inr u" by blast
  moreover have "passwordAccountId 0 accountDb = Inr (Some ''dev@ubhub.mn'')" by code_simp
  ultimately show ?thesis using run by blast
qed

end
