(* ===== verification/Http.thy ===== *)
theory Http
  imports Gateway UsageRecord Payments
begin

text \<open>
  \<open>http.ts\<close>: the HTTP routes of the backend. A request is its headers and its body text; \<open>JSON.parse\<close> is an
  argument. A handler is an action that returns a response, or throws (which the platform answers with 500). The
  body of a response is the value the code passes to \<open>json()\<close>, before it is serialised.
\<close>

definition MAX_USAGE_BATCH :: nat where
  "MAX_USAGE_BATCH = 200"

definition MAX_BATCH_ENTRIES :: nat where
  "MAX_BATCH_ENTRIES = 1000"

definition MAX_BODY_BYTES :: nat where
  "MAX_BODY_BYTES = 256 * 1024"

definition MIN_SECRET_LENGTH :: nat where
  "MIN_SECRET_LENGTH = 32"

record request =
  rq_header :: "string \<Rightarrow> string option"
  rq_text :: string

datatype body =
    Error string
  | Health
  | Authorized authorizeResult
  | Demo demoResult
  | Described describeResult
  | Usage int int
  | Received

record response =
  rs_status :: int
  rs_body :: body

type_synonym parser = "string \<Rightarrow> error + json"

definition json_response :: "body \<Rightarrow> int \<Rightarrow> response" where
  "json_response b status = \<lparr>rs_status = status, rs_body = b\<rparr>"

definition unauthorizedResponse :: response where
  "unauthorizedResponse = json_response (Error ''unauthorized'') 401"

definition invalidBody :: response where
  "invalidBody = json_response (Error ''invalid body'') 400"

text \<open>\<open>authorized\<close>: the loop over the configured secrets.\<close>

definition authorized :: "environment \<Rightarrow> request \<Rightarrow> bool" where
  "authorized env request =
     (let header = (case rq_header request ''Authorization'' of None \<Rightarrow> [] | Some h \<Rightarrow> h) in
      fold (\<lambda>secret ok. case secret of
          None \<Rightarrow> ok
        | Some s \<Rightarrow> if s \<noteq> [] \<and> MIN_SECRET_LENGTH \<le> length s \<and> timingSafeEqual header (''Bearer '' @ s) then True else ok)
        [env ''GATEWAY_SECRET'', env ''GATEWAY_SECRET_PREVIOUS''] False)"

definition exceeds :: "jsnum \<Rightarrow> nat \<Rightarrow> bool" where
  "exceeds v bound = (case v of PosInf \<Rightarrow> True | Num x \<Rightarrow> of_nat bound < x | _ \<Rightarrow> False)"

definition readJson :: "parser \<Rightarrow> request \<Rightarrow> error + json" where
  "readJson parse request =
     (let declared = js_Number (case rq_header request ''Content-Length'' of None \<Rightarrow> ''0'' | Some h \<Rightarrow> h) in
      if exceeds declared MAX_BODY_BYTES then Inl (ConvexError ''Body too large'')
      else let text = rq_text request in
        if MAX_BODY_BYTES < length text then Inl (ConvexError ''Body too large'')
        else (case parse text of
            Inl e \<Rightarrow> Inl e
          | Inr (JObj fs) \<Rightarrow> Inr (JObj fs)
          | Inr _ \<Rightarrow> Inl (ConvexError ''Invalid body'')))"

definition toUsageEntry :: "json \<Rightarrow> usageEntry option" where
  "toUsageEntry raw =
     (case (jstring (jfield ''keyId'' raw), jstring (jfield ''userId'' raw),
            jstring (jfield ''endpoint'' raw), jstring (jfield ''method'' raw)) of
        (Some keyId, Some userId, Some endpoint, Some method') \<Rightarrow>
          (let statusCode = js_number (jfield ''statusCode'' raw);
               responseTimeMs = js_number (jfield ''responseTimeMs'' raw);
               timestamp = js_number (jfield ''timestamp'' raw) in
           if \<not> list_all isFinite [statusCode, responseTimeMs, timestamp] then None
           else Some \<lparr>e_keyId = slice0 64 keyId, e_userId = slice0 64 userId, e_endpoint = slice0 100 endpoint,
             e_method = slice0 10 method', e_statusCode = statusCode, e_responseTimeMs = responseTimeMs,
             e_timestamp = timestamp\<rparr>)
      | _ \<Rightarrow> None)"

text \<open>\<open>/^[0-9a-f]{64}$/\<close>.\<close>

definition isHash :: "string \<Rightarrow> bool" where
  "isHash s = (length s = 64 \<and> list_all (\<lambda>c. is_digit c \<or> (97 \<le> code c \<and> code c \<le> 102)) s)"

text \<open>\<open>if (!authorized(request)) return json({ error: "unauthorized" }, 401)\<close>, then the body of a POST.\<close>

definition guarded :: "environment \<Rightarrow> request \<Rightarrow> (db, response) act \<Rightarrow> (db, response) act" where
  "guarded env request handler =
     (if authorized env request then handler else aret unauthorizedResponse)"

definition withBody :: "parser \<Rightarrow> request \<Rightarrow> (json \<Rightarrow> (db, response) act) \<Rightarrow> (db, response) act" where
  "withBody parse request handler =
     (case readJson parse request of Inl e \<Rightarrow> aret invalidBody | Inr b \<Rightarrow> handler b)"

section \<open>Gateway routes\<close>

definition gatewayHealth :: "environment \<Rightarrow> request \<Rightarrow> (db, response) act" where
  "gatewayHealth env request = guarded env request (aret (json_response Health 200))"

definition kindOf :: "json \<Rightarrow> credentialKind option" where
  "kindOf b =
     (if jfield ''kind'' b = Some (JStr ''playground'') then Some PlaygroundCredential
      else if jfield ''kind'' b = Some (JStr ''key'') then Some KeyCredential else None)"

definition finiteAtLeast1 :: "jsnum \<Rightarrow> bool" where
  "finiteAtLeast1 v = (case v of Num x \<Rightarrow> 1 \<le> x | _ \<Rightarrow> False)"

definition gatewayAuthorize :: "host \<Rightarrow> parser \<Rightarrow> int \<Rightarrow> request \<Rightarrow> (db, response) act" where
  "gatewayAuthorize H parse now request =
     guarded (h_env H) request (withBody parse request (\<lambda>b.
       case (kindOf b, jstring (jfield ''hash'' b)) of
         (Some kind, Some hash) \<Rightarrow>
           if \<not> isHash hash then aret invalidBody
           else let defaultLimit = js_number (jfield ''defaultLimit'' b) in
             if \<not> finiteAtLeast1 defaultLimit then aret invalidBody
             else abind (runMutation (authorize H now
                 \<lparr>g_kind = kind, g_hash = hash, g_endpoint = map_option (slice0 64) (jstring (jfield ''endpoint'' b)),
                  g_defaultLimit = defaultLimit, g_clientIp = map_option (slice0 64) (jstring (jfield ''clientIp'' b)),
                  g_perIpLimit = (let n = js_number (jfield ''perIpLimit'' b) in if isFinite n then Some n else None)\<rparr>))
               (\<lambda>result. aret (json_response (Authorized result) 200))
       | _ \<Rightarrow> aret invalidBody))"

definition finiteValue :: "jsnum \<Rightarrow> rat" where
  "finiteValue v = (case v of Num x \<Rightarrow> x | _ \<Rightarrow> 0)"

definition demoValues :: "json \<Rightarrow> jsnum list" where
  "demoValues b = map (\<lambda>f. js_number (jfield f b)) [''cost'', ''minuteLimit'', ''hourLimit'', ''globalMinuteLimit'']"

definition gatewayDemoAuthorize :: "host \<Rightarrow> parser \<Rightarrow> int \<Rightarrow> request \<Rightarrow> (db, response) act" where
  "gatewayDemoAuthorize H parse now request =
     guarded (h_env H) request (withBody parse request (\<lambda>b.
       let clientIp = (case jstring (jfield ''clientIp'' b) of Some s \<Rightarrow> slice0 64 s | None \<Rightarrow> ''unknown'');
           endpoint = (case jstring (jfield ''endpoint'' b) of Some s \<Rightarrow> slice0 32 s | None \<Rightarrow> ''unknown'');
           values = demoValues b
       in if list_ex (\<lambda>v. \<not> finiteAtLeast1 v) values then aret invalidBody
          else abind (runMutation (authorizeDemo H now
              \<lparr>dm_clientIp = clientIp, dm_endpoint = endpoint, dm_cost = finiteValue (values ! 0),
               dm_minuteLimit = values ! 1, dm_hourLimit = values ! 2, dm_globalMinuteLimit = values ! 3\<rparr>))
            (\<lambda>result. aret (json_response (Demo result) 200))))"

definition gatewayDescribe :: "host \<Rightarrow> parser \<Rightarrow> int \<Rightarrow> request \<Rightarrow> (db, response) act" where
  "gatewayDescribe H parse now request =
     guarded (h_env H) request (withBody parse request (\<lambda>b.
       case jstring (jfield ''hash'' b) of
         Some hash \<Rightarrow>
           if \<not> isHash hash then aret invalidBody
           else abind (runQuery (describe H now hash)) (\<lambda>result. aret (json_response (Described result) 200))
       | None \<Rightarrow> aret invalidBody))"

text \<open>\<open>valid.slice(i, i + MAX_USAGE_BATCH)\<close> for \<open>i = 0, 200, \<dots>\<close>.\<close>

function (sequential) batches :: "nat \<Rightarrow> 'a list \<Rightarrow> 'a list list" where
  "batches n [] = []"
| "batches n (x # xs) = take (max 1 n) (x # xs) # batches n (drop (max 1 n) (x # xs))"
  by pat_completeness auto

termination
  by (relation "measure (\<lambda>(n, xs). length xs)") auto

fun recordBatches :: "host \<Rightarrow> int \<Rightarrow> usageEntry list list \<Rightarrow> int \<Rightarrow> (db, int) act" where
  "recordBatches H now [] written = aret written"
| "recordBatches H now (b # bs) written =
     abind (runMutation (recordUsage H now b)) (\<lambda>result. recordBatches H now bs (written + ur_written result))"

definition gatewayUsage :: "host \<Rightarrow> parser \<Rightarrow> int \<Rightarrow> request \<Rightarrow> (db, response) act" where
  "gatewayUsage H parse now request =
     guarded (h_env H) request (withBody parse request (\<lambda>b.
       case jfield ''entries'' b of
         Some (JArr entries) \<Rightarrow>
           if MAX_BATCH_ENTRIES < length entries then aret invalidBody
           else let valid = List.map_filter toUsageEntry entries in
             abind (recordBatches H now (batches MAX_USAGE_BATCH valid) 0) (\<lambda>written.
               aret (json_response (Usage written (int (length entries) - written)) 200))
       | _ \<Rightarrow> aret invalidBody))"

section \<open>The payment provider's webhook\<close>

text \<open>\<open>a ?? b\<close>, and a property of a value that is not nullish (a property of \<open>null\<close> throws).\<close>

definition nullish :: "json option \<Rightarrow> bool" where
  "nullish v = (v = None \<or> v = Some JNull)"

definition truthy :: "json option \<Rightarrow> bool" where
  "truthy v = (case v of None \<Rightarrow> False | Some JNull \<Rightarrow> False | Some (JBool b) \<Rightarrow> b
     | Some (JNum n) \<Rightarrow> n \<noteq> NaN \<and> n \<noteq> Num 0 | Some (JStr s) \<Rightarrow> s \<noteq> [] | Some (JArr xs) \<Rightarrow> True | Some (JObj fs) \<Rightarrow> True)"

definition optional_field :: "string \<Rightarrow> json option \<Rightarrow> json option" where
  "optional_field name v = (case v of None \<Rightarrow> None | Some j \<Rightarrow> jfield name j)"

definition webhookIntent :: "json \<Rightarrow> json option" where
  "webhookIntent event =
     (let data = jfield ''data'' event;
          nested = optional_field ''id'' (optional_field ''object'' data)
      in if nullish nested then optional_field ''id'' data else nested)"

definition webhookTypes :: "string list" where
  "webhookTypes = [''payment_intent.succeeded'', ''payment_intent.payment_failed'', ''payment_intent.canceled'']"

definition reportIntent :: "environment \<Rightarrow> fetch \<Rightarrow> int \<Rightarrow> json \<Rightarrow> (db, unit) act" where
  "reportIntent env fetch now event =
     (if truthy (webhookIntent event) \<and> (\<exists>t \<in> set webhookTypes. jfield ''type'' event = Some (JStr t))
      then (case webhookIntent event of
          Some (JStr intentId) \<Rightarrow> abind (settleFromWebhook env fetch now intentId) (\<lambda>_. aret ())
        | _ \<Rightarrow> athrow (PlainError ''ArgumentValidationError''))
      else aret ())"

text \<open>A verified event: a property of \<open>null\<close> throws.\<close>

definition webhookEvent :: "environment \<Rightarrow> parser \<Rightarrow> fetch \<Rightarrow> int \<Rightarrow> string \<Rightarrow> (db, response) act" where
  "webhookEvent env parse fetch now raw =
     (case parse raw of
        Inl e \<Rightarrow> aret invalidBody
      | Inr JNull \<Rightarrow> athrow (PlainError ''TypeError'')
      | Inr event \<Rightarrow> abind (reportIntent env fetch now event) (\<lambda>_. aret (json_response Received 200)))"

definition wireWebhook :: "host \<Rightarrow> parser \<Rightarrow> fetch \<Rightarrow> int \<Rightarrow> request \<Rightarrow> (db, response) act" where
  "wireWebhook H parse fetch now request =
     (case h_env H ''WIREPAYMENT_WEBHOOK_SECRET'' of
        None \<Rightarrow> aret (json_response (Error ''not configured'') 503)
      | Some secret \<Rightarrow>
          if secret = [] then aret (json_response (Error ''not configured'') 503)
          else let raw = rq_text request in
            if 64 * 1024 < length raw then aret (json_response (Error ''body too large'') 413)
            else if \<not> verifyWireSignature (h_hmac H) raw (rq_header request ''WirePayment-Signature'') secret now
            then aret (json_response (Error ''invalid signature'') 400)
            else webhookEvent (h_env H) parse fetch now raw)"

end
