(* ===== verification/HttpProps.thy ===== *)
theory HttpProps
  imports Http UsageLedger PaymentsProps WireProps
begin

text \<open>
  What the routes guarantee: only the holder of a gateway secret gets past \<open>authorized\<close>
  (\<open>gateway_routes_need_secret\<close>), the usage route accounts for every record of a batch
  (\<open>usage_route_accounts\<close>), and neither the webhook nor the other callers of \<open>checkIntent\<close> change anything
  unless the payment provider itself reports the intent settled (\<open>webhook_never_trusted\<close>).
\<close>

section \<open>Who may call the gateway routes\<close>

definition holdsSecret :: "environment \<Rightarrow> request \<Rightarrow> bool" where
  "holdsSecret env request \<longleftrightarrow> (\<exists>name \<in> {''GATEWAY_SECRET'', ''GATEWAY_SECRET_PREVIOUS''}. \<exists>s. env name = Some s
     \<and> 32 \<le> length s \<and> rq_header request ''Authorization'' = Some (''Bearer '' @ s))"

definition shortSecrets :: "environment \<Rightarrow> request \<Rightarrow> bool" where
  "shortSecrets env request \<longleftrightarrow> (\<forall>h. rq_header request ''Authorization'' = Some h \<longrightarrow> length h < 2 ^ 32)
     \<and> (\<forall>name s. env name = Some s \<longrightarrow> length s < 2 ^ 31)"

lemma authorized_iff:
  assumes "shortSecrets env request"
  shows "authorized env request \<longleftrightarrow> holdsSecret env request"
proof -
  define h where "h = (case rq_header request ''Authorization'' of None \<Rightarrow> [] | Some h \<Rightarrow> h)"
  have lh: "length h < 2 ^ 32" using assms by (simp add: h_def shortSecrets_def split: option.split)
  have eq: "timingSafeEqual h (''Bearer '' @ s) \<longleftrightarrow> rq_header request ''Authorization'' = Some (''Bearer '' @ s)"
    if "env name = Some s" for name s
  proof -
    have "length s < 2 ^ 31" using assms that by (simp add: shortSecrets_def)
    then have "length (''Bearer '' @ s) < 2 ^ 32" by simp
    from timingSafeEqual_iff [OF lh this] show ?thesis by (auto simp: h_def split: option.split)
  qed
  have step: "(case env name of None \<Rightarrow> ok
      | Some s \<Rightarrow> if s \<noteq> [] \<and> MIN_SECRET_LENGTH \<le> length s \<and> timingSafeEqual h (''Bearer '' @ s) then True else ok)
    \<longleftrightarrow> ok \<or> (\<exists>s. env name = Some s \<and> 32 \<le> length s \<and> rq_header request ''Authorization'' = Some (''Bearer '' @ s))"
    for name ok
    using eq [of name] by (auto simp: MIN_SECRET_LENGTH_def split: option.split)
  show ?thesis
    unfolding authorized_def Let_def h_def [symmetric] holdsSecret_def by (simp add: step)
qed

text \<open>C24. The gateway routes fail closed: a request passes the check iff it carries \<open>Bearer\<close> and exactly one of the two
  configured secrets, of at least 32 characters; any other request is answered 401 by each of the five routes,
  whatever its body, and changes nothing; with no usable secret configured nobody passes.\<close>

theorem gateway_routes_need_secret:
  assumes "shortSecrets (h_env H) request"
  shows "(authorized (h_env H) request \<longleftrightarrow> holdsSecret (h_env H) request)
    \<and> (\<not> holdsSecret (h_env H) request \<longrightarrow>
        gatewayHealth (h_env H) request s = (Inr unauthorizedResponse, s)
        \<and> gatewayAuthorize H parse now request s = (Inr unauthorizedResponse, s)
        \<and> gatewayDemoAuthorize H parse now request s = (Inr unauthorizedResponse, s)
        \<and> gatewayDescribe H parse now request s = (Inr unauthorizedResponse, s)
        \<and> gatewayUsage H parse now request s = (Inr unauthorizedResponse, s))
    \<and> (holdsSecret (h_env H) request \<longrightarrow> gatewayHealth (h_env H) request s = (Inr (json_response Health 200), s))"
  using authorized_iff [OF assms]
  by (simp add: gatewayHealth_def gatewayAuthorize_def gatewayDemoAuthorize_def gatewayDescribe_def gatewayUsage_def
      guarded_def)

definition bareRequest :: request where
  "bareRequest = \<lparr>rq_header = (\<lambda>n. None), rq_text = ''{}''\<rparr>"

theorem gateway_routes_need_secret_witness:
  "gatewayUsage sampleHost (\<lambda>t. Inl RangeError) sampleNow bareRequest sampleDb = (Inr unauthorizedResponse, sampleDb)"
proof -
  have short: "shortSecrets (h_env sampleHost) bareRequest"
    by (auto simp: shortSecrets_def bareRequest_def sampleHost_def split: if_splits)
  have "\<not> holdsSecret (h_env sampleHost) bareRequest" by (simp add: holdsSecret_def bareRequest_def)
  with gateway_routes_need_secret [OF short] show ?thesis by blast
qed

section \<open>Usage\<close>

lemma concat_batches: "concat (batches n xs) = xs"
  by (induction n xs rule: batches.induct) simp_all

lemma batch_length: "1 \<le> n \<Longrightarrow> b \<in> set (batches n xs) \<Longrightarrow> length b \<le> n"
  by (induction n xs rule: batches.induct) auto

lemma rowsView_append: "rowsView (R @ Q) k = rowsView R k + rowsView Q k"
  by (simp add: rowsView_def)

lemma ownedBy_untouched: "untouched (apiKeys s') = untouched (apiKeys s) \<Longrightarrow> ownedBy s' k u = ownedBy s k u"
proof -
  have o: "ownedBy s k u \<longleftrightarrow> (k, u) \<in> set (map (\<lambda>r. (rid r, k_userId (doc r))) (apiKeys s))" for s
    by (force simp: ownedBy_def)
  assume "untouched (apiKeys s') = untouched (apiKeys s)"
  from untouched_maps(3) [OF this] show ?thesis unfolding o by simp
qed

lemma recordUsage_written:
  assumes "recordUsage H now b s = Inr (rep, s')"
  shows "ur_written rep \<le> int (length b)"
proof -
  obtain acc s1 where f: "foldM (recordEntry H now) (take MAX_USAGE_ENTRIES b) emptyLoop s = Inr (acc, s1)"
    and w: "ur_written rep = l_written acc"
    using assms by (auto simp: recordUsage_def mut_Inr)
  show ?thesis using recordEntries_written [OF f] w by (simp add: emptyLoop_def)
qed

lemma recordBatches_spec:
  assumes "wf_db s" and "idLaws H"
  shows "\<exists>s' R. recordBatches H now bs w s = (Inr (w + int (length R)), s') \<and> wf_db s'
    \<and> apiRequests s' = apiRequests s @ R \<and> length R \<le> length (concat bs)
    \<and> (\<forall>r \<in> set R. plausible now (doc r) \<and> ownedBy s (q_apiKeyId (doc r)) (q_userId (doc r)))
    \<and> (\<forall>k. dayView s' k = dayView s k + rowsView R k)
    \<and> untouched (apiKeys s') = untouched (apiKeys s) \<and> users s' = users s"
  using assms(1)
proof (induction bs arbitrary: s w)
  case Nil
  then show ?case by (intro exI [of _ s] exI [of _ "[]"]) (simp add: rowsView_def)
next
  case (Cons b bs)
  obtain rep s1 R where r: "recordUsage H now b s = Inr (rep, s1)" "wf_db s1" "apiRequests s1 = apiRequests s @ R"
    "ur_written rep = int (length R)" "ur_written rep + ur_dropped rep = int (length b)"
    "\<forall>r \<in> set R. plausible now (doc r) \<and> ownedBy s (q_apiKeyId (doc r)) (q_userId (doc r))"
    "\<forall>k. dayView s1 k = dayView s k + rowsView R k" "untouched (apiKeys s1) = untouched (apiKeys s)" "users s1 = users s"
    using recordUsage_spec [OF Cons.prems assms(2), of now b] by blast
  have le: "length R \<le> length b" using recordUsage_written [OF r(1)] r(4) by simp
  obtain s' Q where q: "recordBatches H now bs (w + ur_written rep) s1 = (Inr (w + ur_written rep + int (length Q)), s')"
    "wf_db s'" "apiRequests s' = apiRequests s1 @ Q" "length Q \<le> length (concat bs)"
    "\<forall>r \<in> set Q. plausible now (doc r) \<and> ownedBy s1 (q_apiKeyId (doc r)) (q_userId (doc r))"
    "\<forall>k. dayView s' k = dayView s1 k + rowsView Q k" "untouched (apiKeys s') = untouched (apiKeys s1)" "users s' = users s1"
    using Cons.IH [OF r(2), of "w + ur_written rep"] by blast
  have "recordBatches H now (b # bs) w s = (Inr (w + int (length (R @ Q))), s')"
    using r(1,4) q(1) by (simp add: abind_def runMutation_def add.assoc)
  moreover have "\<forall>x \<in> set (R @ Q). plausible now (doc x) \<and> ownedBy s (q_apiKeyId (doc x)) (q_userId (doc x))"
    using r(6) q(5) ownedBy_untouched [OF r(8)] by auto
  ultimately show ?case
    using r q le by (intro exI [of _ s'] exI [of _ "R @ Q"]) (simp add: rowsView_append add.assoc)
qed

text \<open>The usage route accounts for every record: for a body of at most 1000 entries it answers with the number of rows
  stored and the number of entries not stored, which add up to the entries sent; malformed entries are dropped
  one by one and do not fail the others; no batch is cut short, as each has at most 200 records; every stored
  row is plausible and belongs to the owner of its key, and the daily rollups grow by exactly the rows stored.\<close>

theorem usage_route_accounts:
  assumes "wf_db s" and "idLaws H" and "authorized (h_env H) request" and "readJson parse request = Inr b"
    and "jfield ''entries'' b = Some (JArr entries)" and "length entries \<le> 1000"
  shows "\<exists>s' R. gatewayUsage H parse now request s
      = (Inr (json_response (Usage (int (length R)) (int (length entries) - int (length R))) 200), s')
    \<and> wf_db s' \<and> apiRequests s' = apiRequests s @ R \<and> length R \<le> length entries
    \<and> (\<forall>r \<in> set R. plausible now (doc r) \<and> ownedBy s (q_apiKeyId (doc r)) (q_userId (doc r)))
    \<and> (\<forall>k. dayView s' k = dayView s k + rowsView R k) \<and> users s' = users s
    \<and> (\<forall>c \<in> set (batches MAX_USAGE_BATCH (List.map_filter toUsageEntry entries)). length c \<le> MAX_USAGE_ENTRIES)"
proof -
  let ?bs = "batches MAX_USAGE_BATCH (List.map_filter toUsageEntry entries)"
  obtain s' R where r: "recordBatches H now ?bs 0 s = (Inr (0 + int (length R)), s')" "wf_db s'"
    "apiRequests s' = apiRequests s @ R" "length R \<le> length (concat ?bs)"
    "\<forall>r \<in> set R. plausible now (doc r) \<and> ownedBy s (q_apiKeyId (doc r)) (q_userId (doc r))"
    "\<forall>k. dayView s' k = dayView s k + rowsView R k" "users s' = users s"
    using recordBatches_spec [OF assms(1,2), of now ?bs 0] by blast
  have "length (concat ?bs) \<le> length entries" by (simp add: concat_batches List.map_filter_def)
  moreover have "\<forall>c \<in> set ?bs. length c \<le> MAX_USAGE_ENTRIES"
    by (auto simp: MAX_USAGE_BATCH_def MAX_USAGE_ENTRIES_def intro: batch_length)
  moreover have "gatewayUsage H parse now request s
      = (Inr (json_response (Usage (int (length R)) (int (length entries) - int (length R))) 200), s')"
    using assms(3-6) r(1) by (simp add: gatewayUsage_def guarded_def withBody_def MAX_BATCH_ENTRIES_def abind_def)
  ultimately show ?thesis using r by (intro exI [of _ s'] exI [of _ R]) simp
qed

definition usageJson :: json where
  "usageJson = JObj [(''entries'', JArr [JNull, JObj [(''keyId'', JStr ''1''), (''userId'', JStr ''0''),
     (''endpoint'', JStr ''/v1/route''), (''method'', JStr ''GET''), (''statusCode'', JNum (Num 200)),
     (''responseTimeMs'', JStr ''12''), (''timestamp'', JNum (Num (of_int sampleNow)))]])]"

definition gatewayHost :: host where
  "gatewayHost = sampleHost\<lparr>h_env := [''GATEWAY_SECRET'' \<mapsto> ''0123456789abcdef0123456789abcdef'']\<rparr>"

definition gatewayRequest :: request where
  "gatewayRequest = \<lparr>rq_header = [''Authorization'' \<mapsto> ''Bearer 0123456789abcdef0123456789abcdef''], rq_text = ''{}''\<rparr>"

theorem usage_route_accounts_witness:
  "\<exists>s' R. gatewayUsage gatewayHost (\<lambda>t. Inr usageJson) sampleNow gatewayRequest sampleDb
      = (Inr (json_response (Usage (int (length R)) (2 - int (length R))) 200), s') \<and> apiRequests s' = R"
proof -
  let ?es = "[JNull, JObj [(''keyId'', JStr ''1''), (''userId'', JStr ''0''),
     (''endpoint'', JStr ''/v1/route''), (''method'', JStr ''GET''), (''statusCode'', JNum (Num 200)),
     (''responseTimeMs'', JStr ''12''), (''timestamp'', JNum (Num (of_int sampleNow)))]]"
  have ids: "idLaws gatewayHost" using sample_idLaws by (simp add: idLaws_def gatewayHost_def)
  have short: "shortSecrets (h_env gatewayHost) gatewayRequest"
    by (auto simp: shortSecrets_def gatewayRequest_def gatewayHost_def split: if_splits)
  have "holdsSecret (h_env gatewayHost) gatewayRequest"
    by (simp add: holdsSecret_def gatewayRequest_def gatewayHost_def)
  then have auth: "authorized (h_env gatewayHost) gatewayRequest" using authorized_iff [OF short] by blast
  have read: "readJson (\<lambda>t. Inr usageJson) gatewayRequest = Inr usageJson"
    by (simp add: readJson_def gatewayRequest_def js_Number_0 exceeds_def usageJson_def MAX_BODY_BYTES_def Let_def)
  have es: "jfield ''entries'' usageJson = Some (JArr ?es)" by (simp add: usageJson_def jfield_def)
  have none: "apiRequests sampleDb = []" by code_simp
  have two: "length ?es \<le> 1000" "int (length ?es) = 2" by simp_all
  from usage_route_accounts [OF sample_wf ids auth read es two(1), of sampleNow] show ?thesis
    unfolding none two(2) append_Nil by blast
qed

section \<open>The provider decides\<close>

definition providerSays :: "environment \<Rightarrow> fetch \<Rightarrow> string \<Rightarrow> WireIntent \<Rightarrow> bool" where
  "providerSays env fetch intentId intent \<longleftrightarrow> (\<exists>body. wireRequest env fetch
     (''/v1/payment_intents/'' @ encodeURIComponent intentId) getOptions = Inr body
     \<and> intent = intentOf body \<and> wi_id intent = Some intentId)"

text \<open>\<open>checkIntent\<close> changes nothing, or makes the one step of \<open>settles\<close> that the provider's answer calls for.\<close>

lemma settleIntent_spec:
  assumes "settleIntent now i succ intent s = (res, s')"
  shows "s' = s \<or> settles now i succ s True s' \<and> (\<exists>r \<in> set (payments s). p_paymentIntentId (doc r) = i
    \<and> p_status (doc r) = Pending \<and> wi_amount intent = Some (Num (of_int (p_amountMinor (doc r))))
    \<and> wi_currency intent = Some (p_currency (doc r)))"
proof (cases "wi_amount intent = None \<or> wi_currency intent = None")
  case True
  with assms show ?thesis by (auto simp: settleIntent_def split: option.splits)
next
  case False
  then obtain a c where ac: "wi_amount intent = Some a" "wi_currency intent = Some c" by auto
  show ?thesis
  proof (cases "settle now i succ a c s")
    case (Inl e)
    with assms ac show ?thesis by (simp add: settleIntent_def runMutation_def)
  next
    case (Inr x)
    obtain b t where x: "x = (b, t)" by (cases x)
    with Inr assms ac have "s' = t" by (simp add: settleIntent_def runMutation_def)
    with settle_spec [of now i succ a c s b t] Inr x ac show ?thesis by (cases b) (auto elim: settles.cases)
  qed
qed

lemma checkIntent_spec:
  assumes "checkIntent env fetch now i s = (res, s')"
  shows "s' = s \<or> (\<exists>intent. providerSays env fetch i intent
    \<and> (wi_status intent = Some ''succeeded'' \<and> settles now i True s True s'
       \<or> wi_status intent \<in> {Some ''failed'', Some ''canceled'', Some ''expired''} \<and> settles now i False s True s')
    \<and> (\<exists>r \<in> set (payments s). p_paymentIntentId (doc r) = i \<and> p_status (doc r) = Pending
        \<and> wi_amount intent = Some (Num (of_int (p_amountMinor (doc r)))) \<and> wi_currency intent = Some (p_currency (doc r))))"
proof (cases "wireRequest env fetch (''/v1/payment_intents/'' @ encodeURIComponent i) getOptions")
  case (Inl e)
  with assms show ?thesis by (simp add: checkIntent_def abind_def)
next
  case (Inr body)
  let ?in = "intentOf body"
  show ?thesis
  proof (cases "wi_id ?in = Some i")
    case False
    with Inr assms show ?thesis by (simp add: checkIntent_def abind_def Let_def)
  next
    case True
    then have says: "providerSays env fetch i ?in" using Inr by (auto simp: providerSays_def)
    consider (yes) "wi_status ?in = Some ''succeeded''"
      | (no) "wi_status ?in \<in> {Some ''failed'', Some ''canceled'', Some ''expired''}"
      | (other) "wi_status ?in \<notin> {Some ''succeeded'', Some ''failed'', Some ''canceled'', Some ''expired''}" by blast
    then show ?thesis
    proof cases
      case yes
      then have "\<exists>r. settleIntent now i True ?in s = (r, s')"
        using assms Inr True by (auto simp: checkIntent_def abind_def Let_def split: prod.splits sum.splits)
      with settleIntent_spec yes says show ?thesis by blast
    next
      case no
      then have "\<exists>r. settleIntent now i False ?in s = (r, s')"
        using assms Inr True by (auto simp: checkIntent_def abind_def Let_def split: prod.splits sum.splits if_splits)
      with settleIntent_spec no says show ?thesis by blast
    next
      case other
      with assms Inr True show ?thesis by (auto simp: checkIntent_def abind_def Let_def)
    qed
  qed
qed

lemma webhookEvent_spec:
  assumes "webhookEvent env parse fetch now raw s = (res, s')" and "s' \<noteq> s"
  shows "\<exists>i r. checkIntent env fetch now i s = (r, s')"
proof (cases "parse raw")
  case (Inl e)
  with assms show ?thesis by (simp add: webhookEvent_def)
next
  case (Inr event)
  show ?thesis
  proof (cases "event = JNull")
    case True
    with Inr assms show ?thesis by (simp add: webhookEvent_def)
  next
    case False
    then have run: "abind (reportIntent env fetch now event) (\<lambda>_. aret (json_response Received 200)) s = (res, s')"
      using Inr assms(1) by (cases event) (simp_all add: webhookEvent_def)
    then obtain x where x: "reportIntent env fetch now event s = (x, s')"
      by (auto simp: abind_def split: prod.splits sum.splits)
    then obtain i where "webhookIntent event = Some (JStr i)"
      using assms(2) by (auto simp: reportIntent_def split: if_splits option.splits json.splits)
    with x assms(2) show ?thesis
      by (auto simp: reportIntent_def settleFromWebhook_def abind_def split: if_splits prod.splits sum.splits)
  qed
qed

text \<open>C15. A plan is never granted on the word of an event: when the webhook changes anything, its signature verified under
  the configured secret, and the provider itself, asked for the intent by id, answered that this intent
  succeeded (or failed, was canceled or expired) with the amount and currency of the pending payment; the
  change is then the one step of \<open>settles\<close>. An unsigned, stale or malformed event changes nothing.\<close>

theorem webhook_never_trusted:
  assumes "wireWebhook H parse fetch now request s = (res, s')" and "s' \<noteq> s"
  shows "\<exists>secret i intent. h_env H ''WIREPAYMENT_WEBHOOK_SECRET'' = Some secret
    \<and> verifyWireSignature (h_hmac H) (rq_text request) (rq_header request ''WirePayment-Signature'') secret now
    \<and> providerSays (h_env H) fetch i intent
    \<and> (wi_status intent = Some ''succeeded'' \<and> settles now i True s True s'
       \<or> wi_status intent \<in> {Some ''failed'', Some ''canceled'', Some ''expired''} \<and> settles now i False s True s')
    \<and> (\<exists>r \<in> set (payments s). p_paymentIntentId (doc r) = i \<and> p_status (doc r) = Pending
        \<and> wi_amount intent = Some (Num (of_int (p_amountMinor (doc r)))) \<and> wi_currency intent = Some (p_currency (doc r)))"
proof -
  from assms obtain secret where sec: "h_env H ''WIREPAYMENT_WEBHOOK_SECRET'' = Some secret"
    by (auto simp: wireWebhook_def json_response_def split: option.splits)
  from assms sec have sig: "verifyWireSignature (h_hmac H) (rq_text request) (rq_header request ''WirePayment-Signature'') secret now"
    by (auto simp: wireWebhook_def Let_def split: if_splits)
  have size: "secret \<noteq> []" "length (rq_text request) \<le> 64 * 1024"
    using assms sec sig by (auto simp: wireWebhook_def Let_def json_response_def split: if_splits)
  have ok: "wireWebhook H parse fetch now request s = webhookEvent (h_env H) parse fetch now (rq_text request) s"
    using sec sig size by (simp add: wireWebhook_def Let_def)
  obtain i r where "checkIntent (h_env H) fetch now i s = (r, s')"
    using webhookEvent_spec [OF assms(1) [unfolded ok] assms(2)] by auto
  from checkIntent_spec [OF this] assms(2) obtain intent where
    p: "providerSays (h_env H) fetch i intent
    \<and> (wi_status intent = Some ''succeeded'' \<and> settles now i True s True s'
       \<or> wi_status intent \<in> {Some ''failed'', Some ''canceled'', Some ''expired''} \<and> settles now i False s True s')
    \<and> (\<exists>r \<in> set (payments s). p_paymentIntentId (doc r) = i \<and> p_status (doc r) = Pending
        \<and> wi_amount intent = Some (Num (of_int (p_amountMinor (doc r)))) \<and> wi_currency intent = Some (p_currency (doc r)))"
    by (elim disjE exE) simp_all
  show ?thesis
    by (rule exI [of _ secret], rule exI [of _ i], rule exI [of _ intent]) (intro conjI sec sig p [THEN conjunct1] p [THEN conjunct2, THEN conjunct1] p [THEN conjunct2, THEN conjunct2])
qed

definition payFetch :: fetch where
  "payFetch r = Inr \<lparr>fs_ok = True, fs_status = 200, fs_json = Inr (JObj [(''id'', JStr ''pi_1''),
     (''status'', JStr ''succeeded''), (''amount'', JNum (Num 1000)), (''currency'', JStr ''MNT'')])\<rparr>"

definition payHost :: host where
  "payHost = sampleHost\<lparr>h_hmac := (\<lambda>k m. replicate 32 7), h_env := [''WIREPAYMENT_WEBHOOK_SECRET'' \<mapsto> ''whsec'', ''WIREPAYMENT_SECRET_KEY'' \<mapsto> ''sk'']\<rparr>"

definition payEvent :: json where
  "payEvent = JObj [(''type'', JStr ''payment_intent.succeeded''), (''data'', JObj [(''id'', JStr ''pi_1'')])]"

definition payRequest :: request where
  "payRequest = \<lparr>rq_header = [''WirePayment-Signature'' \<mapsto> signatureHeader ''1700000000'' (replicate 32 7)], rq_text = ''event''\<rparr>"

theorem webhook_never_trusted_witness:
  "\<exists>res s' i intent. wireWebhook payHost (\<lambda>t. Inr payEvent) payFetch 1700000200000 payRequest payDb = (res, s')
    \<and> providerSays (h_env payHost) payFetch i intent \<and> payments s' \<noteq> payments payDb"
proof -
  have sig: "verifyWireSignature (h_hmac payHost) (rq_text payRequest) (rq_header payRequest ''WirePayment-Signature'') ''whsec'' 1700000200000"
    using sample_signature by (simp add: payHost_def payRequest_def)
  have run: "wireWebhook payHost (\<lambda>t. Inr payEvent) payFetch 1700000200000 payRequest payDb
      = webhookEvent (h_env payHost) (\<lambda>t. Inr payEvent) payFetch 1700000200000 ''event'' payDb"
    using sig by (simp add: wireWebhook_def payHost_def payRequest_def Let_def)
  have ne: "payments (snd (webhookEvent (h_env payHost) (\<lambda>t. Inr payEvent) payFetch 1700000200000 ''event'' payDb)) \<noteq> payments payDb"
    by code_simp
  obtain res s' where rs: "wireWebhook payHost (\<lambda>t. Inr payEvent) payFetch 1700000200000 payRequest payDb = (res, s')"
    by (cases "wireWebhook payHost (\<lambda>t. Inr payEvent) payFetch 1700000200000 payRequest payDb")
  then have diff: "payments s' \<noteq> payments payDb" using ne unfolding run by simp
  then have "s' \<noteq> payDb" by auto
  from webhook_never_trusted [OF rs this] rs diff show ?thesis by blast
qed

end
