(* ===== verification/GeoClient.thy ===== *)
theory GeoClient
  imports Urls Json Env
begin

text \<open>
  The TypeScript client of the public API (\<open>packages/api-client/src/client.ts\<close>, \<open>errors.ts\<close>) and the web
  application's instances of it (\<open>apps/web/lib/geo.ts\<close>, \<open>lib/config.ts\<close>). \<open>fetch\<close> is an argument: a run of
  it is the list of aborts that happened before it settled and the way it settled. The one piece of
  mutable state, \<open>lastRateLimit\<close>, is passed and returned.
\<close>

section \<open>Errors\<close>

record RateLimitInfo =
  li_limit :: jsnum
  li_remaining :: jsnum
  li_reset :: jsnum

text \<open>\<open>code\<close> and \<open>message\<close> are JSON values: the client does not check what the server sent there.\<close>

record GeoApiError =
  ge_status :: int
  ge_code :: json
  ge_message :: json
  ge_details :: "json option"
  ge_requestId :: "string option"
  ge_rateLimit :: "RateLimitInfo option"

definition retryable :: "GeoApiError \<Rightarrow> bool" where
  "retryable e = (ge_code e \<in> JStr ` set [''RATE_LIMIT_EXCEEDED'', ''QUOTA_EXCEEDED'', ''REQUEST_TIMEOUT'',
     ''UPSTREAM_ERROR'', ''SERVICE_UNAVAILABLE'', ''NETWORK_ERROR''])"

section \<open>The client\<close>

definition DEFAULT_BASE_URL :: string where
  "DEFAULT_BASE_URL = ''https://api.YOUR_DOMAIN''"

definition DEFAULT_TIMEOUT_MS :: nat where
  "DEFAULT_TIMEOUT_MS = 15000"

datatype surface = Customer | Demo

type_synonym headers = "(string \<times> string) list"

record GeoClientOptions =
  o_apiKey :: "string option"
  o_baseUrl :: "string option"
  o_timeoutMs :: "nat option"
  o_headers :: "headers option"
  o_surface :: "surface option"

record GeoClient =
  gc_apiKey :: "string option"
  gc_baseUrl :: string
  gc_timeoutMs :: nat
  gc_headers :: headers
  gc_surface :: surface

definition geoClient :: "GeoClientOptions \<Rightarrow> GeoClient" where
  "geoClient options = \<lparr>gc_apiKey = o_apiKey options,
     gc_baseUrl = strip_slashes (withDefault (o_baseUrl options) DEFAULT_BASE_URL),
     gc_timeoutMs = withDefault (o_timeoutMs options) DEFAULT_TIMEOUT_MS,
     gc_headers = withDefault (o_headers options) [],
     gc_surface = withDefault (o_surface options) Customer\<rparr>"

section \<open>Requests\<close>

datatype GeocodeQuery = Forward string "jsnum option" | Reverse jsnum jsnum

datatype LngLat = Coordinates jsnum jsnum | Text string

datatype TravelMode = Driving | Walking

record RouteParams =
  rp_origin :: LngLat
  rp_destination :: LngLat
  rp_mode :: "TravelMode option"

text \<open>A value of a \<open>Query\<close> is already converted by \<open>String\<close>; \<open>None\<close> is \<open>undefined\<close>.\<close>

type_synonym query = "(string \<times> string option) list"

fun formatLngLat :: "LngLat \<Rightarrow> string" where
  "formatLngLat (Text s) = s"
| "formatLngLat (Coordinates lon lat) = js_String lon @ '','' @ js_String lat"

fun showMode :: "TravelMode \<Rightarrow> string" where
  "showMode Driving = ''driving''"
| "showMode Walking = ''walking''"

fun geocodeQuery :: "GeocodeQuery \<Rightarrow> query" where
  "geocodeQuery (Forward q limit) = [(''q'', Some q), (''limit'', map_option js_String limit)]"
| "geocodeQuery (Reverse lat lon) = [(''lat'', Some (js_String lat)), (''lon'', Some (js_String lon))]"

definition geocodePath :: "surface \<Rightarrow> GeocodeQuery \<Rightarrow> string" where
  "geocodePath srf params =
     (if srf = Demo then (case params of Forward q limit \<Rightarrow> ''/demo/geocode'' | Reverse lat lon \<Rightarrow> ''/demo/reverse'')
      else ''/v1/geocode'')"

definition routeQuery :: "RouteParams \<Rightarrow> query" where
  "routeQuery params = [(''origin'', Some (formatLngLat (rp_origin params))),
     (''destination'', Some (formatLngLat (rp_destination params))), (''mode'', map_option showMode (rp_mode params))]"

definition routePath :: "surface \<Rightarrow> string" where
  "routePath srf = (if srf = Demo then ''/demo/route'' else ''/v1/route'')"

definition definedParams :: "query \<Rightarrow> (string \<times> string) list" where
  "definedParams q = concat (map (\<lambda>(k, v). case v of None \<Rightarrow> [] | Some s \<Rightarrow> [(k, s)]) q)"

definition buildUrl :: "GeoClient \<Rightarrow> string \<Rightarrow> query \<Rightarrow> string" where
  "buildUrl c path q =
     (let qs = searchParams (definedParams q) in
      gc_baseUrl c @ path @ (if qs \<noteq> [] then ''?'' @ qs else []))"

text \<open>\<open>object[name] = value\<close>.\<close>

definition assign :: "string \<Rightarrow> string \<Rightarrow> headers \<Rightarrow> headers" where
  "assign name v hs =
     (if name \<in> fst ` set hs then map (\<lambda>(k, w). (k, if k = name then v else w)) hs else hs @ [(name, v)])"

definition requestHeaders :: "GeoClient \<Rightarrow> headers" where
  "requestHeaders c =
     (let hs = fold (\<lambda>(k, v). assign k v) (gc_headers c) [(''Accept'', ''application/json'')] in
      case gc_apiKey c of
        None \<Rightarrow> hs
      | Some key \<Rightarrow> if key = [] then hs else assign ''Authorization'' (''Bearer '' @ key) hs)"

section \<open>Responses\<close>

record reply =
  re_status :: int
  re_header :: "string \<Rightarrow> string option"
  re_json :: "json option"

datatype abort = TimeoutError | CallerReason string

datatype settled = Rejects string | Resolves reply

text \<open>What happened until \<open>fetch\<close> settled: the aborts, in order, and the result.\<close>

record fetchRun =
  fr_aborts :: "abort list"
  fr_settled :: settled

type_synonym fetcher = "string \<Rightarrow> headers \<Rightarrow> fetchRun"

datatype failure = Rethrown string | Geo GeoApiError

definition parseRateLimit :: "(string \<Rightarrow> string option) \<Rightarrow> RateLimitInfo option" where
  "parseRateLimit header =
     (case (header ''X-RateLimit-Limit'', header ''X-RateLimit-Remaining'', header ''X-RateLimit-Reset'') of
        (Some limit, Some remaining, Some reset) \<Rightarrow>
          Some \<lparr>li_limit = js_Number limit, li_remaining = js_Number remaining, li_reset = js_Number reset\<rparr>
      | _ \<Rightarrow> None)"

text \<open>The controller keeps the reason of the first abort. \<open>signal\<close> is the reason when the caller's signal
  was aborted before the request was made.\<close>

definition allAborts :: "string option \<Rightarrow> fetchRun \<Rightarrow> abort list" where
  "allAborts signal run = (case signal of None \<Rightarrow> [] | Some reason \<Rightarrow> [CallerReason reason]) @ fr_aborts run"

definition callerAborted :: "string option \<Rightarrow> fetchRun \<Rightarrow> bool" where
  "callerAborted signal run = list_ex (\<lambda>a. a \<noteq> TimeoutError) (allAborts signal run)"

definition timedOut :: "string option \<Rightarrow> fetchRun \<Rightarrow> bool" where
  "timedOut signal run = (case allAborts signal run of [] \<Rightarrow> False | a # _ \<Rightarrow> a = TimeoutError)"

definition fetchError :: "GeoClient \<Rightarrow> bool \<Rightarrow> GeoApiError" where
  "fetchError c late = \<lparr>ge_status = (if late then 408 else 0),
     ge_code = JStr (if late then ''REQUEST_TIMEOUT'' else ''NETWORK_ERROR''),
     ge_message = JStr (if late then ''The request took longer than '' @ show_nat (gc_timeoutMs c) @ '' ms.''
       else ''Could not reach the API.''),
     ge_details = None, ge_requestId = None, ge_rateLimit = None\<rparr>"

text \<open>\<open>a ?? b\<close> on JSON values: \<open>null\<close> and \<open>undefined\<close> give \<open>b\<close>.\<close>

definition coalesce :: "json option \<Rightarrow> json \<Rightarrow> json" where
  "coalesce v d = (case v of None \<Rightarrow> d | Some j \<Rightarrow> if j = JNull then d else j)"

definition notJson :: "reply \<Rightarrow> RateLimitInfo option \<Rightarrow> GeoApiError" where
  "notJson r rateLimit = \<lparr>ge_status = re_status r, ge_code = JStr ''INVALID_RESPONSE'',
     ge_message = JStr (''Expected JSON from the API (HTTP '' @ show_int (re_status r) @ '').''),
     ge_details = None, ge_requestId = re_header r ''X-Request-ID'', ge_rateLimit = rateLimit\<rparr>"

definition apiError :: "reply \<Rightarrow> json \<Rightarrow> RateLimitInfo option \<Rightarrow> GeoApiError" where
  "apiError r body rateLimit =
     (let error = jfield ''error'' body; prop = (\<lambda>name. case error of None \<Rightarrow> None | Some e \<Rightarrow> jfield name e) in
      \<lparr>ge_status = re_status r, ge_code = coalesce (prop ''code'') (JStr ''INVALID_RESPONSE''),
       ge_message = coalesce (prop ''message'') (JStr (''HTTP '' @ show_int (re_status r))),
       ge_details = prop ''details'', ge_requestId = re_header r ''X-Request-ID'', ge_rateLimit = rateLimit\<rparr>)"

definition ok :: "reply \<Rightarrow> bool" where
  "ok r = (200 \<le> re_status r \<and> re_status r \<le> 299)"

definition readReply :: "reply \<Rightarrow> RateLimitInfo option \<Rightarrow> failure + json" where
  "readReply r rateLimit =
     (case re_json r of
        None \<Rightarrow> Inl (Geo (notJson r rateLimit))
      | Some body \<Rightarrow> if \<not> ok r then Inl (Geo (apiError r body rateLimit)) else Inr body)"

text \<open>What \<open>get\<close> makes of the settled request: the result, and \<open>lastRateLimit\<close> afterwards.\<close>

definition receive ::
  "GeoClient \<Rightarrow> string option \<Rightarrow> fetchRun \<Rightarrow> RateLimitInfo option \<Rightarrow> (failure + json) \<times> RateLimitInfo option"
where
  "receive c signal run lastRateLimit =
     (case fr_settled run of
        Rejects error \<Rightarrow>
          (if callerAborted signal run then Inl (Rethrown error) else Inl (Geo (fetchError c (timedOut signal run))),
           lastRateLimit)
      | Resolves r \<Rightarrow>
          (let rateLimit = parseRateLimit (re_header r) in
           (readReply r rateLimit, case rateLimit of None \<Rightarrow> lastRateLimit | Some x \<Rightarrow> Some x)))"

definition getJson ::
  "fetcher \<Rightarrow> GeoClient \<Rightarrow> string option \<Rightarrow> string \<Rightarrow> query \<Rightarrow> RateLimitInfo option \<Rightarrow> (failure + json) \<times> RateLimitInfo option"
where
  "getJson fetch c signal path q = receive c signal (fetch (buildUrl c path q) (requestHeaders c))"

definition geocode ::
  "fetcher \<Rightarrow> GeoClient \<Rightarrow> string option \<Rightarrow> GeocodeQuery \<Rightarrow> RateLimitInfo option \<Rightarrow> (failure + json) \<times> RateLimitInfo option"
where
  "geocode fetch c signal params = getJson fetch c signal (geocodePath (gc_surface c) params) (geocodeQuery params)"

definition reverseGeocode ::
  "fetcher \<Rightarrow> GeoClient \<Rightarrow> string option \<Rightarrow> jsnum \<Rightarrow> jsnum \<Rightarrow> RateLimitInfo option \<Rightarrow> (failure + json) \<times> RateLimitInfo option"
where
  "reverseGeocode fetch c signal lat lon = geocode fetch c signal (Reverse lat lon)"

definition route ::
  "fetcher \<Rightarrow> GeoClient \<Rightarrow> string option \<Rightarrow> RouteParams \<Rightarrow> RateLimitInfo option \<Rightarrow> (failure + json) \<times> RateLimitInfo option"
where
  "route fetch c signal params = getJson fetch c signal (routePath (gc_surface c)) (routeQuery params)"

section \<open>The web application's configuration and client\<close>

record PublicConfig =
  pc_apiUrl :: string
  pc_convexUrl :: string
  pc_mapStyleUrl :: string

definition MAP_STYLE_URL :: string where
  "MAP_STYLE_URL = ''https://basemaps.arcgis.com/arcgis/rest/services/World_Basemap_v2/VectorTileServer/resources/styles/root.json''"

definition publicConfig :: "environment \<Rightarrow> PublicConfig" where
  "publicConfig env = \<lparr>pc_apiUrl = strip_slashes (withDefault (env ''NEXT_PUBLIC_API_URL'') ''http://localhost:8000''),
     pc_convexUrl = withDefault (env ''NEXT_PUBLIC_CONVEX_URL'') ''http://127.0.0.1:3210'',
     pc_mapStyleUrl = withDefault (env ''NEXT_PUBLIC_MAP_STYLE_URL'') MAP_STYLE_URL\<rparr>"

record ServerEnv =
  se_apiInternalUrl :: string
  se_convexUrl :: string

definition serverEnv :: "environment \<Rightarrow> ServerEnv" where
  "serverEnv env = \<lparr>se_apiInternalUrl = strip_slashes (withDefault (env ''API_INTERNAL_URL'') ''http://localhost:8000''),
     se_convexUrl = withDefault (env ''CONVEX_URL'') (withDefault (env ''NEXT_PUBLIC_CONVEX_URL'') ''http://127.0.0.1:3210'')\<rparr>"

definition siteGeoClient :: "environment \<Rightarrow> GeoClient" where
  "siteGeoClient env = geoClient \<lparr>o_apiKey = None, o_baseUrl = Some (pc_apiUrl (publicConfig env)),
     o_timeoutMs = Some 10000, o_headers = None, o_surface = Some Demo\<rparr>"

end
