(* ===== verification/GeoProps.thy ===== *)
theory GeoProps
  imports GeoClient
begin

text \<open>
  The API client: the server reads exactly the parameters the caller gave, the public map's client is
  anonymous, and every failure is classified.
\<close>

lemma searchParams_nonempty: "ps \<noteq> [] \<Longrightarrow> searchParams ps \<noteq> []"
  using parseQuery_searchParams [of ps] by (auto simp: parseQuery_def)

lemma buildUrl_query:
  "definedParams q \<noteq> [] \<Longrightarrow> buildUrl c path q = gc_baseUrl c @ path @ ''?'' @ searchParams (definedParams q)"
  using searchParams_nonempty by (simp add: buildUrl_def Let_def)

lemma definedParams_simps [simp]:
  "definedParams [] = []"
  "definedParams ((k, None) # q) = definedParams q"
  "definedParams ((k, Some v) # q) = (k, v) # definedParams q"
  by (simp_all add: definedParams_def)

lemma definedParams_geocode [simp]:
  "definedParams (geocodeQuery (Forward q limit)) = (''q'', q) # (case limit of None \<Rightarrow> [] | Some n \<Rightarrow> [(''limit'', js_String n)])"
  "definedParams (geocodeQuery (Reverse lat lon)) = [(''lat'', js_String lat), (''lon'', js_String lon)]"
  by (auto split: option.splits)

lemma definedParams_route [simp]:
  "definedParams (routeQuery p) = [(''origin'', formatLngLat (rp_origin p)), (''destination'', formatLngLat (rp_destination p))]
     @ (case rp_mode p of None \<Rightarrow> [] | Some m \<Rightarrow> [(''mode'', showMode m)])"
  by (auto simp: routeQuery_def split: option.splits)

text \<open>The server reads exactly the parameters the caller gave: \<open>geocode\<close> and \<open>route\<close> make one request, to the base
  URL and the path of the surface, whose query string a server decodes to the given values under the documented
  names, in order, leaving out what is undefined; no text, whatever characters it has, can add, drop or change
  another parameter.\<close>
theorem client_query_exact:
  "(\<exists>qs. geocode fetch c signal (Forward q limit) prev =
       receive c signal (fetch (gc_baseUrl c @ geocodePath (gc_surface c) (Forward q limit) @ ''?'' @ qs) (requestHeaders c)) prev
     \<and> parseQuery qs = (''q'', q) # (case limit of None \<Rightarrow> [] | Some n \<Rightarrow> [(''limit'', js_String n)]))
   \<and> (\<exists>qs. geocode fetch c signal (Reverse lat lon) prev =
       receive c signal (fetch (gc_baseUrl c @ geocodePath (gc_surface c) (Reverse lat lon) @ ''?'' @ qs) (requestHeaders c)) prev
     \<and> parseQuery qs = [(''lat'', js_String lat), (''lon'', js_String lon)])
   \<and> (\<exists>qs. route fetch c signal p prev =
       receive c signal (fetch (gc_baseUrl c @ routePath (gc_surface c) @ ''?'' @ qs) (requestHeaders c)) prev
     \<and> parseQuery qs = [(''origin'', formatLngLat (rp_origin p)), (''destination'', formatLngLat (rp_destination p))]
         @ (case rp_mode p of None \<Rightarrow> [] | Some m \<Rightarrow> [(''mode'', showMode m)]))"
proof (intro conjI exI)
  show "parseQuery (searchParams (definedParams (geocodeQuery (Forward q limit)))) =
      (''q'', q) # (case limit of None \<Rightarrow> [] | Some n \<Rightarrow> [(''limit'', js_String n)])"
    by (subst parseQuery_searchParams) (simp_all del: geocodeQuery.simps)
  show "parseQuery (searchParams (definedParams (geocodeQuery (Reverse lat lon)))) =
      [(''lat'', js_String lat), (''lon'', js_String lon)]"
    by (subst parseQuery_searchParams) (simp_all del: geocodeQuery.simps)
  show "parseQuery (searchParams (definedParams (routeQuery p))) =
      [(''origin'', formatLngLat (rp_origin p)), (''destination'', formatLngLat (rp_destination p))]
         @ (case rp_mode p of None \<Rightarrow> [] | Some m \<Rightarrow> [(''mode'', showMode m)])"
    by (subst parseQuery_searchParams) (simp_all del: geocodeQuery.simps)
qed (simp_all only: geocode_def route_def getJson_def buildUrl_query definedParams_geocode definedParams_route
      list.distinct append_Cons not_False_eq_True)

text \<open>The public map is anonymous: every request of \<open>siteGeoClient\<close>, whatever is asked, goes to a path under
  \<open>/demo/\<close> of the configured API origin, and its only header is \<open>Accept\<close>; no key or other credential is sent.\<close>
theorem site_client_anonymous:
  "(\<exists>path. geocode fetch (siteGeoClient env) signal params prev = receive (siteGeoClient env) signal
       (fetch (pc_apiUrl (publicConfig env) @ ''/demo/'' @ path) [(''Accept'', ''application/json'')]) prev)
   \<and> (\<exists>path. route fetch (siteGeoClient env) signal p prev = receive (siteGeoClient env) signal
       (fetch (pc_apiUrl (publicConfig env) @ ''/demo/'' @ path) [(''Accept'', ''application/json'')]) prev)"
proof -
  have strip: "strip_slashes (strip_slashes s) = strip_slashes s" for s
    by (simp add: strip_slashes_def)
  have base: "gc_baseUrl (siteGeoClient env) = pc_apiUrl (publicConfig env)"
    by (simp add: siteGeoClient_def geoClient_def withDefault_def publicConfig_def strip)
  have hs: "requestHeaders (siteGeoClient env) = [(''Accept'', ''application/json'')]"
    by (simp add: siteGeoClient_def geoClient_def withDefault_def requestHeaders_def)
  have demo: "gc_surface (siteGeoClient env) = Demo" by (simp add: siteGeoClient_def geoClient_def withDefault_def)
  have url: "\<exists>t. buildUrl (siteGeoClient env) (''/demo/'' @ path) q = pc_apiUrl (publicConfig env) @ ''/demo/'' @ t" for path q
    by (simp add: buildUrl_def base Let_def)
  have g: "\<exists>t. geocodePath Demo params = ''/demo/'' @ t" by (cases params) (simp_all add: geocodePath_def)
  have r: "\<exists>t. routePath Demo = ''/demo/'' @ t" by (simp add: routePath_def)
  show ?thesis
    unfolding geocode_def route_def getJson_def hs demo using g r url by metis
qed

lemma fetchError_retryable: "retryable (fetchError c late)"
  by (simp add: fetchError_def retryable_def)

lemma readReply_cases:
  "readReply r l = Inr body \<longleftrightarrow> re_json r = Some body \<and> ok r"
  "readReply r l \<noteq> Inl (Rethrown e)"
  "readReply r l = Inl (Geo g) \<Longrightarrow> ge_status g = re_status r \<and> ge_rateLimit g = l \<and> (ok r \<longrightarrow> re_json r = None)"
  by (auto simp: readReply_def notJson_def apiError_def Let_def split: option.splits if_splits)

text \<open>Every outcome of a request is classified: a value is returned exactly when the reply has a 2xx status and
  a JSON body; the caller sees its own abort error exactly when it had aborted; any other failure to get a
  reply is a retryable error, with status 408 exactly when the timeout came first; and the error for a reply
  carries its status and rate limit.\<close>
theorem client_outcomes:
  "(fst (receive c signal run prev) = Inr body \<longleftrightarrow>
      (\<exists>r. fr_settled run = Resolves r \<and> ok r \<and> re_json r = Some body))
   \<and> (fst (receive c signal run prev) = Inl (Rethrown e) \<longleftrightarrow> fr_settled run = Rejects e \<and> callerAborted signal run)
   \<and> (fst (receive c signal run prev) = Inl (Geo g) \<longrightarrow>
        (case fr_settled run of
           Rejects e' \<Rightarrow> \<not> callerAborted signal run \<and> retryable g
             \<and> ge_status g = (if allAborts signal run = [] then 0 else 408)
         | Resolves r \<Rightarrow> ge_status g = re_status r \<and> ge_rateLimit g = parseRateLimit (re_header r)))"
proof (cases "fr_settled run")
  case (Resolves r)
  then show ?thesis
    using readReply_cases(3) [of r "parseRateLimit (re_header r)" g] by (auto simp: receive_def Let_def readReply_cases)
next
  case (Rejects x)
  have "timedOut signal run \<longleftrightarrow> allAborts signal run \<noteq> []" if "\<not> callerAborted signal run"
    using that by (auto simp: timedOut_def callerAborted_def split: list.splits)
  then have "ge_status (fetchError c (timedOut signal run)) = (if allAborts signal run = [] then 0 else 408)"
    if "\<not> callerAborted signal run" using that by (simp add: fetchError_def)
  with Rejects show ?thesis by (auto simp: receive_def fetchError_retryable)
qed

lemma client_outcomes_witness:
  "(\<exists>g. fst (receive (siteGeoClient (\<lambda>n. None)) None \<lparr>fr_aborts = [TimeoutError], fr_settled = Rejects ''AbortError''\<rparr> None) =
      Inl (Geo g) \<and> retryable g \<and> ge_status g = 408)"
  using client_outcomes [of "siteGeoClient (\<lambda>n. None)" None "\<lparr>fr_aborts = [TimeoutError], fr_settled = Rejects ''AbortError''\<rparr>" None
      JNull "[]" "fetchError (siteGeoClient (\<lambda>n. None)) True"]
  by (simp add: receive_def callerAborted_def timedOut_def allAborts_def)

end
