(* ===== verification/WebHttp.thy ===== *)
theory WebHttp
  imports GeoClient Crypto "HOL-Library.AList"
begin

text \<open>
  The request side of the web application: \<open>lib/http.ts\<close> (the visitor's address, the same-origin check),
  \<open>lib/csp.ts\<close> (the content security policy and its nonce) and \<open>proxy.ts\<close> (the gate in front of every page and of
  sign-in). Header names are lower case. The URL parser, the route matcher, the redirect and the middleware of
  Convex Auth are arguments.
\<close>

type_synonym header = "string \<Rightarrow> string option"

record webRequest =
  wq_method :: string
  wq_protocol :: string
  wq_pathname :: string
  wq_headers :: header
  wq_text :: string

text \<open>\<open>wr_body\<close> is the value of the body when it is JSON. \<open>wr_forward\<close>: the headers of the request the page sees,
  of a response that continues to it.\<close>

record webResponse =
  wr_status :: int
  wr_headers :: header
  wr_body :: "json option"
  wr_forward :: "header option"

definition jsonReply :: "int \<Rightarrow> (string \<times> string) list \<Rightarrow> json \<Rightarrow> webResponse" where
  "jsonReply status hs body = \<lparr>wr_status = status, wr_headers = map_of hs, wr_body = Some body, wr_forward = None\<rparr>"

section \<open>lib/http.ts\<close>

definition errorResponse :: "int \<Rightarrow> string \<Rightarrow> string \<Rightarrow> webResponse" where
  "errorResponse status ecode message = jsonReply status [(''cache-control'', ''no-store'')]
     (JObj [(''error'', JObj [(''code'', JStr ecode), (''message'', JStr message)])])"

definition WEB_IP_PATTERN :: "string \<Rightarrow> bool" where
  "WEB_IP_PATTERN s = (list_all (\<lambda>c. hex_val c \<noteq> None \<or> c = CHR '':'' \<or> c = CHR ''.'') s \<and> 2 \<le> length s \<and> length s \<le> 45)"

definition validIp :: "string option \<Rightarrow> string option" where
  "validIp v = (case v of None \<Rightarrow> None | Some s \<Rightarrow> if trim s \<noteq> [] \<and> WEB_IP_PATTERN (trim s) then Some (trim s) else None)"

text \<open>The non-empty entries of \<open>X-Forwarded-For\<close>, trimmed.\<close>

definition forwardedFor :: "header \<Rightarrow> string list" where
  "forwardedFor h = filter (\<lambda>e. e \<noteq> []) (map trim (split_on (CHR '','') (withDefault (h ''x-forwarded-for'') [])))"

definition clientIp :: "environment \<Rightarrow> header \<Rightarrow> string option" where
  "clientIp env h =
     (let trusted = toLowerCase (trim (withDefault (env ''CLIENT_IP_HEADER'') [])) in
      if trusted \<noteq> [] then validIp (h trusted)
      else (case js_Number (withDefault (env ''TRUSTED_PROXY_HOPS'') ''0'') of
          Num r \<Rightarrow>
            (if \<not> isInteger (Num r) \<or> r < 1 then None
             else let entries = forwardedFor h; hops = nat \<lfloor>r\<rfloor> in
               if hops \<le> length entries then validIp (Some (entries ! (length entries - hops))) else None)
        | _ \<Rightarrow> None))"

text \<open>\<open>v?.split(",")[0]?.trim()\<close>.\<close>

definition firstEntry :: "string option \<Rightarrow> string option" where
  "firstEntry v = map_option (\<lambda>s. trim (hd (split_on (CHR '','') s))) v"

definition addressedHost :: "header \<Rightarrow> string option" where
  "addressedHost h = firstEntry (case h ''x-forwarded-host'' of None \<Rightarrow> h ''host'' | Some v \<Rightarrow> Some v)"

definition withoutColon :: "string \<Rightarrow> string" where
  "withoutColon s = (if s \<noteq> [] \<and> last s = CHR '':'' then butlast s else s)"

definition addressedProtocol :: "webRequest \<Rightarrow> string" where
  "addressedProtocol q = withDefault (firstEntry (wq_headers q ''x-forwarded-proto'')) (withoutColon (wq_protocol q))"

text \<open>\<open>new URL(u).origin\<close>, \<open>None\<close> when the text is not a URL.\<close>

type_synonym urlOrigin = "string \<Rightarrow> string option"

definition originMatches :: "urlOrigin \<Rightarrow> webRequest \<Rightarrow> string \<Rightarrow> bool" where
  "originMatches originOf q origin =
     (let protocol = addressedProtocol q in
      case addressedHost (wq_headers q) of
        None \<Rightarrow> False
      | Some host \<Rightarrow>
          if host = [] \<or> (protocol \<noteq> ''http'' \<and> protocol \<noteq> ''https'') then False
          else (case (originOf origin, originOf (protocol @ ''://'' @ host)) of
              (Some a, Some b) \<Rightarrow> a = b | _ \<Rightarrow> False))"

definition isSameOrigin :: "urlOrigin \<Rightarrow> webRequest \<Rightarrow> bool" where
  "isSameOrigin originOf q =
     (let fetchSite = wq_headers q ''sec-fetch-site'' in
      if fetchSite \<noteq> None \<and> fetchSite \<noteq> Some ''same-origin'' then False
      else (case wq_headers q ''origin'' of
          None \<Rightarrow> fetchSite = Some ''same-origin''
        | Some origin \<Rightarrow> originMatches originOf q origin))"

section \<open>lib/csp.ts\<close>

definition urlOriginOr :: "urlOrigin \<Rightarrow> string \<Rightarrow> string" where
  "urlOriginOr originOf url = withDefault (originOf url) []"

text \<open>\<open>s.replace(/^http/, "ws")\<close>.\<close>

definition wsOrigin :: "string \<Rightarrow> string" where
  "wsOrigin s = (if starts_with s ''http'' then ''ws'' @ drop 4 s else s)"

text \<open>The pieces between white space; the empty ones are dropped by \<open>filter(Boolean)\<close> below.\<close>

fun splitSpaces :: "string \<Rightarrow> string list" where
  "splitSpaces [] = [[]]"
| "splitSpaces (c # s) =
     (if is_space c then [] # splitSpaces s
      else (case splitSpaces s of [] \<Rightarrow> [[c]] | w # ws \<Rightarrow> (c # w) # ws))"

definition connectSources :: "urlOrigin \<Rightarrow> environment \<Rightarrow> string list" where
  "connectSources originOf env =
     (let convexOrigin = urlOriginOr originOf (withDefault (env ''NEXT_PUBLIC_CONVEX_URL'') ''http://127.0.0.1:3210'') in
      filter (\<lambda>x. x \<noteq> [])
        ([CHR 0x27 # ''self'' @ [CHR 0x27],
          urlOriginOr originOf (withDefault (env ''NEXT_PUBLIC_API_URL'') ''http://localhost:8000''),
          convexOrigin, wsOrigin convexOrigin,
          urlOriginOr originOf (withDefault (env ''NEXT_PUBLIC_MAP_STYLE_URL'') MAP_STYLE_URL)]
         @ splitSpaces (withDefault (env ''CSP_EXTRA_CONNECT_SRC'') [])))"

definition quoted :: "string \<Rightarrow> string" where
  "quoted s = [CHR 0x27] @ s @ [CHR 0x27]"

definition directives :: "urlOrigin \<Rightarrow> environment \<Rightarrow> string \<Rightarrow> bool \<Rightarrow> bool \<Rightarrow> string list" where
  "directives originOf env nonce development https =
     [''default-src '' @ quoted ''self'',
      ''script-src '' @ quoted ''self'' @ '' '' @ quoted (''nonce-'' @ nonce) @ '' '' @ quoted ''strict-dynamic''
        @ (if development then '' '' @ quoted ''unsafe-eval'' else []),
      ''style-src '' @ quoted ''self'' @ '' '' @ quoted ''unsafe-inline'',
      trim (''img-src '' @ quoted ''self'' @ '' data: blob: ''
        @ urlOriginOr originOf (withDefault (env ''NEXT_PUBLIC_MAP_STYLE_URL'') MAP_STYLE_URL)),
      ''font-src '' @ quoted ''self'' @ '' data:'',
      ''connect-src '' @ join '' '' (connectSources originOf env),
      ''worker-src '' @ quoted ''self'' @ '' blob:'',
      ''child-src blob:'',
      ''frame-src '' @ quoted ''none'',
      ''frame-ancestors '' @ quoted ''none'',
      ''object-src '' @ quoted ''none'',
      ''base-uri '' @ quoted ''self'',
      ''form-action '' @ quoted ''self'']
     @ (if https then [''upgrade-insecure-requests''] else [])"

definition contentSecurityPolicy :: "urlOrigin \<Rightarrow> environment \<Rightarrow> string \<Rightarrow> bool \<Rightarrow> bool \<Rightarrow> string" where
  "contentSecurityPolicy originOf env nonce development https = join ''; '' (directives originOf env nonce development https)"

definition BASE64 :: string where
  "BASE64 = ''ABCDEFGHIJKLMNOPQRSTUVWXYZabcdefghijklmnopqrstuvwxyz0123456789+/''"

fun btoa :: "byte list \<Rightarrow> string" where
  "btoa [] = []"
| "btoa [a] = [BASE64 ! (unat a div 4), BASE64 ! (unat a mod 4 * 16), CHR ''='', CHR ''='']"
| "btoa [a, b] = [BASE64 ! (unat a div 4), BASE64 ! (unat a mod 4 * 16 + unat b div 16),
     BASE64 ! (unat b mod 16 * 4), CHR ''='']"
| "btoa (a # b # c # r) = [BASE64 ! (unat a div 4), BASE64 ! (unat a mod 4 * 16 + unat b div 16),
     BASE64 ! (unat b mod 16 * 4 + unat c div 64), BASE64 ! (unat c mod 64)] @ btoa r"

text \<open>The random bytes are an argument; \<open>getRandomValues\<close> fills 18 of them.\<close>

definition createNonce :: "byte list \<Rightarrow> string" where
  "createNonce random = btoa (take 18 random)"

section \<open>proxy.ts\<close>

definition AUTH_WINDOW_MS :: int where
  "AUTH_WINDOW_MS = 10 * 60 * 1000"

definition AUTH_MAX_REQUESTS :: "environment \<Rightarrow> jsnum" where
  "AUTH_MAX_REQUESTS env = js_Number (withDefault (env ''AUTH_RATE_LIMIT_PER_10_MINUTES'') ''60'')"

definition servedOverHttps :: "webRequest \<Rightarrow> bool" where
  "servedOverHttps q = (wq_protocol q = ''https:'' \<or> firstEntry (wq_headers q ''x-forwarded-proto'') = Some ''https'')"

definition withContentSecurityPolicy :: "urlOrigin \<Rightarrow> environment \<Rightarrow> byte list \<Rightarrow> webRequest \<Rightarrow> webResponse" where
  "withContentSecurityPolicy originOf env random q =
     (let nonce = createNonce random;
          policy = contentSecurityPolicy originOf env nonce (env ''NODE_ENV'' \<noteq> Some ''production'') (servedOverHttps q) in
      \<lparr>wr_status = 200, wr_headers = [''content-security-policy'' \<mapsto> policy], wr_body = None,
       wr_forward = Some ((wq_headers q)(''x-nonce'' \<mapsto> nonce, ''content-security-policy'' \<mapsto> policy))\<rparr>)"

text \<open>The arguments of the gate: the URL parser, the route matcher, the redirect and the middleware of Convex Auth,
  which is given the page handler and tells it whether the visitor is authenticated.\<close>

record web =
  web_env :: environment
  web_origin :: urlOrigin
  web_matches :: "string list \<Rightarrow> string \<Rightarrow> bool"
  web_redirect :: "webRequest \<Rightarrow> string \<Rightarrow> webResponse"
  web_parse :: "string \<Rightarrow> json option"
  web_middleware :: "(bool \<Rightarrow> webResponse) \<Rightarrow> webRequest \<Rightarrow> webResponse"

definition pageHandler :: "web \<Rightarrow> byte list \<Rightarrow> webRequest \<Rightarrow> bool \<Rightarrow> webResponse" where
  "pageHandler W random q authenticated =
     (if web_matches W [''/dashboard(.*)''] (wq_pathname q) \<and> \<not> authenticated
      then web_redirect W q (''/login?next='' @ encodeURIComponent (wq_pathname q))
      else if web_matches W [''/login'', ''/register''] (wq_pathname q) \<and> authenticated
      then web_redirect W q ''/dashboard''
      else withContentSecurityPolicy (web_origin W) (web_env W) random q)"

text \<open>\<open>AUTH_ERRORS\<close>: the texts each pattern looks for, whether case matters, and the code.\<close>

definition AUTH_ERRORS :: "((string list \<times> bool) \<times> string) list" where
  "AUTH_ERRORS =
     [(([''InvalidAccountId'', ''InvalidSecret'', ''Invalid credentials''], True), ''InvalidCredentials''),
      (([''TooManyFailedAttempts''], True), ''TooManyFailedAttempts''),
      (([''already exists''], False), ''AccountAlreadyExists''),
      (([''Could not verify code'', ''Invalid code'', ''reset code does not match''], False), ''InvalidCode'')]"

definition mentions :: "string list \<times> bool \<Rightarrow> string \<Rightarrow> bool" where
  "mentions p s = list_ex (\<lambda>t. if snd p then str_includes s t else str_includes (toLowerCase s) (toLowerCase t)) (fst p)"

text \<open>\<open>/ConvexError: ([^\n]{1,n})/.exec(s)?.[1]\<close>: the rest of the line after the first occurrence that is followed
  by some character of its line, of at most \<open>n\<close> characters when there is a bound.\<close>

fun convexText :: "nat option \<Rightarrow> string \<Rightarrow> string option" where
  "convexText bound [] = None"
| "convexText bound (c # s) =
     (let line = takeWhile (\<lambda>d. d \<noteq> CHR 0x0A) (drop 13 (c # s)) in
      if starts_with (c # s) ''ConvexError: '' \<and> line \<noteq> []
      then Some (case bound of None \<Rightarrow> line | Some n \<Rightarrow> take n line)
      else convexText bound s)"

definition authErrorCode :: "string \<Rightarrow> string" where
  "authErrorCode message =
     (case find (\<lambda>(p, c). mentions p message) AUTH_ERRORS of
        Some (p, c) \<Rightarrow> c
      | None \<Rightarrow> (case convexText (Some 300) message of
          Some text \<Rightarrow> ''ConvexError: '' @ text
        | None \<Rightarrow> ''ServerError''))"

definition normalizeAuthError :: "webResponse \<Rightarrow> webResponse" where
  "normalizeAuthError r =
     (case (case wr_body r of None \<Rightarrow> None | Some body \<Rightarrow> jfield ''error'' body) of
        Some (JStr message) \<Rightarrow>
          \<lparr>wr_status = 400, wr_headers = (wr_headers r)(''content-length'' := None),
           wr_body = Some (JObj [(''error'', JStr (authErrorCode message))]), wr_forward = None\<rparr>
      | _ \<Rightarrow> r)"

record attempts =
  at_start :: int
  at_count :: nat

text \<open>\<open>authAttempts\<close>, the map in memory, as its entries in insertion order.\<close>

type_synonym attemptMap = "(string \<times> attempts) list"

definition sweep :: "int \<Rightarrow> attemptMap \<Rightarrow> attemptMap" where
  "sweep now m = (if 10000 < length m then filter (\<lambda>(k, e). \<not> AUTH_WINDOW_MS < now - at_start e) m else m)"

definition exceedsMax :: "nat \<Rightarrow> jsnum \<Rightarrow> bool" where
  "exceedsMax n maximum = js_lt maximum (Num (of_nat n))"

definition authRateLimited :: "environment \<Rightarrow> int \<Rightarrow> header \<Rightarrow> attemptMap \<Rightarrow> bool \<times> attemptMap" where
  "authRateLimited env now h m =
     (case clientIp env h of
        None \<Rightarrow> (False, m)
      | Some visitor \<Rightarrow>
          (let swept = sweep now m; fresh = (False, AList.update visitor \<lparr>at_start = now, at_count = 1\<rparr> swept) in
           case map_of swept visitor of
             None \<Rightarrow> fresh
           | Some entry \<Rightarrow>
               if AUTH_WINDOW_MS < now - at_start entry then fresh
               else (exceedsMax (at_count entry + 1) (AUTH_MAX_REQUESTS env),
                     AList.update visitor (entry\<lparr>at_count := at_count entry + 1\<rparr>) swept)))"

definition authPayload :: "json \<Rightarrow> bool" where
  "authPayload body =
     ((\<exists>fs. body = JObj fs) \<and> jstring (jfield ''action'' body) \<noteq> None
      \<and> (case jfield ''args'' body of Some (JObj fs) \<Rightarrow> True | _ \<Rightarrow> False))"

definition validateAuthAction :: "web \<Rightarrow> webRequest \<Rightarrow> webResponse option" where
  "validateAuthAction W q =
     (if \<not> isSameOrigin (web_origin W) q
      then Some (jsonReply 403 [(''cache-control'', ''no-store'')] (JObj [(''error'', JStr ''Forbidden'')]))
      else (case web_parse W (wq_text q) of
          None \<Rightarrow> Some (jsonReply 400 [(''cache-control'', ''no-store'')] (JObj [(''error'', JStr ''InvalidRequest'')]))
        | Some body \<Rightarrow>
            if authPayload body then None
            else Some (jsonReply 400 [(''cache-control'', ''no-store'')] (JObj [(''error'', JStr ''InvalidRequest'')]))))"

text \<open>\<open>pathname.replace(/\/$/, "")\<close>.\<close>

definition withoutSlash :: "string \<Rightarrow> string" where
  "withoutSlash s = (if s \<noteq> [] \<and> last s = CHR ''/'' then butlast s else s)"

definition isAuthAction :: "webRequest \<Rightarrow> bool" where
  "isAuthAction q = (wq_method q = ''POST'' \<and> withoutSlash (wq_pathname q) = ''/api/auth'')"

definition tooManyAttempts :: webResponse where
  "tooManyAttempts = jsonReply 429 [(''retry-after'', show_int (AUTH_WINDOW_MS div 1000)), (''cache-control'', ''no-store'')]
     (JObj [(''error'', JStr ''TooManyFailedAttempts'')])"

definition forwardRequest :: "web \<Rightarrow> byte list \<Rightarrow> webRequest \<Rightarrow> webResponse" where
  "forwardRequest W random q =
     (let response = web_middleware W (pageHandler W random q) q in
      if withoutSlash (wq_pathname q) = ''/api/auth'' \<and> wr_status response = 400 then normalizeAuthError response
      else response)"

definition proxy :: "web \<Rightarrow> int \<Rightarrow> byte list \<Rightarrow> webRequest \<Rightarrow> attemptMap \<Rightarrow> webResponse \<times> attemptMap" where
  "proxy W now random q m =
     (case (if isAuthAction q then validateAuthAction W q else None) of
        Some refusal \<Rightarrow> (refusal, m)
      | None \<Rightarrow>
          (case (if isAuthAction q then authRateLimited (web_env W) now (wq_headers q) m else (False, m)) of
             (True, m') \<Rightarrow> (tooManyAttempts, m')
           | (False, m') \<Rightarrow> (forwardRequest W random q, m')))"

end
