(* ===== verification/WebRoutes.thy ===== *)
theory WebRoutes
  imports WebHttp Users ApiKeys Http
begin

text \<open>
  The server routes of the web application (\<open>app/api/session\<close>, \<open>app/api/playground/keys\<close>,
  \<open>app/api/playground/token\<close>), composed with the backend's functions they call, the error texts and the redirect
  check of \<open>lib/auth-errors.ts\<close>, and the form rules of \<open>components/auth/schemas.ts\<close>. The session token of the
  request is its \<open>authContext\<close>, when it has one; \<open>up\<close> says whether Convex answers; the web server and Convex
  read clocks of their own.
\<close>

section \<open>lib/auth-errors.ts\<close>

definition GENERIC_ERROR :: string where
  "GENERIC_ERROR = ''Something went wrong. Please try again.''"

definition NETWORK_ERROR :: string where
  "NETWORK_ERROR = ''Could not reach the server. Check your connection and try again.''"

definition INVALID_CREDENTIALS :: string where
  "INVALID_CREDENTIALS = ''The email or password is incorrect.''"

definition TOO_MANY_ATTEMPTS :: string where
  "TOO_MANY_ATTEMPTS = ''Too many failed attempts. Wait a few minutes and try again.''"

definition ACCOUNT_EXISTS :: string where
  "ACCOUNT_EXISTS = ''An account with this email already exists. Sign in instead.''"

definition INVALID_CODE :: string where
  "INVALID_CODE = ''That code is invalid or has expired. Request a new code and try again.''"

text \<open>What was thrown: an object with its \<open>data\<close>, when that is text, and its \<open>message\<close>, when it is an \<open>Error\<close>;
  text; or anything else.\<close>

datatype thrown = Thrown "string option" "string option" | ThrownText string | ThrownOther

fun rawMessage :: "thrown \<Rightarrow> string" where
  "rawMessage (Thrown (Some d) m) = d"
| "rawMessage (Thrown None (Some m)) = m"
| "rawMessage (Thrown None None) = []"
| "rawMessage (ThrownText s) = s"
| "rawMessage ThrownOther = []"

fun convexErrorText :: "thrown \<Rightarrow> string option" where
  "convexErrorText (Thrown (Some d) m) = Some d"
| "convexErrorText error = map_option trim (convexText None (rawMessage error))"

definition isNetworkError :: "string \<Rightarrow> bool" where
  "isNetworkError message =
     mentions ([''Failed to fetch'', ''NetworkError'', ''Network request failed'', ''Load failed''], False) message"

text \<open>The cases of \<open>authErrorMessage\<close> and of \<open>localizedAuthError\<close>, which differ in the texts only.\<close>

datatype authProblem =
    InvalidCredentials
  | TooManyAttempts
  | AccountExists
  | InvalidCode
  | ServerText string
  | Network
  | Generic

definition authFailure :: "thrown \<Rightarrow> authProblem" where
  "authFailure error =
     (let message = rawMessage error in
      if mentions ([''InvalidCredentials'', ''InvalidAccountId'', ''InvalidSecret'', ''Invalid credentials''], True) message
      then InvalidCredentials
      else if mentions ([''TooManyFailedAttempts''], True) message then TooManyAttempts
      else if mentions ([''already exists'', ''AccountAlreadyExists''], False) message then AccountExists
      else if mentions ([''Could not verify code'', ''Invalid code'', ''InvalidCode''], False) message then InvalidCode
      else (case convexErrorText error of
          Some (c # s) \<Rightarrow> ServerText (c # s)
        | _ \<Rightarrow> if isNetworkError message then Network else Generic))"

definition authErrorMessage :: "thrown \<Rightarrow> string" where
  "authErrorMessage error =
     (case authFailure error of
        InvalidCredentials \<Rightarrow> INVALID_CREDENTIALS
      | TooManyAttempts \<Rightarrow> TOO_MANY_ATTEMPTS
      | AccountExists \<Rightarrow> ACCOUNT_EXISTS
      | InvalidCode \<Rightarrow> INVALID_CODE
      | ServerText s \<Rightarrow> s
      | Network \<Rightarrow> NETWORK_ERROR
      | Generic \<Rightarrow> GENERIC_ERROR)"

definition localizedAuthError :: "thrown \<Rightarrow> (string \<Rightarrow> string) \<Rightarrow> string" where
  "localizedAuthError error t =
     (case authFailure error of
        InvalidCredentials \<Rightarrow> t ''auth.errors.invalidCredentials''
      | TooManyAttempts \<Rightarrow> t ''auth.errors.tooManyAttempts''
      | AccountExists \<Rightarrow> t ''auth.errors.accountExists''
      | InvalidCode \<Rightarrow> t ''auth.errors.invalidCode''
      | ServerText s \<Rightarrow> s
      | Network \<Rightarrow> t ''auth.errors.network''
      | Generic \<Rightarrow> t ''auth.errors.generic'')"

definition actionErrorMessage :: "thrown \<Rightarrow> string \<Rightarrow> string" where
  "actionErrorMessage error fallback =
     (case convexErrorText error of
        Some (c # s) \<Rightarrow> c # s
      | _ \<Rightarrow> if isNetworkError (rawMessage error) then NETWORK_ERROR else fallback)"

definition REDIRECT_BASE :: string where
  "REDIRECT_BASE = ''https://same-origin.invalid''"

record url =
  ul_origin :: string
  ul_pathname :: string
  ul_search :: string
  ul_hash :: string

definition is_control :: "char \<Rightarrow> bool" where
  "is_control c = (code c < 32 \<or> code c = 127 \<or> code c = 92)"

text \<open>\<open>/^\/(login|register)(?:[/?#]|$)/\<close>.\<close>

definition isGuestPath :: "string \<Rightarrow> bool" where
  "isGuestPath path =
     list_ex (\<lambda>p. starts_with path p \<and>
       (case drop (length p) path of [] \<Rightarrow> True | c # _ \<Rightarrow> c = CHR ''/'' \<or> c = CHR ''?'' \<or> c = CHR ''#'')) [''/login'', ''/register'']"

text \<open>\<open>parseUrl value base\<close> is \<open>new URL(value, base)\<close>.\<close>

definition safeNextPath :: "(string \<Rightarrow> string \<Rightarrow> url option) \<Rightarrow> string option \<Rightarrow> string \<Rightarrow> string" where
  "safeNextPath parseUrl v fallback =
     (case v of
        None \<Rightarrow> fallback
      | Some s \<Rightarrow>
          if s = [] \<or> \<not> starts_with s ''/'' \<or> list_ex is_control s then fallback
          else (case parseUrl s REDIRECT_BASE of
              None \<Rightarrow> fallback
            | Some u \<Rightarrow>
                if ul_origin u \<noteq> REDIRECT_BASE then fallback
                else (let path = ul_pathname u @ ul_search u @ ul_hash u in
                  if starts_with path ''//'' \<or> isGuestPath path then fallback else path)))"

section \<open>components/auth/schemas.ts\<close>

definition FORM_MIN_PASSWORD :: nat where
  "FORM_MIN_PASSWORD = 10"

definition FORM_MAX_PASSWORD :: nat where
  "FORM_MAX_PASSWORD = 128"

definition FORM_MAX_NAME :: nat where
  "FORM_MAX_NAME = 120"

text \<open>A schema returns the first message, or the value as it is submitted. \<open>isEmail\<close> is \<open>z.email()\<close>.\<close>

definition emailSchema :: "(string \<Rightarrow> bool) \<Rightarrow> string \<Rightarrow> string + string" where
  "emailSchema isEmail s =
     (let e = toLowerCase (trim s) in
      if e = [] then Inl ''Enter your email address.''
      else if \<not> isEmail e then Inl ''Enter a valid email address.'' else Inr e)"

definition newPasswordSchema :: "string \<Rightarrow> string + string" where
  "newPasswordSchema s =
     (if length s < FORM_MIN_PASSWORD then Inl (''Use at least '' @ show_nat FORM_MIN_PASSWORD @ '' characters.'')
      else if FORM_MAX_PASSWORD < length s then Inl (''Use at most '' @ show_nat FORM_MAX_PASSWORD @ '' characters.'')
      else Inr s)"

definition nameSchema :: "string \<Rightarrow> string + string" where
  "nameSchema s =
     (let n = trim s in
      if n = [] then Inl ''Enter your name.''
      else if FORM_MAX_NAME < length n then Inl (''Use at most '' @ show_nat FORM_MAX_NAME @ '' characters.'') else Inr n)"

definition loginPassword :: "string \<Rightarrow> string + string" where
  "loginPassword s = (if s = [] then Inl ''Enter your password.'' else Inr s)"

definition codeSchema :: "string \<Rightarrow> string + string" where
  "codeSchema s =
     (let c = trim s in
      if length c = 8 \<and> list_all is_digit c then Inr c else Inl ''Enter the 8-digit code from the email.'')"

record registerValues =
  rv_name :: string
  rv_email :: string
  rv_password :: string

text \<open>The whole form is accepted when every field is; \<open>None\<close> otherwise.\<close>

definition registerSchema :: "(string \<Rightarrow> bool) \<Rightarrow> registerValues \<Rightarrow> registerValues option" where
  "registerSchema isEmail v =
     (case (nameSchema (rv_name v), emailSchema isEmail (rv_email v), newPasswordSchema (rv_password v)) of
        (Inr n, Inr e, Inr p) \<Rightarrow> Some \<lparr>rv_name = n, rv_email = e, rv_password = p\<rparr>
      | _ \<Rightarrow> None)"

definition loginSchema :: "(string \<Rightarrow> bool) \<Rightarrow> string \<Rightarrow> string \<Rightarrow> (string \<times> string) option" where
  "loginSchema isEmail email password =
     (case (emailSchema isEmail email, loginPassword password) of (Inr e, Inr p) \<Rightarrow> Some (e, p) | _ \<Rightarrow> None)"

record resetValues =
  sv_email :: string
  sv_code :: string
  sv_newPassword :: string
  sv_confirmPassword :: string

definition resetPasswordSchema :: "(string \<Rightarrow> bool) \<Rightarrow> resetValues \<Rightarrow> resetValues option" where
  "resetPasswordSchema isEmail v =
     (case (emailSchema isEmail (sv_email v), codeSchema (sv_code v), newPasswordSchema (sv_newPassword v)) of
        (Inr e, Inr c, Inr p) \<Rightarrow>
          if p = sv_confirmPassword v
          then Some \<lparr>sv_email = e, sv_code = c, sv_newPassword = p, sv_confirmPassword = sv_confirmPassword v\<rparr> else None
      | _ \<Rightarrow> None)"

section \<open>The routes\<close>

text \<open>\<open>fetchQuery\<close>: the backend's query under the token, or an error when Convex does not answer.\<close>

definition fetchQuery :: "bool \<Rightarrow> (db \<Rightarrow> error + 'a) \<Rightarrow> db \<Rightarrow> error + 'a" where
  "fetchQuery up q s = (if up then q s else Inl (PlainError ''fetch failed''))"

definition privateReply :: "json \<Rightarrow> webResponse" where
  "privateReply = jsonReply 200 [(''cache-control'', ''private, no-store'')]"

definition sessionRoute :: "bool \<Rightarrow> int \<Rightarrow> authContext option \<Rightarrow> db \<Rightarrow> webResponse" where
  "sessionRoute up now token s =
     (let signedOut = privateReply (JObj [(''authenticated'', JBool False)]) in
      case token of
        None \<Rightarrow> signedOut
      | Some auth \<Rightarrow>
          (case fetchQuery up (\<lambda>d. Inr (viewer now auth d)) s of
             Inr (Some v) \<Rightarrow> privateReply (JObj [(''authenticated'', JBool True),
               (''user'', JObj [(''name'', JStr (vi_name v)), (''email'', JStr (vi_email v))])])
           | _ \<Rightarrow> signedOut))"

definition signInFirst :: webResponse where
  "signInFirst = errorResponse 401 ''AUTHENTICATION_REQUIRED'' ''Sign in to use your API keys.''"

definition usable :: "int \<Rightarrow> ApiKeySummary \<Rightarrow> bool" where
  "usable now key = (y_revokedAt key = None \<and> (case y_expiresAt key of None \<Rightarrow> True | Some e \<Rightarrow> now < e))"

definition shownKey :: "host \<Rightarrow> ApiKeySummary \<Rightarrow> json" where
  "shownKey H key = JObj [(''id'', JStr (h_showId H (y_id key))), (''name'', JStr (y_name key)),
     (''maskedKey'', JStr (y_maskedKey key)), (''endpoints'', JArr (map JStr (y_endpoints key)))]"

definition playgroundKeys :: "host \<Rightarrow> bool \<Rightarrow> int \<Rightarrow> int \<Rightarrow> authContext option \<Rightarrow> db \<Rightarrow> webResponse" where
  "playgroundKeys H up now webNow token s =
     (case token of
        None \<Rightarrow> signInFirst
      | Some auth \<Rightarrow>
          (case fetchQuery up (listKeys H now auth) s of
             Inl e \<Rightarrow> signInFirst
           | Inr keys \<Rightarrow> privateReply (JObj [(''keys'', JArr (map (shownKey H) (filter (usable webNow) keys)))])))"

definition MAX_TOKEN_BODY :: nat where
  "MAX_TOKEN_BODY = 1024"

text \<open>\<open>Body.safeParse(json)\<close>: the \<open>keyId\<close>, of 1 to 64 characters.\<close>

definition tokenBody :: "json \<Rightarrow> string option" where
  "tokenBody j =
     (case jstring (jfield ''keyId'' j) of
        None \<Rightarrow> None
      | Some keyId \<Rightarrow> if 1 \<le> length keyId \<and> length keyId \<le> 64 then Some keyId else None)"

definition tooLarge :: "webRequest \<Rightarrow> bool" where
  "tooLarge q = (exceeds (js_Number (withDefault (wq_headers q ''content-length'') ''0'')) MAX_TOKEN_BODY
     \<or> MAX_TOKEN_BODY < length (wq_text q))"

text \<open>\<open>fetchAction(createPlaygroundToken)\<close>: Convex refuses an id that is not one of the table.\<close>

definition issueToken :: "host \<Rightarrow> bool \<Rightarrow> int \<Rightarrow> authContext \<Rightarrow> string \<Rightarrow> string \<Rightarrow> (db, string \<times> int) act" where
  "issueToken H up now auth keyId secret =
     (if \<not> up then athrow (PlainError ''fetch failed'')
      else case h_normalizeKeyId H keyId of
        None \<Rightarrow> athrow (PlainError ''ArgumentValidationError'')
      | Some k \<Rightarrow> runMutation (createPlaygroundToken H now auth k secret))"

definition playgroundTokenRoute ::
  "web \<Rightarrow> host \<Rightarrow> bool \<Rightarrow> int \<Rightarrow> string \<Rightarrow> authContext option \<Rightarrow> webRequest \<Rightarrow> db \<Rightarrow> webResponse \<times> db"
where
  "playgroundTokenRoute W H up now secret token q s =
     (if \<not> isSameOrigin (web_origin W) q then (errorResponse 403 ''FORBIDDEN'' ''Cross-site request rejected.'', s)
      else case token of
        None \<Rightarrow> (signInFirst, s)
      | Some auth \<Rightarrow>
          if tooLarge q then (errorResponse 413 ''INVALID_REQUEST'' ''The request body is too large.'', s)
          else (case tokenBody (withDefault (web_parse W (wq_text q)) JNull) of
              None \<Rightarrow> (errorResponse 400 ''INVALID_REQUEST'' ''keyId is required.'', s)
            | Some keyId \<Rightarrow>
                (case issueToken H up now auth keyId secret s of
                   (Inr (t, expiresAt), s') \<Rightarrow>
                     (privateReply (JObj [(''token'', JStr t), (''expiresAt'', JNum (Num (of_int expiresAt)))]), s')
                 | (Inl e, s') \<Rightarrow>
                     (errorResponse 400 ''INVALID_REQUEST'' ''Could not create a playground token for this key.'', s'))))"

end
