(* ===== verification/WebProps.thy ===== *)
theory WebProps
  imports WebRoutes AuthProps KeyLifecycle Samples
begin

text \<open>
  The gate of the web application: sign-in attempts are bounded, its errors say no more than they should, a
  redirect stays on the site, and its routes hand out only what belongs to the caller.
\<close>

section \<open>Sign-in attempts\<close>

lemma map_of_sweep:
  "distinct (map fst m) \<Longrightarrow> map_of (sweep now m) v =
     (if 10000 < length m \<and> (\<exists>e. map_of m v = Some e \<and> AUTH_WINDOW_MS < now - at_start e) then None else map_of m v)"
proof -
  have "map_of (filter (\<lambda>(k, e). P e) m) v =
      (case map_of m v of None \<Rightarrow> None | Some e \<Rightarrow> if P e then Some e else None)" if "distinct (map fst m)" for P :: "attempts \<Rightarrow> bool"
    using that by (induction m) (force split: option.splits dest: map_of_SomeD)+
  from this [of "\<lambda>e. \<not> AUTH_WINDOW_MS < now - at_start e"] show ?thesis if "distinct (map fst m)"
    using that by (auto simp: sweep_def simp del: map_of_eq_Some_iff Some_eq_map_of_iff split: option.splits)
qed

lemma distinct_sweep: "distinct (map fst m) \<Longrightarrow> distinct (map fst (sweep now m))"
  by (simp add: sweep_def distinct_map_filter)

lemma distinct_authRateLimited: "distinct (map fst m) \<Longrightarrow> distinct (map fst (snd (authRateLimited env now h m)))"
  by (auto simp: authRateLimited_def Let_def distinct_sweep distinct_update split: option.splits)

definition live :: "int \<Rightarrow> attemptMap \<Rightarrow> string \<Rightarrow> attempts option" where
  "live now m v = (case map_of m v of None \<Rightarrow> None | Some e \<Rightarrow> if AUTH_WINDOW_MS < now - at_start e then None else Some e)"

text \<open>Forgetting expired entries changes no decision.\<close>

lemma authRateLimited_live:
  assumes "distinct (map fst m)" and "clientIp env h = Some v"
  shows "fst (authRateLimited env now h m) = (case live now m v of None \<Rightarrow> False
      | Some e \<Rightarrow> exceedsMax (at_count e + 1) (AUTH_MAX_REQUESTS env))
    \<and> map_of (snd (authRateLimited env now h m)) v = Some (case live now m v of None \<Rightarrow> \<lparr>at_start = now, at_count = 1\<rparr>
      | Some e \<Rightarrow> e\<lparr>at_count := at_count e + 1\<rparr>)"
  using assms
  by (auto simp: authRateLimited_def live_def Let_def map_of_sweep update_conv
      simp del: map_of_eq_Some_iff Some_eq_map_of_iff split: option.splits if_splits)

lemma authRateLimited_other:
  assumes "distinct (map fst m)" and "clientIp env h \<noteq> Some v"
  shows "map_of (snd (authRateLimited env now h m)) v = map_of m v
    \<or> map_of (snd (authRateLimited env now h m)) v = None \<and> live now m v = None"
  using assms
  by (auto simp: authRateLimited_def live_def Let_def map_of_sweep update_conv
      simp del: map_of_eq_Some_iff Some_eq_map_of_iff split: option.splits if_splits)

fun admittedOf :: "environment \<Rightarrow> string \<Rightarrow> (int \<times> header) list \<Rightarrow> attemptMap \<Rightarrow> nat" where
  "admittedOf env v [] m = 0"
| "admittedOf env v ((now, h) # qs) m =
     (case authRateLimited env now h m of
        (limited, m') \<Rightarrow> (if clientIp env h = Some v \<and> \<not> limited then 1 else 0) + admittedOf env v qs m')"

lemma admittedOf_step:
  "admittedOf env v ((now, h) # qs) m =
     (if clientIp env h = Some v \<and> \<not> fst (authRateLimited env now h m) then 1 else 0)
       + admittedOf env v qs (snd (authRateLimited env now h m))"
  by (simp split: prod.splits)

lemma exceedsMax_Num: "exceedsMax n (Num (of_nat M)) \<longleftrightarrow> M < n"
  by (simp add: exceedsMax_def)

text \<open>What a visitor may still do within a span of one window: the rest of a window that covers it, or the rest of
  an older one and a new one.\<close>

definition budget :: "int \<Rightarrow> nat \<Rightarrow> attempts option \<Rightarrow> nat" where
  "budget t M e = (case e of None \<Rightarrow> max 1 M
     | Some a \<Rightarrow> if t \<le> at_start a then M - at_count a else (M - at_count a) + max 1 M)"

lemma admittedOf_budget:
  assumes "AUTH_MAX_REQUESTS env = Num (of_nat M)"
  shows "distinct (map fst m) \<Longrightarrow> \<forall>(now, h) \<in> set qs. t \<le> now \<and> now \<le> t + AUTH_WINDOW_MS \<Longrightarrow>
     admittedOf env v qs m \<le> budget t M (map_of m v)"
proof (induction qs arbitrary: m)
  case Nil
  then show ?case by simp
next
  case (Cons q qs)
  obtain now h where q: "q = (now, h)" by (cases q)
  let ?m' = "snd (authRateLimited env now h m)"
  have now: "t \<le> now" "now \<le> t + AUTH_WINDOW_MS" using Cons.prems q by auto
  have IH: "admittedOf env v qs ?m' \<le> budget t M (map_of ?m' v)"
    using Cons.IH [OF distinct_authRateLimited] Cons.prems by auto
  show ?case
  proof (cases "clientIp env h = Some v")
    case True
    note step = authRateLimited_live [OF Cons.prems(1) True, of now]
    show ?thesis
    proof (cases "live now m v")
      case None
      then have "map_of m v = None \<or> (\<exists>a. map_of m v = Some a \<and> at_start a < t)"
        using now by (auto simp: live_def split: option.splits if_splits)
      moreover have "budget t M (map_of ?m' v) = M - 1" using step None now by (simp add: budget_def)
      ultimately show ?thesis using IH step None True by (auto simp: q admittedOf_step budget_def simp del: admittedOf.simps)
    next
      case (Some a)
      then have a: "map_of m v = Some a" by (auto simp: live_def split: option.splits if_splits)
      have "map_of ?m' v = Some (a\<lparr>at_count := at_count a + 1\<rparr>)" using step Some by simp
      moreover have "fst (authRateLimited env now h m) \<longleftrightarrow> M < at_count a + 1" using step Some assms exceedsMax_Num by simp
      ultimately show ?thesis using IH True a by (auto simp: q admittedOf_step budget_def simp del: admittedOf.simps)
    qed
  next
    case False
    have "budget t M (map_of ?m' v) \<le> budget t M (map_of m v)"
      using authRateLimited_other [OF Cons.prems(1) False, of now] now
      by (auto simp: budget_def live_def split: option.splits if_splits)
    with IH False show ?thesis by (simp add: q admittedOf_step del: admittedOf.simps)
  qed
qed

text \<open>C27. Sign-in attempts are bounded: whatever requests reach one server instance, from however many visitors and in
  whatever order, at most twice the configured number (at least one) of one visitor's get past the limit in any ten
  minutes; forgetting old entries when the map is full makes no difference.\<close>
theorem auth_attempts_bounded:
  assumes "AUTH_MAX_REQUESTS env = Num (of_nat M)" and "distinct (map fst m)"
    and "\<forall>(now, h) \<in> set qs. t \<le> now \<and> now \<le> t + AUTH_WINDOW_MS"
  shows "admittedOf env v qs m \<le> 2 * max 1 M"
  using admittedOf_budget [OF assms, of v] by (auto simp: budget_def split: option.splits if_splits)

definition proxied :: environment where
  "proxied name = (if name = ''CLIENT_IP_HEADER'' then Some ''x-real-ip''
     else if name = ''AUTH_RATE_LIMIT_PER_10_MINUTES'' then Some ''2'' else None)"

theorem auth_attempts_bounded_witness:
  "let h = [''x-real-ip'' \<mapsto> ''10.0.0.7''] in
   admittedOf proxied ''10.0.0.7'' [(0, h), (1, h), (2, h), (600000, h)] [] = 2 \<and> (2 :: nat) \<le> 2 * max 1 2"
proof -
  let ?h = "[''x-real-ip'' \<mapsto> ''10.0.0.7'']" and ?m = "[] :: attemptMap"
  have max: "AUTH_MAX_REQUESTS proxied = Num (of_nat 2)" by code_simp
  have ip: "clientIp proxied ?h = Some ''10.0.0.7''" by code_simp
  have "admittedOf proxied ''10.0.0.7'' [(0, ?h), (1, ?h), (2, ?h), (600000, ?h)] ?m = 2"
    by (simp add: authRateLimited_def ip max Let_def sweep_def exceedsMax_def AUTH_WINDOW_MS_def)
  moreover have "admittedOf proxied ''10.0.0.7'' [(0, ?h), (1, ?h), (2, ?h), (600000, ?h)] ?m \<le> 2 * max 1 2"
    by (rule auth_attempts_bounded [OF max, where t = 0]) (simp_all add: AUTH_WINDOW_MS_def)
  ultimately show ?thesis by (simp add: Let_def)
qed

section \<open>Errors of sign-in\<close>

lemma convexText_line: "convexText (Some n) s = Some x \<Longrightarrow> length x \<le> n \<and> CHR 0x0A \<notin> set x"
proof (induction s)
  case (Cons c s)
  have "CHR 0x0A \<notin> set (take n (takeWhile (\<lambda>d. d \<noteq> CHR 0x0A) xs))" for xs
    using set_takeWhileD [of "CHR 0x0A" "\<lambda>d. d \<noteq> CHR 0x0A" xs] in_set_takeD by fastforce
  with Cons show ?case by (auto simp: Let_def split: if_splits)
qed simp

text \<open>Sign-in does not tell which addresses have accounts: whatever else the server's message holds, an unknown
  address and a wrong password give the same answer, the same status and body; and the text of any error that
  leaves the proxy is one of five fixed codes or one line, of at most 300 characters, written for users.\<close>
theorem auth_errors_reveal_nothing:
  assumes "wr_body r = Some b" and "jfield ''error'' b = Some (JStr message)"
  shows "wr_status (normalizeAuthError r) = 400
    \<and> (str_includes message ''InvalidAccountId'' \<or> str_includes message ''InvalidSecret''
       \<longrightarrow> wr_body (normalizeAuthError r) = Some (JObj [(''error'', JStr ''InvalidCredentials'')]))
    \<and> (\<exists>e. wr_body (normalizeAuthError r) = Some (JObj [(''error'', JStr e)]) \<and>
       (e \<in> set [''InvalidCredentials'', ''TooManyFailedAttempts'', ''AccountAlreadyExists'', ''InvalidCode'', ''ServerError'']
        \<or> (\<exists>text. e = ''ConvexError: '' @ text \<and> length text \<le> 300 \<and> CHR 0x0A \<notin> set text)))"
proof -
  have body: "wr_status (normalizeAuthError r) = 400"
    "wr_body (normalizeAuthError r) = Some (JObj [(''error'', JStr (authErrorCode message))])"
    using assms by (simp_all add: normalizeAuthError_def)
  have same: "authErrorCode message = ''InvalidCredentials''"
    if "str_includes message ''InvalidAccountId'' \<or> str_includes message ''InvalidSecret''"
    using that by (auto simp: authErrorCode_def AUTH_ERRORS_def mentions_def)
  have "authErrorCode message \<in> set [''InvalidCredentials'', ''TooManyFailedAttempts'', ''AccountAlreadyExists'',
       ''InvalidCode'', ''ServerError'']
     \<or> (\<exists>text. authErrorCode message = ''ConvexError: '' @ text \<and> length text \<le> 300 \<and> CHR 0x0A \<notin> set text)"
  proof (cases "find (\<lambda>(p, c). mentions p message) AUTH_ERRORS")
    case None
    then show ?thesis using convexText_line by (auto simp: authErrorCode_def split: option.splits)
  next
    case (Some pc)
    then have "pc \<in> set AUTH_ERRORS" by (metis find_Some_iff nth_mem)
    then show ?thesis using Some by (auto simp: authErrorCode_def AUTH_ERRORS_def)
  qed
  with body same show ?thesis by auto
qed

theorem auth_errors_reveal_nothing_witness:
  "wr_body (normalizeAuthError (jsonReply 400 [] (JObj [(''error'', JStr ''Uncaught Error: InvalidSecret at line 3'')])))
     = Some (JObj [(''error'', JStr ''InvalidCredentials'')])"
proof -
  have "str_includes ''Uncaught Error: InvalidSecret at line 3'' ''InvalidSecret''" by code_simp
  with auth_errors_reveal_nothing [of "jsonReply 400 [] (JObj [(''error'', JStr ''Uncaught Error: InvalidSecret at line 3'')])"
      _ "''Uncaught Error: InvalidSecret at line 3''"]
  show ?thesis by (simp add: jsonReply_def jfield_def)
qed

end
