(* ===== verification/WebRouteProps.thy ===== *)
theory WebRouteProps
  imports WebProps
begin

text \<open>
  The redirect check, the sign-up form against the backend's rules, and the two playground routes, composed with
  the backend's functions they call.
\<close>

text \<open>C28. A sign-in never sends the visitor off the site: the destination is the fallback, or a path that starts with one
  slash, not two, so that a browser stays on this origin, and that is not the login or register page again; the
  parsed URL had the site's own origin. The URL parser is any function that gives each URL of this origin a path that
  starts with a slash.\<close>
theorem next_path_stays_on_site:
  assumes "\<forall>x u. parseUrl x REDIRECT_BASE = Some u \<and> ul_origin u = REDIRECT_BASE \<longrightarrow> starts_with (ul_pathname u) ''/''"
  shows "safeNextPath parseUrl v fallback = fallback
    \<or> (\<exists>x u rest. v = Some x \<and> parseUrl x REDIRECT_BASE = Some u \<and> ul_origin u = REDIRECT_BASE
        \<and> safeNextPath parseUrl v fallback = ul_pathname u @ ul_search u @ ul_hash u
        \<and> safeNextPath parseUrl v fallback = ''/'' @ rest \<and> \<not> starts_with rest ''/''
        \<and> \<not> isGuestPath (safeNextPath parseUrl v fallback) \<and> \<not> list_ex is_control x)"
proof (cases "safeNextPath parseUrl v fallback = fallback")
  case False
  then obtain x where x: "v = Some x" "\<not> list_ex is_control x" by (auto simp: safeNextPath_def split: option.splits if_splits)
  with False obtain u where u: "parseUrl x REDIRECT_BASE = Some u" "ul_origin u = REDIRECT_BASE"
    by (auto simp: safeNextPath_def Let_def split: option.splits if_splits)
  let ?p = "ul_pathname u @ ul_search u @ ul_hash u"
  have path: "safeNextPath parseUrl v fallback = ?p" "\<not> starts_with ?p ''//''" "\<not> isGuestPath ?p"
    using False x u by (auto simp: safeNextPath_def Let_def split: if_splits)
  have "starts_with (ul_pathname u) ''/''" using assms u by blast
  then obtain t where t: "ul_pathname u = ''/'' @ t" by (auto simp: starts_with_iff)
  have "\<not> starts_with (t @ ul_search u @ ul_hash u) ''/''"
    using path(2) t by (auto simp: starts_with_iff)
  then show ?thesis using x u path t by auto
qed blast

text \<open>A parser for the witness: a path, without query and fragment, of the base's origin.\<close>

definition pathParser :: "string \<Rightarrow> string \<Rightarrow> url option" where
  "pathParser v base = (if starts_with v ''/''
     then Some \<lparr>ul_origin = base, ul_pathname = v, ul_search = [], ul_hash = []\<rparr> else None)"

theorem next_path_stays_on_site_witness:
  "safeNextPath pathParser (Some ''/dashboard/usage'') ''/dashboard'' = ''/dashboard/usage''
   \<and> safeNextPath pathParser (Some ''//evil.example'') ''/dashboard'' = ''/dashboard''
   \<and> (safeNextPath pathParser (Some ''//evil.example'') ''/home'' = ''/home''
      \<or> (\<exists>rest. safeNextPath pathParser (Some ''//evil.example'') ''/home'' = ''/'' @ rest \<and> \<not> starts_with rest ''/''))"
proof -
  have "safeNextPath pathParser (Some ''/dashboard/usage'') ''/dashboard'' = ''/dashboard/usage''"
    "safeNextPath pathParser (Some ''//evil.example'') ''/dashboard'' = ''/dashboard''" by code_simp+
  moreover have "\<forall>x u. pathParser x REDIRECT_BASE = Some u \<and> ul_origin u = REDIRECT_BASE \<longrightarrow> starts_with (ul_pathname u) ''/''"
    by (auto simp: pathParser_def split: if_splits)
  from next_path_stays_on_site [of pathParser, OF this, of "Some ''//evil.example''" "''/home''"]
  have "safeNextPath pathParser (Some ''//evil.example'') ''/home'' = ''/home''
      \<or> (\<exists>rest. safeNextPath pathParser (Some ''//evil.example'') ''/home'' = ''/'' @ rest \<and> \<not> starts_with rest ''/'')"
    by blast
  ultimately show ?thesis by blast
qed

section \<open>The sign-up form\<close>

definition signUp :: "registerValues \<Rightarrow> authParams" where
  "signUp v = \<lparr>ap_flow = Some ''signUp'', ap_email = Some (rv_email v), ap_password = Some (rv_password v),
     ap_newPassword = None, ap_name = Some (rv_name v)\<rparr>"

lemma trim_idem: "trim (trim s) = trim s"
  by (rule trim_id) (use trim_first trim_last in auto)

text \<open>The sign-up form and the backend apply the same rules: what the form submits is already in the backend's
  canonical form and within its lengths, so the account is stored exactly as submitted; the backend can
  refuse it only for the address (its pattern, length or reserved domain) or an easy password.\<close>
theorem form_matches_backend:
  assumes "registerSchema isEmail v = Some w"
    and "EMAIL_PATTERN (rv_email w)" and "length (rv_email w) \<le> 320" and "\<not> isReservedEmail (rv_email w)"
    and "\<not> isCommonPassword (rv_password w) (Some (rv_email w))"
  shows "profile now (signUp w) = Inr \<lparr>pf_email = rv_email w, pf_name = Some (rv_name w), pf_updatedAt = Some now\<rparr>"
proof -
  have name: "rv_name w = trim (rv_name v)" "rv_name w \<noteq> []" "length (rv_name w) \<le> 120"
    and email: "rv_email w = toLowerCase (trim (rv_email v))"
    and password: "10 \<le> length (rv_password w)" "length (rv_password w) \<le> 128"
    using assms(1) by (auto simp: registerSchema_def nameSchema_def emailSchema_def newPasswordSchema_def Let_def
        FORM_MAX_NAME_def FORM_MIN_PASSWORD_def FORM_MAX_PASSWORD_def split: sum.splits if_splits)
  have "rv_email w = normalizeEmail (Some (rv_email v))" by (simp add: email normalizeEmail_def)
  then have "normalizeEmail (Some (rv_email w)) = rv_email w" by (metis normalizeEmail_idem)
  moreover have "trim (rv_name w) = rv_name w" by (simp add: name(1) trim_idem)
  ultimately show ?thesis
    using assms(2-5) name password
    by (simp add: profile_def signUp_def newPasswordOf_def validatePassword_def auth_consts Let_def)
qed

definition sampleForm :: registerValues where
  "sampleForm = \<lparr>rv_name = '' Bat '', rv_email = '' Dev@Ubhub.mn'', rv_password = ''correct horse 42''\<rparr>"

theorem form_matches_backend_witness:
  "profile sampleNow (signUp \<lparr>rv_name = ''Bat'', rv_email = ''dev@ubhub.mn'', rv_password = ''correct horse 42''\<rparr>)
     = Inr \<lparr>pf_email = ''dev@ubhub.mn'', pf_name = Some ''Bat'', pf_updatedAt = Some sampleNow\<rparr>"
proof -
  let ?w = "\<lparr>rv_name = ''Bat'', rv_email = ''dev@ubhub.mn'', rv_password = ''correct horse 42''\<rparr>"
  have "registerSchema (\<lambda>e. True) sampleForm = Some ?w" by code_simp
  moreover have "EMAIL_PATTERN (rv_email ?w)" "length (rv_email ?w) \<le> 320" "\<not> isReservedEmail (rv_email ?w)"
    "\<not> isCommonPassword (rv_password ?w) (Some (rv_email ?w))" by code_simp+
  ultimately show ?thesis using form_matches_backend [of "\<lambda>e. True" sampleForm ?w] by simp
qed

section \<open>The playground routes\<close>

lemma all_or_error_map: "all_or_error f xs = Inr ys \<Longrightarrow> (\<And>x y. f x = Inr y \<Longrightarrow> g y = h x) \<Longrightarrow> map g ys = map h xs"
  by (induction xs arbitrary: ys) (auto split: sum.splits)

definition keyFacts :: "apiKey row \<Rightarrow> nat \<times> string \<times> int option \<times> int option" where
  "keyFacts r = (rid r, k_name (doc r), k_revokedAt (doc r), k_expiresAt (doc r))"

definition shownFacts :: "ApiKeySummary \<Rightarrow> nat \<times> string \<times> int option \<times> int option" where
  "shownFacts y = (y_id y, y_name y, y_revokedAt y, y_expiresAt y)"

lemma listKeys_facts:
  assumes "listKeys H now auth s = Inr ys"
  shows "\<exists>u. requireUserId now auth s = Inr u \<and> shownFacts ` set ys = keyFacts ` set (keysOfUser u s)"
proof -
  from assms obtain u where u: "requireUserId now auth s = Inr u" by (auto simp: listKeys_def split: sum.splits)
  from assms u obtain f zs where f: "all_or_error f (keysOfUser u s) = Inr zs" "set ys = set zs"
    and fact: "\<And>x y. f x = Inr y \<Longrightarrow> \<exists>a b c. y = summarize x a b c"
    by (fastforce simp: listKeys_def Let_def split: sum.splits)
  have "map shownFacts zs = map keyFacts (keysOfUser u s)"
    using f(1) by (rule all_or_error_map) (auto dest!: fact simp: shownFacts_def keyFacts_def summarize_def Let_def)
  then have "shownFacts ` set zs = keyFacts ` set (keysOfUser u s)" by (metis list.set_map)
  with u f(2) show ?thesis by auto
qed

text \<open>The playground offers exactly the caller's usable keys: whenever the route answers 200, the caller has an
  active session and the keys listed are those of the caller that are neither revoked nor expired, no key
  of anyone else and none that is over; without a session, or when Convex fails, it answers 401.\<close>
theorem playground_offers_own_keys:
  "(wr_status (playgroundKeys H up now webNow token s) = 200 \<longrightarrow>
     (\<exists>auth u ys. token = Some auth \<and> requireUserId now auth s = Inr u
       \<and> wr_body (playgroundKeys H up now webNow token s) = Some (JObj [(''keys'', JArr (map (shownKey H) ys))])
       \<and> (\<lambda>y. (y_id y, y_name y)) ` set ys =
           {(rid r, k_name (doc r)) | r. r \<in> set (apiKeys s) \<and> k_userId (doc r) = u \<and> k_revokedAt (doc r) = None
             \<and> (case k_expiresAt (doc r) of None \<Rightarrow> True | Some e \<Rightarrow> webNow < e)}))
   \<and> (wr_status (playgroundKeys H up now webNow token s) \<noteq> 200 \<longrightarrow> playgroundKeys H up now webNow token s = signInFirst)"
proof (cases "\<exists>auth keys. token = Some auth \<and> fetchQuery up (listKeys H now auth) s = Inr keys")
  case True
  then obtain auth keys where t: "token = Some auth" and q: "fetchQuery up (listKeys H now auth) s = Inr keys" by blast
  then obtain u where u: "requireUserId now auth s = Inr u" "shownFacts ` set keys = keyFacts ` set (keysOfUser u s)"
    using listKeys_facts [of H now auth s keys] by (auto simp: fetchQuery_def split: if_splits)
  let ?ys = "filter (usable webNow) keys"
  let ?ok = "\<lambda>(i, n, r, e). r = None \<and> (case e of None \<Rightarrow> True | Some e \<Rightarrow> webNow < e)"
  let ?pick = "\<lambda>S. (\<lambda>(i, n, r, e). (i, n)) ` Set.filter ?ok S"
  have "(\<lambda>y. (y_id y, y_name y)) ` set ?ys = ?pick (shownFacts ` set keys)"
    by (force simp: usable_def shownFacts_def)
  also have "\<dots> = {(rid r, k_name (doc r)) | r. r \<in> set (apiKeys s) \<and> k_userId (doc r) = u \<and> k_revokedAt (doc r) = None
             \<and> (case k_expiresAt (doc r) of None \<Rightarrow> True | Some e \<Rightarrow> webNow < e)}"
    unfolding u(2) by (force simp: keyFacts_def keysOfUser_def tselect_def)
  finally have ids: "(\<lambda>y. (y_id y, y_name y)) ` set ?ys = \<dots>" .
  have reply: "playgroundKeys H up now webNow token s = privateReply (JObj [(''keys'', JArr (map (shownKey H) ?ys))])"
    using t q by (simp add: playgroundKeys_def)
  then have "wr_body (playgroundKeys H up now webNow token s) = Some (JObj [(''keys'', JArr (map (shownKey H) ?ys))])"
    and "wr_status (playgroundKeys H up now webNow token s) = 200"
    by (simp_all add: privateReply_def jsonReply_def)
  with t u(1) ids show ?thesis by blast
next
  case False
  then have "playgroundKeys H up now webNow token s = signInFirst"
    by (auto simp: playgroundKeys_def split: option.splits sum.splits)
  then show ?thesis by (simp add: signInFirst_def errorResponse_def jsonReply_def)
qed

theorem playground_offers_own_keys_witness:
  "wr_status (playgroundKeys sampleHost True sampleNow sampleNow (Some sampleAuth) sampleDb) = 200
   \<and> (\<exists>ys. wr_body (playgroundKeys sampleHost True sampleNow sampleNow (Some sampleAuth) sampleDb) =
      Some (JObj [(''keys'', JArr (map (shownKey sampleHost) ys))]))
   \<and> playgroundKeys sampleHost False sampleNow sampleNow (Some sampleAuth) sampleDb = signInFirst"
proof -
  have ok: "wr_status (playgroundKeys sampleHost True sampleNow sampleNow (Some sampleAuth) sampleDb) = 200" by code_simp
  have "wr_status (playgroundKeys sampleHost False sampleNow sampleNow (Some sampleAuth) sampleDb) \<noteq> 200" by code_simp
  with ok playground_offers_own_keys [of sampleHost True sampleNow sampleNow "Some sampleAuth" sampleDb]
    playground_offers_own_keys [of sampleHost False sampleNow sampleNow "Some sampleAuth" sampleDb]
  show ?thesis by blast
qed

lemma createPlaygroundToken_Inr:
  assumes run: "createPlaygroundToken H now auth k secret s = Inr (x, t)"
  shows "\<exists>u key pepper. requireUserId now auth s = Inr u \<and> tget (apiKeys s) k = Some key \<and> k_userId (doc key) = u
    \<and> k_revokedAt (doc key) = None \<and> (case k_expiresAt (doc key) of None \<Rightarrow> True | Some e \<Rightarrow> now < e)
    \<and> requireEnv (h_env H) ''API_KEY_PEPPER'' = Inr pepper
    \<and> insertPlaygroundToken now \<lparr>t_tokenHash = hmacSha256Hex (h_hmac H) pepper secret,
         t_apiKeyId = k, t_userId = u, t_expiresAt = now + PLAYGROUND_TOKEN_TTL_MS\<rparr> s = Inr ((), t)"
proof -
  note run' = run [unfolded createPlaygroundToken_def mbind_reads]
  obtain u where u: "requireUserId now auth s = Inr u" using run' by (cases "requireUserId now auth s") auto
  obtain key where key: "ownedKey k u s = Some key" using run' u by (cases "ownedKey k u s") auto
  have live: "k_revokedAt (doc key) = None" using run' u key by (cases "k_revokedAt (doc key)") auto
  have fresh: "case k_expiresAt (doc key) of None \<Rightarrow> True | Some e \<Rightarrow> now < e"
    using run' u key live by (auto split: option.splits if_splits)
  then have "\<not> (case k_expiresAt (doc key) of Some e \<Rightarrow> e \<le> now | None \<Rightarrow> False)" by (auto split: option.splits)
  with run' u key live obtain pepper where "requireEnv (h_env H) ''API_KEY_PEPPER'' = Inr pepper"
    "insertPlaygroundToken now \<lparr>t_tokenHash = hmacSha256Hex (h_hmac H) pepper secret,
       t_apiKeyId = k, t_userId = u, t_expiresAt = now + PLAYGROUND_TOKEN_TTL_MS\<rparr> s = Inr ((), t)"
    by (auto simp: mthen_eq_Inr split: sum.splits)
  with u key live fresh show ?thesis by (auto simp: ownedKey_def split: option.splits if_splits)
qed

text \<open>C29. The playground route issues a token only to the owner of a live key: when it answers 200, the request
  came from the site's own pages, the caller has an active session and owns the key named in the body, which is
  neither revoked nor expired, and exactly the row of this token, for that key and caller and the next 15
  minutes, was stored (which keeps the bound on tokens); any other answer leaves the database as it was.\<close>
theorem playground_token_issued:
  assumes "playgroundTokenRoute W H up now secret token q s = (r, s')"
  shows "(wr_status r \<noteq> 200 \<longrightarrow> s' = s)
   \<and> (wr_status r = 200 \<longrightarrow> isSameOrigin (web_origin W) q \<and>
       (\<exists>auth u k key pepper. token = Some auth \<and> requireUserId now auth s = Inr u
         \<and> tget (apiKeys s) k = Some key \<and> k_userId (doc key) = u \<and> k_revokedAt (doc key) = None
         \<and> (case k_expiresAt (doc key) of None \<Rightarrow> True | Some e \<Rightarrow> now < e)
         \<and> requireEnv (h_env H) ''API_KEY_PEPPER'' = Inr pepper
         \<and> insertPlaygroundToken now \<lparr>t_tokenHash = hmacSha256Hex (h_hmac H) pepper secret,
             t_apiKeyId = k, t_userId = u, t_expiresAt = now + PLAYGROUND_TOKEN_TTL_MS\<rparr> s = Inr ((), s')))"
proof -
  have refused: "wr_status (errorResponse c e m) = c" for c e m by (simp add: errorResponse_def jsonReply_def)
  show ?thesis
  proof (cases "\<exists>auth keyId. isSameOrigin (web_origin W) q \<and> token = Some auth \<and> \<not> tooLarge q
      \<and> tokenBody (withDefault (web_parse W (wq_text q)) JNull) = Some keyId")
    case False
    then show ?thesis using assms
      by (auto simp: playgroundTokenRoute_def refused signInFirst_def split: option.splits if_splits)
  next
    case True
    then obtain auth keyId where t: "isSameOrigin (web_origin W) q" "token = Some auth" "\<not> tooLarge q"
        "tokenBody (withDefault (web_parse W (wq_text q)) JNull) = Some keyId" by blast
    show ?thesis
    proof (cases "issueToken H up now auth keyId secret s")
      case (Pair a s1)
      show ?thesis
      proof (cases a)
        case (Inl e)
        then have "s1 = s" using Pair
          by (auto simp: issueToken_def runMutation_def split: if_splits option.splits sum.splits)
        then show ?thesis using assms t Pair Inl by (auto simp: playgroundTokenRoute_def refused)
      next
        case (Inr x)
        then obtain k where "createPlaygroundToken H now auth k secret s = Inr (x, s1)" using Pair
          by (auto simp: issueToken_def runMutation_def split: if_splits option.splits sum.splits)
        from createPlaygroundToken_Inr [OF this] show ?thesis using assms t Pair Inr
          by (auto simp: playgroundTokenRoute_def privateReply_def jsonReply_def split: prod.splits)
      qed
    qed
  qed
qed

definition tokenWeb :: web where
  "tokenWeb = \<lparr>web_env = (\<lambda>n. None), web_origin = Some, web_matches = (\<lambda>ps p. False),
     web_redirect = (\<lambda>q u. signInFirst), web_parse = (\<lambda>t. Some (JObj [(''keyId'', JStr ''1'')])),
     web_middleware = (\<lambda>h q. h True)\<rparr>"

definition tokenRequest :: webRequest where
  "tokenRequest = \<lparr>wq_method = ''POST'', wq_protocol = ''https:'', wq_pathname = ''/api/playground/token'',
     wq_headers = [''sec-fetch-site'' \<mapsto> ''same-origin''], wq_text = ''{}''\<rparr>"

theorem playground_token_issued_witness:
  "\<exists>r s'. playgroundTokenRoute tokenWeb sampleHost True sampleNow ''geo_pt_x'' (Some sampleAuth) tokenRequest sampleDb = (r, s')
    \<and> wr_status r = 200 \<and> (\<exists>u. requireUserId sampleNow sampleAuth sampleDb = Inr u)"
proof -
  let ?run = "playgroundTokenRoute tokenWeb sampleHost True sampleNow ''geo_pt_x'' (Some sampleAuth) tokenRequest sampleDb"
  have "tooLarge tokenRequest = False"
    by (simp add: tooLarge_def tokenRequest_def withDefault_def js_Number_0 exceeds_def MAX_TOKEN_BODY_def)
  moreover have "(case issueToken sampleHost True sampleNow sampleAuth ''1'' ''geo_pt_x'' sampleDb of
      (Inr x, s) \<Rightarrow> True | _ \<Rightarrow> False)" by code_simp
  ultimately have ok: "wr_status (fst ?run) = 200"
    by (auto simp: playgroundTokenRoute_def tokenWeb_def tokenRequest_def isSameOrigin_def tokenBody_def jfield_def jstring_def
        withDefault_def privateReply_def jsonReply_def split: prod.splits sum.splits)
  from playground_token_issued [of tokenWeb sampleHost True sampleNow "''geo_pt_x''" "Some sampleAuth" tokenRequest sampleDb
      "fst ?run" "snd ?run"] ok
  show ?thesis by (intro exI [of _ "fst ?run"] exI [of _ "snd ?run"]) auto
qed

end
