(* ===== verification/Runs.thy ===== *)
theory Runs
  imports Main
begin

text \<open>
  Runs of a step relation: what every step keeps holds after any run. \<open>invariant_steps\<close> is the interface of a
  machine with an invariant, \<open>history_steps\<close> that of one whose steps also keep a reflexive and transitive relation
  to the earlier states. The backend (\<open>System\<close>), the playground's panel and the page of the map provide them.
\<close>

locale invariant_steps =
  fixes step :: "'s \<Rightarrow> 's \<Rightarrow> bool"
    and good :: "'s \<Rightarrow> bool"
  assumes good_step: "good s \<Longrightarrow> step s t \<Longrightarrow> good t"
begin

lemma good_run: "step\<^sup>*\<^sup>* s t \<Longrightarrow> good s \<Longrightarrow> good t"
  by (induction rule: rtranclp_induct) (auto intro: good_step)

end

locale history_steps = invariant_steps +
  fixes later :: "'s \<Rightarrow> 's \<Rightarrow> bool"
  assumes later_refl: "later s s"
    and later_trans: "later s t \<Longrightarrow> later t u \<Longrightarrow> later s u"
    and later_step: "good s \<Longrightarrow> step s t \<Longrightarrow> later s t"
begin

lemma later_run:
  assumes "step\<^sup>*\<^sup>* s t" and "good s"
  shows "later s t"
  using assms
proof (induction rule: rtranclp_induct)
  case base
  then show ?case by (simp add: later_refl)
next
  case (step t u)
  then have "later s t" by simp
  moreover have "later t u" using good_run [OF step.hyps(1) step.prems] step.hyps(2) by (rule later_step)
  ultimately show ?case by (rule later_trans)
qed

end

end
