(* ===== verification/Playground.thy ===== *)
theory Playground
  imports GeoClient
begin

text \<open>
  The API playground: its endpoints and form rules (\<open>components/playground/endpoints.ts\<close>) and the component's
  logic (\<open>playground.tsx\<close>): which keys can be used, the cache of playground tokens, and the requests it sends, of
  which the latest wins. Text is in UTF-8 bytes. The markup is not modelled.
\<close>

section \<open>The endpoints\<close>

datatype kind = TextParam | NumberParam | SelectParam

record ParamSpec =
  ps_name :: string
  ps_label :: string
  ps_kind :: kind
  ps_required :: bool
  ps_defaultValue :: string
  ps_description :: string
  ps_options :: "string list option"
  ps_inputMode :: "string option"

datatype PlaygroundEndpointId = Geocode | Route

text \<open>The values of a form, by parameter name.\<close>

type_synonym formValues = "string \<Rightarrow> string option"

text \<open>A rule of a field: the first message, or the value as it is submitted.\<close>

type_synonym rule = "string \<Rightarrow> string + string"

record PlaygroundEndpoint =
  pe_id :: PlaygroundEndpointId
  pe_method :: string
  pe_path :: string
  pe_title :: string
  pe_params :: "ParamSpec list"
  pe_schema :: "(string \<times> rule) list"

definition EN_DASH :: string where
  "EN_DASH = [CHR 0xE2, CHR 0x80, CHR 0x93]"

definition PLUS_MINUS :: string where
  "PLUS_MINUS = [CHR 0xC2, CHR 0xB1]"

fun js_le :: "jsnum \<Rightarrow> jsnum \<Rightarrow> bool" where
  "js_le a b = (js_lt a b \<or> (a = b \<and> a \<noteq> NaN))"

definition numberRule :: "int \<Rightarrow> int \<Rightarrow> bool \<Rightarrow> rule" where
  "numberRule low high integer raw =
     (let s = trim raw; n = js_Number s in
      if s = [] \<or> \<not> isFinite n then Inl ''Enter a number.''
      else if integer \<and> \<not> isInteger n then Inl ''Enter a whole number.''
      else if \<not> (js_le (Num (of_int low)) n \<and> js_le n (Num (of_int high)))
      then Inl (''Must be between '' @ show_int low @ '' and '' @ show_int high @ ''.'')
      else Inr s)"

text \<open>\<open>-?\d+(\.\d+)?\<close>.\<close>

definition isDecimal :: "string \<Rightarrow> bool" where
  "isDecimal s =
     (let t = (if starts_with s ''-'' then tl s else s);
          digits = (\<lambda>d. d \<noteq> [] \<and> list_all is_digit d) in
      case split_on (CHR ''.'') t of
        [a] \<Rightarrow> digits a
      | [a, b] \<Rightarrow> digits a \<and> digits b
      | _ \<Rightarrow> False)"

definition trimStart :: "string \<Rightarrow> string" where
  "trimStart s = dropWhile is_space s"

definition trimEnd :: "string \<Rightarrow> string" where
  "trimEnd s = rev (dropWhile is_space (rev s))"

fun absLe :: "jsnum \<Rightarrow> int \<Rightarrow> bool" where
  "absLe (Num r) b = (\<bar>r\<bar> \<le> of_int b)"
| "absLe n b = False"

definition lngLat :: rule where
  "lngLat raw =
     (let s = trim raw; malformed = Inl ''Use longitude,latitude, for example 106.9177,47.9184.'' in
      case split_on (CHR '','') s of
        [lon, lat] \<Rightarrow>
          (if \<not> (isDecimal (trimEnd lon) \<and> isDecimal (trimStart lat)) then malformed
           else if \<not> (absLe (js_Number lon) 180 \<and> absLe (js_Number lat) 90)
           then Inl (''Longitude must be within '' @ PLUS_MINUS @ ''180 and latitude within '' @ PLUS_MINUS @ ''90.'')
           else Inr s)
      | _ \<Rightarrow> malformed)"

definition queryRule :: rule where
  "queryRule raw =
     (let s = trim raw in
      if length s < 2 then Inl ''At least 2 characters.''
      else if 200 < length s then Inl ''At most 200 characters.'' else Inr s)"

definition limitRule :: rule where
  "limitRule raw = (if raw = [] then Inr [] else numberRule 1 20 True raw)"

definition modeRule :: rule where
  "modeRule raw = (if raw \<in> set [''driving'', ''walking''] then Inr raw else Inl ''Invalid option'')"

fun PLAYGROUND_ENDPOINTS :: "PlaygroundEndpointId \<Rightarrow> PlaygroundEndpoint" where
  "PLAYGROUND_ENDPOINTS Geocode =
     \<lparr>pe_id = Geocode, pe_method = ''GET'', pe_path = ''/v1/geocode'', pe_title = ''Geocode'',
      pe_params =
        [\<lparr>ps_name = ''q'', ps_label = ''q'', ps_kind = TextParam, ps_required = True, ps_defaultValue = ''Sukhbaatar Square'',
          ps_description = ''Place name or address, 2'' @ EN_DASH
            @ ''200 characters. (Reverse geocoding uses lat & lon; see the docs.)'',
          ps_options = None, ps_inputMode = None\<rparr>,
         \<lparr>ps_name = ''limit'', ps_label = ''limit'', ps_kind = NumberParam, ps_required = False, ps_defaultValue = ''5'',
          ps_description = ''Maximum results, 1'' @ EN_DASH @ ''20.'', ps_options = None, ps_inputMode = Some ''numeric''\<rparr>],
      pe_schema = [(''q'', queryRule), (''limit'', limitRule)]\<rparr>"
| "PLAYGROUND_ENDPOINTS Route =
     \<lparr>pe_id = Route, pe_method = ''GET'', pe_path = ''/v1/route'', pe_title = ''Route'',
      pe_params =
        [\<lparr>ps_name = ''origin'', ps_label = ''origin'', ps_kind = TextParam, ps_required = True,
          ps_defaultValue = ''106.9177,47.9184'', ps_description = ''longitude,latitude'', ps_options = None, ps_inputMode = None\<rparr>,
         \<lparr>ps_name = ''destination'', ps_label = ''destination'', ps_kind = TextParam, ps_required = True,
          ps_defaultValue = ''106.9057,47.9220'', ps_description = ''longitude,latitude'', ps_options = None, ps_inputMode = None\<rparr>,
         \<lparr>ps_name = ''mode'', ps_label = ''mode'', ps_kind = SelectParam, ps_required = False, ps_defaultValue = ''driving'',
          ps_description = ''Travel mode.'', ps_options = Some [''driving'', ''walking''], ps_inputMode = None\<rparr>],
      pe_schema = [(''origin'', lngLat), (''destination'', lngLat), (''mode'', modeRule)]\<rparr>"

definition defaultValues :: "PlaygroundEndpoint \<Rightarrow> formValues" where
  "defaultValues endpoint = map_of (map (\<lambda>p. (ps_name p, ps_defaultValue p)) (pe_params endpoint))"

text \<open>The resolver of the form: the values to send when every rule accepts its field (a missing field is not text).\<close>

fun applyRules :: "(string \<times> rule) list \<Rightarrow> formValues \<Rightarrow> (string \<times> string) list option" where
  "applyRules [] vs = Some []"
| "applyRules ((name, r) # rules) vs =
     (case vs name of
        None \<Rightarrow> None
      | Some raw \<Rightarrow>
          (case (r raw, applyRules rules vs) of
             (Inr v, Some rest) \<Rightarrow> Some ((name, v) # rest)
           | _ \<Rightarrow> None))"

definition formValid :: "PlaygroundEndpoint \<Rightarrow> formValues \<Rightarrow> formValues option" where
  "formValid endpoint vs = map_option map_of (applyRules (pe_schema endpoint) vs)"

section \<open>Requests\<close>

definition sentValue :: "formValues \<Rightarrow> string \<Rightarrow> string" where
  "sentValue vs name =
     (let raw = trim (withDefault (vs name) []) in
      if name = ''origin'' \<or> name = ''destination'' then without_spaces raw else raw)"

definition sentParams :: "PlaygroundEndpoint \<Rightarrow> formValues \<Rightarrow> (string \<times> string) list" where
  "sentParams endpoint vs =
     filter (\<lambda>(name, v). v \<noteq> []) (map (\<lambda>p. (ps_name p, sentValue vs (ps_name p))) (pe_params endpoint))"

definition buildRequestPath :: "PlaygroundEndpoint \<Rightarrow> formValues \<Rightarrow> string" where
  "buildRequestPath endpoint vs =
     (let qs = join ''&'' (map (\<lambda>(name, v). encodeURIComponent name @ ''='' @ encodeURIComponent v) (sentParams endpoint vs)) in
      if qs \<noteq> [] then pe_path endpoint @ ''?'' @ qs else pe_path endpoint)"

definition QUOTE :: string where
  "QUOTE = [CHR 0x22]"

definition BACKSLASH :: string where
  "BACKSLASH = [CHR 0x5C]"

definition buildCurl :: "string \<Rightarrow> string \<Rightarrow> string" where
  "buildCurl apiUrl path = ''curl '' @ QUOTE @ apiUrl @ path @ QUOTE @ '' '' @ BACKSLASH @ newline
     @ ''  -H '' @ QUOTE @ ''Authorization: Bearer YOUR_API_KEY'' @ QUOTE"

definition STATUS_TEXT :: "(int \<times> string) list" where
  "STATUS_TEXT = [(200, ''OK''), (400, ''Bad Request''), (401, ''Unauthorized''), (403, ''Forbidden''), (404, ''Not Found''),
     (405, ''Method Not Allowed''), (408, ''Request Timeout''), (413, ''Payload Too Large''), (429, ''Too Many Requests''),
     (500, ''Internal Server Error''), (502, ''Bad Gateway''), (503, ''Service Unavailable''), (504, ''Gateway Timeout'')]"

definition statusLine :: "int \<Rightarrow> string option \<Rightarrow> string" where
  "statusLine status statusText =
     trim (show_int status @ '' '' @
       (case statusText of
          Some (c # s) \<Rightarrow> c # s
        | _ \<Rightarrow> withDefault (map_of STATUS_TEXT status) []))"

section \<open>The keys and the credential\<close>

record ConnectedKey =
  ck_id :: string
  ck_name :: string
  ck_maskedKey :: string
  ck_endpoints :: "PlaygroundEndpointId list"

datatype KeysState = SignedOut | Keys "ConnectedKey list"

text \<open>\<open>fetchKeys\<close>, of the status of the reply and the keys of its body.\<close>

definition fetchKeys :: "int \<Rightarrow> ConnectedKey list \<Rightarrow> string + KeysState" where
  "fetchKeys status keys =
     (if \<not> (200 \<le> status \<and> status \<le> 299)
      then (if status = 401 then Inr SignedOut else Inl ''Could not load your API keys.'')
      else Inr (Keys keys))"

definition statusTone :: "int \<Rightarrow> string" where
  "statusTone status =
     (if status < 300 then ''bg-success/10 text-success''
      else if status < 500 then ''bg-warning/10 text-warning''
      else ''bg-destructive/10 text-destructive'')"

text \<open>\<open>keys.data\<close> is \<open>None\<close> until loaded.\<close>

definition connectedKeys :: "PlaygroundEndpointId \<Rightarrow> KeysState option \<Rightarrow> ConnectedKey list" where
  "connectedKeys endpointId data =
     filter (\<lambda>key. endpointId \<in> set (ck_endpoints key)) (case data of Some (Keys ks) \<Rightarrow> ks | _ \<Rightarrow> [])"

definition effectiveKeyId :: "PlaygroundEndpointId \<Rightarrow> KeysState option \<Rightarrow> string \<Rightarrow> string" where
  "effectiveKeyId endpointId data selected =
     (let ks = connectedKeys endpointId data in
      if list_ex (\<lambda>key. ck_id key = selected) ks then selected
      else (case ks of [] \<Rightarrow> [] | key # _ \<Rightarrow> ck_id key))"

definition TOKEN_REFRESH_MARGIN_MS :: int where
  "TOKEN_REFRESH_MARGIN_MS = 60000"

text \<open>The reply of the token route as the component reads it: whether its status is 2xx, and its body.\<close>

datatype tokenBodyRead = Issued string int | Refused "string option" | NoBody

type_synonym tokenCache = "string \<Rightarrow> (string \<times> int) option"

definition cachedToken :: "int \<Rightarrow> string \<Rightarrow> tokenCache \<Rightarrow> string option" where
  "cachedToken now keyId tokens =
     (case tokens keyId of
        Some (token, expiresAt) \<Rightarrow> if now < expiresAt - TOKEN_REFRESH_MARGIN_MS then Some token else None
      | None \<Rightarrow> None)"

definition panelToken :: "(string \<Rightarrow> bool \<times> tokenBodyRead) \<Rightarrow> int \<Rightarrow> string \<Rightarrow> tokenCache \<Rightarrow> (string + string) \<times> tokenCache" where
  "panelToken ask now keyId tokens =
     (case cachedToken now keyId tokens of
        Some token \<Rightarrow> (Inr token, tokens)
      | None \<Rightarrow>
          (case ask keyId of
             (True, Issued token expiresAt) \<Rightarrow> (Inr token, tokens(keyId \<mapsto> (token, expiresAt)))
           | (_, Refused (Some message)) \<Rightarrow> (Inl message, tokens)
           | _ \<Rightarrow> (Inl ''Could not authorize the playground with this key.'', tokens)))"

datatype AuthMode = Connected | Paste

record authPanel =
  au_mode :: AuthMode
  au_pastedKey :: string
  au_selectedKeyId :: string
  au_keys :: "KeysState option"

text \<open>The first part of \<open>send\<close>: the credential, or the message shown.\<close>

definition credential ::
  "(string \<Rightarrow> bool \<times> tokenBodyRead) \<Rightarrow> int \<Rightarrow> PlaygroundEndpointId \<Rightarrow> authPanel \<Rightarrow> tokenCache \<Rightarrow> (string + string) \<times> tokenCache"
where
  "credential ask now endpointId p tokens =
     (if au_mode p = Paste
      then (let c = trim (au_pastedKey p) in
        if c = [] then (Inl ''Paste an API key to send the request.'', tokens) else (Inr c, tokens))
      else (case au_keys p of
          Some (Keys ks) \<Rightarrow>
            (let keyId = effectiveKeyId endpointId (au_keys p) (au_selectedKeyId p) in
             if keyId = [] then (Inl ''Create an API key in the dashboard first, or paste a key.'', tokens)
             else panelToken ask now keyId tokens)
        | _ \<Rightarrow> (Inl ''Sign in to use one of your keys, or paste a key.'', tokens)))"

record panelCall =
  aq_url :: string
  aq_headers :: headers

definition panelRequest :: "environment \<Rightarrow> PlaygroundEndpointId \<Rightarrow> formValues \<Rightarrow> string \<Rightarrow> panelCall" where
  "panelRequest env endpointId vs cred =
     \<lparr>aq_url = pc_apiUrl (publicConfig env) @ buildRequestPath (PLAYGROUND_ENDPOINTS endpointId) vs,
      aq_headers = [(''Accept'', ''application/json''), (''Authorization'', ''Bearer '' @ cred)]\<rparr>"

section \<open>The requests in flight\<close>

record panelReply =
  pr_status :: int
  pr_statusText :: string
  pr_header :: "string \<Rightarrow> string option"
  pr_text :: string

datatype result =
    Response int string string "(string \<times> string \<times> string) option" "string option"
  | Failure string

text \<open>What is shown of a reply; \<open>pretty\<close> is \<open>JSON.stringify(JSON.parse(text), null, 2)\<close>, \<open>None\<close> when it throws. The
  elapsed time is left out.\<close>

definition showReply :: "(string \<Rightarrow> string option) \<Rightarrow> panelReply \<Rightarrow> result" where
  "showReply pretty r =
     Response (pr_status r) (pr_statusText r) (withDefault (pretty (pr_text r)) (pr_text r))
       (case pr_header r ''X-RateLimit-Limit'' of
          None \<Rightarrow> None
        | Some limit \<Rightarrow> Some (limit, withDefault (pr_header r ''X-RateLimit-Remaining'') [],
            withDefault (pr_header r ''X-RateLimit-Reset'') []))
       (pr_header r ''X-Request-ID'')"

text \<open>Each request has a controller, numbered in order; \<open>pn_current\<close> is \<open>abortRef.current\<close>.\<close>

record panel =
  pn_pending :: bool
  pn_result :: "result option"
  pn_current :: "nat option"
  pn_next :: nat
  pn_open :: "nat list"
  pn_aborted :: "nat list"

definition abortCurrent :: "panel \<Rightarrow> panel" where
  "abortCurrent p = (case pn_current p of None \<Rightarrow> p | Some i \<Rightarrow> p\<lparr>pn_aborted := i # pn_aborted p\<rparr>)"

definition startRequest :: "panel \<Rightarrow> panel" where
  "startRequest p =
     (let q = abortCurrent p in
      q\<lparr>pn_current := Some (pn_next q), pn_next := Suc (pn_next q), pn_open := pn_next q # pn_open q, pn_pending := True\<rparr>)"

text \<open>The request \<open>i\<close> ends with a result to show, or was aborted or failed (\<open>None\<close>).\<close>

definition settle_request :: "string \<Rightarrow> nat \<Rightarrow> result option \<Rightarrow> panel \<Rightarrow> panel" where
  "settle_request apiUrl i outcome p =
     (let shown = (case outcome of
            Some r \<Rightarrow> p\<lparr>pn_result := Some r\<rparr>
          | None \<Rightarrow> if i \<in> set (pn_aborted p) then p
              else p\<lparr>pn_result := Some (Failure (''Could not reach '' @ apiUrl
                @ ''. Check that the API is running and that its CORS settings allow this site.''))\<rparr>);
          closed = shown\<lparr>pn_open := filter (\<lambda>j. j \<noteq> i) (pn_open shown)\<rparr> in
      if pn_current closed = Some i then closed\<lparr>pn_pending := False\<rparr> else closed)"

text \<open>A run of the component: requests are sent, and those in flight end, in any order; one that was aborted
  rejects.\<close>

inductive panel_step :: "string \<Rightarrow> panel \<Rightarrow> panel \<Rightarrow> bool" for apiUrl where
  send: "panel_step apiUrl p (startRequest p)"
| reply: "i \<in> set (pn_open p) \<Longrightarrow> i \<notin> set (pn_aborted p) \<Longrightarrow> panel_step apiUrl p (settle_request apiUrl i (Some r) p)"
| reject: "i \<in> set (pn_open p) \<Longrightarrow> panel_step apiUrl p (settle_request apiUrl i None p)"

definition panel_init :: panel where
  "panel_init = \<lparr>pn_pending = False, pn_result = None, pn_current = None, pn_next = 0, pn_open = [], pn_aborted = []\<rparr>"

end
