(* ===== verification/PlaygroundProps.thy ===== *)
theory PlaygroundProps
  imports Runs Playground
begin

text \<open>
  The playground's requests carry exactly the fields of the form, and whatever the order in which its requests
  end, the latest one decides what is pending.
\<close>

section \<open>The request line\<close>

lemma unreserved_plain: "is_unreserved c \<Longrightarrow> c \<noteq> CHR ''+'' \<and> c \<noteq> CHR ''%'' \<and> c \<noteq> CHR ''&'' \<and> c \<noteq> CHR ''=''"
  by (auto simp: is_unreserved_def is_alnum_def is_digit_def is_upper_def is_lower_def code_def)

lemma decode_encodeURIComponent: "formDecode (encodeURIComponent s) = s"
proof (induction s)
  case (Cons c s)
  then show ?case using decode_percent [of c "encodeURIComponent s"] unreserved_plain [of c]
    by (simp add: encodeURIComponent_def)
qed (simp add: encodeURIComponent_def)

lemma encodeURIComponent_plain: "c \<in> set (encodeURIComponent s) \<Longrightarrow> c \<noteq> CHR ''&'' \<and> c \<noteq> CHR ''=''"
proof -
  assume "c \<in> set (encodeURIComponent s)"
  then obtain d where d: "c \<in> set (if is_unreserved d then [d] else percent d)"
    unfolding encodeURIComponent_def set_concat set_map by blast
  have "code d div 16 < 16" "code d mod 16 < 16" using code_lt [of d] by simp_all
  with d show ?thesis
    using unreserved_plain [of d] upper_hex_plain [of "code d div 16"] upper_hex_plain [of "code d mod 16"]
    by (auto simp: percent_def split: if_splits)
qed

definition encodedPairs :: "(string \<times> string) list \<Rightarrow> string" where
  "encodedPairs ps = join ''&'' (map (\<lambda>(k, v). encodeURIComponent k @ ''='' @ encodeURIComponent v) ps)"

lemma parseQuery_encodedPairs: "ps \<noteq> [] \<Longrightarrow> encodedPairs ps \<noteq> [] \<and> parseQuery (encodedPairs ps) = ps"
proof -
  let ?f = "\<lambda>(k, v). encodeURIComponent k @ ''='' @ encodeURIComponent v"
  assume ne: "ps \<noteq> []"
  have amp: "CHR ''&'' \<notin> set x" if "x \<in> set (map ?f ps)" for x
    using that encodeURIComponent_plain by fastforce
  have split: "split_on (CHR ''&'') (encodedPairs ps) = map ?f ps"
    unfolding encodedPairs_def using split_join [of "map ?f ps" "CHR ''&''"] amp ne by auto
  have nonempty: "encodedPairs ps \<noteq> []"
  proof
    assume "encodedPairs ps = []"
    then have "map ?f ps = [[]]" using split by simp
    then show False by (auto split: prod.splits)
  qed
  have "map_prod formDecode formDecode (splitPair (encodeURIComponent k @ ''='' @ encodeURIComponent v)) = (k, v)" for k v
  proof -
    have "CHR ''='' \<notin> set (encodeURIComponent k)" using encodeURIComponent_plain by blast
    from splitPair_eq [OF this] show ?thesis by (simp only: map_prod_simp decode_encodeURIComponent)
  qed
  then have "map (\<lambda>p. map_prod formDecode formDecode (splitPair p)) (map ?f ps) = ps"
    by (induction ps) (auto split: prod.splits)
  with split nonempty show ?thesis by (simp add: parseQuery_def)
qed

text \<open>The playground sends exactly what is in the form: the request line is the endpoint's path, followed, when some
  field is not empty, by a query string that a server decodes to the non-empty fields, trimmed, under the
  endpoint's own parameter names and in their order, coordinates without spaces; nothing typed into a field can
  end the value or add a parameter.\<close>
theorem request_path_exact:
  "\<exists>qs. buildRequestPath (PLAYGROUND_ENDPOINTS e) vs =
       pe_path (PLAYGROUND_ENDPOINTS e) @ (if sentParams (PLAYGROUND_ENDPOINTS e) vs = [] then [] else ''?'' @ qs)
     \<and> parseQuery qs = sentParams (PLAYGROUND_ENDPOINTS e) vs
     \<and> sentParams (PLAYGROUND_ENDPOINTS e) vs =
         map (\<lambda>n. (n, sentValue vs n)) (filter (\<lambda>n. sentValue vs n \<noteq> []) (map ps_name (pe_params (PLAYGROUND_ENDPOINTS e))))"
proof (intro exI conjI)
  let ?E = "PLAYGROUND_ENDPOINTS e" and ?ps = "sentParams (PLAYGROUND_ENDPOINTS e) vs"
  have path: "buildRequestPath ?E vs = (if encodedPairs ?ps \<noteq> [] then pe_path ?E @ ''?'' @ encodedPairs ?ps else pe_path ?E)"
    by (simp add: buildRequestPath_def encodedPairs_def)
  show "buildRequestPath ?E vs = pe_path ?E @ (if ?ps = [] then [] else ''?'' @ encodedPairs ?ps)"
    using path parseQuery_encodedPairs [of ?ps] by (auto simp: encodedPairs_def)
  show "parseQuery (encodedPairs ?ps) = ?ps"
    using parseQuery_encodedPairs [of ?ps] by (cases "?ps = []") (auto simp: encodedPairs_def parseQuery_def)
  have "filter (\<lambda>(n, v). v \<noteq> []) (map (\<lambda>p. (ps_name p, sentValue vs (ps_name p))) ps)
      = map (\<lambda>n. (n, sentValue vs n)) (filter (\<lambda>n. sentValue vs n \<noteq> []) (map ps_name ps))" for ps
    by (induction ps) auto
  then show "?ps = map (\<lambda>n. (n, sentValue vs n)) (filter (\<lambda>n. sentValue vs n \<noteq> []) (map ps_name (pe_params ?E)))"
    unfolding sentParams_def .
qed

section \<open>The credential\<close>

text \<open>With a connected key, the credential is a token of one of the caller's keys for this endpoint, either fresh or
  with more than a minute left.\<close>

lemma credential_connected:
  assumes "credential ask now endpointId p tokens = (Inr c, tokens')" and "au_mode p = Connected"
  shows "\<exists>key e. key \<in> set (connectedKeys endpointId (au_keys p)) \<and> endpointId \<in> set (ck_endpoints key)
    \<and> (tokens (ck_id key) = Some (c, e) \<and> now + TOKEN_REFRESH_MARGIN_MS < e \<and> tokens' = tokens
       \<or> ask (ck_id key) = (True, Issued c e) \<and> tokens' = tokens(ck_id key \<mapsto> (c, e)))"
proof -
  let ?id = "effectiveKeyId endpointId (au_keys p) (au_selectedKeyId p)"
  from assms have tok: "panelToken ask now ?id tokens = (Inr c, tokens')" and id: "?id \<noteq> []"
    by (auto simp: credential_def Let_def split: option.splits KeysState.splits if_splits)
  from id obtain key where key: "key \<in> set (connectedKeys endpointId (au_keys p))" "ck_id key = ?id"
    by (auto simp: effectiveKeyId_def Let_def list_ex_iff split: list.splits if_splits)
  moreover have "endpointId \<in> set (ck_endpoints key)" using key by (auto simp: connectedKeys_def)
  moreover have "\<exists>e. tokens ?id = Some (c, e) \<and> now + TOKEN_REFRESH_MARGIN_MS < e \<and> tokens' = tokens
       \<or> ask ?id = (True, Issued c e) \<and> tokens' = tokens(?id \<mapsto> (c, e))"
    using tok by (auto simp: panelToken_def cachedToken_def split: option.splits prod.splits if_splits
        tokenBodyRead.splits bool.splits)
  ultimately show ?thesis by metis
qed

section \<open>Requests in flight\<close>

text \<open>The current request is the only one in flight that was not aborted.\<close>

definition panel_inv :: "panel \<Rightarrow> bool" where
  "panel_inv p \<longleftrightarrow>
     (pn_pending p \<longleftrightarrow> (\<exists>i. pn_current p = Some i \<and> i \<in> set (pn_open p)))
     \<and> (\<forall>i \<in> set (pn_open p). i \<notin> set (pn_aborted p) \<longrightarrow> pn_current p = Some i)
     \<and> (\<forall>i. pn_current p = Some i \<longrightarrow> i \<notin> set (pn_aborted p))
     \<and> (\<forall>i \<in> set (pn_open p) \<union> set (pn_aborted p) \<union> set_option (pn_current p). i < pn_next p)"

lemma startRequest_fields [simp]:
  "pn_open (startRequest p) = pn_next p # pn_open p"
  "pn_aborted (startRequest p) = (case pn_current p of None \<Rightarrow> pn_aborted p | Some i \<Rightarrow> i # pn_aborted p)"
  "pn_current (startRequest p) = Some (pn_next p)"
  "pn_next (startRequest p) = Suc (pn_next p)"
  "pn_pending (startRequest p)"
  "pn_result (startRequest p) = pn_result p"
  by (simp_all add: startRequest_def abortCurrent_def Let_def split: option.splits)

lemma panel_inv_current: "panel_inv p \<Longrightarrow> i \<in> set (pn_open p) \<Longrightarrow> i \<notin> set (pn_aborted p) \<Longrightarrow> pn_current p = Some i"
  unfolding panel_inv_def by blast

lemma panel_inv_start:
  assumes "panel_inv p"
  shows "panel_inv (startRequest p)"
proof (cases "pn_current p")
  case None
  with assms have "i \<in> set (pn_aborted p)" "i < pn_next p" if "i \<in> set (pn_open p)" for i
    using that unfolding panel_inv_def by auto
  moreover from assms have "i < pn_next p" if "i \<in> set (pn_aborted p)" for i using that unfolding panel_inv_def by auto
  ultimately show ?thesis using None unfolding panel_inv_def startRequest_fields by fastforce
next
  case (Some c)
  with assms have "i \<in> set (c # pn_aborted p)" "i < pn_next p" if "i \<in> set (pn_open p)" for i
    using that unfolding panel_inv_def by auto
  moreover from assms Some have "i < pn_next p" if "i \<in> set (c # pn_aborted p)" for i
    using that unfolding panel_inv_def by auto
  ultimately show ?thesis using Some unfolding panel_inv_def startRequest_fields by fastforce
qed

lemma settle_request_fields [simp]:
  "pn_open (settle_request apiUrl i out p) = filter (\<lambda>j. j \<noteq> i) (pn_open p)"
  "pn_aborted (settle_request apiUrl i out p) = pn_aborted p"
  "pn_current (settle_request apiUrl i out p) = pn_current p"
  "pn_next (settle_request apiUrl i out p) = pn_next p"
  "pn_pending (settle_request apiUrl i out p) = (pn_current p \<noteq> Some i \<and> pn_pending p)"
  by (auto simp: settle_request_def Let_def split: option.splits)

lemma panel_inv_settle: "panel_inv p \<Longrightarrow> panel_inv (settle_request apiUrl i out p)"
  unfolding panel_inv_def settle_request_fields by auto

interpretation panels: invariant_steps "panel_step apiUrl" panel_inv for apiUrl
proof
  fix p q
  assume "panel_inv p" and "panel_step apiUrl p q"
  from this(2,1) show "panel_inv q" by cases (auto intro: panel_inv_start panel_inv_settle)
qed

lemma panel_inv_init: "panel_inv panel_init"
  by (simp add: panel_inv_def panel_init_def)

inductive_cases panel_stepE: "panel_step apiUrl p q"

text \<open>C30. The latest request wins: however many requests are sent and in whatever order they end, the panel is pending
  exactly while the latest one is in flight; every older request still in flight has been aborted, and its end
  changes neither the result shown nor whether the panel is pending.\<close>
theorem latest_request_wins:
  assumes "(panel_step apiUrl)\<^sup>*\<^sup>* panel_init p"
  shows "(pn_pending p \<longleftrightarrow> (\<exists>i. pn_current p = Some i \<and> i \<in> set (pn_open p)))
    \<and> (\<forall>i \<in> set (pn_open p). pn_current p \<noteq> Some i \<longrightarrow> i \<in> set (pn_aborted p)
         \<and> pn_result (settle_request apiUrl i None p) = pn_result p \<and> pn_pending (settle_request apiUrl i None p) = pn_pending p)
    \<and> (\<forall>q. panel_step apiUrl p q \<and> pn_result q \<noteq> pn_result p \<longrightarrow>
         (\<exists>i. pn_current p = Some i \<and> i \<in> set (pn_open p) \<and> \<not> pn_pending q))"
proof -
  have inv: "panel_inv p" by (rule panels.good_run [OF assms panel_inv_init])
  have kept: "pn_result (settle_request apiUrl i None p) = pn_result p" if "i \<in> set (pn_aborted p)" for i
    using that by (simp add: settle_request_def Let_def)
  have latest: "\<exists>i. pn_current p = Some i \<and> i \<in> set (pn_open p) \<and> \<not> pn_pending q"
    if "panel_step apiUrl p q" "pn_result q \<noteq> pn_result p" for q
    using that(1)
  proof (rule panel_stepE)
    assume "q = startRequest p"
    with that(2) show ?thesis by simp
  next
    fix i r assume "q = settle_request apiUrl i (Some r) p" "i \<in> set (pn_open p)" "i \<notin> set (pn_aborted p)"
    with panel_inv_current [OF inv] show ?thesis by auto
  next
    fix i assume i: "q = settle_request apiUrl i None p" "i \<in> set (pn_open p)"
    with kept that(2) have "i \<notin> set (pn_aborted p)" by auto
    with panel_inv_current [OF inv] i show ?thesis by auto
  qed
  have old: "i \<in> set (pn_aborted p)" if "i \<in> set (pn_open p)" "pn_current p \<noteq> Some i" for i
    using panel_inv_current [OF inv] that by blast
  have "pn_pending p \<longleftrightarrow> (\<exists>i. pn_current p = Some i \<and> i \<in> set (pn_open p))"
    using inv by (simp add: panel_inv_def)
  with old kept latest show ?thesis by auto
qed

theorem latest_request_wins_witness:
  "let p = startRequest (startRequest panel_init) in
   pn_pending p \<and> pn_open p = [1, 0] \<and> pn_pending (settle_request ''x'' 0 None p) \<and> pn_result (settle_request ''x'' 0 None p) = None"
proof -
  let ?p = "startRequest (startRequest panel_init)"
  have "(panel_step ''x'')\<^sup>*\<^sup>* panel_init ?p"
    by (rule rtranclp.rtrancl_into_rtrancl [OF r_into_rtranclp]) (rule panel_step.send)+
  note facts = latest_request_wins [OF this]
  have now: "pn_open ?p = [1, 0]" "pn_current ?p = Some 1" "pn_result ?p = None"
    by (simp_all add: panel_init_def)
  with facts show ?thesis by (auto simp: Let_def)
qed

end
