(* ===== verification/Docs.thy ===== *)
theory Docs
  imports GeoClient
begin

text \<open>
  The documentation part of the web application: the helpers over the OpenAPI document (\<open>lib/docs/openapi.ts\<close>), the
  error catalogue (\<open>lib/docs/errors.ts\<close>), the navigation (\<open>lib/docs-nav.ts\<close>, \<open>components/dashboard/nav-items.ts\<close>,
  \<open>components/site/nav-items.ts\<close>), the translator (\<open>lib/i18n\<close>) and the cache of highlighted samples
  (\<open>lib/highlight.ts\<close>). The OpenAPI document itself is generated and is an argument. Text is in UTF-8 bytes.
\<close>

section \<open>lib/docs/openapi.ts\<close>

datatype enumValue = EnumText string | EnumNumber jsnum

datatype JsonSchema = Schema
  (s_ref: "string option")
  (s_type: "string option")
  (s_title: "string option")
  (s_description: "string option")
  (s_enum: "enumValue list option")
  (s_const: "string option")
  (s_anyOf: "JsonSchema list option")
  (s_items: "JsonSchema option")
  (s_prefixItems: "JsonSchema list option")
  (s_properties: "(string \<times> JsonSchema) list option")
  (s_required: "string list option")
  (s_default: "json option")
  (s_examples: "json list option")
  (s_minimum: "jsnum option")
  (s_maximum: "jsnum option")
  (s_minLength: "jsnum option")
  (s_maxLength: "jsnum option")

text \<open>\<open>openApi.components.schemas\<close>.\<close>

type_synonym components = "string \<Rightarrow> JsonSchema option"

record MediaType =
  mt_schema :: "JsonSchema option"
  mt_example :: "json option"

record ResponseObject =
  ro_description :: "string option"
  ro_content :: "(string \<Rightarrow> MediaType option) option"

record OperationObject =
  oo_operationId :: string
  oo_responses :: "(string \<times> ResponseObject) list"

record Operation = OperationObject +
  op_method :: string
  op_path :: string

definition upper_char :: "char \<Rightarrow> char" where
  "upper_char c = (if is_lower c then char_of (code c - 32) else c)"

definition publicOperations :: "(string \<times> (string \<times> OperationObject) list) list \<Rightarrow> Operation list" where
  "publicOperations paths =
     concat (map (\<lambda>(path, methods).
         map (\<lambda>(method, operation). \<lparr>oo_operationId = oo_operationId operation, oo_responses = oo_responses operation,
             op_method = map upper_char method, op_path = path\<rparr>) methods)
       (filter (\<lambda>(path, methods). starts_with path ''/v1/'') paths))"

definition either :: "'a option \<Rightarrow> 'a option \<Rightarrow> 'a option" where
  "either a b = (case a of None \<Rightarrow> b | Some x \<Rightarrow> Some x)"

definition refTarget :: "string \<Rightarrow> string" where
  "refTarget r = last (split_on (CHR ''/'') r)"

text \<open>\<open>{ ...target, ...rest }\<close>: the fields of the referencing schema, without \<open>$ref\<close>, win.\<close>

definition overlay :: "JsonSchema \<Rightarrow> JsonSchema \<Rightarrow> JsonSchema" where
  "overlay target schema = Schema (s_ref target)
     (either (s_type schema) (s_type target)) (either (s_title schema) (s_title target))
     (either (s_description schema) (s_description target)) (either (s_enum schema) (s_enum target))
     (either (s_const schema) (s_const target)) (either (s_anyOf schema) (s_anyOf target))
     (either (s_items schema) (s_items target)) (either (s_prefixItems schema) (s_prefixItems target))
     (either (s_properties schema) (s_properties target)) (either (s_required schema) (s_required target))
     (either (s_default schema) (s_default target)) (either (s_examples schema) (s_examples target))
     (either (s_minimum schema) (s_minimum target)) (either (s_maximum schema) (s_maximum target))
     (either (s_minLength schema) (s_minLength target)) (either (s_maxLength schema) (s_maxLength target))"

definition noSchema :: JsonSchema where
  "noSchema = Schema None None None None None None None None None None None None None None None None None"

definition hasRef :: "JsonSchema \<Rightarrow> bool" where
  "hasRef schema = (case s_ref schema of None \<Rightarrow> False | Some r \<Rightarrow> r \<noteq> [])"

definition resolve :: "components \<Rightarrow> JsonSchema \<Rightarrow> JsonSchema" where
  "resolve comps schema =
     (if \<not> hasRef schema then schema
      else overlay (withDefault (comps (refTarget (withDefault (s_ref schema) []))) noSchema) schema)"

definition refName :: "JsonSchema \<Rightarrow> string option" where
  "refName schema = map_option refTarget (s_ref schema)"

fun quoteEnum :: "enumValue \<Rightarrow> string" where
  "quoteEnum (EnumText s) = [CHR 0x22] @ s @ [CHR 0x22]"
| "quoteEnum (EnumNumber n) = [CHR 0x22] @ js_String n @ [CHR 0x22]"

definition enumType :: "enumValue list \<Rightarrow> string" where
  "enumType vs = join '' | '' (map quoteEnum vs)"

fun describeType :: "components \<Rightarrow> JsonSchema \<Rightarrow> string" where
  "describeType comps (Schema ref type title description enum const anyOf items prefixItems properties required
       dflt examples minimum maximum minLength maxLength) =
     (case map_option refTarget ref of
        Some (c # s) \<Rightarrow>
          (case comps (c # s) of
             None \<Rightarrow> c # s
           | Some target \<Rightarrow> (case s_enum target of Some vs \<Rightarrow> enumType vs | None \<Rightarrow> c # s))
      | _ \<Rightarrow>
          (case anyOf of
             Some xs \<Rightarrow> join '' | '' (map (describeType comps) xs)
           | None \<Rightarrow>
               (case enum of
                  Some vs \<Rightarrow> enumType vs
                | None \<Rightarrow>
                    (case const of
                       Some (c # s) \<Rightarrow> [CHR 0x22] @ (c # s) @ [CHR 0x22]
                     | _ \<Rightarrow>
                         if type = Some ''array''
                         then (case prefixItems of
                             Some xs \<Rightarrow> ''['' @ join '', '' (map (describeType comps) xs) @ '']''
                           | None \<Rightarrow> (case items of Some x \<Rightarrow> describeType comps x | None \<Rightarrow> ''unknown'') @ ''[]'')
                         else (case type of Some t \<Rightarrow> t | None \<Rightarrow> ''object'')))))"

definition INFINITY_SIGN :: string where
  "INFINITY_SIGN = [CHR 0xE2, CHR 0x88, CHR 0x9E]"

definition MINUS_SIGN :: string where
  "MINUS_SIGN = [CHR 0xE2, CHR 0x88, CHR 0x92]"

definition bound :: "jsnum option \<Rightarrow> string \<Rightarrow> string" where
  "bound v d = (case v of None \<Rightarrow> d | Some n \<Rightarrow> js_String n)"

text \<open>\<open>stringify\<close> is \<open>JSON.stringify\<close>.\<close>

definition constraints :: "(json \<Rightarrow> string) \<Rightarrow> components \<Rightarrow> JsonSchema \<Rightarrow> string list" where
  "constraints stringify comps schema =
     (let target = resolve comps schema in
      (if s_minLength target \<noteq> None \<or> s_maxLength target \<noteq> None
       then [bound (s_minLength target) ''0'' @ [CHR 0xE2, CHR 0x80, CHR 0x93] @ bound (s_maxLength target) INFINITY_SIGN
         @ '' characters''] else [])
      @ (if s_minimum target \<noteq> None \<or> s_maximum target \<noteq> None
         then [bound (s_minimum target) (MINUS_SIGN @ INFINITY_SIGN) @ '' to '' @ bound (s_maximum target) INFINITY_SIGN] else [])
      @ (case s_default schema of None \<Rightarrow> [] | Some d \<Rightarrow> [''default '' @ stringify d]))"

record SchemaRow =
  sr_name :: string
  sr_type :: string
  sr_required :: bool
  sr_description :: string

definition schemaRow :: "components \<Rightarrow> JsonSchema \<Rightarrow> string \<Rightarrow> string \<Rightarrow> JsonSchema \<Rightarrow> SchemaRow" where
  "schemaRow comps target pre key property =
     \<lparr>sr_name = pre @ key, sr_type = describeType comps property,
      sr_required = (key \<in> set (withDefault (s_required target) [])),
      sr_description = withDefault (either (s_description property) (s_description (resolve comps property))) []\<rparr>"

text \<open>What a property is flattened into: the schema, and what is put between the names.\<close>

definition nested :: "components \<Rightarrow> JsonSchema \<Rightarrow> (JsonSchema \<times> string) option" where
  "nested comps property =
     (if hasRef property \<and> s_properties (resolve comps property) \<noteq> None then Some (property, ''.'')
      else if s_type property = Some ''array''
      then (case s_items property of
          Some items \<Rightarrow> if hasRef items then Some (items, ''[].'') else None
        | None \<Rightarrow> None)
      else None)"

text \<open>The recursion follows references, which may be circular; the depth ends it.\<close>

function flattenSchema :: "components \<Rightarrow> JsonSchema \<Rightarrow> string \<Rightarrow> nat \<Rightarrow> SchemaRow list" where
  "flattenSchema comps schema pre depth =
     (let target = resolve comps schema in
      concat (map (\<lambda>(key, property). schemaRow comps target pre key property #
          (if depth \<le> 1 then []
           else (case nested comps property of
               None \<Rightarrow> []
             | Some (inner, sep) \<Rightarrow> flattenSchema comps inner (pre @ key @ sep) (depth - 1))))
        (withDefault (s_properties target) [])))"
  by pat_completeness auto
termination
  by (relation "measure (\<lambda>(comps, schema, pre, depth). depth)") auto

declare flattenSchema.simps [simp del]

definition jsonContent :: "ResponseObject \<Rightarrow> MediaType option" where
  "jsonContent response = (case ro_content response of None \<Rightarrow> None | Some content \<Rightarrow> content ''application/json'')"

definition successSchema :: "Operation \<Rightarrow> JsonSchema option" where
  "successSchema operation =
     (case map_of (oo_responses operation) ''200'' of
        None \<Rightarrow> None
      | Some response \<Rightarrow> (case jsonContent response of None \<Rightarrow> None | Some media \<Rightarrow> mt_schema media))"

record ErrorResponseInfo =
  er_status :: string
  er_code :: string
  er_message :: string

text \<open>\<open>example?.error?.name\<close>, of the text type the document gives it.\<close>

definition exampleText :: "ResponseObject \<Rightarrow> string \<Rightarrow> string option" where
  "exampleText response name =
     (case jsonContent response of
        None \<Rightarrow> None
      | Some media \<Rightarrow> (case mt_example media of
          None \<Rightarrow> None
        | Some example \<Rightarrow> (case jfield ''error'' example of None \<Rightarrow> None | Some e \<Rightarrow> jstring (jfield name e))))"

definition errorResponses :: "Operation \<Rightarrow> ErrorResponseInfo list" where
  "errorResponses operation =
     map (\<lambda>(status, response). \<lparr>er_status = status, er_code = withDefault (exampleText response ''code'') [],
         er_message = withDefault (either (exampleText response ''message'') (ro_description response)) []\<rparr>)
       (filter (\<lambda>(status, response). status \<noteq> ''200'') (oo_responses operation))"

section \<open>lib/docs/errors.ts\<close>

record ErrorInfo =
  ei_status :: int
  ei_code :: string
  ei_meaning :: string
  ei_action :: string
  ei_message :: string
  ei_details :: "json option"

definition ERROR_CATALOG :: "ErrorInfo list" where
  "ERROR_CATALOG =
     [
      \<lparr>ei_status = 400, ei_code = ''INVALID_REQUEST'',
       ei_meaning = ''A parameter is missing or invalid. `details.field` names it. Also used with status 405 for a wrong HTTP method and 413 for an oversized body.'',
       ei_action = ''Fix the request; retrying it unchanged will fail again.'',
       ei_message = ''Invalid value for 'lat': input should be less than or equal to 90'', ei_details = Some (JObj [(''field'', JStr ''lat'')])\<rparr>,
      \<lparr>ei_status = 401, ei_code = ''INVALID_API_KEY'',
       ei_meaning = ''The Authorization header is missing or malformed, the key does not exist, or it has expired (`details.reason` is `expired`).'',
       ei_action = ''Send a valid key as `Authorization: Bearer YOUR_API_KEY`.'',
       ei_message = ''The API key is missing or invalid.'', ei_details = None\<rparr>,
      \<lparr>ei_status = 402, ei_code = ''PAYMENT_REQUIRED'',
       ei_meaning = ''The account has no active tier or has used its 500 free requests, so its API keys are paused.'',
       ei_action = ''Activate the free tier or buy a paid plan on the Billing page, then retry with the same key.'',
       ei_message = ''Activate the free tier or a paid plan to use API keys.'', ei_details = None\<rparr>,
      \<lparr>ei_status = 403, ei_code = ''API_KEY_REVOKED'',
       ei_meaning = ''The key was revoked in the dashboard.'',
       ei_action = ''Use another key or create a new one.'',
       ei_message = ''This API key has been revoked.'', ei_details = None\<rparr>,
      \<lparr>ei_status = 403, ei_code = ''ENDPOINT_NOT_ALLOWED'',
       ei_meaning = ''The key is not allowed to call this endpoint. Each key is limited to the endpoints chosen when it was created; `details.allowed_endpoints` lists them.'',
       ei_action = ''Use a key that includes this endpoint, or create one in the dashboard.'',
       ei_message = ''This API key is not allowed to call this endpoint. Create a key that includes it.'', ei_details = Some (JObj [(''allowed_endpoints'', JArr [JStr ''geocode'', JStr ''reverse-geocode''])])\<rparr>,
      \<lparr>ei_status = 404, ei_code = ''NOT_FOUND'',
       ei_meaning = ''Nothing was found: no address near the point (reverse geocoding), no route or no road near a waypoint (routing, `details.reason` explains), or an unknown path.'',
       ei_action = ''Check the coordinates. For routing, move the point closer to a road or try another mode.'',
       ei_message = ''No address or place was found near this location.'', ei_details = None\<rparr>,
      \<lparr>ei_status = 408, ei_code = ''REQUEST_TIMEOUT'',
       ei_meaning = ''The data service behind the API did not answer in time.'',
       ei_action = ''Retry after a short delay with exponential backoff.'',
       ei_message = ''The data service did not respond in time.'', ei_details = None\<rparr>,
      \<lparr>ei_status = 429, ei_code = ''RATE_LIMIT_EXCEEDED'',
       ei_meaning = ''The key used up its requests for the current one-minute window.'',
       ei_action = ''Wait for the number of seconds in the `Retry-After` header, then retry.'',
       ei_message = ''Too many requests.'', ei_details = Some (JObj [(''limit'', JNum (Num 100))])\<rparr>,
      \<lparr>ei_status = 429, ei_code = ''QUOTA_EXCEEDED'',
       ei_meaning = ''The authenticated key or tenant used its daily or monthly cost-unit quota.'',
       ei_action = ''Wait until the Retry-After reset, reduce expensive operations, or change the customer plan.'',
       ei_message = ''The usage quota has been exhausted.'', ei_details = None\<rparr>,
      \<lparr>ei_status = 500, ei_code = ''INTERNAL_ERROR'',
       ei_meaning = ''An unexpected error in the API.'',
       ei_action = ''Retry later. If it persists, report the `X-Request-ID`.'',
       ei_message = ''Internal server error.'', ei_details = None\<rparr>,
      \<lparr>ei_status = 502, ei_code = ''UPSTREAM_ERROR'',
       ei_meaning = ''The data service behind the API failed or returned an invalid answer.'',
       ei_action = ''Retry with backoff.'',
       ei_message = ''The upstream data service returned an error.'', ei_details = None\<rparr>,
      \<lparr>ei_status = 503, ei_code = ''SERVICE_UNAVAILABLE'',
       ei_meaning = ''The service is temporarily unavailable, for example while a data source is being configured or loaded.'',
       ei_action = ''Retry with backoff. `details.retryable` is true when a retry can succeed.'',
       ei_message = ''This service is temporarily unavailable.'', ei_details = Some (JObj [(''retryable'', JBool True)])\<rparr>
     ]"

definition errorsFor :: "int list \<Rightarrow> ErrorInfo list" where
  "errorsFor statuses = filter (\<lambda>error. ei_status error \<in> set statuses) ERROR_CATALOG"

section \<open>lib/docs-nav.ts\<close>

record DocsNavItem =
  di_title :: string
  di_href :: string

record DocsNavSection =
  dn_title :: string
  dn_items :: "DocsNavItem list"

record TocEntry =
  te_id :: string
  te_title :: string

definition DOCS_NAV :: "DocsNavSection list" where
  "DOCS_NAV =
     [
      \<lparr>dn_title = ''Overview'', dn_items = [
        \<lparr>di_title = ''Introduction'', di_href = ''/developers/docs''\<rparr>,
        \<lparr>di_title = ''Getting started'', di_href = ''/developers/docs/getting-started''\<rparr>,
        \<lparr>di_title = ''Authentication'', di_href = ''/developers/docs/authentication''\<rparr>]\<rparr>,
      \<lparr>dn_title = ''Endpoints'', dn_items = [
        \<lparr>di_title = ''Geocoding'', di_href = ''/developers/docs/geocoding''\<rparr>,
        \<lparr>di_title = ''Routing'', di_href = ''/developers/docs/routing''\<rparr>]\<rparr>,
      \<lparr>dn_title = ''Guides'', dn_items = [
        \<lparr>di_title = ''Errors'', di_href = ''/developers/docs/errors''\<rparr>,
        \<lparr>di_title = ''Rate limits'', di_href = ''/developers/docs/rate-limits''\<rparr>,
        \<lparr>di_title = ''Versioning'', di_href = ''/developers/docs/versioning''\<rparr>,
        \<lparr>di_title = ''Code examples'', di_href = ''/developers/docs/examples''\<rparr>]\<rparr>,
      \<lparr>dn_title = ''Reference'', dn_items = [
        \<lparr>di_title = ''API reference'', di_href = ''/developers/api-reference''\<rparr>]\<rparr>
     ]"

definition DOCS_TOC :: "(string \<times> TocEntry list) list" where
  "DOCS_TOC =
     [
      (''introduction'', [
        \<lparr>te_id = ''what-you-can-build'', te_title = ''What you can build''\<rparr>,
        \<lparr>te_id = ''base-url'', te_title = ''Base URL''\<rparr>,
        \<lparr>te_id = ''conventions'', te_title = ''Conventions''\<rparr>,
        \<lparr>te_id = ''data-sources'', te_title = ''Data sources''\<rparr>,
        \<lparr>te_id = ''next-steps'', te_title = ''Next steps''\<rparr>]),
      (''getting-started'', [
        \<lparr>te_id = ''create-an-account'', te_title = ''1. Create an account''\<rparr>,
        \<lparr>te_id = ''create-an-api-key'', te_title = ''2. Create an API key''\<rparr>,
        \<lparr>te_id = ''make-your-first-request'', te_title = ''3. Make your first request''\<rparr>,
        \<lparr>te_id = ''read-the-response'', te_title = ''4. Read the response''\<rparr>,
        \<lparr>te_id = ''integrate'', te_title = ''5. Integrate''\<rparr>]),
      (''authentication'', [
        \<lparr>te_id = ''api-keys'', te_title = ''API keys''\<rparr>,
        \<lparr>te_id = ''sending-your-key'', te_title = ''Sending your key''\<rparr>,
        \<lparr>te_id = ''keeping-keys-safe'', te_title = ''Keeping keys safe''\<rparr>,
        \<lparr>te_id = ''managing-keys'', te_title = ''Managing keys''\<rparr>,
        \<lparr>te_id = ''playground-tokens'', te_title = ''Playground tokens''\<rparr>,
        \<lparr>te_id = ''authentication-errors'', te_title = ''Authentication errors''\<rparr>]),
      (''geocoding'', [
        \<lparr>te_id = ''request'', te_title = ''Request''\<rparr>,
        \<lparr>te_id = ''parameters'', te_title = ''Parameters''\<rparr>,
        \<lparr>te_id = ''example'', te_title = ''Example''\<rparr>,
        \<lparr>te_id = ''response'', te_title = ''Response''\<rparr>,
        \<lparr>te_id = ''ranking'', te_title = ''Ranking''\<rparr>,
        \<lparr>te_id = ''reverse'', te_title = ''Reverse geocoding''\<rparr>,
        \<lparr>te_id = ''errors'', te_title = ''Errors''\<rparr>,
        \<lparr>te_id = ''try-it'', te_title = ''Try it''\<rparr>]),
      (''routing'', [
        \<lparr>te_id = ''request'', te_title = ''Request''\<rparr>,
        \<lparr>te_id = ''parameters'', te_title = ''Parameters''\<rparr>,
        \<lparr>te_id = ''example'', te_title = ''Example''\<rparr>,
        \<lparr>te_id = ''response'', te_title = ''Response''\<rparr>,
        \<lparr>te_id = ''travel-modes'', te_title = ''Travel modes''\<rparr>,
        \<lparr>te_id = ''snapping'', te_title = ''Snapping to roads''\<rparr>,
        \<lparr>te_id = ''errors'', te_title = ''Errors''\<rparr>,
        \<lparr>te_id = ''try-it'', te_title = ''Try it''\<rparr>]),
      (''errors'', [
        \<lparr>te_id = ''error-format'', te_title = ''Error format''\<rparr>,
        \<lparr>te_id = ''error-codes'', te_title = ''Error codes''\<rparr>,
        \<lparr>te_id = ''handling-errors'', te_title = ''Handling errors''\<rparr>,
        \<lparr>te_id = ''request-ids'', te_title = ''Request IDs''\<rparr>]),
      (''rate-limits'', [
        \<lparr>te_id = ''limits'', te_title = ''Limits''\<rparr>,
        \<lparr>te_id = ''headers'', te_title = ''Response headers''\<rparr>,
        \<lparr>te_id = ''when-you-hit-the-limit'', te_title = ''When you hit the limit''\<rparr>,
        \<lparr>te_id = ''best-practices'', te_title = ''Best practices''\<rparr>]),
      (''versioning'', [
        \<lparr>te_id = ''versions'', te_title = ''Versions''\<rparr>,
        \<lparr>te_id = ''compatible-changes'', te_title = ''Compatible changes''\<rparr>,
        \<lparr>te_id = ''breaking-changes'', te_title = ''Breaking changes''\<rparr>,
        \<lparr>te_id = ''deprecation'', te_title = ''Deprecation''\<rparr>]),
      (''examples'', [
        \<lparr>te_id = ''curl'', te_title = ''cURL''\<rparr>,
        \<lparr>te_id = ''javascript'', te_title = ''JavaScript''\<rparr>,
        \<lparr>te_id = ''typescript'', te_title = ''TypeScript''\<rparr>,
        \<lparr>te_id = ''python'', te_title = ''Python''\<rparr>,
        \<lparr>te_id = ''flutter-dart'', te_title = ''Flutter / Dart''\<rparr>])
     ]"

definition DOCS_PAGES :: "DocsNavItem list" where
  "DOCS_PAGES = filter (\<lambda>item. starts_with (di_href item) ''/developers/docs'') (concat (map dn_items DOCS_NAV))"

definition isActiveDocsLink :: "string \<Rightarrow> string \<Rightarrow> bool" where
  "isActiveDocsLink pathname href =
     (let normalized = (if strip_slashes pathname = [] then ''/'' else strip_slashes pathname) in normalized = href)"

section \<open>The navigation of the console and the site\<close>

text \<open>The icons are left out.\<close>

record ConsoleNavItem =
  cn_href :: string
  cn_labelKey :: string
  cn_exact :: bool
  cn_external :: bool

definition CONSOLE_NAV :: "ConsoleNavItem list" where
  "CONSOLE_NAV =
     [\<lparr>cn_href = ''/dashboard'', cn_labelKey = ''dashboard.nav.home'', cn_exact = True, cn_external = False\<rparr>,
      \<lparr>cn_href = ''/dashboard/api-keys'', cn_labelKey = ''dashboard.nav.apiKeys'', cn_exact = False, cn_external = False\<rparr>,
      \<lparr>cn_href = ''/dashboard/usage'', cn_labelKey = ''dashboard.nav.usage'', cn_exact = False, cn_external = False\<rparr>,
      \<lparr>cn_href = ''/dashboard/billing'', cn_labelKey = ''dashboard.nav.billing'', cn_exact = False, cn_external = False\<rparr>,
      \<lparr>cn_href = ''/developers/api-reference'', cn_labelKey = ''dashboard.nav.apiPlayground'', cn_exact = False, cn_external = True\<rparr>,
      \<lparr>cn_href = ''/developers/docs'', cn_labelKey = ''dashboard.nav.docs'', cn_exact = False, cn_external = True\<rparr>,
      \<lparr>cn_href = ''/'', cn_labelKey = ''dashboard.nav.map'', cn_exact = False, cn_external = True\<rparr>]"

definition SETTINGS_NAV :: "ConsoleNavItem list" where
  "SETTINGS_NAV = [\<lparr>cn_href = ''/dashboard/settings'', cn_labelKey = ''dashboard.nav.settings'', cn_exact = False, cn_external = False\<rparr>]"

definition isActive :: "ConsoleNavItem \<Rightarrow> string \<Rightarrow> bool" where
  "isActive item pathname =
     (if cn_external item then False
      else if cn_exact item then pathname = cn_href item
      else pathname = cn_href item \<or> starts_with pathname (cn_href item @ ''/''))"

record NavItem =
  ni_href :: string
  ni_labelKey :: string
  ni_match :: "string \<Rightarrow> bool"

definition PUBLIC_NAV :: "NavItem list" where
  "PUBLIC_NAV =
     [\<lparr>ni_href = ''/'', ni_labelKey = ''nav.map'', ni_match = (\<lambda>p. p = ''/'')\<rparr>,
      \<lparr>ni_href = ''/developers'', ni_labelKey = ''nav.developers'', ni_match = (\<lambda>p. p = ''/developers'')\<rparr>,
      \<lparr>ni_href = ''/pricing'', ni_labelKey = ''nav.pricing'', ni_match = (\<lambda>p. p = ''/pricing'')\<rparr>,
      \<lparr>ni_href = ''/developers/docs'', ni_labelKey = ''nav.documentation'', ni_match = (\<lambda>p. starts_with p ''/developers/docs'')\<rparr>,
      \<lparr>ni_href = ''/developers/api-reference'', ni_labelKey = ''nav.apiReference'',
       ni_match = (\<lambda>p. starts_with p ''/developers/api-reference'')\<rparr>]"

definition DASHBOARD_NAV :: NavItem where
  "DASHBOARD_NAV = \<lparr>ni_href = ''/dashboard'', ni_labelKey = ''authNav.dashboard'', ni_match = (\<lambda>p. starts_with p ''/dashboard'')\<rparr>"

section \<open>lib/i18n\<close>

definition LOCALES :: "string list" where
  "LOCALES = [''en'', ''mn'']"

definition DEFAULT_LOCALE :: string where
  "DEFAULT_LOCALE = ''en''"

definition isLocale :: "json \<Rightarrow> bool" where
  "isLocale v = (case v of JStr s \<Rightarrow> s \<in> set LOCALES | _ \<Rightarrow> False)"

text \<open>\<open>getLocale\<close>, of the value of the cookie.\<close>

definition getLocale :: "string option \<Rightarrow> string" where
  "getLocale cookie = (case cookie of Some v \<Rightarrow> if isLocale (JStr v) then v else DEFAULT_LOCALE | None \<Rightarrow> DEFAULT_LOCALE)"

definition is_word :: "char \<Rightarrow> bool" where
  "is_word c = (is_alnum c \<or> c = CHR ''_'')"

text \<open>\<open>value.replace(/\{(\w+)\}/g, \<dots>)\<close>.\<close>

function interpolate :: "(string \<Rightarrow> string option) \<Rightarrow> string \<Rightarrow> string" where
  "interpolate vars [] = []"
| "interpolate vars (c # s) =
     (let name = takeWhile is_word s; rest = dropWhile is_word s in
      if c = CHR ''{'' \<and> name \<noteq> [] \<and> rest \<noteq> [] \<and> hd rest = CHR ''}''
      then withDefault (vars name) (''{'' @ name @ ''}'') @ interpolate vars (tl rest)
      else c # interpolate vars s)"
  by pat_completeness auto
termination
  by (relation "measure (\<lambda>(vars, s). length s)") (auto simp: less_Suc_eq_le length_dropWhile_le le_diff_conv intro: le_SucI)

text \<open>The messages are objects of objects and text.\<close>

definition translate :: "json \<Rightarrow> string \<Rightarrow> (string \<Rightarrow> string option) option \<Rightarrow> string" where
  "translate messages path vars =
     (case fold (\<lambda>key node. case node of None \<Rightarrow> None | Some n \<Rightarrow> jfield key n) (split_on (CHR ''.'') path) (Some messages) of
        Some (JStr s) \<Rightarrow> (case vars of None \<Rightarrow> s | Some vs \<Rightarrow> interpolate vs s)
      | _ \<Rightarrow> path)"

section \<open>lib/highlight.ts\<close>

definition MAX_CACHE_ENTRIES :: nat where
  "MAX_CACHE_ENTRIES = 500"

text \<open>The cache in insertion order. \<open>render\<close> is the highlighter; the entry of a failed rendering is deleted when it
  fails, by \<open>forget\<close>.\<close>

type_synonym htmlCache = "(string \<times> string) list"

definition cacheKey :: "string \<Rightarrow> string \<Rightarrow> string" where
  "cacheKey lang sample = lang @ [CHR 0x00] @ sample"

definition highlight :: "(string \<Rightarrow> string \<Rightarrow> string) \<Rightarrow> string \<Rightarrow> string \<Rightarrow> htmlCache \<Rightarrow> string \<times> htmlCache" where
  "highlight render sample lang cache =
     (case map_of cache (cacheKey lang sample) of
        Some html \<Rightarrow> (html, cache)
      | None \<Rightarrow>
          (let html = render lang (rev (dropWhile is_space (rev sample)));
               kept = (if MAX_CACHE_ENTRIES \<le> length cache then tl cache else cache) in
           (html, kept @ [(cacheKey lang sample, html)])))"

definition forget :: "string \<Rightarrow> string \<Rightarrow> htmlCache \<Rightarrow> htmlCache" where
  "forget lang sample cache = filter (\<lambda>(k, html). k \<noteq> cacheKey lang sample) cache"

end
