(* ===== verification/Dashboard.thy ===== *)
theory Dashboard
  imports Urls Keys
begin

text \<open>
  The console's own logic: texts of numbers (\<open>lib/format.ts\<close>, \<open>components/dashboard/format.ts\<close>), the choices for a
  new key (\<open>key-options.ts\<close>, \<open>create-key-dialog.tsx\<close>), and the chart of requests (\<open>chart-scale.ts\<close>,
  \<open>requests-chart.tsx\<close>). \<open>Intl\<close> formats and the local time zone are arguments. Numbers are exact rationals.
\<close>

section \<open>Texts of numbers\<close>

definition formatDistance :: "rat \<Rightarrow> string" where
  "formatDistance meters =
     (if meters < 1000 then show_int (js_round meters) @ '' m''
      else (let km = meters / 1000 in (if km < 10 then toFixed 1 km else show_int (js_round km)) @ '' km''))"

definition formatDuration :: "rat \<Rightarrow> string" where
  "formatDuration seconds =
     (let minutes = js_round (seconds / 60) in
      if minutes < 1 then ''< 1 min''
      else if minutes < 60 then show_int minutes @ '' min''
      else (let hours = minutes div 60; rest = minutes mod 60 in
        if rest \<noteq> 0 then show_int hours @ '' h '' @ show_int rest @ '' min'' else show_int hours @ '' h''))"

definition formatCoordinate :: "rat \<Rightarrow> nat \<Rightarrow> string" where
  "formatCoordinate v digits = toFixed digits v"

definition UNITS :: "(string \<times> int) list" where
  "UNITS = [(''year'', 365 * 24 * 3600), (''month'', 30 * 24 * 3600), (''week'', 7 * 24 * 3600), (''day'', 24 * 3600),
     (''hour'', 3600), (''minute'', 60)]"

text \<open>\<open>relative\<close> is the format of a number of units.\<close>

definition formatRelativeTime :: "(int \<Rightarrow> string \<Rightarrow> string) \<Rightarrow> int \<Rightarrow> int \<Rightarrow> string" where
  "formatRelativeTime relative timestamp now =
     (let seconds = js_round (of_int (timestamp - now) / 1000) in
      case find (\<lambda>(name, secs). secs \<le> \<bar>seconds\<bar>) UNITS of
        Some (name, secs) \<Rightarrow> relative (js_round (of_int seconds / of_int secs)) name
      | None \<Rightarrow> ''just now'')"

text \<open>\<open>formatNumber\<close> and \<open>short\<close> (\<open>compact\<close>) are number formats.\<close>

definition formatStat :: "(rat \<Rightarrow> string) \<Rightarrow> (rat \<Rightarrow> string) \<Rightarrow> rat \<Rightarrow> string" where
  "formatStat formatNumber short v = (if \<bar>v\<bar> < 100000 then formatNumber v else short v)"

definition formatPercent :: "rat \<Rightarrow> rat \<Rightarrow> string" where
  "formatPercent part whole =
     (if whole = 0 then [CHR 0xE2, CHR 0x80, CHR 0x94]
      else (let percent = part / whole * 100 in
        (if 9995 / 100 \<le> percent \<or> percent = 0 then toFixed 0 percent else toFixed 1 percent) @ ''%''))"

definition formatLatency :: "(rat \<Rightarrow> string) \<Rightarrow> rat \<Rightarrow> string" where
  "formatLatency formatNumber ms = formatNumber (of_int (js_round ms)) @ '' ms''"

section \<open>The choices for a new key\<close>

record KeyEndpoint =
  ke_id :: string
  ke_label :: string
  ke_shortLabel :: string
  ke_path :: string

definition KEY_ENDPOINTS :: "KeyEndpoint list" where
  "KEY_ENDPOINTS =
     [\<lparr>ke_id = ''geocode'', ke_label = ''Geocoding'', ke_shortLabel = ''Geocoding'', ke_path = ''/v1/geocode''\<rparr>,
      \<lparr>ke_id = ''route'', ke_label = ''Routing'', ke_shortLabel = ''Routing'', ke_path = ''/v1/route''\<rparr>]"

definition KEY_ENDPOINT_IDS :: "string list" where
  "KEY_ENDPOINT_IDS = map ke_id KEY_ENDPOINTS"

datatype ExpiryChoice = Days30 | Days60 | Days90 | Days365 | Custom | Never

definition EXPIRY_CHOICES :: "(ExpiryChoice \<times> string \<times> string) list" where
  "EXPIRY_CHOICES =
     [(Days30, ''30'', ''30 days''), (Days60, ''60'', ''60 days''), (Days90, ''90'', ''90 days''), (Days365, ''365'', ''1 year''),
      (Custom, ''custom'', ''Custom date''), (Never, ''never'', ''Never'')]"

definition DEFAULT_EXPIRY :: ExpiryChoice where
  "DEFAULT_EXPIRY = Days90"

definition KEY_DAY_MS :: int where
  "KEY_DAY_MS = 24 * 60 * 60 * 1000"

text \<open>The user's time zone: the last millisecond of a year, month (from 1) and day, as \<open>new Date\<close> gives it, and the year,
  month and day of a time.\<close>

record zone =
  zn_endOfDay :: "nat \<Rightarrow> nat \<Rightarrow> nat \<Rightarrow> int"
  zn_date :: "int \<Rightarrow> nat \<times> nat \<times> nat"

definition toDateInputValue :: "zone \<Rightarrow> int \<Rightarrow> string" where
  "toDateInputValue Z t =
     (case zn_date Z t of (y, m, d) \<Rightarrow> show_nat y @ ''-'' @ pad_start 2 (show_nat m) @ ''-'' @ pad_start 2 (show_nat d))"

text \<open>\<open>/^(\d{4})-(\d{2})-(\d{2})$/\<close>.\<close>

definition dateParts :: "string \<Rightarrow> (nat \<times> nat \<times> nat) option" where
  "dateParts s =
     (case split_on (CHR ''-'') s of
        [y, m, d] \<Rightarrow>
          if length y = 4 \<and> length m = 2 \<and> length d = 2 \<and> list_all is_digit (y @ m @ d)
          then Some (digits_value y, digits_value m, digits_value d) else None
      | _ \<Rightarrow> None)"

definition endOfDay :: "zone \<Rightarrow> string \<Rightarrow> int option" where
  "endOfDay Z s =
     (case dateParts s of
        None \<Rightarrow> None
      | Some (y, m, d) \<Rightarrow>
          (let t = zn_endOfDay Z y m d in if fst (snd (zn_date Z t)) = m then Some t else None))"

fun choiceDays :: "ExpiryChoice \<Rightarrow> int" where
  "choiceDays Days30 = 30"
| "choiceDays Days60 = 60"
| "choiceDays Days90 = 90"
| "choiceDays Days365 = 365"
| "choiceDays Custom = 0"
| "choiceDays Never = 0"

definition expiresAtFor :: "zone \<Rightarrow> ExpiryChoice \<Rightarrow> string \<Rightarrow> int \<Rightarrow> int option" where
  "expiresAtFor Z choice customDate now =
     (if choice = Never then None
      else if choice = Custom then endOfDay Z customDate
      else Some (now + choiceDays choice * KEY_DAY_MS))"

section \<open>The dialog\<close>

definition FORM_MAX_KEY_NAME :: nat where
  "FORM_MAX_KEY_NAME = 100"

record CreateKeyForm =
  cf_name :: string
  cf_endpoints :: "string list"
  cf_expiry :: ExpiryChoice
  cf_customDate :: string

text \<open>The check of a custom date, with the bounds of the picker; texts compare by code units.\<close>

definition customDateIssue :: "zone \<Rightarrow> string \<times> string \<Rightarrow> CreateKeyForm \<Rightarrow> string option" where
  "customDateIssue Z bounds v =
     (if cf_expiry v \<noteq> Custom then None
      else if endOfDay Z (cf_customDate v) = None then Some ''Pick the date the key stops working.''
      else if ord_class.lexordp (map code (cf_customDate v)) (map code (fst bounds)) then Some ''Pick a date after today.''
      else if ord_class.lexordp (map code (snd bounds)) (map code (cf_customDate v)) then Some ''Pick a date within 5 years.''
      else None)"

text \<open>The values the form submits when every rule accepts them.\<close>

definition createKeySchema :: "zone \<Rightarrow> string \<times> string \<Rightarrow> CreateKeyForm \<Rightarrow> CreateKeyForm option" where
  "createKeySchema Z bounds v =
     (let n = trim (cf_name v) in
      if n \<noteq> [] \<and> length n \<le> FORM_MAX_KEY_NAME
         \<and> list_all (\<lambda>e. e \<in> set KEY_ENDPOINT_IDS) (cf_endpoints v) \<and> cf_endpoints v \<noteq> []
         \<and> customDateIssue Z bounds v = None
      then Some (v\<lparr>cf_name := n\<rparr>) else None)"

definition KEY_FORM_DEFAULTS :: CreateKeyForm where
  "KEY_FORM_DEFAULTS = \<lparr>cf_name = [], cf_endpoints = KEY_ENDPOINT_IDS, cf_expiry = DEFAULT_EXPIRY, cf_customDate = []\<rparr>"

record CreateKeyValues =
  cv_name :: string
  cv_endpoints :: "string list"
  cv_expiresAt :: "int option"

definition toCreateValues :: "zone \<Rightarrow> int \<Rightarrow> CreateKeyForm \<Rightarrow> CreateKeyValues" where
  "toCreateValues Z now v = \<lparr>cv_name = cf_name v, cv_endpoints = cf_endpoints v,
     cv_expiresAt = expiresAtFor Z (cf_expiry v) (cf_customDate v) now\<rparr>"

section \<open>The chart\<close>

text \<open>\<open>10 ** Math.floor(Math.log10(n / 4))\<close> of a count \<open>n\<close>, at least one tenth: the smallest useful magnitude.\<close>

fun magnitude :: "nat \<Rightarrow> rat" where
  "magnitude n = (if n < 4 then 1 / 10 else if n < 40 then 1 else 10 * magnitude (n div 10))"

declare magnitude.simps [simp del]

definition niceStep :: "nat \<Rightarrow> rat" where
  "niceStep maximum =
     (let rough = of_nat maximum / 4; mag = magnitude maximum in
      max 1 (case find (\<lambda>s. rough \<le> s) (map (\<lambda>m. m * mag) [1, 2, 5, 10]) of Some s \<Rightarrow> s | None \<Rightarrow> 10 * mag))"

text \<open>The loop \<open>for (value = 0; value <= top + step / 2; value += step)\<close> of a \<open>top\<close> that is a multiple of the step.\<close>

definition niceTicks :: "nat \<Rightarrow> rat list" where
  "niceTicks maximum =
     (if maximum = 0 then [0, 1, 2, 3, 4]
      else (let step = niceStep maximum; n = nat \<lceil>of_nat maximum / step\<rceil> in map (\<lambda>i. of_nat i * step) [0..<n + 1]))"

definition num :: "rat \<Rightarrow> string" where
  "num r = js_String (Num r)"

definition columnPath :: "rat \<Rightarrow> rat \<Rightarrow> rat \<Rightarrow> rat \<Rightarrow> rat \<Rightarrow> string" where
  "columnPath x y width height radius =
     (if height \<le> 0 \<or> width \<le> 0 then []
      else (let r = min (min radius (width / 2)) height; bottom = y + height in
        join '' '' [''M'' @ num x @ '','' @ num bottom, ''V'' @ num (y + r),
          ''Q'' @ num x @ '','' @ num y @ '' '' @ num (x + r) @ '','' @ num y,
          ''H'' @ num (x + width - r),
          ''Q'' @ num (x + width) @ '','' @ num y @ '' '' @ num (x + width) @ '','' @ num (y + r),
          ''V'' @ num bottom, ''Z'']))"

record DailyCounts =
  dc_day :: string
  dc_total :: nat
  dc_successful :: nat
  dc_failed :: nat

definition chartTotals :: "DailyCounts list \<Rightarrow> nat \<times> nat \<times> nat" where
  "chartTotals data =
     fold (\<lambda>d (t, s, f). (t + dc_total d, s + dc_successful d, f + dc_failed d)) data (0, 0, 0)"

text \<open>The first day with the highest total.\<close>

definition peakIndex :: "DailyCounts list \<Rightarrow> nat" where
  "peakIndex data = fold (\<lambda>i best. if dc_total (data ! best) < dc_total (data ! i) then i else best) [0..<length data] 0"

record margin =
  mg_top :: rat
  mg_right :: rat
  mg_bottom :: rat
  mg_left :: rat

definition HEIGHT :: rat where
  "HEIGHT = 220"

definition MARGIN :: margin where
  "MARGIN = \<lparr>mg_top = 20, mg_right = 8, mg_bottom = 28, mg_left = 44\<rparr>"

definition MAX_BAR_WIDTH :: rat where
  "MAX_BAR_WIDTH = 24"

definition X_LABEL_COUNT :: int where
  "X_LABEL_COUNT = 5"

definition X_LABEL_MIN_SPACING :: rat where
  "X_LABEL_MIN_SPACING = 56"

record layout =
  ly_plotWidth :: rat
  ly_plotHeight :: rat
  ly_yMax :: rat
  ly_band :: rat
  ly_barWidth :: rat
  ly_labelEvery :: int

definition chartLayout :: "rat \<Rightarrow> DailyCounts list \<Rightarrow> layout" where
  "chartLayout width data =
     (let n = length data;
          plotWidth = max 10 (width - mg_left MARGIN - mg_right MARGIN);
          ticks = niceTicks (fold max (map dc_total data) 0);
          band = plotWidth / of_nat (max 1 n);
          labelCount = max 2 (min X_LABEL_COUNT \<lfloor>plotWidth / X_LABEL_MIN_SPACING\<rfloor>) in
      \<lparr>ly_plotWidth = plotWidth, ly_plotHeight = HEIGHT - mg_top MARGIN - mg_bottom MARGIN,
       ly_yMax = (if last ticks = 0 then 1 else last ticks), ly_band = band,
       ly_barWidth = max 2 (min MAX_BAR_WIDTH (band * 7 / 10)),
       ly_labelEvery = max 1 \<lceil>of_nat n / (of_int labelCount :: rat)\<rceil>\<rparr>)"

definition chartY :: "layout \<Rightarrow> rat \<Rightarrow> rat" where
  "chartY L v = mg_top MARGIN + ly_plotHeight L - v / ly_yMax L * ly_plotHeight L"

definition showLabel :: "layout \<Rightarrow> nat \<Rightarrow> nat \<Rightarrow> bool" where
  "showLabel L n i = (i = n - 1 \<or> (int i mod ly_labelEvery L = 0 \<and> X_LABEL_MIN_SPACING \<le> of_int (int n - 1 - int i) * ly_band L))"

text \<open>The column a key moves the focus to.\<close>

definition focusAfter :: "nat \<Rightarrow> string \<Rightarrow> nat \<Rightarrow> nat option" where
  "focusAfter n key index =
     (if key = ''ArrowRight'' then Some (min (n - 1) (index + 1))
      else if key = ''ArrowLeft'' then Some (index - 1)
      else if key = ''Home'' then Some 0
      else if key = ''End'' then Some (n - 1)
      else None)"

end
