(* ===== verification/DashboardProps.thy ===== *)
theory DashboardProps
  imports Dashboard
begin

text \<open>
  The dialog for a new key against the backend's rules, and the axis of the chart.
\<close>

lemma collapse_length: "length (collapse_spaces s) \<le> length s"
proof (induction s rule: collapse_spaces.induct)
  case (2 c s)
  then show ?case using length_dropWhile_le [of is_space s] by (auto simp: Let_def)
qed simp

lemma collapse_nonempty: "s \<noteq> [] \<Longrightarrow> collapse_spaces s \<noteq> []"
  by (cases s) (auto simp: Let_def)

lemma trim_idem_key: "trim (trim s) = trim s"
  by (rule trim_id) (use trim_first trim_last in auto)

text \<open>The dialog and the backend agree: whatever the dialog for a new key submits, with any of the choices but a
  custom date, is accepted by the backend's checks of the name, the endpoints and the expiry, at the same or a
  later time within an hour; the endpoints stored are those chosen, and the expiry is the one shown.\<close>
theorem key_form_accepted:
  assumes "createKeySchema Z bounds v = Some w" and "cf_expiry w \<noteq> Custom"
    and "now \<le> later" and "later \<le> now + 60 * 60 * 1000"
  shows "(\<exists>name. cleanKeyName (cv_name (toCreateValues Z now w)) = Inr name)
    \<and> (\<exists>es. cleanEndpoints (cv_endpoints (toCreateValues Z now w)) = Inr es \<and> set es = set (cf_endpoints w))
    \<and> cleanExpiresAt (map_option (\<lambda>t. Num (of_int t)) (cv_expiresAt (toCreateValues Z now w))) later
        = Inr (cv_expiresAt (toCreateValues Z now w))"
proof (intro conjI)
  have w: "cf_name w = trim (cf_name v)" "cf_name w \<noteq> []" "length (cf_name w) \<le> 100" "cf_endpoints w \<noteq> []"
      "set (cf_endpoints w) \<subseteq> set KEY_ENDPOINT_IDS"
    using assms(1) by (auto simp: createKeySchema_def Let_def FORM_MAX_KEY_NAME_def list_all_iff split: if_splits)
  have "length (collapse_spaces (cf_name w)) \<le> 100" using collapse_length [of "cf_name w"] w(3) by simp
  then show "\<exists>name. cleanKeyName (cv_name (toCreateValues Z now w)) = Inr name"
    using collapse_nonempty [OF w(2)] w(1)
    by (simp add: cleanKeyName_def toCreateValues_def trim_idem_key Let_def MAX_KEY_NAME_LENGTH_def)
  have ids: "set KEY_ENDPOINT_IDS = set API_ENDPOINTS" by (simp add: KEY_ENDPOINT_IDS_def KEY_ENDPOINTS_def API_ENDPOINTS_def)
  let ?es = "filter (\<lambda>e. e \<in> set (cf_endpoints w)) API_ENDPOINTS"
  have es: "set ?es = set (cf_endpoints w)" using w(5) ids by auto
  with w(4) have "?es \<noteq> []" by (metis set_empty)
  with es show "\<exists>es. cleanEndpoints (cv_endpoints (toCreateValues Z now w)) = Inr es \<and> set es = set (cf_endpoints w)"
    by (simp add: cleanEndpoints_def toCreateValues_def Let_def)
  show "cleanExpiresAt (map_option (\<lambda>t. Num (of_int t)) (cv_expiresAt (toCreateValues Z now w))) later
        = Inr (cv_expiresAt (toCreateValues Z now w))"
  proof (cases "cf_expiry w = Never")
    case True
    then show ?thesis by (simp add: toCreateValues_def expiresAtFor_def cleanExpiresAt_def)
  next
    case False
    let ?t = "now + choiceDays (cf_expiry w) * KEY_DAY_MS"
    have "30 \<le> choiceDays (cf_expiry w)" "choiceDays (cf_expiry w) \<le> 365"
      using False assms(2) by (cases "cf_expiry w"; simp)+
    then have "later + MIN_KEY_LIFETIME_MS \<le> ?t" "?t \<le> later + MAX_KEY_LIFETIME_MS"
      using assms(3,4) by (simp_all add: KEY_DAY_MS_def MIN_KEY_LIFETIME_MS_def MAX_KEY_LIFETIME_MS_def)
    then have "\<not> (of_int ?t :: rat) < of_int (later + MIN_KEY_LIFETIME_MS)"
        "\<not> of_int (later + MAX_KEY_LIFETIME_MS) < (of_int ?t :: rat)"
      unfolding of_int_less_iff by simp_all
    then have "cleanExpiresAt (Some (Num (of_int ?t))) later = Inr (Some ?t)"
      by (simp only: cleanExpiresAt_def option.case jsnum.case if_False floor_of_int)
    moreover have "cv_expiresAt (toCreateValues Z now w) = Some ?t"
      using False assms(2) by (simp add: toCreateValues_def expiresAtFor_def)
    ultimately show ?thesis by (simp only: option.map)
  qed
qed

definition utcZone :: zone where
  "utcZone = \<lparr>zn_endOfDay = (\<lambda>y m d. 0), zn_date = (\<lambda>t. (1970, 1, 1))\<rparr>"

theorem key_form_accepted_witness:
  "\<exists>name es. cleanKeyName ''Web app'' = Inr name \<and> cleanEndpoints [''geocode'', ''route''] = Inr es
    \<and> cleanExpiresAt (Some (Num (of_int (90 * KEY_DAY_MS)))) 1000 = Inr (Some (90 * KEY_DAY_MS))"
proof -
  let ?v = "KEY_FORM_DEFAULTS\<lparr>cf_name := '' Web app ''\<rparr>" and ?w = "KEY_FORM_DEFAULTS\<lparr>cf_name := ''Web app''\<rparr>"
  have "createKeySchema utcZone ([], []) ?v = Some ?w" by code_simp
  from key_form_accepted [OF this, of 0 1000]
  show ?thesis by (simp add: KEY_FORM_DEFAULTS_def DEFAULT_EXPIRY_def toCreateValues_def expiresAtFor_def KEY_ENDPOINT_IDS_def
        KEY_ENDPOINTS_def) blast
qed

section \<open>The axis\<close>

lemma magnitude_pos: "0 < magnitude n"
  by (induction n rule: magnitude.induct) (subst magnitude.simps, auto)

lemma magnitude_bound: "\<exists>k. 40 * magnitude n = of_nat k \<and> n < k"
proof (induction n rule: magnitude.induct)
  case (1 n)
  show ?case
  proof (cases "n < 40")
    case True
    then show ?thesis
      by (intro exI [of _ "if n < 4 then 4 else 40"]) (simp add: magnitude.simps [of n])
  next
    case False
    with 1 obtain k where k: "40 * magnitude (n div 10) = of_nat k" "n div 10 < k" by auto
    have "40 * magnitude n = of_nat (10 * k)" using False k(1) by (simp add: magnitude.simps [of n])
    moreover have "n < 10 * k" using k(2) by linarith
    ultimately show ?thesis by blast
  qed
qed

lemma niceStep_bounds: "1 \<le> niceStep n \<and> of_nat n / 4 \<le> niceStep n"
proof -
  obtain k where k: "40 * magnitude n = of_nat k" "n < k" using magnitude_bound by blast
  have "of_nat n / 4 \<le> 10 * magnitude n"
  proof -
    have "of_nat n \<le> (of_nat k :: rat)" using k(2) by simp
    then show ?thesis using k(1) by linarith
  qed
  then show ?thesis
    by (auto simp: niceStep_def Let_def le_max_iff_disj find_Some_iff split: option.splits)
qed

text \<open>The axis covers the data: it starts at 0, its ticks are one whole step apart, the last one is at or above the
  largest value, and there are at most five of them.\<close>

lemma niceTicks_cover:
  "(niceTicks n) ! 0 = 0 \<and> of_nat n \<le> last (niceTicks n) \<and> length (niceTicks n) \<le> 5
   \<and> (0 < n \<longrightarrow> (\<forall>i < length (niceTicks n). niceTicks n ! i = of_nat i * niceStep n))"
proof (cases "n = 0")
  case True
  then show ?thesis by (simp add: niceTicks_def)
next
  case False
  let ?s = "niceStep n" and ?c = "nat \<lceil>of_nat n / niceStep n\<rceil>"
  have s: "0 < ?s" "of_nat n / 4 \<le> ?s" using niceStep_bounds [of n] by auto
  then have "of_nat n / ?s \<le> 4" by (simp add: field_simps)
  then have "\<lceil>of_nat n / ?s\<rceil> \<le> 4" by (simp add: ceiling_le_iff)
  then have "?c \<le> 4" unfolding nat_le_iff by simp
  moreover have "of_nat n \<le> of_nat ?c * ?s"
  proof -
    have "0 \<le> of_nat n / ?s" using s(1) by simp
    then have "of_nat ?c = (of_int \<lceil>of_nat n / ?s\<rceil> :: rat)" by (simp add: of_nat_nat)
    then have "of_nat n / ?s \<le> of_nat ?c" using le_of_int_ceiling by metis
    from this [unfolded pos_divide_le_eq [OF s(1)]] show ?thesis .
  qed
  moreover have "niceTicks n = map (\<lambda>i. of_nat i * ?s) [0..<?c + 1]" using False by (simp add: niceTicks_def Let_def)
  moreover from this have "last (niceTicks n) = of_nat ?c * ?s" "length (niceTicks n) = ?c + 1" by simp_all
  ultimately show ?thesis by (auto simp: nth_append simp del: upt_Suc)
qed

end
