(* ===== verification/System.thy ===== *)
theory System
  imports Runs AuthorizeRuns UsageLedger AdminProps PaymentsProps MaintenanceProps Users
begin

text \<open>
  The backend as a whole: a step is one committed transaction, of any of its operations, at any time and with any
  arguments. Convex runs transactions one after the other, so a run is a sequence of steps. The random secrets
  are new: a step that stores a hash assumes that no row has it. Accounts and sessions are created by Convex Auth,
  whose writes are steps of their own. What a step never does is collected in \<open>keepsHistory\<close>: it does not change
  the time a key was revoked, its hash or its owner once it is revoked, nor a payment that is no longer pending.
\<close>

inductive transaction :: "host \<Rightarrow> db \<Rightarrow> db \<Rightarrow> bool" for H where
  authorize: "authorize H now args s = Inr (r, s') \<Longrightarrow> transaction H s s'"
| demo: "authorizeDemo H now dargs s = Inr (q, s') \<Longrightarrow> transaction H s s'"
| usage: "recordUsage H now entries s = Inr (rep, s') \<Longrightarrow> transaction H s s'"
| create: "insertKey now kargs s = Inr (keyId, s') \<Longrightarrow> freshKeyHash (i_keyHash kargs) s \<Longrightarrow> transaction H s s'"
| rename: "rename now auth keyId name s = Inr ((), s') \<Longrightarrow> transaction H s s'"
| revoke: "revoke now auth keyId s = Inr ((), s') \<Longrightarrow> transaction H s s'"
| regenerate: "replaceSecret now keyId userId pre h s = Inr ((), s') \<Longrightarrow> freshKeyHash h s \<Longrightarrow> transaction H s s'"
| token: "insertPlaygroundToken now tok s = Inr ((), s') \<Longrightarrow> freshTokenHash (t_tokenHash tok) s \<Longrightarrow> transaction H s s'"
| freeTier: "activateFreeTier now auth s = Inr ((), s') \<Longrightarrow> transaction H s s'"
| pending: "recordPending now userId plan intentId s = Inr (paymentId, s') \<Longrightarrow> transaction H s s'"
| settle: "settle now intentId succeeded amount currency s = Inr (settled, s') \<Longrightarrow> transaction H s s'"
| profile: "updateProfile now auth name s = Inr ((), s') \<Longrightarrow> transaction H s s'"
| operatorRevoke: "revokeKey now keyId s = Inr (revoked, s') \<Longrightarrow> transaction H s s'"
| lock: "lockUser now userId s = Inr (n, s') \<Longrightarrow> transaction H s s'"
| enable: "enableUser now email s = Inr (userId, s') \<Longrightarrow> transaction H s s'"
| siteKey: "upsertKey now vargs s = Inr ((), s') \<Longrightarrow> transaction H s s'"
| system: "upsertSystemUser H now s = Inr (userId, s') \<Longrightarrow> transaction H s s'"
| prune: "prune env now s = Inr (pruned, s') \<Longrightarrow> transaction H s s'"
| signUp: "transaction H s (snd (db_insert users_update now u s))"
| sessions: "transaction H s (s\<lparr>authSessions := sessions, authAccounts := accounts\<rparr>)"

inductive_cases transactionE: "transaction H s s'"

section \<open>What every step keeps\<close>

lemma wf_scheduled [simp]: "wf_db (s\<lparr>scheduled := x\<rparr>) = wf_db s"
  by (simp add: wf_defs)

definition sameRevoked :: "apiKey row \<Rightarrow> apiKey row \<Rightarrow> bool" where
  "sameRevoked r q \<longleftrightarrow> rid q = rid r \<and> k_userId (doc q) = k_userId (doc r) \<and> k_keyHash (doc q) = k_keyHash (doc r)
     \<and> k_revokedAt (doc q) = k_revokedAt (doc r)"

definition keepsHistory :: "db \<Rightarrow> db \<Rightarrow> bool" where
  "keepsHistory s s' \<longleftrightarrow>
     (\<forall>r \<in> set (apiKeys s). k_revokedAt (doc r) \<noteq> None \<longrightarrow> (\<exists>q \<in> set (apiKeys s'). sameRevoked r q))
     \<and> (\<forall>p \<in> set (payments s). p_status (doc p) \<noteq> Pending \<longrightarrow> p \<in> set (payments s'))"

lemma keepsHistory_trans: "keepsHistory s t \<Longrightarrow> keepsHistory t u \<Longrightarrow> keepsHistory s u"
  unfolding keepsHistory_def sameRevoked_def by (metis (no_types, lifting))

lemma keepsHistory_same: "apiKeys s' = apiKeys s \<Longrightarrow> payments s' = payments s \<Longrightarrow> keepsHistory s s'"
  by (auto simp: keepsHistory_def sameRevoked_def)

lemma keepsHistory_map:
  assumes "\<And>r. r \<in> set (apiKeys s) \<Longrightarrow> k_revokedAt (doc r) \<noteq> None \<Longrightarrow> g r \<in> set (apiKeys s') \<and> sameRevoked r (g r)"
    and "payments s' = payments s"
  shows "keepsHistory s s'"
  using assms unfolding keepsHistory_def by metis

lemma keepsHistory_audited: "keepsHistory s t \<Longrightarrow> keepsHistory s (audited now ev sev out k u d t)"
  by (simp add: keepsHistory_def)

definition stepInv :: "db \<Rightarrow> db \<Rightarrow> bool" where
  "stepInv s s' \<longleftrightarrow> wf_db s' \<and> keepsHistory s s'"

lemma stepInv_same: "wf_db s' \<Longrightarrow> apiKeys s' = apiKeys s \<Longrightarrow> payments s' = payments s \<Longrightarrow> stepInv s s'"
  by (simp add: stepInv_def keepsHistory_same)

lemma stepInv_audited: "stepInv s t \<Longrightarrow> stepInv s (audited now ev sev out k u d t)"
  by (simp add: stepInv_def keepsHistory_audited wf_db_audited)

lemma stepInv_refl: "wf_db s \<Longrightarrow> stepInv s s"
  by (rule stepInv_same) simp_all

lemma stepInv_users: "wf_db s \<Longrightarrow> stepInv s (db_patch users_update i f s)"
  by (rule stepInv_same [OF wf_db_patch_users]) (simp_all add: db_patch_def)

lemma wf_db_insert_user: "wf_db s \<Longrightarrow> wf_db (snd (db_insert users_update now u s))"
  by (auto simp: wf_defs db_insert_def wf_snoc intro: wf_table_mono)

lemma stepInv_insert_user: "wf_db s \<Longrightarrow> stepInv s (snd (db_insert users_update now u s))"
  by (rule stepInv_same [OF wf_db_insert_user]) (simp_all add: db_insert_def)

lemma sameRevoked_refl [simp]: "sameRevoked r r"
  by (simp add: sameRevoked_def)

section \<open>Keys\<close>

lemma stepInv_keys:
  assumes "wf_db s'" and "apiKeys s' = map g (apiKeys s)" and "payments s' = payments s"
    and "\<And>r. r \<in> set (apiKeys s) \<Longrightarrow> k_revokedAt (doc r) \<noteq> None \<Longrightarrow> sameRevoked r (g r)"
  shows "stepInv s s'"
  unfolding stepInv_def using assms by (auto intro: keepsHistory_map [where g = g])

lemma stepInv_insertKey:
  assumes "wf_db s" and "insertKey now args s = Inr (k, s')" and "freshKeyHash (i_keyHash args) s"
  shows "stepInv s s'"
proof -
  let ?t = "snd (db_insert apiKeys_update now (newKey args) s)"
  have "freshKeyHash (k_keyHash (newKey args)) s" using assms(3) by (simp add: newKey_def)
  then have "wf_db ?t" by (rule wf_db_insert_key [OF assms(1)])
  moreover have "keepsHistory s ?t" by (rule keepsHistory_map [where g = id]) (simp_all add: db_insert_def)
  ultimately show ?thesis unfolding insertKey_Inr(5) [OF assms(2)] by (intro stepInv_audited) (simp add: stepInv_def)
qed

lemma stepInv_patch_key:
  assumes "wf_db s" and "\<And>d. k_keyHash (f d) = k_keyHash d \<and> k_userId (f d) = k_userId d \<and> k_revokedAt (f d) = k_revokedAt d"
  shows "stepInv s (db_patch apiKeys_update i f s)"
  by (rule stepInv_keys [where g = "\<lambda>r. if rid r = i then Row i (ctime r) (f (doc r)) else r"])
    (use assms in \<open>simp_all add: wf_db_patch_keys, auto simp: db_patch_def tpatch_def sameRevoked_def\<close>)

lemma row_unique: "wf_db s \<Longrightarrow> r \<in> set (apiKeys s) \<Longrightarrow> q \<in> set (apiKeys s) \<Longrightarrow> rid r = rid q \<Longrightarrow> r = q"
  by (metis option.inject tget_in wf_db_def wf_ids_def)

lemma stepInv_revokedDb:
  assumes "wf_db s" and "k \<in> set (apiKeys s)"
  shows "stepInv s (revokedDb now k s)"
proof (rule stepInv_keys [OF wf_db_revokedDb [OF assms(1)] revokedDb_keys])
  show "payments (revokedDb now k s) = payments s" by (simp add: revokedDb_other)
  fix r assume r: "r \<in> set (apiKeys s)" "k_revokedAt (doc r) \<noteq> None"
  with row_unique [OF assms(1) r(1) assms(2)]
  show "sameRevoked r (if rid r = rid k \<and> k_revokedAt (doc k) = None then revokedNow now r else r)" by auto
qed

lemma tget_member: "tget t i = Some r \<Longrightarrow> r \<in> set t"
  unfolding tget_def by (induction t) (auto split: if_splits)

lemma stepInv_revoke: "wf_db s \<Longrightarrow> revoke now auth k s = Inr ((), s') \<Longrightarrow> stepInv s s'"
  using revoke_Inr [of now auth k s "()" s'] stepInv_audited stepInv_revokedDb tget_member by metis

lemma stepInv_operatorRevoke:
  assumes "wf_db s" and "revokeKey now k s = Inr (n, s')"
  shows "stepInv s s'"
proof -
  from assms(2) obtain r where r: "tget (apiKeys s) k = Some r"
    by (auto simp: revokeKey_def mbind_reads split: option.splits)
  then have "rid r = k" by (rule tget_rid)
  with assms(2) r have "s' = audited now ''operator_api_key_revoked'' HIGH Success (Some (k_userId (doc r))) (Some (rid r)) None
      (revokedDb now r s)"
    unfolding revokeKey_def mbind_reads r
    using revoke_core [of now r "mthen (writeAudit now ''operator_api_key_revoked'' HIGH Success
        (Some (k_userId (doc r))) (Some (rid r)) None) (ret k)" s]
    by (simp add: mthen_def mbind_def writeAudit_eq)
  with stepInv_audited [OF stepInv_revokedDb [OF assms(1) tget_member [OF r]]] show ?thesis by simp
qed

lemma stepInv_replaceSecret:
  assumes "wf_db s" and "replaceSecret now k u pre h s = Inr ((), s')" and "freshKeyHash h s"
  shows "stepInv s s'"
proof -
  let ?f = "\<lambda>d. d\<lparr>k_keyPrefix := pre, k_keyHash := h\<rparr>"
  let ?t = "db_patch apiKeys_update k ?f s"
  let ?u = "db_delete_all playgroundTokens_update (tselect (\<lambda>d. t_apiKeyId d = k) (playgroundTokens ?t)) ?t"
  obtain r where r: "tget (apiKeys s) k = Some r" "k_revokedAt (doc r) = None"
    and s': "s' = audited now ''api_key_rotated'' WARNING Success (Some u) (Some k) None ?u"
    using replaceSecret_Inr [OF assms(2)] by (auto simp: Let_def)
  have wf: "wf_db ?t" by (rule wf_db_patch_hash [OF assms(1) r(1)]) (use assms(3) in simp)
  have "stepInv s ?u"
  proof (rule stepInv_keys [where g = "\<lambda>q. if rid q = k then Row k (ctime q) (?f (doc q)) else q"])
    show "wf_db ?u" by (rule wf_db_delete_tokens [OF wf])
    show "apiKeys ?u = map (\<lambda>q. if rid q = k then Row k (ctime q) (?f (doc q)) else q) (apiKeys s)"
      by (simp add: db_delete_all_def db_patch_def tpatch_def)
    show "payments ?u = payments s" by (simp add: db_delete_all_def db_patch_def)
    fix q assume q: "q \<in> set (apiKeys s)" "k_revokedAt (doc q) \<noteq> None"
    then have "rid q \<noteq> k" using row_unique [OF assms(1) q(1) tget_member [OF r(1)]] tget_rid [OF r(1)] r(2) by auto
    then show "sameRevoked q (if rid q = k then Row k (ctime q) (?f (doc q)) else q)" by simp
  qed
  then show ?thesis unfolding s' by (rule stepInv_audited)
qed

lemma fold_revoked_payments: "payments (fold (revokedDb now) ks s) = payments s"
  by (induction ks arbitrary: s) (simp_all add: revokedDb_other)

lemma stepInv_lock:
  assumes "wf_db s" and "lockUser now u s = Inr (n, s')"
  shows "stepInv s s'"
proof (rule stepInv_keys [OF lock_spec(1,3) [OF assms]])
  obtain w where "lockable u s = Inr w" using assms(2) by (auto simp: lockUser_def mut_Inr)
  then have "s' = audited now ''tenant_disabled'' CRITICAL Success (Some u) None None
      (fold (revokedDb now) (keysOfUser u (db_patch users_update u (\<lambda>d. d\<lparr>u_disabledAt := Some now\<rparr>) s))
        (db_patch users_update u (\<lambda>d. d\<lparr>u_disabledAt := Some now\<rparr>) s))"
    using assms(2)
    by (simp add: lockUser_def mbind_reads mthen_def mbind_def reads_def lockKeys writeAudit_eq split: sum.splits)
  then show "payments s' = payments s" by (simp add: fold_revoked_payments) (simp add: db_patch_def)
qed auto

lemma wf_db_keys:
  assumes "wf_db s" and "map rid ks = map rid (apiKeys s)"
    and "map (\<lambda>r. k_keyHash (doc r)) ks = map (\<lambda>r. k_keyHash (doc r)) (apiKeys s)"
  shows "wf_db (s\<lparr>apiKeys := ks\<rparr>)"
proof -
  have "wf_table (nextId s) ks" using assms(1,2) unfolding wf_defs wf_table_def
    by (metis (no_types, lifting) list.set_map image_iff)
  moreover have "keyed k_keyHash ks" using assms(1,3) by (simp add: wf_defs keyed_def)
  ultimately show ?thesis using assms(1) by (simp add: wf_defs)
qed

lemma stepInv_registerKey:
  assumes "wf_db s" and "registerKey now args s = Inr (x, t)"
  shows "stepInv s t"
proof -
  have "payments t = payments s"
    using assms(2) by (auto simp: registerKey_def mbind_reads db_insert_def split: sum.splits option.splits if_splits)
  moreover have "wf_db t" "t = s \<or> apiKeys t = apiKeys s @ [Row (nextId s) now (upsertedKey args)]"
    using registerKey_Inr [OF assms(2,1)] by auto
  ultimately show ?thesis unfolding stepInv_def by (auto intro!: keepsHistory_map [where g = id])
qed

lemma stepInv_trans: "stepInv s t \<Longrightarrow> stepInv t u \<Longrightarrow> stepInv s u"
  unfolding stepInv_def using keepsHistory_trans by blast

lemma stepInv_upsertKey:
  assumes "wf_db s" and "upsertKey now args s = Inr ((), s')"
  shows "stepInv s s'"
proof -
  obtain t where reg: "registerKey now args s = Inr ((), t)" using assms(2) by (auto simp: upsertKey_def mut_Inr)
  note t = stepInv_registerKey [OF assms(1) reg]
  then have wf: "wf_db t" by (simp add: stepInv_def)
  show ?thesis
  proof (cases "v_isSiteKey args")
    case False
    then have "s' = t" using assms(2) reg by (simp add: upsertKey_def mthen_def mbind_def)
    with t show ?thesis by simp
  next
    case True
    let ?g = "\<lambda>r. if \<exists>k \<in> set (keysOfUser (v_userId args) t). rid k = rid r \<and> supersededBy (v_keyHash args) k
       then revokedNow now r else r"
    have s': "s' = t\<lparr>apiKeys := map ?g (apiKeys t)\<rparr>"
      using True assms(2) reg by (simp add: upsertKey_def mthen_def mbind_def reads_def retireAll fold_retire)
    have "stepInv t s'"
    proof (rule stepInv_keys [where g = ?g])
      show "wf_db s'" unfolding s' by (rule wf_db_keys [OF wf]) (simp_all add: revokedNow_def)
      show "apiKeys s' = map ?g (apiKeys t)" "payments s' = payments t" by (simp_all add: s')
      fix r assume r: "r \<in> set (apiKeys t)" "k_revokedAt (doc r) \<noteq> None"
      have "\<not> supersededBy (v_keyHash args) k" if "k \<in> set (keysOfUser (v_userId args) t)" "rid k = rid r" for k
      proof -
        have "k \<in> set (apiKeys t)" using that(1) by (auto simp: keysOfUser_def set_tselect)
        then have "k = r" by (rule row_unique [OF wf _ r(1) that(2)])
        with r(2) show ?thesis by (simp add: supersededBy_def)
      qed
      then show "sameRevoked r (?g r)" by auto
    qed
    with t show ?thesis by (rule stepInv_trans)
  qed
qed

section \<open>The gateway\<close>

lemma stepInv_authorize: "wf_db s \<Longrightarrow> authorize H now args s = Inr (r, s') \<Longrightarrow> stepInv s s'"
  using authorize_Inr [of s H now args r s'] authorizes_tables [of H now args s r s'] by (auto intro: stepInv_same)

definition windowsStep :: "db \<Rightarrow> db \<Rightarrow> bool" where
  "windowsStep s t \<longleftrightarrow> wf_db t \<and> ratesOnly s t"

lemma stepInv_windowsStep: "windowsStep s t \<Longrightarrow> stepInv s t"
  by (rule stepInv_same) (simp_all add: windowsStep_def ratesOnly_tables)

lemma windowsStep_hits:
  "mapM (\<lambda>w. hitWindow (f w) (l w) now (d w) c) ws s = Inr (states, t) \<Longrightarrow> wf_db s \<Longrightarrow> windowsStep s t"
proof (induction ws arbitrary: s states)
  case (Cons w ws)
  from Cons.prems(1) obtain st s1 states' where
    h: "hitWindow (f w) (l w) now (d w) c s = Inr (st, s1)"
    and m: "mapM (\<lambda>w. hitWindow (f w) (l w) now (d w) c) ws s1 = Inr (states', t)"
    by (auto simp: mut_Inr)
  have "wf_ids s" "wf_windows s" using Cons.prems(2) by (simp_all add: wf_db_def)
  note one = hitWindow_Inr [OF this h]
  have wf1: "wf_db s1" by (rule wf_db_ratesOnly [OF Cons.prems(2) one(3-5)])
  from Cons.IH [OF m wf1] one(3) show ?case by (auto simp: windowsStep_def intro: ratesOnly_trans)
qed (simp add: windowsStep_def)

lemma stepInv_demo:
  assumes "wf_db s" and "authorizeDemo H now args s = Inr (q, s')"
  shows "stepInv s s'"
proof -
  obtain ws states t where
    m: "mapM (\<lambda>w. hitWindow (fst w) (of_int (fst (snd w))) now (snd (snd w)) (demoCost (dm_cost args))) ws s = Inr (states, t)"
    and s': "s' = t \<or> (\<exists>e. s' = audited now ''demo_rate_limit_violation'' WARNING Failure None None (Some e) t)"
    using assms(2) by (auto simp: authorizeDemo_def mut_Inr Let_def writeAudit_eq split: if_splits)
  have "stepInv s t" by (rule stepInv_windowsStep [OF windowsStep_hits [OF m assms(1)]])
  with s' show ?thesis by (auto intro: stepInv_audited)
qed

lemma untouched_in:
  assumes "untouched t' = untouched t" and "r \<in> set t"
  shows "\<exists>q \<in> set t'. sameRevoked r q"
proof -
  let ?u = "\<lambda>r. Row (rid r) (ctime r) ((doc r)\<lparr>k_lastUsedAt := None\<rparr>)"
  have "?u ` set t' = ?u ` set t" using arg_cong [OF assms(1), of set] by (simp add: untouched_def)
  with assms(2) have "?u r \<in> ?u ` set t'" by simp
  then obtain q where q: "q \<in> set t'" "?u r = ?u q" by blast
  then have id: "rid r = rid q" and d: "(doc r)\<lparr>k_lastUsedAt := None\<rparr> = (doc q)\<lparr>k_lastUsedAt := None\<rparr>"
    unfolding row.inject by blast+
  have "sameRevoked r q"
    unfolding sameRevoked_def using id arg_cong [OF d, of k_userId] arg_cong [OF d, of k_keyHash]
      arg_cong [OF d, of k_revokedAt] by simp
  with q(1) show ?thesis by blast
qed

lemma stepInv_usage:
  assumes "wf_db s" and "idLaws H" and "recordUsage H now entries s = Inr (rep, s')"
  shows "stepInv s s'"
proof -
  have "wf_db s'" "untouched (apiKeys s') = untouched (apiKeys s)" "payments s' = payments s"
    using recordUsage_spec [OF assms(1,2), of now entries] assms(3) by auto
  then show ?thesis using untouched_in [of "apiKeys s'" "apiKeys s"] by (auto simp: stepInv_def keepsHistory_def)
qed

lemma stepInv_rename: "wf_db s \<Longrightarrow> rename now auth k name s = Inr ((), s') \<Longrightarrow> stepInv s s'"
  by (auto simp: rename_def mut_Inr intro!: stepInv_patch_key)

lemma stepInv_token:
  assumes "wf_db s" and "insertPlaygroundToken now tok s = Inr ((), s')" and "freshTokenHash (t_tokenHash tok) s"
  shows "stepInv s s'"
proof -
  obtain rs where s': "s' = snd (db_insert playgroundTokens_update now tok (db_delete_all playgroundTokens_update rs s))"
    using assms(2) by (auto simp: insertPlaygroundToken_def mthen_eq_Inr requireAccess_Inr Let_def)
  have "freshTokenHash (t_tokenHash tok) (db_delete_all playgroundTokens_update rs s)"
    using assms(3) by (auto simp: freshTokenHash_def db_delete_all_def tdel_all_filter)
  from wf_db_insert_token [OF wf_db_delete_tokens [OF assms(1)] this]
  show ?thesis unfolding s' by (rule stepInv_same) (simp_all add: db_insert_def db_delete_all_def)
qed

section \<open>Accounts and payments\<close>

lemma stepInv_freeTier: "wf_db s \<Longrightarrow> activateFreeTier now auth s = Inr ((), s') \<Longrightarrow> stepInv s s'"
proof -
  assume wf: "wf_db s" and run: "activateFreeTier now auth s = Inr ((), s')"
  then obtain u r where "requireUserId now auth s = Inr u" "tget (users s) u = Some r"
    by (auto simp: activateFreeTier_def mut_Inr split: option.split_asm)
  with run have "s' = s \<or> (\<exists>u f. s' = db_patch users_update u f s)"
    by (auto simp: activateFreeTier_def mut_Inr split: if_split_asm)
  then show ?thesis using stepInv_refl [OF wf] stepInv_users [OF wf] by metis
qed

lemma stepInv_profile: "wf_db s \<Longrightarrow> updateProfile now auth name s = Inr ((), s') \<Longrightarrow> stepInv s s'"
  by (auto simp: updateProfile_def mut_Inr Let_def split: if_splits intro: stepInv_users)

lemma stepInv_enable: "wf_db s \<Longrightarrow> enableUser now email s = Inr (u, s') \<Longrightarrow> stepInv s s'"
  by (auto simp: enableUser_def mut_Inr writeAudit_eq split: option.splits intro!: stepInv_audited stepInv_users)

lemma stepInv_system: "wf_db s \<Longrightarrow> upsertSystemUser H now s = Inr (u, s') \<Longrightarrow> stepInv s s'"
proof -
  assume wf: "wf_db s" and run: "upsertSystemUser H now s = Inr (u, s')"
  then have "s' = s \<or> (\<exists>d. db_insert users_update now d s = (u, s'))"
    by (auto simp: upsertSystemUser_def mut_Inr split: option.split_asm)
  then show ?thesis using stepInv_refl [OF wf] stepInv_insert_user [OF wf] by (metis snd_conv)
qed

lemma stepInv_pending:
  assumes "wf_db s" and "recordPending now u plan i s = Inr (paymentId, s')"
  shows "stepInv s s'"
proof -
  obtain found where f: "paymentForIntent i s = Inr found" using assms(2) by (auto simp: recordPending_def mut_Inr)
  show ?thesis
  proof (cases found)
    case (Some r)
    with f assms have "s' = s" by (auto simp: recordPending_def mut_Inr split: if_splits)
    with stepInv_refl [OF assms(1)] show ?thesis by simp
  next
    case None
    have "\<forall>r \<in> set (payments s). p_paymentIntentId (doc r) \<noteq> i"
      using f None paymentForIntent_found [of s] assms(1) by (auto simp: wf_db_def)
    then have "wf_db (snd (db_insert payments_update now (newPayment now u plan i) s))"
      using assms(1) by (auto simp: wf_defs db_insert_def wf_snoc keyed_snoc newPayment_def intro: wf_table_mono)
    moreover have "s' = snd (db_insert payments_update now (newPayment now u plan i) s)"
      using f None assms(2) by (auto simp: recordPending_def mut_Inr)
    moreover have "keepsHistory s (snd (db_insert payments_update now (newPayment now u plan i) s))"
      by (auto simp: keepsHistory_def db_insert_def intro: sameRevoked_refl)
    ultimately show ?thesis by (simp add: stepInv_def)
  qed
qed

lemma settles_keepsHistory:
  assumes "settles now i succ s b s'" and "wf_db s"
  shows "keepsHistory s s'"
proof -
  have kept: "p \<in> set (tpatch (rid r) f (payments s))"
    if "r \<in> set (payments s)" "p_status (doc r) = Pending" "p \<in> set (payments s)" "p_status (doc p) \<noteq> Pending" for r p f
  proof -
    have "rid p \<noteq> rid r" using that assms(2) by (metis option.inject tget_in wf_db_def wf_ids_def)
    with that(3) show ?thesis by (force simp: set_tpatch)
  qed
  from assms(1) show ?thesis
  proof cases
    case (granted r u)
    have "apiKeys s' = apiKeys s" unfolding granted(2) by (simp add: grantPlan_def db_patch_def)
    moreover have "payments s' = tpatch (rid r) (\<lambda>d. d\<lparr>p_status := Succeeded, p_paidAt := Some now\<rparr>) (payments s)"
      unfolding granted(2) by (rule payments_after)
    ultimately show ?thesis using kept [OF granted(3,5)] by (auto simp: keepsHistory_def intro: sameRevoked_refl)
  next
    case (failed r)
    have "payments s' = tpatch (rid r) (\<lambda>d. d\<lparr>p_status := Failed\<rparr>) (payments s)" "apiKeys s' = apiKeys s"
      by (simp_all add: failed(2) db_patch_def)
    then show ?thesis using kept [OF failed(3,5)] by (auto simp: keepsHistory_def intro: sameRevoked_refl)
  qed (simp add: keepsHistory_same)
qed

lemma stepInv_settle: "wf_db s \<Longrightarrow> settle now i succ a c s = Inr (b, s') \<Longrightarrow> stepInv s s'"
  unfolding stepInv_def using settle_spec(1) settles_wf settles_keepsHistory by blast

lemma stepInv_prune: "wf_db s \<Longrightarrow> prune env now s = Inr (x, s') \<Longrightarrow> stepInv s s'"
  by (rule stepInv_same) (auto simp: prune_spec wf_prunedDb wf_scheduled, auto simp: prunedDb_def split: if_splits)

section \<open>Every step\<close>

lemma transaction_stepInv:
  assumes "transaction H s s'" and "wf_db s" and "idLaws H"
  shows "stepInv s s'"
  using assms(1)
proof (cases rule: transaction.cases)
  case sessions
  then show ?thesis using assms(2) by (intro stepInv_same) (simp_all add: wf_defs)
qed (use assms(2,3) in \<open>blast intro: stepInv_authorize stepInv_demo stepInv_usage stepInv_insertKey stepInv_rename
    stepInv_revoke stepInv_replaceSecret stepInv_token stepInv_freeTier stepInv_pending stepInv_settle stepInv_profile
    stepInv_operatorRevoke stepInv_lock stepInv_enable stepInv_upsertKey stepInv_system stepInv_prune
    stepInv_insert_user\<close>)+

lemma keepsHistory_refl [simp]: "keepsHistory s s"
  by (rule keepsHistory_same) simp_all

text \<open>With a host whose ids satisfy the laws, the backend is a machine that keeps \<open>wf_db\<close> and its history.\<close>

definition backendStep :: "host \<Rightarrow> db \<Rightarrow> db \<Rightarrow> bool" where
  "backendStep H s t \<longleftrightarrow> idLaws H \<and> transaction H s t"

interpretation backend: history_steps "backendStep H" wf_db keepsHistory for H
  by unfold_locales
    (use transaction_stepInv keepsHistory_trans in \<open>auto simp: backendStep_def stepInv_def\<close>)

lemma backendStep_run: "(transaction H)\<^sup>*\<^sup>* s t \<Longrightarrow> idLaws H \<Longrightarrow> (backendStep H)\<^sup>*\<^sup>* s t"
  by (rule rtranclp_mono [THEN predicate2D, rotated]) (auto simp: backendStep_def)

lemma transactions_wf: "(transaction H)\<^sup>*\<^sup>* s t \<Longrightarrow> wf_db s \<Longrightarrow> idLaws H \<Longrightarrow> wf_db t"
  by (rule backend.good_run [OF backendStep_run])

lemma transactions_history: "(transaction H)\<^sup>*\<^sup>* s t \<Longrightarrow> wf_db s \<Longrightarrow> idLaws H \<Longrightarrow> keepsHistory s t"
  by (rule backend.later_run [OF backendStep_run])

end
