(* ===== verification/SystemProps.thy ===== *)
theory SystemProps
  imports System AuthorizeProps
begin

text \<open>
  What holds of the backend after any run of its transactions: the tables stay well formed, so that the gateway
  never fails; a revoked key stays revoked; a payment that was acted on never changes again.
\<close>

text \<open>C10. Every database the backend can reach from the empty one, by any transactions at any times, is well
  formed: ids are unique and below the next one, and the fields the code looks rows up by (hashes, intents,
  windows, quotas, rollups) are unique, although no index enforces it; so no lookup finds two rows, and
  neither authorizing a request nor recording usage ever throws.\<close>

theorem system_wf:
  assumes "(transaction H)\<^sup>*\<^sup>* empty_db s" and "idLaws H" and "hasSecret H"
  shows "wf_db s \<and> (\<exists>r s'. authorize H now args s = Inr (r, s'))
    \<and> (\<exists>rep s'. recordUsage H now' entries s = Inr (rep, s'))"
proof -
  have wf: "wf_db s" by (rule transactions_wf [OF assms(1) wf_empty_db assms(2)])
  with authorize_spec [OF wf assms(3), of now args] recordUsage_spec [OF wf assms(2), of now' entries]
  show ?thesis by blast
qed

definition stateOf :: "error + 'a \<times> db \<Rightarrow> db" where
  "stateOf out = (case out of Inr (_, s) \<Rightarrow> s | Inl _ \<Rightarrow> empty_db)"

definition signedUpDb :: db where
  "signedUpDb = snd (db_insert users_update sampleNow freeUser empty_db)"

definition newKeyArgs :: insertKeyArgs where
  "newKeyArgs = \<lparr>i_userId = 0, i_name = ''demo'', i_keyPrefix = ''geo_ab12'', i_keyHash = ''h1'', i_endpoints = [''route''], i_expiresAt = None\<rparr>"

definition firstKeyDb :: db where
  "firstKeyDb = stateOf (insertKey sampleNow newKeyArgs signedUpDb)"

lemma firstKey_runs: "(transaction sampleHost)\<^sup>*\<^sup>* empty_db firstKeyDb"
proof -
  have "transaction sampleHost empty_db signedUpDb" unfolding signedUpDb_def by (rule transaction.signUp)
  moreover have "(case insertKey sampleNow newKeyArgs signedUpDb of Inr x \<Rightarrow> True | _ \<Rightarrow> False)" by code_simp
  then obtain k where "insertKey sampleNow newKeyArgs signedUpDb = Inr (k, firstKeyDb)"
    by (auto simp: firstKeyDb_def stateOf_def split: sum.splits)
  moreover have "freshKeyHash (i_keyHash newKeyArgs) signedUpDb" by code_simp
  ultimately show ?thesis by (blast intro: transaction.create rtranclp.rtrancl_into_rtrancl rtranclp.rtrancl_refl)
qed

theorem system_wf_witness:
  "wf_db firstKeyDb \<and> okPrincipal (authorize sampleHost sampleNow (keyArgs ''h1'' ''route'') firstKeyDb) \<noteq> None
    \<and> (\<exists>rep s'. recordUsage sampleHost sampleNow [] firstKeyDb = Inr (rep, s'))"
proof -
  have "okPrincipal (authorize sampleHost sampleNow (keyArgs ''h1'' ''route'') firstKeyDb) \<noteq> None" by code_simp
  then show ?thesis using system_wf [OF firstKey_runs sample_idLaws sample_secret, of sampleNow _ sampleNow "[]"] by simp
qed

text \<open>C11. Revocation is for ever: once a key is revoked, by its owner, an operator, the lock of an account or the
  rotation of the site key, no later transaction of any kind makes it usable again: at any later time the
  gateway refuses its hash as revoked, and no admitted request, whatever credential it has, is made with it.\<close>

theorem revoked_forever:
  assumes "(transaction H)\<^sup>*\<^sup>* s s'" and "wf_db s" and "idLaws H"
    and "r \<in> set (apiKeys s)" and "k_revokedAt (doc r) \<noteq> None"
  shows "(g_kind args = KeyCredential \<and> g_hash args = k_keyHash (doc r) \<longrightarrow>
      (\<exists>t. authorize H now args s' = Inr (ARevoked, t)))
    \<and> (\<forall>p. okPrincipal (authorize H now args s') = Some p \<longrightarrow> pr_keyId p \<noteq> rid r)"
proof -
  have wf: "wf_db s'" by (rule transactions_wf [OF assms(1-3)])
  obtain q where q: "q \<in> set (apiKeys s')" "sameRevoked r q"
    using transactions_history [OF assms(1-3)] assms(4,5) by (auto simp: keepsHistory_def)
  then have revoked: "k_revokedAt (doc q) \<noteq> None" "k_keyHash (doc q) = k_keyHash (doc r)" "rid q = rid r"
    using assms(5) by (auto simp: sameRevoked_def)
  have "pr_keyId p \<noteq> rid r" if ok: "okPrincipal (authorize H now args s') = Some p" for p
  proof
    assume id: "pr_keyId p = rid r"
    obtain rl t where "authorize H now args s' = Inr (AOk p rl, t)" using ok by (auto simp: okPrincipal_Some)
    from authorize_Inr(1) [OF wf this] obtain a where a: "admissible now args s' a" "p = ad_principal a" by cases auto
    then have "ad_key a \<in> set (apiKeys s')" "keyLive now (doc (ad_key a))" by (auto simp: admissible_def Let_def)
    with row_unique [OF wf this(1) q(1)] admissible_principal [OF a(1)] a(2) id revoked
    show False by (simp add: keyLive_def)
  qed
  then show ?thesis using authorize_revoked [OF _ q(1) revoked(1), of args] wf revoked(2) by (simp add: wf_db_def)
qed

definition revokedSample :: db where
  "revokedSample = stateOf (revoke sampleNow sampleAuth 1 sampleDb)"

theorem revoked_forever_witness:
  "let s' = stateOf (updateProfile (sampleNow + 1) sampleAuth ''Bat'' revokedSample) in
     s' \<noteq> revokedSample \<and> (\<exists>t. authorize sampleHost (sampleNow + 2) (keyArgs ''h1'' ''route'') s' = Inr (ARevoked, t))"
proof -
  let ?s = "stateOf (updateProfile (sampleNow + 1) sampleAuth ''Bat'' revokedSample)"
  let ?r = "Row 1 0 (sampleKey\<lparr>k_revokedAt := Some sampleNow\<rparr>)"
  have "(case updateProfile (sampleNow + 1) sampleAuth ''Bat'' revokedSample of Inr x \<Rightarrow> True | _ \<Rightarrow> False)" by code_simp
  then have "updateProfile (sampleNow + 1) sampleAuth ''Bat'' revokedSample = Inr ((), ?s)"
    by (auto simp: stateOf_def split: sum.splits)
  then have run: "(transaction sampleHost)\<^sup>*\<^sup>* revokedSample ?s" by (intro r_into_rtranclp transaction.profile)
  have wf: "wf_db revokedSample" and r: "?r \<in> set (apiKeys revokedSample)" by code_simp+
  have "map (\<lambda>u. u_name (doc u)) (users ?s) \<noteq> map (\<lambda>u. u_name (doc u)) (users revokedSample)" by code_simp
  moreover have "\<exists>t. authorize sampleHost (sampleNow + 2) (keyArgs ''h1'' ''route'') ?s = Inr (ARevoked, t)"
    using revoked_forever [OF run wf sample_idLaws r, of "keyArgs ''h1'' ''route''" "sampleNow + 2"]
    by (simp add: keyArgs_def sampleKey_def)
  ultimately show ?thesis by (auto simp: Let_def)
qed

text \<open>C12. A payment that was acted on is final: once its row says succeeded or failed, no later transaction of any kind
  changes or removes it, and every later settlement of its intent, with any outcome and amount, returns
  false and leaves the database as it is.\<close>

theorem settled_final:
  assumes "(transaction H)\<^sup>*\<^sup>* s s'" and "wf_db s" and "idLaws H"
    and "p \<in> set (payments s)" and "p_status (doc p) \<noteq> Pending"
  shows "p \<in> set (payments s') \<and> settle now (p_paymentIntentId (doc p)) succeeded amount currency s' = Inr (False, s')"
proof -
  have p: "p \<in> set (payments s')" using transactions_history [OF assms(1-3)] assms(4,5) by (auto simp: keepsHistory_def)
  have "wf_db s'" by (rule transactions_wf [OF assms(1-3)])
  then have "paymentForIntent (p_paymentIntentId (doc p)) s' = Inr (Some p)"
    using paymentForIntent_found p by (simp add: wf_db_def)
  with assms(5) p show ?thesis by (simp add: settle_def mbind_reads)
qed

definition settledSample :: db where
  "settledSample = stateOf (settle sampleNow ''pi_1'' False (Num 1000) ''MNT'' payDb)"

theorem settled_final_witness:
  "let s' = stateOf (updateProfile (sampleNow + 1) sampleAuth ''Bat'' settledSample) in
     settle (sampleNow + 2) ''pi_1'' True (Num 1000) ''MNT'' s' = Inr (False, s')"
proof -
  let ?s = "stateOf (updateProfile (sampleNow + 1) sampleAuth ''Bat'' settledSample)"
  let ?p = "Row 8 5 (samplePayment\<lparr>p_status := Failed\<rparr>)"
  have "(case updateProfile (sampleNow + 1) sampleAuth ''Bat'' settledSample of Inr x \<Rightarrow> True | _ \<Rightarrow> False)" by code_simp
  then have "updateProfile (sampleNow + 1) sampleAuth ''Bat'' settledSample = Inr ((), ?s)"
    by (auto simp: stateOf_def split: sum.splits)
  then have run: "(transaction sampleHost)\<^sup>*\<^sup>* settledSample ?s" by (intro r_into_rtranclp transaction.profile)
  have wf: "wf_db settledSample" and p: "?p \<in> set (payments settledSample)" by code_simp+
  show ?thesis
    using settled_final [OF run wf sample_idLaws p, of "sampleNow + 2" True "Num 1000" "''MNT''"]
    by (simp add: samplePayment_def newPayment_def)
qed

end
