(* ===== verification/MapPage.thy ===== *)
theory MapPage
  imports Runs GeoClient Dashboard
begin

text \<open>
  The page of the map (\<open>components/map/map-app.tsx\<close>): its state, its handlers and the requests it has in flight.
  React's state setters are record updates. A callback keeps the render it was made in, so the actions of a popup
  and the callback of the browser's geolocation carry the \<open>from\<close>, \<open>to\<close> and \<open>mode\<close> of that render (\<open>captured\<close>).
  The mutation of TanStack Query is an argument (\<open>mutationLib\<close>); what the page relies on is \<open>mutationLaws\<close>.
  Requests and their controllers are numbered in the order they are made; \<open>fetch\<close> rejects those aborted.
\<close>

section \<open>Data\<close>

type_synonym lngLat = "rat \<times> rat"

datatype markerKind = PlaceMarker | OriginMarker | DestinationMarker | PinMarker

record MapMarker =
  mk_id :: string
  mk_kind :: markerKind
  mk_lngLat :: lngLat
  mk_label :: string

datatype cameraTarget = CenterOn lngLat "rat option" | FitBounds lngLat lngLat

type_synonym CameraRequest = "nat \<times> cameraTarget"

record RouteEndpoint =
  ep_text :: string
  ep_lngLat :: "lngLat option"

record captured =
  cl_from :: RouteEndpoint
  cl_to :: RouteEndpoint
  cl_mode :: TravelMode

datatype routeEnd = FromEnd | ToEnd

text \<open>\<open>onSelect\<close> calls the captured \<open>setEndpoint\<close> with these arguments.\<close>

record PopupAction =
  pa_label :: string
  pa_which :: routeEnd
  pa_endpoint :: RouteEndpoint
  pa_captured :: captured

record MapPopup =
  po_lngLat :: lngLat
  po_title :: string
  po_lines :: "string list"
  po_actions :: "PopupAction list"

datatype selectionKind = Place | Pin

record Selection =
  sl_id :: string
  sl_lngLat :: lngLat
  sl_kind :: selectionKind

record GeocodeResult =
  gr_id :: string
  gr_name :: string
  gr_address :: "string option"
  gr_latitude :: rat
  gr_longitude :: rat

record RouteResponse =
  rr_coordinates :: "lngLat list"
  rr_distance :: rat
  rr_duration :: rat
  rr_mode :: TravelMode

definition PLACE_ZOOM :: rat where
  "PLACE_ZOOM = 16"

definition EMPTY_ENDPOINT :: RouteEndpoint where
  "EMPTY_ENDPOINT = \<lparr>ep_text = [], ep_lngLat = None\<rparr>"

section \<open>Messages and bounds\<close>

text \<open>The text \<open>Error\<close> makes of the message it is given.\<close>

fun messageText :: "json \<Rightarrow> string" where
  "messageText JNull = ''null''"
| "messageText (JBool b) = (if b then ''true'' else ''false'')"
| "messageText (JNum n) = js_String n"
| "messageText (JStr s) = s"
| "messageText (JArr js) = join '','' (map (\<lambda>j. if j = JNull then [] else messageText j) js)"
| "messageText (JObj fs) = ''[object Object]''"

definition friendlyError :: "failure \<Rightarrow> bool \<Rightarrow> string" where
  "friendlyError err forRoute =
     (case err of
        Geo e \<Rightarrow>
          if ge_code e = JStr ''SERVICE_UNAVAILABLE''
          then (if forRoute then ''Routing is temporarily unavailable.'' else ''Address lookup is temporarily unavailable.'')
          else if ge_code e = JStr ''RATE_LIMIT_EXCEEDED'' then ''Too many requests. Wait a moment and try again.''
          else messageText (ge_message e)
      | Rethrown e \<Rightarrow> ''Something went wrong. Check your connection and try again.'')"

definition widen :: "lngLat \<Rightarrow> lngLat \<times> lngLat \<Rightarrow> lngLat \<times> lngLat" where
  "widen c b = (case (c, b) of ((x, y), ((minX, minY), (maxX, maxY))) \<Rightarrow>
     ((min minX x, min minY y), (max maxX x, max maxY y)))"

definition routeBounds :: "RouteResponse \<Rightarrow> (lngLat \<times> lngLat) option" where
  "routeBounds r = (case rr_coordinates r of [] \<Rightarrow> None | c # cs \<Rightarrow> Some (fold widen (c # cs) (c, c)))"

section \<open>The mutation\<close>

record 'm mutationLib =
  ml_idle :: 'm
  ml_mutate :: "nat \<Rightarrow> 'm \<Rightarrow> 'm"
  ml_settled :: "nat \<Rightarrow> RouteResponse option \<Rightarrow> 'm \<Rightarrow> 'm"
  ml_reset :: "'m \<Rightarrow> 'm"
  ml_data :: "'m \<Rightarrow> RouteResponse option"
  ml_pending :: "'m \<Rightarrow> bool"
  ml_current :: "'m \<Rightarrow> nat option"

text \<open>What the documentation of \<open>useMutation\<close> says: the hook shows the call made last, which is pending and without
  data until it settles; a reset makes it idle; the end of a call that is not shown changes nothing shown.\<close>

definition mutationLaws :: "'m mutationLib \<Rightarrow> bool" where
  "mutationLaws M \<longleftrightarrow>
     ml_data M (ml_idle M) = None \<and> \<not> ml_pending M (ml_idle M) \<and> ml_current M (ml_idle M) = None
     \<and> (\<forall>m. ml_data M (ml_reset M m) = None \<and> \<not> ml_pending M (ml_reset M m) \<and> ml_current M (ml_reset M m) = None)
     \<and> (\<forall>i m. ml_data M (ml_mutate M i m) = None \<and> ml_pending M (ml_mutate M i m) \<and> ml_current M (ml_mutate M i m) = Some i)
     \<and> (\<forall>i out m. ml_current M (ml_settled M i out m) = ml_current M m
         \<and> ml_data M (ml_settled M i out m) = (if ml_current M m = Some i then out else ml_data M m)
         \<and> ml_pending M (ml_settled M i out m) = (ml_current M m \<noteq> Some i \<and> ml_pending M m))"

section \<open>State\<close>

record routeArgs =
  ra_from :: lngLat
  ra_to :: lngLat
  ra_mode :: TravelMode

record lookup =
  lk_lngLat :: lngLat
  lk_captured :: captured

datatype mobileTab = SearchTab | DirectionsTab

text \<open>\<open>mp_routes\<close>, \<open>mp_lookups\<close> and \<open>mp_locates\<close> are what is in flight: route requests, reverse lookups and
  requests for the browser's position.\<close>

record 'm page =
  mp_searchText :: string
  mp_selection :: "Selection option"
  mp_popup :: "MapPopup option"
  mp_from :: RouteEndpoint
  mp_to :: RouteEndpoint
  mp_mode :: TravelMode
  mp_directionsOpen :: bool
  mp_mobileTab :: mobileTab
  mp_sheetExpanded :: bool
  mp_camera :: "CameraRequest option"
  mp_styleError :: bool
  mp_locating :: bool
  mp_routeError :: "string option"
  mp_sheetHeight :: int
  mp_cameraKey :: nat
  mp_routeAbort :: "nat option"
  mp_reverseAbort :: "nat option"
  mp_mutation :: 'm
  mp_next :: nat
  mp_aborted :: "nat list"
  mp_routes :: "(nat \<times> routeArgs) list"
  mp_lookups :: "(nat \<times> lookup) list"
  mp_locates :: "captured list"

definition page_init :: "'m mutationLib \<Rightarrow> 'm page" where
  "page_init M = \<lparr>mp_searchText = [], mp_selection = None, mp_popup = None, mp_from = EMPTY_ENDPOINT,
     mp_to = EMPTY_ENDPOINT, mp_mode = Driving, mp_directionsOpen = False, mp_mobileTab = SearchTab,
     mp_sheetExpanded = False, mp_camera = None, mp_styleError = False, mp_locating = False, mp_routeError = None,
     mp_sheetHeight = 0, mp_cameraKey = 0, mp_routeAbort = None, mp_reverseAbort = None, mp_mutation = ml_idle M,
     mp_next = 0, mp_aborted = [], mp_routes = [], mp_lookups = [], mp_locates = []\<rparr>"

definition capture :: "'m page \<Rightarrow> captured" where
  "capture p = \<lparr>cl_from = mp_from p, cl_to = mp_to p, cl_mode = mp_mode p\<rparr>"

definition moveCamera :: "cameraTarget \<Rightarrow> 'm page \<Rightarrow> 'm page" where
  "moveCamera request p =
     (let q = p\<lparr>mp_cameraKey := mp_cameraKey p + 1\<rparr> in q\<lparr>mp_camera := Some (mp_cameraKey q, request)\<rparr>)"

definition openDirections :: "'m page \<Rightarrow> 'm page" where
  "openDirections p = p\<lparr>mp_directionsOpen := True, mp_mobileTab := DirectionsTab, mp_sheetExpanded := True\<rparr>"

definition abortRoute :: "'m page \<Rightarrow> 'm page" where
  "abortRoute p = (case mp_routeAbort p of None \<Rightarrow> p | Some i \<Rightarrow> p\<lparr>mp_aborted := i # mp_aborted p\<rparr>)"

definition abortReverse :: "'m page \<Rightarrow> 'm page" where
  "abortReverse p = (case mp_reverseAbort p of None \<Rightarrow> p | Some i \<Rightarrow> p\<lparr>mp_aborted := i # mp_aborted p\<rparr>)"

section \<open>Routing\<close>

text \<open>\<open>routeMutation.mutate(args)\<close>, up to the request.\<close>

definition startRoute :: "'m mutationLib \<Rightarrow> routeArgs \<Rightarrow> 'm page \<Rightarrow> 'm page" where
  "startRoute M args p =
     (let q = abortRoute p in
      q\<lparr>mp_routeAbort := Some (mp_next q), mp_next := Suc (mp_next q), mp_routes := (mp_next q, args) # mp_routes q,
        mp_mutation := ml_mutate M (mp_next q) (mp_mutation q)\<rparr>)"

definition calculate ::
  "'m mutationLib \<Rightarrow> RouteEndpoint \<Rightarrow> RouteEndpoint \<Rightarrow> TravelMode \<Rightarrow> 'm page \<Rightarrow> 'm page" where
  "calculate M nextFrom nextTo nextMode p =
     (case (ep_lngLat nextFrom, ep_lngLat nextTo) of
        (Some a, Some b) \<Rightarrow>
          startRoute M \<lparr>ra_from = a, ra_to = b, ra_mode = nextMode\<rparr> (p\<lparr>mp_routeError := None\<rparr>)
      | _ \<Rightarrow> p)"

text \<open>\<open>onSuccess\<close> and \<open>onError\<close>.\<close>

definition routeCallbacks :: "failure + RouteResponse \<Rightarrow> 'm page \<Rightarrow> 'm page" where
  "routeCallbacks outcome p =
     (case outcome of
        Inr r \<Rightarrow>
          (let q = p\<lparr>mp_routeError := None\<rparr> in
           case routeBounds r of None \<Rightarrow> q | Some (a, b) \<Rightarrow> moveCamera (FitBounds a b) q)
      | Inl e \<Rightarrow> if e = Rethrown ''AbortError'' then p else p\<lparr>mp_routeError := Some (friendlyError e True)\<rparr>)"

definition routeSettled :: "'m mutationLib \<Rightarrow> nat \<Rightarrow> failure + RouteResponse \<Rightarrow> 'm page \<Rightarrow> 'm page" where
  "routeSettled M i outcome p =
     routeCallbacks outcome (p\<lparr>mp_routes := filter (\<lambda>c. fst c \<noteq> i) (mp_routes p),
       mp_mutation := ml_settled M i (case outcome of Inr r \<Rightarrow> Some r | Inl e \<Rightarrow> None) (mp_mutation p)\<rparr>)"

definition resetRoute :: "'m mutationLib \<Rightarrow> 'm page \<Rightarrow> 'm page" where
  "resetRoute M p = p\<lparr>mp_mutation := ml_reset M (mp_mutation p)\<rparr>"

definition clearRoute :: "'m mutationLib \<Rightarrow> 'm page \<Rightarrow> 'm page" where
  "clearRoute M p = (resetRoute M (abortRoute p))\<lparr>mp_routeError := None, mp_from := EMPTY_ENDPOINT, mp_to := EMPTY_ENDPOINT\<rparr>"

definition setEndpoint :: "'m mutationLib \<Rightarrow> captured \<Rightarrow> routeEnd \<Rightarrow> RouteEndpoint \<Rightarrow> 'm page \<Rightarrow> 'm page" where
  "setEndpoint M cl which endpoint p =
     (let nextFrom = (if which = FromEnd then endpoint else cl_from cl);
          nextTo = (if which = ToEnd then endpoint else cl_to cl);
          q = (if which = FromEnd then p\<lparr>mp_from := endpoint\<rparr> else p\<lparr>mp_to := endpoint\<rparr>);
          r = openDirections ((resetRoute M q)\<lparr>mp_routeError := None\<rparr>) in
      if ep_lngLat nextFrom \<noteq> None \<and> ep_lngLat nextTo \<noteq> None then calculate M nextFrom nextTo (cl_mode cl) r else r)"

section \<open>Places and pins\<close>

text \<open>\<open>t\<close> is the translator.\<close>

definition placePopup :: "(string \<Rightarrow> string) \<Rightarrow> captured \<Rightarrow> string \<Rightarrow> string list \<Rightarrow> lngLat \<Rightarrow> MapPopup" where
  "placePopup t cl title ls lngLat =
     \<lparr>po_lngLat = lngLat, po_title = title, po_lines = ls, po_actions =
       [\<lparr>pa_label = t ''map.directionsFromHere'', pa_which = FromEnd,
          pa_endpoint = \<lparr>ep_text = title, ep_lngLat = Some lngLat\<rparr>, pa_captured = cl\<rparr>,
        \<lparr>pa_label = t ''map.directionsToHere'', pa_which = ToEnd,
          pa_endpoint = \<lparr>ep_text = title, ep_lngLat = Some lngLat\<rparr>, pa_captured = cl\<rparr>]\<rparr>"

definition coordinatesText :: "lngLat \<Rightarrow> string" where
  "coordinatesText c = formatCoordinate (snd c) 5 @ '', '' @ formatCoordinate (fst c) 5"

definition selectPlace :: "(string \<Rightarrow> string) \<Rightarrow> GeocodeResult \<Rightarrow> 'm page \<Rightarrow> 'm page" where
  "selectPlace t place p =
     (let lngLat = (gr_longitude place, gr_latitude place);
          q = (abortReverse p)\<lparr>mp_selection := Some \<lparr>sl_id = gr_id place, sl_lngLat = lngLat, sl_kind = Place\<rparr>,
            mp_popup := Some (placePopup t (capture p) (gr_name place)
              (filter (\<lambda>l. l \<noteq> []) [case gr_address place of None \<Rightarrow> [] | Some a \<Rightarrow> a, coordinatesText lngLat]) lngLat)\<rparr> in
      (moveCamera (CenterOn lngLat (Some PLACE_ZOOM)) q)\<lparr>mp_sheetExpanded := False\<rparr>)"

text \<open>The ellipsis is one character of three bytes.\<close>

definition lookingUp :: string where
  "lookingUp = ''Looking up this location'' @ [CHR 0xE2, CHR 0x80, CHR 0xA6]"

definition reverseLookup :: "lngLat \<Rightarrow> 'm page \<Rightarrow> 'm page" where
  "reverseLookup lngLat p =
     (let q = abortReverse p in
      q\<lparr>mp_reverseAbort := Some (mp_next q), mp_next := Suc (mp_next q),
        mp_selection := Some \<lparr>sl_id = ''pin-'' @ js_String (Num (fst lngLat)) @ '','' @ js_String (Num (snd lngLat)),
          sl_lngLat = lngLat, sl_kind = Pin\<rparr>,
        mp_popup := Some \<lparr>po_lngLat = lngLat, po_title = lookingUp, po_lines = [coordinatesText lngLat], po_actions = []\<rparr>,
        mp_lookups := (mp_next q, \<lparr>lk_lngLat = lngLat, lk_captured = capture p\<rparr>) # mp_lookups q\<rparr>)"

text \<open>\<open>match.name || (match.address ?? "").split(",")[0] || "Selected location"\<close>.\<close>

definition matchTitle :: "GeocodeResult \<Rightarrow> string" where
  "matchTitle m =
     (let first = takeWhile (\<lambda>c. c \<noteq> CHR '','') (case gr_address m of None \<Rightarrow> [] | Some a \<Rightarrow> a) in
      if gr_name m \<noteq> [] then gr_name m else if first \<noteq> [] then first else ''Selected location'')"

definition lookupPopup :: "(string \<Rightarrow> string) \<Rightarrow> lookup \<Rightarrow> failure + GeocodeResult list \<Rightarrow> MapPopup" where
  "lookupPopup t lk outcome =
     (let coordinates = coordinatesText (lk_lngLat lk); popup = placePopup t (lk_captured lk) in
      case outcome of
        Inr [] \<Rightarrow> popup ''Dropped pin'' [''No address found nearby.'', coordinates] (lk_lngLat lk)
      | Inr (m # ms) \<Rightarrow> popup (matchTitle m) [case gr_address m of None \<Rightarrow> coordinates | Some a \<Rightarrow> a, coordinates] (lk_lngLat lk)
      | Inl e \<Rightarrow> popup ''Address unavailable'' [friendlyError e False, coordinates] (lk_lngLat lk))"

definition lookupSettled ::
  "(string \<Rightarrow> string) \<Rightarrow> nat \<Rightarrow> lookup \<Rightarrow> failure + GeocodeResult list \<Rightarrow> 'm page \<Rightarrow> 'm page" where
  "lookupSettled t i lk outcome p =
     (let q = p\<lparr>mp_lookups := filter (\<lambda>c. fst c \<noteq> i) (mp_lookups p)\<rparr> in
      case outcome of
        Inr rs \<Rightarrow> q\<lparr>mp_popup := Some (lookupPopup t lk outcome)\<rparr>
      | Inl e \<Rightarrow> if i \<in> set (mp_aborted p) then q else q\<lparr>mp_popup := Some (lookupPopup t lk outcome)\<rparr>)"

section \<open>The browser's position, the mode and the panels\<close>

definition useMyLocation :: "bool \<Rightarrow> 'm page \<Rightarrow> 'm page" where
  "useMyLocation supported p =
     (if \<not> supported then p\<lparr>mp_routeError := Some ''Your browser does not support location access.''\<rparr>
      else p\<lparr>mp_locating := True, mp_locates := capture p # mp_locates p\<rparr>)"

definition located :: "'m mutationLib \<Rightarrow> captured \<Rightarrow> lngLat \<Rightarrow> 'm page \<Rightarrow> 'm page" where
  "located M cl position p =
     setEndpoint M cl FromEnd \<lparr>ep_text = ''My location'', ep_lngLat = Some position\<rparr>
       (p\<lparr>mp_locating := False, mp_locates := remove1 cl (mp_locates p)\<rparr>)"

definition notLocated :: "captured \<Rightarrow> 'm page \<Rightarrow> 'm page" where
  "notLocated cl p = p\<lparr>mp_locating := False, mp_locates := remove1 cl (mp_locates p),
     mp_routeError := Some ''Location permission was denied or your position is unavailable.''\<rparr>"

definition hasError :: "'m page \<Rightarrow> bool" where
  "hasError p = (case mp_routeError p of None \<Rightarrow> False | Some e \<Rightarrow> e \<noteq> [])"

definition changeMode :: "'m mutationLib \<Rightarrow> TravelMode \<Rightarrow> 'm page \<Rightarrow> 'm page" where
  "changeMode M nextMode p =
     (let q = p\<lparr>mp_mode := nextMode\<rparr> in
      if ml_data M (mp_mutation p) \<noteq> None \<or> hasError p then calculate M (mp_from p) (mp_to p) nextMode q else q)"

text \<open>\<open>onFromChange\<close> and \<open>onToChange\<close>: typing clears the coordinates, choosing a place sets them.\<close>

definition endpointChange :: "'m mutationLib \<Rightarrow> routeEnd \<Rightarrow> RouteEndpoint \<Rightarrow> 'm page \<Rightarrow> 'm page" where
  "endpointChange M which endpoint p =
     (if ep_lngLat endpoint \<noteq> None then setEndpoint M (capture p) which endpoint p
      else if which = FromEnd then p\<lparr>mp_from := endpoint\<rparr> else p\<lparr>mp_to := endpoint\<rparr>)"

definition swapEnds :: "'m mutationLib \<Rightarrow> 'm page \<Rightarrow> 'm page" where
  "swapEnds M p =
     (let q = resetRoute M (p\<lparr>mp_from := mp_to p, mp_to := mp_from p\<rparr>) in
      if ep_lngLat (mp_from p) \<noteq> None \<and> ep_lngLat (mp_to p) \<noteq> None
      then calculate M (mp_to p) (mp_from p) (mp_mode p) q else q)"

definition clearSearch :: "'m page \<Rightarrow> 'm page" where
  "clearSearch p = p\<lparr>mp_selection := None, mp_popup := None\<rparr>"

definition selectTab :: "mobileTab \<Rightarrow> 'm page \<Rightarrow> 'm page" where
  "selectTab tab p = (let q = p\<lparr>mp_mobileTab := tab\<rparr> in if tab = DirectionsTab then q\<lparr>mp_directionsOpen := True\<rparr> else q)"

definition leavePage :: "'m page \<Rightarrow> 'm page" where
  "leavePage p = abortReverse (abortRoute p)"

section \<open>What is shown\<close>

definition markers :: "'m page \<Rightarrow> MapMarker list" where
  "markers p =
     (case mp_selection p of None \<Rightarrow> [] | Some s \<Rightarrow>
        [\<lparr>mk_id = ''selection'', mk_kind = (if sl_kind s = Place then PlaceMarker else PinMarker), mk_lngLat = sl_lngLat s,
          mk_label = (if sl_kind s = Place then ''Selected place'' else ''Dropped pin'')\<rparr>])
     @ (case ep_lngLat (mp_from p) of None \<Rightarrow> [] | Some c \<Rightarrow>
        [\<lparr>mk_id = ''origin'', mk_kind = OriginMarker, mk_lngLat = c, mk_label = ''Start: '' @ ep_text (mp_from p)\<rparr>])
     @ (case ep_lngLat (mp_to p) of None \<Rightarrow> [] | Some c \<Rightarrow>
        [\<lparr>mk_id = ''destination'', mk_kind = DestinationMarker, mk_lngLat = c,
          mk_label = ''Destination: '' @ ep_text (mp_to p)\<rparr>])"

definition shownRoute :: "'m mutationLib \<Rightarrow> 'm page \<Rightarrow> RouteResponse option" where
  "shownRoute M p = (if hasError p then None else ml_data M (mp_mutation p))"

record padding =
  pd_top :: int
  pd_right :: int
  pd_bottom :: int
  pd_left :: int

definition mapPadding :: "bool \<Rightarrow> 'm page \<Rightarrow> padding" where
  "mapPadding isDesktop p =
     (if isDesktop
      then \<lparr>pd_top = 80, pd_right = (if mp_directionsOpen p then 400 else 48), pd_bottom = 48, pd_left = 48\<rparr>
      else \<lparr>pd_top = 32, pd_right = 32, pd_bottom = mp_sheetHeight p + 32, pd_left = 32\<rparr>)"

text \<open>The form of the route panel submits only then (\<open>route-panel.tsx\<close>).\<close>

definition canCalculate :: "'m mutationLib \<Rightarrow> 'm page \<Rightarrow> bool" where
  "canCalculate M p = (ep_lngLat (mp_from p) \<noteq> None \<and> ep_lngLat (mp_to p) \<noteq> None \<and> \<not> ml_pending M (mp_mutation p))"

definition submitRoute :: "'m mutationLib \<Rightarrow> 'm page \<Rightarrow> 'm page" where
  "submitRoute M p = (if canCalculate M p then calculate M (mp_from p) (mp_to p) (mp_mode p) p else p)"

section \<open>Runs\<close>

text \<open>One event: the user's, or the end of something in flight. What was aborted rejects with \<open>AbortError\<close>, and only
  that.\<close>

definition endsAs :: "nat \<Rightarrow> failure + 'a \<Rightarrow> 'm page \<Rightarrow> bool" where
  "endsAs i outcome p \<longleftrightarrow> (i \<in> set (mp_aborted p) \<longleftrightarrow> outcome = Inl (Rethrown ''AbortError''))"

inductive page_step :: "'m mutationLib \<Rightarrow> (string \<Rightarrow> string) \<Rightarrow> 'm page \<Rightarrow> 'm page \<Rightarrow> bool" for M t where
  select: "page_step M t p (selectPlace t place p)"
| click: "page_step M t p (reverseLookup lngLat p)"
| lookup: "(i, lk) \<in> set (mp_lookups p) \<Longrightarrow> endsAs i outcome p \<Longrightarrow> page_step M t p (lookupSettled t i lk outcome p)"
| routed: "(i, args) \<in> set (mp_routes p) \<Longrightarrow> endsAs i outcome p \<Longrightarrow> page_step M t p (routeSettled M i outcome p)"
| popupAction: "mp_popup p = Some po \<Longrightarrow> pa \<in> set (po_actions po) \<Longrightarrow>
    page_step M t p (setEndpoint M (pa_captured pa) (pa_which pa) (pa_endpoint pa) p)"
| closePopup: "page_step M t p (p\<lparr>mp_popup := None\<rparr>)"
| clearSearch: "page_step M t p (clearSearch p)"
| endpoint: "page_step M t p (endpointChange M which e p)"
| swap: "page_step M t p (swapEnds M p)"
| submit: "page_step M t p (submitRoute M p)"
| clear: "page_step M t p (clearRoute M p)"
| mode: "page_step M t p (changeMode M m p)"
| locate: "page_step M t p (useMyLocation supported p)"
| located: "cl \<in> set (mp_locates p) \<Longrightarrow> page_step M t p (located M cl position p)"
| notLocated: "cl \<in> set (mp_locates p) \<Longrightarrow> page_step M t p (notLocated cl p)"
| openPanel: "page_step M t p (openDirections p)"
| closePanel: "page_step M t p (p\<lparr>mp_directionsOpen := False\<rparr>)"
| tab: "page_step M t p (selectTab tab p)"
| sheet: "page_step M t p (p\<lparr>mp_sheetExpanded := expanded\<rparr>)"
| resize: "page_step M t p (p\<lparr>mp_sheetHeight := height\<rparr>)"
| typing: "page_step M t p (p\<lparr>mp_searchText := text\<rparr>)"
| styleError: "page_step M t p (p\<lparr>mp_styleError := True\<rparr>)"
| leave: "page_step M t p (leavePage p)"

inductive_cases page_stepE: "page_step M t p q"

end
