(* ===== verification/MapPageProps.thy ===== *)
theory MapPageProps
  imports MapPage
begin

text \<open>
  The page of the map keeps apart what belongs to different places: the popup and the marker are of the same place,
  and only the request made last can change what is shown. The last section shows where the page does lose track:
  an action of an old popup, and a change of mode while a route is on its way.
\<close>

section \<open>The invariant\<close>

definition lookupsOk :: "'m page \<Rightarrow> bool" where
  "lookupsOk p \<longleftrightarrow> (\<forall>(i, lk) \<in> set (mp_lookups p). i \<notin> set (mp_aborted p) \<longrightarrow>
     mp_reverseAbort p = Some i \<and> (\<forall>s. mp_selection p = Some s \<longrightarrow> sl_lngLat s = lk_lngLat lk))"

definition routesOk :: "'m page \<Rightarrow> bool" where
  "routesOk p \<longleftrightarrow> (\<forall>(i, args) \<in> set (mp_routes p). i \<notin> set (mp_aborted p) \<longrightarrow> mp_routeAbort p = Some i)"

definition popupOk :: "'m page \<Rightarrow> bool" where
  "popupOk p \<longleftrightarrow> (\<forall>po s. mp_popup p = Some po \<longrightarrow> mp_selection p = Some s \<longrightarrow> sl_lngLat s = po_lngLat po)"

definition page_inv :: "'m page \<Rightarrow> bool" where
  "page_inv p \<longleftrightarrow> lookupsOk p \<and> routesOk p \<and> popupOk p"

lemmas page_inv_defs = page_inv_def lookupsOk_def routesOk_def popupOk_def

text \<open>What the invariant reads.\<close>

definition tracked :: "'m page \<Rightarrow> _" where
  "tracked p = (mp_selection p, mp_popup p, mp_reverseAbort p, mp_routeAbort p, mp_aborted p, mp_routes p, mp_lookups p)"

lemma page_inv_cong: "tracked q = tracked p \<Longrightarrow> page_inv q = page_inv p"
  by (simp add: page_inv_defs tracked_def)

lemma abort_fields [simp]:
  "mp_selection (abortRoute p) = mp_selection p" "mp_selection (abortReverse p) = mp_selection p"
  "mp_popup (abortRoute p) = mp_popup p" "mp_popup (abortReverse p) = mp_popup p"
  "mp_routes (abortRoute p) = mp_routes p" "mp_routes (abortReverse p) = mp_routes p"
  "mp_lookups (abortRoute p) = mp_lookups p" "mp_lookups (abortReverse p) = mp_lookups p"
  "mp_routeAbort (abortRoute p) = mp_routeAbort p" "mp_routeAbort (abortReverse p) = mp_routeAbort p"
  "mp_reverseAbort (abortRoute p) = mp_reverseAbort p" "mp_reverseAbort (abortReverse p) = mp_reverseAbort p"
  "mp_mutation (abortRoute p) = mp_mutation p" "mp_mutation (abortReverse p) = mp_mutation p"
  "mp_next (abortRoute p) = mp_next p" "mp_next (abortReverse p) = mp_next p"
  "set (mp_aborted (abortRoute p)) = set_option (mp_routeAbort p) \<union> set (mp_aborted p)"
  "set (mp_aborted (abortReverse p)) = set_option (mp_reverseAbort p) \<union> set (mp_aborted p)"
  by (auto simp: abortRoute_def abortReverse_def split: option.splits)

lemma page_inv_abort [intro]: "page_inv p \<Longrightarrow> page_inv (abortRoute p)" "page_inv p \<Longrightarrow> page_inv (abortReverse p)"
  by (auto simp: page_inv_defs)

lemma tracked_moveCamera [simp]: "tracked (moveCamera c p) = tracked p"
  by (simp add: moveCamera_def Let_def tracked_def)

lemma tracked_openDirections [simp]: "tracked (openDirections p) = tracked p"
  by (simp add: openDirections_def tracked_def)

lemma page_inv_startRoute: "page_inv p \<Longrightarrow> page_inv (startRoute M args p)"
  by (auto simp: startRoute_def Let_def page_inv_defs)

lemma page_inv_calculate:
  assumes "page_inv p"
  shows "page_inv (calculate M a b m p)"
proof -
  have "page_inv (p\<lparr>mp_routeError := None\<rparr>)"
    using assms page_inv_cong [of "p\<lparr>mp_routeError := None\<rparr>" p] by (simp add: tracked_def)
  with assms show ?thesis by (auto simp: calculate_def page_inv_startRoute split: option.splits)
qed

lemma page_inv_setEndpoint:
  assumes "page_inv p"
  shows "page_inv (setEndpoint M cl which e p)"
proof -
  let ?q = "if which = FromEnd then p\<lparr>mp_from := e\<rparr> else p\<lparr>mp_to := e\<rparr>"
  have "tracked (openDirections ((resetRoute M ?q)\<lparr>mp_routeError := None\<rparr>)) = tracked p"
    unfolding tracked_openDirections by (simp add: tracked_def resetRoute_def)
  with assms have "page_inv (openDirections ((resetRoute M ?q)\<lparr>mp_routeError := None\<rparr>))"
    using page_inv_cong by metis
  then show ?thesis by (simp add: setEndpoint_def Let_def page_inv_calculate)
qed

lemma page_inv_select: "page_inv p \<Longrightarrow> page_inv (selectPlace t place p)"
proof -
  assume inv: "page_inv p"
  define q where "q = (abortReverse p)\<lparr>mp_selection := Some \<lparr>sl_id = gr_id place, sl_lngLat = (gr_longitude place, gr_latitude place),
      sl_kind = Place\<rparr>, mp_popup := Some (placePopup t (capture p) (gr_name place)
        (filter (\<lambda>l. l \<noteq> []) [case gr_address place of None \<Rightarrow> [] | Some a \<Rightarrow> a, coordinatesText (gr_longitude place, gr_latitude place)])
        (gr_longitude place, gr_latitude place))\<rparr>"
  have "page_inv q" using inv by (auto simp: q_def page_inv_defs placePopup_def)
  moreover have "selectPlace t place p = (moveCamera (CenterOn (gr_longitude place, gr_latitude place) (Some PLACE_ZOOM)) q)\<lparr>mp_sheetExpanded := False\<rparr>"
    by (simp add: selectPlace_def Let_def q_def)
  moreover have "tracked ((moveCamera c q)\<lparr>mp_sheetExpanded := False\<rparr>) = tracked q" for c
    using tracked_moveCamera [of c q] by (simp add: tracked_def)
  ultimately show ?thesis using page_inv_cong by metis
qed

lemma page_inv_click: "page_inv p \<Longrightarrow> page_inv (reverseLookup lngLat p)"
  by (auto simp: reverseLookup_def Let_def page_inv_defs)

lemma lookupPopup_lngLat [simp]: "po_lngLat (lookupPopup t lk out) = lk_lngLat lk"
  by (simp add: lookupPopup_def placePopup_def Let_def split: sum.split list.split)

lemma page_inv_lookup:
  assumes "page_inv p" and "(i, lk) \<in> set (mp_lookups p)" and "endsAs i out p"
  shows "page_inv (lookupSettled t i lk out p)"
proof -
  have kept: "page_inv (p\<lparr>mp_lookups := filter (\<lambda>c. fst c \<noteq> i) (mp_lookups p)\<rparr>)"
    using assms(1) by (auto simp: page_inv_defs)
  show ?thesis
  proof (cases "i \<in> set (mp_aborted p)")
    case True
    with assms(3) have "out = Inl (Rethrown ''AbortError'')" by (simp add: endsAs_def)
    with True kept show ?thesis by (simp add: lookupSettled_def Let_def)
  next
    case False
    with assms(1,2) have "\<forall>s. mp_selection p = Some s \<longrightarrow> sl_lngLat s = lk_lngLat lk" by (auto simp: page_inv_defs)
    with kept False show ?thesis
      by (auto simp: lookupSettled_def Let_def page_inv_defs split: sum.splits)
  qed
qed

lemma page_inv_routed: "page_inv p \<Longrightarrow> page_inv (routeSettled M i out p)"
proof -
  assume inv: "page_inv p"
  define q where "q = p\<lparr>mp_routes := filter (\<lambda>c. fst c \<noteq> i) (mp_routes p),
      mp_mutation := ml_settled M i (case out of Inr r \<Rightarrow> Some r | Inl e \<Rightarrow> None) (mp_mutation p)\<rparr>"
  have "page_inv q" using inv by (auto simp: q_def page_inv_defs)
  moreover have "tracked (routeCallbacks out q) = tracked q"
  proof (cases out)
    case (Inl e)
    then show ?thesis by (simp add: routeCallbacks_def tracked_def)
  next
    case (Inr r)
    have "tracked (q\<lparr>mp_routeError := None\<rparr>) = tracked q" by (simp add: tracked_def)
    with Inr show ?thesis by (auto simp: routeCallbacks_def Let_def split: option.splits)
  qed
  ultimately show ?thesis using page_inv_cong by (metis routeSettled_def q_def)
qed

lemma page_inv_clear: "page_inv p \<Longrightarrow> page_inv (clearRoute M p)"
proof -
  assume "page_inv p"
  then have "page_inv (abortRoute p)" by blast
  moreover have "tracked (clearRoute M p) = tracked (abortRoute p)" by (simp add: tracked_def clearRoute_def resetRoute_def)
  ultimately show ?thesis using page_inv_cong by metis
qed

lemma page_inv_swap: "page_inv p \<Longrightarrow> page_inv (swapEnds M p)"
proof -
  assume inv: "page_inv p"
  have "tracked (resetRoute M (p\<lparr>mp_from := mp_to p, mp_to := mp_from p\<rparr>)) = tracked p"
    by (simp add: tracked_def resetRoute_def)
  with inv have "page_inv (resetRoute M (p\<lparr>mp_from := mp_to p, mp_to := mp_from p\<rparr>))" using page_inv_cong by metis
  then show ?thesis by (simp add: swapEnds_def Let_def page_inv_calculate)
qed

lemma page_inv_mode: "page_inv p \<Longrightarrow> page_inv (changeMode M m p)"
proof -
  assume inv: "page_inv p"
  then have "page_inv (p\<lparr>mp_mode := m\<rparr>)" using page_inv_cong [of "p\<lparr>mp_mode := m\<rparr>" p] by (simp add: tracked_def)
  then show ?thesis by (simp add: changeMode_def Let_def page_inv_calculate)
qed

lemma page_inv_tracked: "page_inv p \<Longrightarrow> tracked q = tracked p \<Longrightarrow> page_inv q"
  using page_inv_cong by metis

lemma page_inv_located: "page_inv p \<Longrightarrow> page_inv (located M cl position p)"
  unfolding located_def
  by (rule page_inv_setEndpoint, erule page_inv_tracked) (simp add: tracked_def)

lemma page_inv_endpoint: "page_inv p \<Longrightarrow> page_inv (endpointChange M which e p)"
  by (auto simp: endpointChange_def tracked_def intro: page_inv_setEndpoint elim: page_inv_tracked)

lemma page_inv_frame:
  assumes "page_inv p"
  shows "page_inv (useMyLocation supported p)" "page_inv (notLocated cl p)" "page_inv (openDirections p)"
    "page_inv (p\<lparr>mp_directionsOpen := b\<rparr>)" "page_inv (selectTab tab p)" "page_inv (p\<lparr>mp_sheetExpanded := b\<rparr>)"
    "page_inv (p\<lparr>mp_sheetHeight := h\<rparr>)" "page_inv (p\<lparr>mp_searchText := x\<rparr>)" "page_inv (p\<lparr>mp_styleError := b\<rparr>)"
  by (rule page_inv_tracked [OF assms],
      simp add: tracked_def notLocated_def useMyLocation_def openDirections_def selectTab_def Let_def)+

lemma page_inv_step:
  assumes "page_inv p" and "page_step M t p q"
  shows "page_inv q"
  using assms(2)
proof (rule page_stepE)
  assume "q = p\<lparr>mp_popup := None\<rparr>"
  with assms(1) show ?thesis by (simp add: page_inv_defs)
next
  assume "q = clearSearch p"
  with assms(1) show ?thesis by (auto simp: page_inv_defs clearSearch_def)
next
  assume "q = submitRoute M p"
  with assms(1) show ?thesis by (simp add: submitRoute_def page_inv_calculate)
next
  assume "q = leavePage p"
  with assms(1) show ?thesis by (auto simp: leavePage_def)
qed (use assms(1) in \<open>simp_all add: page_inv_select page_inv_click page_inv_lookup page_inv_routed page_inv_setEndpoint
    page_inv_endpoint page_inv_swap page_inv_clear page_inv_mode page_inv_located page_inv_frame\<close>)

interpretation pages: invariant_steps "page_step M t" page_inv for M t
  by unfold_locales (rule page_inv_step)

lemma page_inv_init: "page_inv (page_init M)"
  by (simp add: page_inv_defs page_init_def)

text \<open>C32. The marker and the popup never speak of different places: after any events in any order, a popup that is shown
  beside a marker is for the marker's own coordinates; and of the lookups in flight all but the one made last have
  been aborted, which is for the marker if there is one, so a late answer cannot put another place's
  address there.\<close>

theorem popup_matches_marker:
  assumes "(page_step M t)\<^sup>*\<^sup>* (page_init M) p"
  shows "(\<forall>po s. mp_popup p = Some po \<longrightarrow> mp_selection p = Some s \<longrightarrow> sl_lngLat s = po_lngLat po)
    \<and> (\<forall>i lk. (i, lk) \<in> set (mp_lookups p) \<longrightarrow> i \<notin> set (mp_aborted p) \<longrightarrow> mp_reverseAbort p = Some i
         \<and> (\<forall>s. mp_selection p = Some s \<longrightarrow> sl_lngLat s = lk_lngLat lk))"
  using pages.good_run [OF assms page_inv_init] by (auto simp: page_inv_defs)

text \<open>A mutation that does what the documentation says: the call shown, whether it is pending, and its data.\<close>

definition shownCall :: "(nat option \<times> bool \<times> RouteResponse option) mutationLib" where
  "shownCall = \<lparr>ml_idle = (None, False, None), ml_mutate = (\<lambda>i m. (Some i, True, None)),
     ml_settled = (\<lambda>i out m. if fst m = Some i then (Some i, False, out) else m), ml_reset = (\<lambda>m. (None, False, None)),
     ml_data = (\<lambda>m. snd (snd m)), ml_pending = (\<lambda>m. fst (snd m)), ml_current = fst\<rparr>"

lemma shownCall_laws: "mutationLaws shownCall"
  by (auto simp: mutationLaws_def shownCall_def)

definition twoPins :: "(nat option \<times> bool \<times> RouteResponse option) page" where
  "twoPins = reverseLookup (106, 48) (reverseLookup (107, 47) (page_init shownCall))"

lemma twoPins_run: "(page_step shownCall id)\<^sup>*\<^sup>* (page_init shownCall) twoPins"
proof -
  have "page_step shownCall id (page_init shownCall) (reverseLookup (107, 47) (page_init shownCall))" by (rule page_step.click)
  moreover have "page_step shownCall id (reverseLookup (107, 47) (page_init shownCall)) twoPins"
    unfolding twoPins_def by (rule page_step.click)
  ultimately show ?thesis by simp
qed

theorem popup_matches_marker_witness:
  "(\<exists>po s. mp_popup twoPins = Some po \<and> mp_selection twoPins = Some s \<and> sl_lngLat s = po_lngLat po)
    \<and> map fst (mp_lookups twoPins) = [1, 0] \<and> mp_aborted twoPins = [0] \<and> mp_reverseAbort twoPins = Some 1"
proof -
  obtain po s where shown: "mp_popup twoPins = Some po" "mp_selection twoPins = Some s"
    by (simp add: twoPins_def reverseLookup_def Let_def)
  have shape: "map fst (mp_lookups twoPins) = [1, 0]" "mp_aborted twoPins = [0]" "mp_reverseAbort twoPins = Some 1"
    by (simp_all add: twoPins_def reverseLookup_def abortReverse_def page_init_def Let_def)
  show ?thesis using popup_matches_marker [OF twoPins_run] shown shape by blast
qed

section \<open>The route shown\<close>

text \<open>What an operation of the page makes of the route shown: the same, or none.\<close>

definition noNewRoute :: "'m mutationLib \<Rightarrow> 'm page \<Rightarrow> 'm page \<Rightarrow> bool" where
  "noNewRoute M p q \<longleftrightarrow> mp_mutation q = mp_mutation p \<or> ml_data M (mp_mutation q) = None"

lemma noNewRoute_refl [simp]: "mp_mutation q = mp_mutation p \<Longrightarrow> noNewRoute M p q"
  by (simp add: noNewRoute_def)

lemma noNewRoute_trans: "noNewRoute M p q \<Longrightarrow> noNewRoute M q r \<Longrightarrow> noNewRoute M p r"
  by (auto simp: noNewRoute_def)

lemma mutation_frame [simp]:
  "mp_mutation (moveCamera req p) = mp_mutation p" "mp_mutation (openDirections p) = mp_mutation p"
  "mp_mutation (selectPlace t place p) = mp_mutation p" "mp_mutation (reverseLookup c p) = mp_mutation p"
  "mp_mutation (lookupSettled t i lk lout p) = mp_mutation p" "mp_mutation (clearSearch p) = mp_mutation p"
  "mp_mutation (useMyLocation b p) = mp_mutation p" "mp_mutation (notLocated cl p) = mp_mutation p"
  "mp_mutation (selectTab tab p) = mp_mutation p" "mp_mutation (leavePage p) = mp_mutation p"
  by (simp_all add: moveCamera_def openDirections_def selectPlace_def reverseLookup_def lookupSettled_def
      clearSearch_def useMyLocation_def notLocated_def selectTab_def leavePage_def Let_def split: sum.split)

lemma noNewRoute_calculate: "mutationLaws M \<Longrightarrow> noNewRoute M p (calculate M a b m p)"
  by (auto simp: calculate_def startRoute_def Let_def noNewRoute_def mutationLaws_def split: option.split)

lemma noNewRoute_then: "mutationLaws M \<Longrightarrow> noNewRoute M p q \<Longrightarrow> noNewRoute M p (calculate M a b m q)"
  using noNewRoute_calculate noNewRoute_trans by blast

lemma noNewRoute_setEndpoint: "mutationLaws M \<Longrightarrow> noNewRoute M p (setEndpoint M cl which e p)"
proof -
  assume laws: "mutationLaws M"
  let ?q = "if which = FromEnd then p\<lparr>mp_from := e\<rparr> else p\<lparr>mp_to := e\<rparr>"
  have "noNewRoute M p (openDirections ((resetRoute M ?q)\<lparr>mp_routeError := None\<rparr>))"
    using laws by (simp add: noNewRoute_def resetRoute_def mutationLaws_def)
  then show ?thesis
    by (simp add: setEndpoint_def Let_def noNewRoute_then [OF laws])
qed

lemma noNewRoute_ops:
  assumes laws: "mutationLaws M"
  shows "noNewRoute M p (swapEnds M p)" "noNewRoute M p (changeMode M m p)" "noNewRoute M p (submitRoute M p)"
    "noNewRoute M p (clearRoute M p)" "noNewRoute M p (located M cl position p)" "noNewRoute M p (endpointChange M which e p)"
proof -
  have "noNewRoute M p (resetRoute M q)" for q using laws by (simp add: noNewRoute_def resetRoute_def mutationLaws_def)
  then show "noNewRoute M p (swapEnds M p)"
    by (simp add: swapEnds_def Let_def noNewRoute_then [OF laws])
  have "noNewRoute M p (p\<lparr>mp_mode := m\<rparr>)" by simp
  then show "noNewRoute M p (changeMode M m p)"
    by (simp add: changeMode_def Let_def noNewRoute_then [OF laws])
  show "noNewRoute M p (submitRoute M p)" by (simp add: submitRoute_def noNewRoute_calculate [OF laws])
  show "noNewRoute M p (clearRoute M p)" using laws by (simp add: clearRoute_def resetRoute_def noNewRoute_def mutationLaws_def)
  have "noNewRoute M p (p\<lparr>mp_locating := False, mp_locates := remove1 cl (mp_locates p)\<rparr>)" by simp
  then show "noNewRoute M p (located M cl position p)"
    unfolding located_def using noNewRoute_trans noNewRoute_setEndpoint [OF laws] by blast
  show "noNewRoute M p (endpointChange M which e p)" by (simp add: endpointChange_def noNewRoute_setEndpoint [OF laws])
qed

lemma noNewRoute_step:
  assumes "mutationLaws M" and "page_step M t p q"
  shows "noNewRoute M p q \<or> (\<exists>i args out. (i, args) \<in> set (mp_routes p) \<and> endsAs i out p \<and> q = routeSettled M i out p)"
  using assms(2)
proof (rule page_stepE)
  fix i args out
  assume "q = routeSettled M i out p" "(i, args) \<in> set (mp_routes p)" "endsAs i out p"
  then show ?thesis by blast
qed (simp_all add: noNewRoute_ops [OF assms(1)] noNewRoute_setEndpoint [OF assms(1)])

lemma mutation_callbacks [simp]: "mp_mutation (routeCallbacks out p) = mp_mutation p"
  by (simp add: routeCallbacks_def Let_def split: sum.split option.split prod.split)

text \<open>C33. A new route appears only as the answer to the request made last: whatever happened before, when an event makes
  the page show a route it did not show, that event is the successful end of a request in flight that was not
  aborted and is the current one, and every other request still in flight has been aborted, so no late answer
  can replace it.\<close>

theorem route_is_latest:
  assumes "(page_step M t)\<^sup>*\<^sup>* (page_init M) p" and "mutationLaws M" and "page_step M t p q"
    and "ml_data M (mp_mutation q) = Some r" and "ml_data M (mp_mutation p) \<noteq> Some r"
  shows "\<exists>i args. (i, args) \<in> set (mp_routes p) \<and> q = routeSettled M i (Inr r) p \<and> i \<notin> set (mp_aborted p)
    \<and> mp_routeAbort p = Some i \<and> (\<forall>(j, args') \<in> set (mp_routes p). j \<noteq> i \<longrightarrow> j \<in> set (mp_aborted p))"
proof -
  have inv: "routesOk p" using pages.good_run [OF assms(1) page_inv_init] by (simp add: page_inv_def)
  have "\<not> noNewRoute M p q" using assms(4,5) by (auto simp: noNewRoute_def)
  then obtain i args out where i: "(i, args) \<in> set (mp_routes p)" "endsAs i out p" "q = routeSettled M i out p"
    using noNewRoute_step [OF assms(2,3)] by blast
  then have "out = Inr r"
    using assms(2,4,5) by (auto simp: routeSettled_def mutationLaws_def split: if_splits sum.splits)
  moreover from this i(2) have "i \<notin> set (mp_aborted p)" by (simp add: endsAs_def)
  moreover from this i(1) inv have "mp_routeAbort p = Some i" by (auto simp: routesOk_def)
  ultimately show ?thesis using i(1,3) inv by (intro exI [of _ i] exI [of _ args]) (auto simp: routesOk_def)
qed

text \<open>Two places are chosen as ends; the request for the route between them is in flight.\<close>

definition endAt :: "rat \<Rightarrow> RouteEndpoint" where
  "endAt x = \<lparr>ep_text = ''place'', ep_lngLat = Some (x, 48)\<rparr>"

definition askedRoute :: "(nat option \<times> bool \<times> RouteResponse option) page" where
  "askedRoute = endpointChange shownCall ToEnd (endAt 2) (endpointChange shownCall FromEnd (endAt 1) (page_init shownCall))"

definition someRoute :: RouteResponse where
  "someRoute = \<lparr>rr_coordinates = [(1, 48), (2, 48)], rr_distance = 74000, rr_duration = 3600, rr_mode = Driving\<rparr>"

lemma askedRoute_run: "(page_step shownCall id)\<^sup>*\<^sup>* (page_init shownCall) askedRoute"
proof -
  have "page_step shownCall id (page_init shownCall) (endpointChange shownCall FromEnd (endAt 1) (page_init shownCall))"
    by (rule page_step.endpoint)
  moreover have "page_step shownCall id (endpointChange shownCall FromEnd (endAt 1) (page_init shownCall)) askedRoute"
    unfolding askedRoute_def by (rule page_step.endpoint)
  ultimately show ?thesis by simp
qed

lemmas page_ops = endpointChange_def setEndpoint_def capture_def resetRoute_def openDirections_def calculate_def
  startRoute_def abortRoute_def routeSettled_def routeCallbacks_def routeBounds_def moveCamera_def changeMode_def
  hasError_def widen_def selectPlace_def abortReverse_def placePopup_def shownCall_def page_init_def EMPTY_ENDPOINT_def Let_def

lemma askedRoute_facts:
  "mp_routes askedRoute = [(0, \<lparr>ra_from = (1, 48), ra_to = (2, 48), ra_mode = Driving\<rparr>)]" "mp_aborted askedRoute = []"
  "mp_mutation askedRoute = (Some 0, True, None)" "mp_from askedRoute = endAt 1" "mp_to askedRoute = endAt 2"
  "mp_mode askedRoute = Driving" "mp_routeError askedRoute = None" "mp_routeAbort askedRoute = Some 0" "mp_next askedRoute = 1"
  "mp_reverseAbort askedRoute = None"
  by (simp_all add: askedRoute_def endAt_def page_ops)

theorem route_is_latest_witness:
  "mp_mutation (routeSettled shownCall 0 (Inr someRoute) askedRoute) = (Some 0, False, Some someRoute)
    \<and> mp_routeAbort askedRoute = Some 0"
proof -
  let ?q = "routeSettled shownCall 0 (Inr someRoute) askedRoute"
  have m: "mp_mutation ?q = (Some 0, False, Some someRoute)"
    by (simp add: routeSettled_def askedRoute_facts) (simp add: shownCall_def)
  have "page_step shownCall id askedRoute ?q"
    by (rule page_step.routed [of 0 "\<lparr>ra_from = (1, 48), ra_to = (2, 48), ra_mode = Driving\<rparr>"])
      (simp_all add: askedRoute_facts endsAs_def)
  from route_is_latest [OF askedRoute_run shownCall_laws this, of someRoute] m show ?thesis
    by (auto simp: askedRoute_facts shownCall_def)
qed

section \<open>The frame of a route\<close>

definition inFrame :: "lngLat \<Rightarrow> lngLat \<times> lngLat \<Rightarrow> bool" where
  "inFrame c b \<longleftrightarrow> fst (fst b) \<le> fst c \<and> fst c \<le> fst (snd b) \<and> snd (fst b) \<le> snd c \<and> snd c \<le> snd (snd b)"

lemma inFrame_widen: "inFrame c b \<Longrightarrow> inFrame c (widen d b)"
  by (auto simp: inFrame_def widen_def split: prod.split)

lemma inFrame_fold: "inFrame c b \<Longrightarrow> inFrame c (fold widen cs b)"
proof (induction cs arbitrary: b)
  case (Cons d cs)
  from Cons.IH [OF inFrame_widen [OF Cons.prems]] show ?case by simp
qed simp

lemma fold_widen_frame: "c \<in> set cs \<Longrightarrow> inFrame c (fold widen cs b)"
proof (induction cs arbitrary: b)
  case (Cons d cs)
  have "inFrame d (widen d b)" by (auto simp: inFrame_def widen_def split: prod.split)
  from inFrame_fold [OF this] Cons.IH Cons.prems show ?case by (cases "c = d") simp_all
qed simp

text \<open>Every point of the route is within the bounds the camera is asked to fit.\<close>

lemma routeBounds_frame: "routeBounds r = Some b \<Longrightarrow> c \<in> set (rr_coordinates r) \<Longrightarrow> inFrame c b"
  using fold_widen_frame [of c "rr_coordinates r"] by (auto simp: routeBounds_def split: list.splits)

section \<open>Where the page loses track\<close>

text \<open>A change of the mode while a route is on its way asks for no new route: the page then shows the route of the
  old mode, with no request in flight.\<close>

lemma mode_change_ignored:
  "\<exists>p. (page_step shownCall id)\<^sup>*\<^sup>* (page_init shownCall) p \<and> mp_mode p = Walking
    \<and> shownRoute shownCall p = Some someRoute \<and> rr_mode someRoute = Driving \<and> mp_routes p = []"
proof -
  let ?q = "changeMode shownCall Walking askedRoute"
  let ?r = "routeSettled shownCall 0 (Inr someRoute) ?q"
  have q: "?q = askedRoute\<lparr>mp_mode := Walking\<rparr>"
    by (simp add: changeMode_def Let_def hasError_def askedRoute_facts) (simp add: shownCall_def)
  have "page_step shownCall id askedRoute ?q" by (rule page_step.mode)
  moreover have "page_step shownCall id ?q ?r"
    by (rule page_step.routed [of 0 "\<lparr>ra_from = (1, 48), ra_to = (2, 48), ra_mode = Driving\<rparr>"])
      (simp_all add: q askedRoute_facts endsAs_def)
  ultimately have "(page_step shownCall id)\<^sup>*\<^sup>* (page_init shownCall) ?r" using askedRoute_run by simp
  moreover have "mp_mode ?r = Walking" "shownRoute shownCall ?r = Some someRoute" "mp_routes ?r = []"
    unfolding q by (simp_all add: page_ops shownRoute_def askedRoute_facts someRoute_def)
  ultimately show ?thesis by (auto simp: someRoute_def)
qed

text \<open>An action of a popup uses the ends of the render in which the popup was made: after the start was changed, going
  to the popup's place asks for a route from the old start, while the panel shows the new one.\<close>

definition bank :: GeocodeResult where
  "bank = \<lparr>gr_id = ''loc_1'', gr_name = ''Bank'', gr_address = None, gr_latitude = 48, gr_longitude = 5\<rparr>"

lemma old_popup_routes_elsewhere:
  "\<exists>p i args. (page_step shownCall id)\<^sup>*\<^sup>* (page_init shownCall) p \<and> (i, args) \<in> set (mp_routes p)
    \<and> i \<notin> set (mp_aborted p) \<and> ep_lngLat (mp_from p) = Some (3, 48) \<and> ra_from args = (1, 48)"
proof -
  let ?p1 = "selectPlace id bank askedRoute"
  let ?p2 = "endpointChange shownCall FromEnd (endAt 3) ?p1"
  let ?pa = "\<lparr>pa_label = ''map.directionsToHere'', pa_which = ToEnd, pa_endpoint = \<lparr>ep_text = ''Bank'', ep_lngLat = Some (5, 48)\<rparr>,
      pa_captured = \<lparr>cl_from = endAt 1, cl_to = endAt 2, cl_mode = Driving\<rparr>\<rparr>"
  let ?p3 = "setEndpoint shownCall (pa_captured ?pa) (pa_which ?pa) (pa_endpoint ?pa) ?p2"
  have 1: "page_step shownCall id askedRoute ?p1" by (rule page_step.select)
  have 2: "page_step shownCall id ?p1 ?p2" by (rule page_step.endpoint)
  have "\<exists>po. mp_popup ?p2 = Some po \<and> ?pa \<in> set (po_actions po)"
    by (simp add: page_ops askedRoute_facts endAt_def bank_def)
  then have 3: "page_step shownCall id ?p2 ?p3" by (blast intro: page_step.popupAction)
  have run: "(page_step shownCall id)\<^sup>*\<^sup>* (page_init shownCall) ?p3" using askedRoute_run 1 2 3 by (meson rtranclp.rtrancl_into_rtrancl)
  have "(2, \<lparr>ra_from = (1, 48), ra_to = (5, 48), ra_mode = Driving\<rparr>) \<in> set (mp_routes ?p3)"
    "2 \<notin> set (mp_aborted ?p3)" "ep_lngLat (mp_from ?p3) = Some (3, 48)"
    by (simp_all add: page_ops askedRoute_facts endAt_def bank_def)
  with run show ?thesis by force
qed

end
