(* ===== verification/MapView.thy ===== *)
theory MapView
  imports MapPage "HOL-Library.AList"
begin

text \<open>
  The wrapper of the map library (\<open>components/map/map-view.tsx\<close>): the elements it builds, and the effects that bring
  the markers, the route, the camera and the popup of the library's map in line with the properties the page gives.
  Elements are values with the text and the markup put into them; what is on the map is a list of their numbers.
\<close>

section \<open>Elements\<close>

text \<open>\<open>nd_text\<close> was set as \<open>textContent\<close>, \<open>nd_html\<close> as \<open>innerHTML\<close>.\<close>

datatype node = Node (nd_tag: string) (nd_attrs: "(string \<times> string) list") (nd_text: string) (nd_html: string)
  (nd_click: "PopupAction option") (nd_children: "node list")

fun MARKER_COLORS :: "markerKind \<Rightarrow> string" where
  "MARKER_COLORS PlaceMarker = ''#2f6bff''"
| "MARKER_COLORS OriginMarker = ''#0f172a''"
| "MARKER_COLORS DestinationMarker = ''#dc2626''"
| "MARKER_COLORS PinMarker = ''#475569''"

fun kindName :: "markerKind \<Rightarrow> string" where
  "kindName PlaceMarker = ''place''"
| "kindName OriginMarker = ''origin''"
| "kindName DestinationMarker = ''destination''"
| "kindName PinMarker = ''pin''"

text \<open>An attribute of the markup: a space, the name and the quoted value.\<close>

definition htmlAttr :: "string \<Rightarrow> string \<Rightarrow> string" where
  "htmlAttr name v = '' '' @ name @ ''='' @ [CHR 0x22] @ v @ [CHR 0x22]"

definition markerSvg :: "string \<Rightarrow> string" where
  "markerSvg color =
     ''<svg'' @ htmlAttr ''viewBox'' ''0 0 28 36'' @ htmlAttr ''width'' ''28'' @ htmlAttr ''height'' ''36''
       @ htmlAttr ''aria-hidden'' ''true'' @ ''>'' @ [CHR 0x0A]
     @ ''    <path'' @ htmlAttr ''d'' ''M14 1C7 1 1.5 6.5 1.5 13.3 1.5 22.6 14 35 14 35s12.5-12.4 12.5-21.7C26.5 6.5 21 1 14 1Z''
       @ [CHR 0x0A]
     @ ''     '' @ htmlAttr ''fill'' color @ htmlAttr ''stroke'' ''#ffffff'' @ htmlAttr ''stroke-width'' ''2'' @ ''/>'' @ [CHR 0x0A]
     @ ''    <circle'' @ htmlAttr ''cx'' ''14'' @ htmlAttr ''cy'' ''13.5'' @ htmlAttr ''r'' ''4.5'' @ htmlAttr ''fill'' ''#ffffff''
       @ ''/>'' @ [CHR 0x0A]
     @ ''  </svg>''"

definition markerElement :: "MapMarker \<Rightarrow> node" where
  "markerElement m = Node ''div'' [(''role'', ''img''), (''aria-label'', mk_label m), (''data-kind'', kindName (mk_kind m)),
     (''class'', ''geo-marker''), (''style'', ''width: 28px; height: 36px'')] [] (markerSvg (MARKER_COLORS (mk_kind m))) None []"

definition textElement :: "string \<Rightarrow> string \<Rightarrow> node" where
  "textElement name text = Node ''p'' [(''class'', name)] text [] None []"

definition actionButton :: "PopupAction \<Rightarrow> node" where
  "actionButton a = Node ''button'' [(''type'', ''button'')] (pa_label a) [] (Some a) []"

definition popupContent :: "MapPopup \<Rightarrow> node" where
  "popupContent po = Node ''div'' [(''class'', ''geo-popup'')] [] [] None
     (textElement ''geo-popup-title'' (po_title po) # map (textElement ''geo-popup-line'') (po_lines po)
      @ (if po_actions po \<noteq> []
         then [Node ''div'' [(''class'', ''geo-popup-actions'')] [] [] None (map actionButton (po_actions po))] else []))"

section \<open>Markers\<close>

text \<open>A marker of the library: the number of its element, what the element says, and where it is.\<close>

record shownMarker =
  sm_node :: nat
  sm_kind :: markerKind
  sm_label :: string
  sm_lngLat :: lngLat

text \<open>\<open>markersRef.current\<close> in its order, and the markers on the map.\<close>

record markerLayer =
  ly_existing :: "(string \<times> shownMarker) list"
  ly_onMap :: "nat list"
  ly_next :: nat

definition noMarkers :: markerLayer where
  "noMarkers = \<lparr>ly_existing = [], ly_onMap = [], ly_next = 0\<rparr>"

definition removeMarker :: "shownMarker \<Rightarrow> markerLayer \<Rightarrow> markerLayer" where
  "removeMarker m ly = ly\<lparr>ly_onMap := filter (\<lambda>n. n \<noteq> sm_node m) (ly_onMap ly)\<rparr>"

definition dropUnwanted :: "string list \<Rightarrow> string \<times> shownMarker \<Rightarrow> markerLayer \<Rightarrow> markerLayer" where
  "dropUnwanted wanted entry ly =
     (if fst entry \<in> set wanted then ly
      else (removeMarker (snd entry) ly)\<lparr>ly_existing := filter (\<lambda>e. fst e \<noteq> fst entry) (ly_existing ly)\<rparr>)"

definition newMarker :: "MapMarker \<Rightarrow> markerLayer \<Rightarrow> markerLayer" where
  "newMarker m ly = ly\<lparr>ly_existing := AList.update (mk_id m)
       \<lparr>sm_node = ly_next ly, sm_kind = mk_kind m, sm_label = mk_label m, sm_lngLat = mk_lngLat m\<rparr> (ly_existing ly),
     ly_onMap := ly_next ly # ly_onMap ly, ly_next := Suc (ly_next ly)\<rparr>"

definition placeMarker :: "MapMarker \<Rightarrow> markerLayer \<Rightarrow> markerLayer" where
  "placeMarker m ly =
     (case map_of (ly_existing ly) (mk_id m) of
        Some current \<Rightarrow>
          if sm_kind current = mk_kind m
          then ly\<lparr>ly_existing := AList.update (mk_id m) (current\<lparr>sm_lngLat := mk_lngLat m, sm_label := mk_label m\<rparr>) (ly_existing ly)\<rparr>
          else newMarker m (removeMarker current ly)
      | None \<Rightarrow> newMarker m ly)"

definition syncMarkers :: "MapMarker list \<Rightarrow> markerLayer \<Rightarrow> markerLayer" where
  "syncMarkers ms ly = fold placeMarker ms (fold (dropUnwanted (map mk_id ms)) (ly_existing ly) ly)"

section \<open>Route and camera\<close>

text \<open>The features of the route's source: one line, or none.\<close>

definition routeFeatures :: "lngLat list option \<Rightarrow> lngLat list list" where
  "routeFeatures line = (case line of None \<Rightarrow> [] | Some coordinates \<Rightarrow> [coordinates])"

datatype cameraCommand =
    FitTo lngLat lngLat padding rat bool int
  | JumpTo lngLat rat
  | FlyTo lngLat rat rat bool

text \<open>\<open>zoom\<close> is \<open>map.getZoom()\<close>.\<close>

definition cameraCommand :: "bool \<Rightarrow> padding \<Rightarrow> rat \<Rightarrow> CameraRequest option \<Rightarrow> cameraCommand option" where
  "cameraCommand reducedMotion pad zoom camera =
     (case camera of
        None \<Rightarrow> None
      | Some (key, FitBounds a b) \<Rightarrow> Some (FitTo a b pad 16 (\<not> reducedMotion) 800)
      | Some (key, CenterOn c z) \<Rightarrow>
          (let target = (case z of Some x \<Rightarrow> x | None \<Rightarrow> zoom) in
           Some (if reducedMotion then JumpTo c target else FlyTo c target (14 / 10) False)))"

section \<open>The popup\<close>

text \<open>A popup of the library: its number, place, content and whether it scales in.\<close>

record shownPopup =
  sp_id :: nat
  sp_lngLat :: lngLat
  sp_content :: node
  sp_enters :: bool

text \<open>\<open>popupRef\<close>, \<open>popupLngLat\<close>, the popups on the map, and how often \<open>onPopupClose\<close> was called.\<close>

record popupLayer =
  pl_ref :: "nat option"
  pl_lngLat :: "lngLat option"
  pl_onMap :: "shownPopup list"
  pl_next :: nat
  pl_closes :: nat

definition noPopup :: popupLayer where
  "noPopup = \<lparr>pl_ref = None, pl_lngLat = None, pl_onMap = [], pl_next = 0, pl_closes = 0\<rparr>"

text \<open>\<open>remove()\<close>, also when the user presses the close button: the popup's \<open>close\<close> event is for the page only while it is
  the current popup.\<close>

definition removePopup :: "nat \<Rightarrow> popupLayer \<Rightarrow> popupLayer" where
  "removePopup i ly =
     (let q = ly\<lparr>pl_onMap := filter (\<lambda>po. sp_id po \<noteq> i) (pl_onMap ly)\<rparr> in
      if pl_ref q = Some i then q\<lparr>pl_closes := Suc (pl_closes q)\<rparr> else q)"

definition addPopup :: "lngLat option \<Rightarrow> MapPopup \<Rightarrow> popupLayer \<Rightarrow> popupLayer" where
  "addPopup previous po ly =
     ly\<lparr>pl_onMap := \<lparr>sp_id = pl_next ly, sp_lngLat = po_lngLat po, sp_content = popupContent po,
          sp_enters = (previous \<noteq> Some (po_lngLat po))\<rparr> # pl_onMap ly,
        pl_ref := Some (pl_next ly), pl_next := Suc (pl_next ly)\<rparr>"

definition syncPopup :: "MapPopup option \<Rightarrow> popupLayer \<Rightarrow> popupLayer" where
  "syncPopup po ly =
     (let cleared = ly\<lparr>pl_ref := None\<rparr>;
          removed = (case pl_ref ly of None \<Rightarrow> cleared | Some i \<Rightarrow> removePopup i cleared);
          moved = removed\<lparr>pl_lngLat := map_option po_lngLat po\<rparr> in
      case po of None \<Rightarrow> moved | Some x \<Rightarrow> addPopup (pl_lngLat ly) x moved)"

section \<open>The map itself\<close>

text \<open>The life of the effect that creates the map: \<open>vw_map\<close> is the map's style once it exists.\<close>

record 'style view =
  vw_unmounted :: bool
  vw_map :: "'style option"
  vw_ready :: bool
  vw_styleErrors :: nat

definition view_init :: "'style view" where
  "view_init = \<lparr>vw_unmounted = False, vw_map = None, vw_ready = False, vw_styleErrors = 0\<rparr>"

definition styleResolved :: "'style \<Rightarrow> 'style view \<Rightarrow> 'style view" where
  "styleResolved style v = (if vw_unmounted v then v else v\<lparr>vw_map := Some style\<rparr>)"

definition styleRejected :: "'style view \<Rightarrow> 'style view" where
  "styleRejected v = (if vw_unmounted v then v else v\<lparr>vw_styleErrors := Suc (vw_styleErrors v)\<rparr>)"

definition mapLoaded :: "'style view \<Rightarrow> 'style view" where
  "mapLoaded v = v\<lparr>vw_ready := True\<rparr>"

definition mapFailed :: "bool \<Rightarrow> 'style view \<Rightarrow> 'style view" where
  "mapFailed isStyleLoaded v = (if \<not> isStyleLoaded then v\<lparr>vw_styleErrors := Suc (vw_styleErrors v)\<rparr> else v)"

definition unmountView :: "'style view \<Rightarrow> 'style view" where
  "unmountView v = v\<lparr>vw_unmounted := True, vw_map := None, vw_ready := False\<rparr>"

end
