(* ===== verification/MapViewProps.thy ===== *)
theory MapViewProps
  imports MapView MapPageProps
begin

text \<open>
  The map shows what the page says: after each update exactly the wanted markers are on it, the elements of
  unchanged kinds reused and the others removed; at most one popup is on it, and replacing it is never taken for
  the user closing it; texts of places are never put in as markup.
\<close>

section \<open>Markers\<close>

definition layerOk :: "markerLayer \<Rightarrow> bool" where
  "layerOk ly \<longleftrightarrow> distinct (map fst (ly_existing ly))
     \<and> inj_on (\<lambda>e. sm_node (snd e)) (set (ly_existing ly))
     \<and> set (ly_onMap ly) = (\<lambda>e. sm_node (snd e)) ` set (ly_existing ly)
     \<and> (\<forall>n \<in> set (ly_onMap ly). n < ly_next ly)"

lemma layerOk_noMarkers: "layerOk noMarkers"
  by (simp add: layerOk_def noMarkers_def)

text \<open>Replacing or adding the entry of one id.\<close>

lemma set_update:
  assumes "distinct (map fst al)"
  shows "set (AList.update k v al) = {e \<in> set al. fst e \<noteq> k} \<union> {(k, v)}"
  using assms by (induction al) (auto simp: rev_image_eqI)

lemma node_unique:
  assumes "layerOk ly" and "e \<in> set (ly_existing ly)" and "(k, c) \<in> set (ly_existing ly)" and "sm_node (snd e) = sm_node c"
  shows "e = (k, c)"
proof -
  have "inj_on (\<lambda>e. sm_node (snd e)) (set (ly_existing ly))" using assms(1) by (simp add: layerOk_def)
  from inj_onD [OF this _ assms(2,3)] assms(4) show ?thesis by simp
qed

lemma key_unique: "layerOk ly \<Longrightarrow> e \<in> set (ly_existing ly) \<Longrightarrow> (k, c) \<in> set (ly_existing ly) \<Longrightarrow> fst e = k \<Longrightarrow> e = (k, c)"
  by (cases e) (auto simp: layerOk_def dest: eq_key_imp_eq_value)

lemma drop_ok:
  assumes "layerOk ly" and "(k, m) \<in> set (ly_existing ly)"
  shows "layerOk ((removeMarker m ly)\<lparr>ly_existing := filter (\<lambda>e. fst e \<noteq> k) (ly_existing ly)\<rparr>)"
proof -
  have "sm_node (snd e) = sm_node m \<longleftrightarrow> fst e = k" if "e \<in> set (ly_existing ly)" for e
  proof
    assume "sm_node (snd e) = sm_node m"
    then have "e = (k, m)" by (rule node_unique [OF assms(1) that assms(2)])
    then show "fst e = k" by simp
  next
    assume "fst e = k"
    then have "e = (k, m)" by (rule key_unique [OF assms(1) that assms(2)])
    then show "sm_node (snd e) = sm_node m" by simp
  qed
  then have "{e \<in> set (ly_existing ly). sm_node (snd e) \<noteq> sm_node m} = {e \<in> set (ly_existing ly). fst e \<noteq> k}" by blast
  moreover have "{n \<in> set (ly_onMap ly). n \<noteq> sm_node m} = (\<lambda>e. sm_node (snd e)) ` {e \<in> set (ly_existing ly). sm_node (snd e) \<noteq> sm_node m}"
    using assms(1) by (auto simp: layerOk_def)
  ultimately show ?thesis
    using assms(1) by (auto simp: layerOk_def removeMarker_def distinct_map_filter inj_on_def)
qed

lemma map_of_drop: "map_of (filter (\<lambda>e. fst e \<noteq> k) al) i = (if i = k then None else map_of al i)"
  by (induction al) auto

lemma fold_drop:
  assumes "layerOk ly" and "distinct (map fst es)" and "set es \<subseteq> set (ly_existing ly)"
  shows "layerOk (fold (dropUnwanted wanted) es ly) \<and> ly_next (fold (dropUnwanted wanted) es ly) = ly_next ly
    \<and> map_of (ly_existing (fold (dropUnwanted wanted) es ly)) i =
        (if i \<in> fst ` set es \<and> i \<notin> set wanted then None else map_of (ly_existing ly) i)"
  using assms
proof (induction es arbitrary: ly)
  case (Cons e es)
  obtain k m where e: "e = (k, m)" by (cases e)
  show ?case
  proof (cases "k \<in> set wanted")
    case True
    with Cons e show ?thesis by (auto simp: dropUnwanted_def)
  next
    case False
    let ?q = "(removeMarker m ly)\<lparr>ly_existing := filter (\<lambda>e. fst e \<noteq> k) (ly_existing ly)\<rparr>"
    have q: "dropUnwanted wanted e ly = ?q" using False e by (simp add: dropUnwanted_def)
    have "layerOk ?q" by (rule drop_ok [OF Cons.prems(1)]) (use Cons.prems(3) e in simp)
    moreover have "set es \<subseteq> set (ly_existing ?q)" using Cons.prems(2,3) e by (force simp: image_iff)
    moreover have "fold (dropUnwanted wanted) (e # es) ly = fold (dropUnwanted wanted) es ?q" by (simp add: q)
    ultimately show ?thesis
      using Cons.IH [of ?q] Cons.prems(2) e False by (auto simp: map_of_drop removeMarker_def simp del: fold_simps)
  qed
qed simp

definition says :: "MapMarker \<Rightarrow> shownMarker \<Rightarrow> bool" where
  "says m sm \<longleftrightarrow> sm_kind sm = mk_kind m \<and> sm_label sm = mk_label m \<and> sm_lngLat sm = mk_lngLat m"

text \<open>Giving an id a marker that is its old one or a new one keeps the layer in order.\<close>

lemma new_ok:
  assumes "layerOk ly"
  shows "layerOk (newMarker m ((case map_of (ly_existing ly) (mk_id m) of None \<Rightarrow> ly | Some c \<Rightarrow> removeMarker c ly)))"
proof -
  let ?r = "case map_of (ly_existing ly) (mk_id m) of None \<Rightarrow> ly | Some c \<Rightarrow> removeMarker c ly"
  have d: "distinct (map fst (ly_existing ly))" and inj: "inj_on (\<lambda>e. sm_node (snd e)) (set (ly_existing ly))"
    and nodes: "set (ly_onMap ly) = (\<lambda>e. sm_node (snd e)) ` set (ly_existing ly)"
    and bound: "\<forall>n \<in> set (ly_onMap ly). n < ly_next ly" using assms by (auto simp: layerOk_def)
  have r: "ly_existing ?r = ly_existing ly" "ly_next ?r = ly_next ly"
    by (simp_all add: removeMarker_def split: option.split)
  have "set (ly_onMap ?r) = (\<lambda>e. sm_node (snd e)) ` {e \<in> set (ly_existing ly). fst e \<noteq> mk_id m}"
  proof (cases "map_of (ly_existing ly) (mk_id m)")
    case None
    then have "{e \<in> set (ly_existing ly). fst e \<noteq> mk_id m} = set (ly_existing ly)"
      by (force simp: map_of_eq_None_iff)
    with None nodes show ?thesis by simp
  next
    case (Some c)
    then have "(mk_id m, c) \<in> set (ly_existing ly)" by (rule map_of_SomeD)
    from drop_ok [OF assms this] Some show ?thesis by (simp add: layerOk_def removeMarker_def)
  qed
  moreover have "\<forall>e \<in> set (ly_existing ly). sm_node (snd e) < ly_next ly" using nodes bound by simp
  ultimately show ?thesis
    using d inj unfolding layerOk_def newMarker_def
    by (auto simp: r set_update [OF d] distinct_update inj_on_def)
qed

lemma keep_ok:
  assumes "layerOk ly" and "map_of (ly_existing ly) k = Some c" and "sm_node c' = sm_node c"
  shows "layerOk (ly\<lparr>ly_existing := AList.update k c' (ly_existing ly)\<rparr>)"
proof -
  have d: "distinct (map fst (ly_existing ly))" and inj: "inj_on (\<lambda>e. sm_node (snd e)) (set (ly_existing ly))"
    using assms(1) by (auto simp: layerOk_def)
  have c: "(k, c) \<in> set (ly_existing ly)" using assms(2) by (rule map_of_SomeD)
  have "sm_node (snd e) = sm_node c \<Longrightarrow> e \<in> set (ly_existing ly) \<Longrightarrow> fst e = k" for e
    using node_unique [OF assms(1) _ c] by fastforce
  moreover have "(\<lambda>e. sm_node (snd e)) ` set (ly_existing ly) =
      (\<lambda>e. sm_node (snd e)) ` ({e \<in> set (ly_existing ly). fst e \<noteq> k} \<union> {(k, c')})"
  proof (intro subset_antisym image_subsetI)
    fix e assume e: "e \<in> set (ly_existing ly)"
    show "sm_node (snd e) \<in> (\<lambda>e. sm_node (snd e)) ` ({e \<in> set (ly_existing ly). fst e \<noteq> k} \<union> {(k, c')})"
    proof (cases "fst e = k")
      case True
      with key_unique [OF assms(1) e c] assms(3) show ?thesis by auto
    next
      case False
      with e show ?thesis by (intro image_eqI [of _ _ e]) auto
    qed
  next
    fix e assume "e \<in> {e \<in> set (ly_existing ly). fst e \<noteq> k} \<union> {(k, c')}"
    then show "sm_node (snd e) \<in> (\<lambda>e. sm_node (snd e)) ` set (ly_existing ly)"
      using c assms(3) by (auto intro: image_eqI [of _ _ "(k, c)"])
  qed
  moreover have "inj_on (\<lambda>e. sm_node (snd e)) ({e \<in> set (ly_existing ly). fst e \<noteq> k} \<union> {(k, c')})"
  proof (rule inj_onI)
    fix x y
    assume "x \<in> {e \<in> set (ly_existing ly). fst e \<noteq> k} \<union> {(k, c')}" "y \<in> {e \<in> set (ly_existing ly). fst e \<noteq> k} \<union> {(k, c')}"
      "sm_node (snd x) = sm_node (snd y)"
    with node_unique [OF assms(1) _ c] inj_onD [OF inj, of x y] assms(3) show "x = y" by fastforce
  qed
  ultimately show ?thesis
    using assms(1) d by (simp add: layerOk_def set_update [OF d] distinct_update)
qed

definition newShown :: "nat \<Rightarrow> MapMarker \<Rightarrow> shownMarker" where
  "newShown n m = \<lparr>sm_node = n, sm_kind = mk_kind m, sm_label = mk_label m, sm_lngLat = mk_lngLat m\<rparr>"

lemma place_ok:
  assumes "layerOk ly"
  shows "layerOk (placeMarker m ly)
    \<and> (\<exists>sm. says m sm \<and> map_of (ly_existing (placeMarker m ly)) = (map_of (ly_existing ly))(mk_id m \<mapsto> sm)
      \<and> (\<forall>old. map_of (ly_existing ly) (mk_id m) = Some old \<longrightarrow> sm_kind old = mk_kind m \<longrightarrow> sm_node sm = sm_node old))"
proof (cases "map_of (ly_existing ly) (mk_id m)")
  case None
  then have "says m (newShown (ly_next ly) m) \<and> map_of (ly_existing (placeMarker m ly)) = (map_of (ly_existing ly))(mk_id m \<mapsto> newShown (ly_next ly) m)"
    by (simp add: placeMarker_def newMarker_def update_conv' says_def newShown_def)
  with None new_ok [OF assms, of m] show ?thesis by (auto simp: placeMarker_def)
next
  case (Some c)
  show ?thesis
  proof (cases "sm_kind c = mk_kind m")
    case True
    have "layerOk (ly\<lparr>ly_existing := AList.update (mk_id m) (c\<lparr>sm_lngLat := mk_lngLat m, sm_label := mk_label m\<rparr>) (ly_existing ly)\<rparr>)"
      by (rule keep_ok [OF assms Some]) simp
    moreover have "says m (c\<lparr>sm_lngLat := mk_lngLat m, sm_label := mk_label m\<rparr>)" using True by (simp add: says_def)
    moreover have "placeMarker m ly = ly\<lparr>ly_existing := AList.update (mk_id m) (c\<lparr>sm_lngLat := mk_lngLat m, sm_label := mk_label m\<rparr>) (ly_existing ly)\<rparr>"
      using Some True by (simp add: placeMarker_def)
    ultimately show ?thesis using Some
      by (intro conjI exI [of _ "c\<lparr>sm_lngLat := mk_lngLat m, sm_label := mk_label m\<rparr>"]) (simp_all add: update_conv')
  next
    case False
    with Some have "says m (newShown (ly_next ly) m) \<and> map_of (ly_existing (placeMarker m ly)) = (map_of (ly_existing ly))(mk_id m \<mapsto> newShown (ly_next ly) m)"
      by (simp add: placeMarker_def newMarker_def removeMarker_def update_conv' says_def newShown_def)
    with Some False new_ok [OF assms, of m] show ?thesis by (auto simp: placeMarker_def)
  qed
qed

lemma fold_place:
  assumes "layerOk ly" and "distinct (map mk_id ms)"
  shows "layerOk (fold placeMarker ms ly)
    \<and> (\<forall>i. i \<notin> mk_id ` set ms \<longrightarrow> map_of (ly_existing (fold placeMarker ms ly)) i = map_of (ly_existing ly) i)
    \<and> (\<forall>m \<in> set ms. \<exists>sm. map_of (ly_existing (fold placeMarker ms ly)) (mk_id m) = Some sm \<and> says m sm
        \<and> (\<forall>old. map_of (ly_existing ly) (mk_id m) = Some old \<longrightarrow> sm_kind old = mk_kind m \<longrightarrow> sm_node sm = sm_node old))"
  using assms
proof (induction ms arbitrary: ly)
  case (Cons m ms)
  obtain sm where one: "layerOk (placeMarker m ly)" "says m sm"
      "map_of (ly_existing (placeMarker m ly)) = (map_of (ly_existing ly))(mk_id m \<mapsto> sm)"
      "\<forall>old. map_of (ly_existing ly) (mk_id m) = Some old \<longrightarrow> sm_kind old = mk_kind m \<longrightarrow> sm_node sm = sm_node old"
    using place_ok [OF Cons.prems(1)] by blast
  have fresh: "mk_id m \<notin> mk_id ` set ms" and d: "distinct (map mk_id ms)" using Cons.prems(2) by auto
  note rest = Cons.IH [OF one(1) d]
  have same: "map_of (ly_existing (placeMarker m ly)) (mk_id m') = map_of (ly_existing ly) (mk_id m')" if "m' \<in> set ms" for m'
  proof -
    have "mk_id m' \<noteq> mk_id m" using that fresh by (metis image_eqI)
    then show ?thesis by (simp add: one(3))
  qed
  from rest fresh one(2-4) same show ?case by (auto simp: one(3))
qed simp

text \<open>C34. The map shows exactly the markers the page asks for: after an update with markers of distinct ids, from any state
  the layer can be in, there is one marker per id, with the kind, label and place asked for, and no other; the
  markers on the map are those and no left-over ones; and an id whose kind did not change keeps its element.\<close>

theorem markers_exact:
  assumes "layerOk ly" and "distinct (map mk_id ms)"
  shows "layerOk (syncMarkers ms ly)
    \<and> dom (map_of (ly_existing (syncMarkers ms ly))) = mk_id ` set ms
    \<and> set (ly_onMap (syncMarkers ms ly)) = (\<lambda>e. sm_node (snd e)) ` set (ly_existing (syncMarkers ms ly))
    \<and> (\<forall>m \<in> set ms. \<exists>sm. map_of (ly_existing (syncMarkers ms ly)) (mk_id m) = Some sm \<and> says m sm
        \<and> (\<forall>old. map_of (ly_existing ly) (mk_id m) = Some old \<longrightarrow> sm_kind old = mk_kind m \<longrightarrow> sm_node sm = sm_node old))"
proof -
  let ?d = "fold (dropUnwanted (map mk_id ms)) (ly_existing ly) ly"
  have dropped: "layerOk ?d" "map_of (ly_existing ?d) i = (if i \<in> mk_id ` set ms then map_of (ly_existing ly) i else None)" for i
  proof -
    have "distinct (map fst (ly_existing ly))" using assms(1) by (simp add: layerOk_def)
    note d = fold_drop [OF assms(1) this subset_refl, of "map mk_id ms" i]
    show "layerOk ?d" using d by blast
    show "map_of (ly_existing ?d) i = (if i \<in> mk_id ` set ms then map_of (ly_existing ly) i else None)"
      using d by (auto simp: map_of_eq_None_iff)
  qed
  note placed = fold_place [OF dropped(1) assms(2)]
  have "dom (map_of (ly_existing (syncMarkers ms ly))) = mk_id ` set ms"
    using placed by (auto simp: syncMarkers_def dropped(2) split: if_splits)
  moreover have "layerOk (syncMarkers ms ly)" using placed by (simp add: syncMarkers_def)
  ultimately show ?thesis using placed by (auto simp: syncMarkers_def dropped(2) layerOk_def)
qed

text \<open>The page asks for at most one marker of each kind, with ids of their own.\<close>

lemma page_markers_distinct: "distinct (map mk_id (markers p))"
  by (cases "mp_selection p"; cases "ep_lngLat (mp_from p)"; cases "ep_lngLat (mp_to p)") (auto simp: markers_def)

theorem markers_exact_witness:
  "let ly = syncMarkers (markers twoPins) noMarkers; ly' = syncMarkers (markers askedRoute) ly in
     map fst (ly_existing ly) = [''selection''] \<and> dom (map_of (ly_existing ly')) = {''origin'', ''destination''}"
proof -
  have two: "markers twoPins = [\<lparr>mk_id = ''selection'', mk_kind = PinMarker, mk_lngLat = (106, 48), mk_label = ''Dropped pin''\<rparr>]"
    by (simp add: markers_def twoPins_def reverseLookup_def abortReverse_def page_init_def EMPTY_ENDPOINT_def Let_def)
  have asked: "mk_id ` set (markers askedRoute) = {''origin'', ''destination''}"
    by (auto simp: markers_def askedRoute_def endAt_def page_ops)
  have first: "layerOk (syncMarkers (markers twoPins) noMarkers)"
    by (rule markers_exact [OF layerOk_noMarkers page_markers_distinct, THEN conjunct1])
  have "dom (map_of (ly_existing (syncMarkers (markers askedRoute) (syncMarkers (markers twoPins) noMarkers)))) = {''origin'', ''destination''}"
    using markers_exact [OF first page_markers_distinct, of askedRoute] asked by simp
  moreover have "map fst (ly_existing (syncMarkers (markers twoPins) noMarkers)) = [''selection'']"
    by (simp add: syncMarkers_def two placeMarker_def newMarker_def noMarkers_def)
  ultimately show ?thesis by (simp add: Let_def)
qed

section \<open>The popup\<close>

definition popupLayerOk :: "popupLayer \<Rightarrow> bool" where
  "popupLayerOk ly \<longleftrightarrow> length (pl_onMap ly) \<le> 1 \<and> (\<forall>po \<in> set (pl_onMap ly). pl_ref ly = Some (sp_id po))"

lemma popupLayerOk_noPopup: "popupLayerOk noPopup"
  by (simp add: popupLayerOk_def noPopup_def)

lemma popup_removed:
  assumes "popupLayerOk ly" and "pl_ref ly = Some i"
  shows "pl_onMap (removePopup i ly) = [] \<and> pl_closes (removePopup i ly) = Suc (pl_closes ly) \<and> popupLayerOk (removePopup i ly)"
  using assms by (auto simp: popupLayerOk_def removePopup_def Let_def filter_empty_conv)

text \<open>Showing another popup, or none, puts exactly that one on the map, which scales in only at a new place; it is never
  taken for the user closing the old one. Closing the current one is reported once.\<close>

lemma popup_replaced:
  assumes "popupLayerOk ly"
  shows "popupLayerOk (syncPopup po ly) \<and> pl_closes (syncPopup po ly) = pl_closes ly
    \<and> map (\<lambda>s. (sp_lngLat s, sp_content s, sp_enters s)) (pl_onMap (syncPopup po ly)) =
       (case po of None \<Rightarrow> [] | Some x \<Rightarrow> [(po_lngLat x, popupContent x, pl_lngLat ly \<noteq> Some (po_lngLat x))])"
proof (cases "pl_ref ly")
  case None
  with assms have "pl_onMap ly = []" by (auto simp: popupLayerOk_def)
  with None show ?thesis by (simp add: syncPopup_def Let_def addPopup_def popupLayerOk_def split: option.split)
next
  case (Some i)
  with assms have "filter (\<lambda>po. sp_id po \<noteq> i) (pl_onMap ly) = []" by (auto simp: popupLayerOk_def filter_empty_conv)
  with Some show ?thesis
    by (simp add: syncPopup_def removePopup_def Let_def addPopup_def popupLayerOk_def split: option.split)
qed

section \<open>Text stays text\<close>

fun htmlOf :: "node \<Rightarrow> string list" where
  "htmlOf (Node tag attrs text html click children) = (if html = [] then [] else [html]) @ concat (map htmlOf children)"

text \<open>What the API says of a place never becomes markup: no element of a popup, whatever its title, lines and labels
  are, has markup set, they are only its text; and the markup of a marker depends on its kind alone, not on its
  label.\<close>

theorem place_text_is_text:
  "htmlOf (popupContent po) = []
    \<and> nd_text (hd (nd_children (popupContent po))) = po_title po
    \<and> htmlOf (markerElement m) = [markerSvg (MARKER_COLORS (mk_kind m))]"
proof -
  have "htmlOf (textElement c x) = []" "htmlOf (actionButton a) = []" for c x a
    by (simp_all add: textElement_def actionButton_def)
  then have lists: "concat (map htmlOf (map (textElement c) xs)) = []" "concat (map htmlOf (map actionButton as)) = []" for c xs as
    by (simp_all add: concat_eq_Nil_conv)
  have "markerSvg c \<noteq> []" for c by (simp add: markerSvg_def)
  with lists show ?thesis by (simp add: popupContent_def markerElement_def textElement_def)
qed

end
