(* ===== verification/Basemap.thy ===== *)
theory Basemap
  imports Json Urls
begin

text \<open>
  Loading the style of the basemap (\<open>lib/basemap.ts\<close>): the recogniser of ArcGIS style URLs and the rewriting of such a
  style into one the map library can load. Arguments: \<open>resolve\<close> is \<open>decodeURI(new URL(relative, base).href)\<close>, which
  can throw; \<open>fetch\<close> is what a request ends with, its status and its body if that is JSON. A property whose value is
  \<open>undefined\<close> reads as an absent one.
\<close>

definition DEFAULT_ESRI_MAX_ZOOM :: rat where
  "DEFAULT_ESRI_MAX_ZOOM = 16"

definition ESRI_ATTRIBUTION :: string where
  "ESRI_ATTRIBUTION = ''Powered by Esri''"

section \<open>The recogniser\<close>

text \<open>\<open>(\?.*)?$\<close>: nothing, or a question mark and no line break.\<close>

definition queryRest :: "string \<Rightarrow> bool" where
  "queryRest s = (case s of [] \<Rightarrow> True | c # cs \<Rightarrow> c = CHR ''?'' \<and> \<not> list_ex (\<lambda>d. d = CHR 0x0A \<or> d = CHR 0x0D) cs)"

text \<open>\<open>[^/]+\.json(\?.*)?$\<close>, with \<open>n\<close> characters taken before the extension.\<close>

definition jsonFile :: "string \<Rightarrow> nat \<Rightarrow> bool" where
  "jsonFile s n = (0 < n \<and> CHR ''/'' \<notin> set (take n s)
     \<and> toLowerCase (take 5 (drop n s)) = ''.json'' \<and> queryRest (drop (n + 5) s))"

definition STYLES_PATH :: string where
  "STYLES_PATH = ''/vectortileserver/resources/styles/''"

definition isEsriVectorTileStyle :: "string \<Rightarrow> bool" where
  "isEsriVectorTileStyle url =
     list_ex (\<lambda>i. toLowerCase (take (length STYLES_PATH) (drop i url)) = STYLES_PATH
       \<and> list_ex (jsonFile (drop (i + length STYLES_PATH) url)) [0..<Suc (length url)]) [0..<Suc (length url)]"

section \<open>Rewriting\<close>

datatype basemapError = RequestFailed int | InvalidUrl | InvalidJson | NetworkFailure

type_synonym jsonFetch = "string \<Rightarrow> (int \<times> json option) option"

definition fetchJson :: "jsonFetch \<Rightarrow> string \<Rightarrow> basemapError + json" where
  "fetchJson fetch url =
     (case fetch url of
        None \<Rightarrow> Inl NetworkFailure
      | Some (status, body) \<Rightarrow>
          if \<not> (200 \<le> status \<and> status \<le> 299) then Inl (RequestFailed status)
          else (case body of None \<Rightarrow> Inl InvalidJson | Some j \<Rightarrow> Inr j))"

type_synonym resolver = "string \<Rightarrow> string \<Rightarrow> string option"

definition absolute :: "resolver \<Rightarrow> string \<Rightarrow> string \<Rightarrow> basemapError + string" where
  "absolute resolve relative base = (case resolve relative base of None \<Rightarrow> Inl InvalidUrl | Some s \<Rightarrow> Inr s)"

text \<open>\<open>.replace(/\/?$/, "/")\<close>.\<close>

definition withSlash :: "string \<Rightarrow> string" where
  "withSlash s = (if s \<noteq> [] \<and> List.last s = CHR ''/'' then s else s @ ''/'')"

definition removeField :: "string \<Rightarrow> (string \<times> json) list \<Rightarrow> (string \<times> json) list" where
  "removeField name fs = filter (\<lambda>f. fst f \<noteq> name) fs"

text \<open>\<open>{ ...fields, name: value }\<close>; an undefined value.\<close>

definition setField :: "string \<Rightarrow> json option \<Rightarrow> (string \<times> json) list \<Rightarrow> (string \<times> json) list" where
  "setField name v fs =
     (case v of None \<Rightarrow> removeField name fs
      | Some j \<Rightarrow> if name \<in> fst ` set fs then map (\<lambda>f. if fst f = name then (name, j) else f) fs else fs @ [(name, j)])"

text \<open>The fields of a source that is rewritten, and its URL.\<close>

definition vectorSource :: "json \<Rightarrow> ((string \<times> json) list \<times> string) option" where
  "vectorSource source =
     (case source of
        JObj fs \<Rightarrow>
          (case (jfield ''type'' source, jfield ''url'' source) of
             (Some (JStr kind), Some (JStr url)) \<Rightarrow> if kind = ''vector'' then Some (fs, url) else None
           | _ \<Rightarrow> None)
      | _ \<Rightarrow> None)"

text \<open>\<open>info.maxLOD ?? DEFAULT_ESRI_MAX_ZOOM\<close>.\<close>

definition maxZoom :: "json option \<Rightarrow> json" where
  "maxZoom info =
     (case info of None \<Rightarrow> JNum (Num DEFAULT_ESRI_MAX_ZOOM)
      | Some j \<Rightarrow> (case jfield ''maxLOD'' j of
           None \<Rightarrow> JNum (Num DEFAULT_ESRI_MAX_ZOOM) | Some v \<Rightarrow> if v = JNull then JNum (Num DEFAULT_ESRI_MAX_ZOOM) else v))"

definition tilesOf :: "string \<Rightarrow> string" where
  "tilesOf base = base @ ''tile/{z}/{y}/{x}.pbf''"

text \<open>The request for the server's description may fail; then there is none.\<close>

definition rewriteSource :: "resolver \<Rightarrow> jsonFetch \<Rightarrow> string \<Rightarrow> json \<Rightarrow> basemapError + json" where
  "rewriteSource resolve fetch styleUrl source =
     (case vectorSource source of
        None \<Rightarrow> Inr source
      | Some (fs, url) \<Rightarrow>
          (case absolute resolve url styleUrl of
             Inl e \<Rightarrow> Inl e
           | Inr a \<Rightarrow>
               (let base = withSlash a;
                    info = (case fetchJson fetch (base @ ''?f=json'') of Inl e \<Rightarrow> None | Inr j \<Rightarrow> Some j);
                    copyright = (case info of None \<Rightarrow> None | Some j \<Rightarrow> jfield ''copyrightText'' j) in
                Inr (JObj (setField ''attribution'' copyright (setField ''maxzoom'' (Some (maxZoom info))
                  (setField ''tiles'' (Some (JArr [JStr (tilesOf base)])) (removeField ''url'' fs))))))))"

fun rewriteSources ::
  "resolver \<Rightarrow> jsonFetch \<Rightarrow> string \<Rightarrow> (string \<times> json) list \<Rightarrow> basemapError + (string \<times> json) list" where
  "rewriteSources resolve fetch styleUrl [] = Inr []"
| "rewriteSources resolve fetch styleUrl ((name, source) # rest) =
     (case rewriteSource resolve fetch styleUrl source of
        Inl e \<Rightarrow> Inl e
      | Inr s \<Rightarrow> (case rewriteSources resolve fetch styleUrl rest of Inl e \<Rightarrow> Inl e | Inr ss \<Rightarrow> Inr ((name, s) # ss)))"

text \<open>A field that is made absolute when it is a text; for \<open>glyphs\<close> only a text that is not empty.\<close>

definition absoluteField :: "resolver \<Rightarrow> string \<Rightarrow> bool \<Rightarrow> json option \<Rightarrow> basemapError + json option" where
  "absoluteField resolve styleUrl keepEmpty v =
     (case v of
        Some (JStr s) \<Rightarrow>
          if keepEmpty \<and> s = [] then Inr v else (case absolute resolve s styleUrl of Inl e \<Rightarrow> Inl e | Inr a \<Rightarrow> Inr (Some (JStr a)))
      | _ \<Rightarrow> Inr v)"

text \<open>The style is an object whose \<open>sources\<close> are an object, as its type says.\<close>

definition styleSources :: "json \<Rightarrow> (string \<times> json) list" where
  "styleSources style = (case jfield ''sources'' style of Some (JObj fs) \<Rightarrow> fs | _ \<Rightarrow> [])"

definition styleFields :: "json \<Rightarrow> (string \<times> json) list" where
  "styleFields style = (case style of JObj fs \<Rightarrow> fs | _ \<Rightarrow> [])"

definition loadEsriVectorTileStyle :: "resolver \<Rightarrow> jsonFetch \<Rightarrow> string \<Rightarrow> basemapError + json" where
  "loadEsriVectorTileStyle resolve fetch styleUrl =
     (case fetchJson fetch styleUrl of
        Inl e \<Rightarrow> Inl e
      | Inr style \<Rightarrow>
          (case rewriteSources resolve fetch styleUrl (styleSources style) of
             Inl e \<Rightarrow> Inl e
           | Inr sources \<Rightarrow>
               (case absoluteField resolve styleUrl False (jfield ''sprite'' style) of
                  Inl e \<Rightarrow> Inl e
                | Inr sprite \<Rightarrow>
                    (case absoluteField resolve styleUrl True (jfield ''glyphs'' style) of
                       Inl e \<Rightarrow> Inl e
                     | Inr glyphs \<Rightarrow>
                         Inr (JObj (setField ''glyphs'' glyphs (setField ''sprite'' sprite
                           (setField ''sources'' (Some (JObj sources)) (styleFields style)))))))))"

datatype mapStyle = StyleUrl string | StyleObject json

definition resolveMapStyle :: "resolver \<Rightarrow> jsonFetch \<Rightarrow> string \<Rightarrow> basemapError + mapStyle" where
  "resolveMapStyle resolve fetch styleUrl =
     (if isEsriVectorTileStyle styleUrl
      then (case loadEsriVectorTileStyle resolve fetch styleUrl of Inl e \<Rightarrow> Inl e | Inr j \<Rightarrow> Inr (StyleObject j))
      else Inr (StyleUrl styleUrl))"

section \<open>What is rewritten\<close>

lemma jfield_obj: "jfield name (JObj fs) = map_of (rev fs) name"
  by (simp add: jfield_def)

lemma map_of_filter_key: "map_of (filter (\<lambda>f. fst f \<noteq> k) fs) i = (if i = k then None else map_of fs i)"
  by (induction fs) auto

lemma jfield_removeField: "jfield n (JObj (removeField k fs)) = (if n = k then None else jfield n (JObj fs))"
  by (simp add: jfield_obj removeField_def rev_filter map_of_filter_key)

lemma map_of_replace: "map_of (map (\<lambda>f. if fst f = k then (k, j) else f) fs) i = (if i = k \<and> k \<in> fst ` set fs then Some j else map_of fs i)"
  by (induction fs) (auto simp: rev_image_eqI)

lemma jfield_setField: "jfield n (JObj (setField k v fs)) = (if n = k then v else jfield n (JObj fs))"
proof (cases v)
  case None
  then show ?thesis using jfield_removeField [of n k fs] by (simp add: setField_def)
next
  case (Some j)
  have "map_of (rev (map (\<lambda>f. if fst f = k then (k, j) else f) fs)) n =
      (if n = k then Some j else map_of (rev fs) n)" if "k \<in> fst ` set fs"
    using that by (simp add: rev_map map_of_replace)
  with Some show ?thesis by (cases "k \<in> fst ` set fs") (simp_all add: setField_def jfield_obj)
qed

text \<open>What happens to one source: one that names a vector tile server gets its tiles and keeps its other fields.\<close>

definition rewritten :: "resolver \<Rightarrow> string \<Rightarrow> json \<Rightarrow> json \<Rightarrow> bool" where
  "rewritten resolve styleUrl source result \<longleftrightarrow>
     (case vectorSource source of
        None \<Rightarrow> result = source
      | Some (fs, url) \<Rightarrow> (\<exists>a. resolve url styleUrl = Some a
          \<and> jfield ''tiles'' result = Some (JArr [JStr (withSlash a @ ''tile/{z}/{y}/{x}.pbf'')])
          \<and> jfield ''url'' result = None
          \<and> (\<forall>n. n \<notin> set [''url'', ''tiles'', ''maxzoom'', ''attribution''] \<longrightarrow> jfield n result = jfield n source)))"

lemma vectorSource_obj: "vectorSource source = Some (fs, url) \<Longrightarrow> source = JObj fs"
  by (auto simp: vectorSource_def split: json.splits option.splits if_splits)

lemma rewriteSource_Inr: "rewriteSource resolve fetch styleUrl source = Inr result \<Longrightarrow> rewritten resolve styleUrl source result"
  using vectorSource_obj [of source]
  by (auto simp: rewriteSource_def rewritten_def absolute_def tilesOf_def Let_def jfield_setField jfield_removeField
      split: option.splits)

lemma rewriteSources_Inr:
  "rewriteSources resolve fetch styleUrl ss = Inr rs \<Longrightarrow>
     list_all2 (\<lambda>s r. fst r = fst s \<and> rewritten resolve styleUrl (snd s) (snd r)) ss rs"
proof (induction ss arbitrary: rs)
  case (Cons s ss)
  then show ?case by (cases s) (auto intro: rewriteSource_Inr split: sum.splits)
qed simp

lemma rewritten_loadable: "rewritten resolve styleUrl source result \<Longrightarrow> vectorSource result = None"
proof (cases "vectorSource source")
  case (Some x)
  moreover assume "rewritten resolve styleUrl source result"
  ultimately have "jfield ''url'' result = None" by (auto simp: rewritten_def)
  then show ?thesis by (auto simp: vectorSource_def split: json.split option.split)
qed (simp add: rewritten_def)

text \<open>A style the map gets is one it can load: the URL itself when it is not an ArcGIS style; otherwise the style
  fetched from it, with the same sources in the same order, where every source that named a vector tile server
  has the server's tiles, at the absolute URL, instead of the name and keeps its other fields, and no such source is left;
  all fields of the style but \<open>sources\<close>, \<open>sprite\<close> and \<open>glyphs\<close> are as fetched; a failed request for a
  server's description does not matter.\<close>

theorem basemap_loadable:
  assumes "resolveMapStyle resolve fetch styleUrl = Inr result"
  shows "(\<not> isEsriVectorTileStyle styleUrl \<and> result = StyleUrl styleUrl)
    \<or> (\<exists>style sources fields. isEsriVectorTileStyle styleUrl \<and> fetchJson fetch styleUrl = Inr style
        \<and> result = StyleObject (JObj fields) \<and> jfield ''sources'' (JObj fields) = Some (JObj sources)
        \<and> list_all2 (\<lambda>s r. fst r = fst s \<and> rewritten resolve styleUrl (snd s) (snd r)) (styleSources style) sources
        \<and> (\<forall>s \<in> set sources. vectorSource (snd s) = None)
        \<and> (\<forall>n. n \<notin> set [''sources'', ''sprite'', ''glyphs''] \<longrightarrow> jfield n (JObj fields) = jfield n (JObj (styleFields style))))"
proof (cases "isEsriVectorTileStyle styleUrl")
  case False
  with assms show ?thesis by (simp add: resolveMapStyle_def)
next
  case True
  with assms obtain j where j: "loadEsriVectorTileStyle resolve fetch styleUrl = Inr j" "result = StyleObject j"
    by (auto simp: resolveMapStyle_def split: sum.splits)
  then obtain style sources sprite glyphs where st: "fetchJson fetch styleUrl = Inr style"
    and ss: "rewriteSources resolve fetch styleUrl (styleSources style) = Inr sources"
    and jo: "j = JObj (setField ''glyphs'' glyphs (setField ''sprite'' sprite
        (setField ''sources'' (Some (JObj sources)) (styleFields style))))"
    by (auto simp: loadEsriVectorTileStyle_def split: sum.splits)
  have all: "list_all2 (\<lambda>s r. fst r = fst s \<and> rewritten resolve styleUrl (snd s) (snd r)) (styleSources style) sources"
    by (rule rewriteSources_Inr [OF ss])
  then have "\<forall>s \<in> set sources. vectorSource (snd s) = None"
    by (metis (no_types, lifting) in_set_conv_nth list_all2_conv_all_nth rewritten_loadable)
  with all st True jo j(2) show ?thesis by (auto simp: jfield_setField)
qed

text \<open>A style with one tile server whose description cannot be fetched.\<close>

definition esriUrl :: string where
  "esriUrl = ''https://b.mn/VectorTileServer/resources/styles/root.json''"

definition esriFetch :: jsonFetch where
  "esriFetch url = (if url = esriUrl
     then Some (200, Some (JObj [(''version'', JNum (Num 8)), (''sources'', JObj [(''esri'', JObj [(''type'', JStr ''vector''), (''url'', JStr ''../../'')])])]))
     else None)"

theorem basemap_loadable_witness:
  "\<exists>fields. resolveMapStyle (\<lambda>r b. Some ''https://b.mn/VectorTileServer'') esriFetch esriUrl = Inr (StyleObject (JObj fields))
     \<and> (\<exists>sources. jfield ''sources'' (JObj fields) = Some (JObj sources) \<and> (\<forall>s \<in> set sources. vectorSource (snd s) = None))"
proof -
  have esri: "isEsriVectorTileStyle esriUrl" by code_simp
  have "(case resolveMapStyle (\<lambda>r b. Some ''https://b.mn/VectorTileServer'') esriFetch esriUrl of Inr x \<Rightarrow> True | _ \<Rightarrow> False)"
    by code_simp
  then obtain x where "resolveMapStyle (\<lambda>r b. Some ''https://b.mn/VectorTileServer'') esriFetch esriUrl = Inr x"
    by (auto split: sum.splits)
  from basemap_loadable [OF this] this esri show ?thesis by blast
qed

end
