(* ===== verification/SearchBox.thy ===== *)
theory SearchBox
  imports MapPage
begin

text \<open>
  The search of the map (\<open>components/map/search-box.tsx\<close>, \<open>hooks/use-geocode-search.ts\<close>, \<open>use-debounced-value.ts\<close>): the
  debounced text, what is shown of the query's state, and the keyboard of the list. The query of TanStack Query is an
  argument: its data, its error and whether it is fetching. Times are milliseconds.
\<close>

section \<open>The debounced text\<close>

definition SEARCH_DEBOUNCE_MS :: int where
  "SEARCH_DEBOUNCE_MS = 300"

definition MIN_SEARCH_LENGTH :: nat where
  "MIN_SEARCH_LENGTH = 2"

definition SEARCH_LIMIT :: rat where
  "SEARCH_LIMIT = 6"

text \<open>The value given last, the timer its effect has set (when it fires, with the value), and the value returned.\<close>

record 'v debounce =
  db_input :: 'v
  db_timer :: "(int \<times> 'v) option"
  db_value :: 'v

definition debounce_init :: "int \<Rightarrow> int \<Rightarrow> 'v \<Rightarrow> 'v debounce" where
  "debounce_init delay now v = \<lparr>db_input = v, db_timer = Some (now + delay, v), db_value = v\<rparr>"

text \<open>A render with a value: the effect runs again only when the value is another one, and first clears the timer.\<close>

definition debounce_render :: "int \<Rightarrow> int \<Rightarrow> 'v \<Rightarrow> 'v debounce \<Rightarrow> 'v debounce" where
  "debounce_render delay now v d =
     (if v = db_input d then d else d\<lparr>db_input := v, db_timer := Some (now + delay, v)\<rparr>)"

definition debounce_tick :: "int \<Rightarrow> 'v debounce \<Rightarrow> 'v debounce" where
  "debounce_tick now d =
     (case db_timer d of
        None \<Rightarrow> d
      | Some (due, v) \<Rightarrow> if due \<le> now then d\<lparr>db_timer := None, db_value := v\<rparr> else d)"

section \<open>The query\<close>

record searchQuery =
  sq_fetching :: bool
  sq_data :: "GeocodeResult list option"
  sq_error :: "failure option"
  sq_success :: bool

definition searchActive :: "bool \<Rightarrow> string \<Rightarrow> bool" where
  "searchActive enabled debounced = (enabled \<and> MIN_SEARCH_LENGTH \<le> length debounced)"

text \<open>The key under which answers are kept, and the request made for it.\<close>

definition searchKey :: "string \<Rightarrow> string \<times> string \<times> rat" where
  "searchKey debounced = (''geocode'', toLowerCase debounced, SEARCH_LIMIT)"

definition searchRequest :: "string \<Rightarrow> GeocodeQuery" where
  "searchRequest debounced = Forward debounced (Some (Num SEARCH_LIMIT))"

definition searchSettling :: "string \<Rightarrow> string \<Rightarrow> bool" where
  "searchSettling text debounced = (trim text \<noteq> debounced)"

definition searchResults :: "bool \<Rightarrow> searchQuery \<Rightarrow> GeocodeResult list" where
  "searchResults active q = (if active then (case sq_data q of None \<Rightarrow> [] | Some rs \<Rightarrow> rs) else [])"

definition searchLoading :: "bool \<Rightarrow> bool \<Rightarrow> searchQuery \<Rightarrow> bool" where
  "searchLoading active settling q = (active \<and> (sq_fetching q \<or> settling))"

section \<open>The list\<close>

record searchBox =
  sb_open :: bool
  sb_active :: int

definition searchBox_init :: searchBox where
  "searchBox_init = \<lparr>sb_open = False, sb_active = -1\<rparr>"

definition showList :: "string \<Rightarrow> searchBox \<Rightarrow> bool" where
  "showList text b = (sb_open b \<and> MIN_SEARCH_LENGTH \<le> length (trim text))"

definition searchError :: "failure \<Rightarrow> string" where
  "searchError err =
     (case err of
        Geo e \<Rightarrow>
          if ge_code e = JStr ''SERVICE_UNAVAILABLE'' then ''Search is temporarily unavailable.''
          else if ge_code e = JStr ''RATE_LIMIT_EXCEEDED'' then ''Too many searches. Wait a moment and try again.''
          else messageText (ge_message e)
      | Rethrown e \<Rightarrow> ''Search failed. Check your connection.'')"

definition searching :: string where
  "searching = ''Searching'' @ [CHR 0xE2, CHR 0x80, CHR 0xA6]"

definition searchStatus :: "string \<Rightarrow> bool \<Rightarrow> GeocodeResult list \<Rightarrow> searchQuery \<Rightarrow> searchBox \<Rightarrow> string option" where
  "searchStatus text loading results q b =
     (if \<not> showList text b then None
      else (case sq_error q of
          Some e \<Rightarrow> if \<not> loading then Some (searchError e)
            else if results = [] then Some searching else None
        | None \<Rightarrow> if loading \<and> results = [] then Some searching
            else if \<not> loading \<and> results = [] \<and> sq_success q then Some ''No places found.'' else None))"

definition closeList :: "searchBox \<Rightarrow> searchBox" where
  "closeList b = b\<lparr>sb_open := False, sb_active := -1\<rparr>"

datatype key = ArrowDown | ArrowUp | Enter | Escape | OtherKey

text \<open>\<open>results[index]\<close>, undefined out of range.\<close>

definition resultAt :: "GeocodeResult list \<Rightarrow> int \<Rightarrow> GeocodeResult option" where
  "resultAt rs i = (if 0 \<le> i \<and> nat i < length rs then Some (rs ! nat i) else None)"

definition highlighted :: "GeocodeResult list \<Rightarrow> searchBox \<Rightarrow> GeocodeResult option" where
  "highlighted rs b =
     (case resultAt rs (sb_active b) of
        Some r \<Rightarrow> Some r
      | None \<Rightarrow> if sb_active b = -1 then resultAt rs 0 else None)"

text \<open>A key: the box afterwards, and the result that is chosen.\<close>

definition onKeyDown :: "string \<Rightarrow> GeocodeResult list \<Rightarrow> key \<Rightarrow> searchBox \<Rightarrow> searchBox \<times> GeocodeResult option" where
  "onKeyDown text rs key b =
     (case key of
        ArrowDown \<Rightarrow> (b\<lparr>sb_open := True,
          sb_active := (if rs \<noteq> [] then (sb_active b + 1) mod int (length rs) else -1)\<rparr>, None)
      | ArrowUp \<Rightarrow> (b\<lparr>sb_active := (if rs \<noteq> [] then (if sb_active b \<le> 0 then int (length rs) - 1 else sb_active b - 1) else -1)\<rparr>, None)
      | Enter \<Rightarrow>
          (case highlighted rs b of
             Some r \<Rightarrow> if showList text b then (closeList b, Some r) else (b, None)
           | None \<Rightarrow> (b, None))
      | Escape \<Rightarrow> (if sb_open b then closeList b else b, None)
      | OtherKey \<Rightarrow> (b, None))"

definition onChange :: "searchBox \<Rightarrow> searchBox" where
  "onChange b = b\<lparr>sb_open := True, sb_active := -1\<rparr>"

text \<open>Choosing a place in the route panel first reports its name as typed text, then the place, both to the callbacks of
  the same render.\<close>

definition chooseEnd :: "'m mutationLib \<Rightarrow> routeEnd \<Rightarrow> GeocodeResult \<Rightarrow> 'm page \<Rightarrow> 'm page" where
  "chooseEnd M which place p =
     setEndpoint M (capture p) which \<lparr>ep_text = gr_name place, ep_lngLat = Some (gr_longitude place, gr_latitude place)\<rparr>
       (endpointChange M which \<lparr>ep_text = gr_name place, ep_lngLat = None\<rparr> p)"

section \<open>The keyboard\<close>

text \<open>The index is on a result or on none.\<close>

definition indexOk :: "GeocodeResult list \<Rightarrow> searchBox \<Rightarrow> bool" where
  "indexOk rs b \<longleftrightarrow> -1 \<le> sb_active b \<and> sb_active b < int (length rs)"

lemma highlighted_in: "highlighted rs b = Some r \<Longrightarrow> r \<in> set rs"
  by (auto simp: highlighted_def resultAt_def split: option.splits if_splits)

lemma onKeyDown_index: "indexOk rs b \<Longrightarrow> indexOk rs (fst (onKeyDown text rs key b))"
  by (cases key)
    (auto simp: onKeyDown_def indexOk_def closeList_def less_le_trans [OF pos_mod_bound] split: option.split,
     simp_all add: order_trans [OF _ pos_mod_sign] neq_Nil_conv)

fun downs :: "nat \<Rightarrow> string \<Rightarrow> GeocodeResult list \<Rightarrow> searchBox \<Rightarrow> searchBox" where
  "downs 0 text rs b = b"
| "downs (Suc n) text rs b = downs n text rs (fst (onKeyDown text rs ArrowDown b))"

lemma downs_active:
  "rs \<noteq> [] \<Longrightarrow> -1 \<le> sb_active b \<Longrightarrow> 0 < n \<Longrightarrow> sb_open (downs n text rs b) \<and>
     sb_active (downs n text rs b) = (sb_active b + int n) mod int (length rs)"
proof (induction n arbitrary: b)
  case (Suc n)
  let ?b = "fst (onKeyDown text rs ArrowDown b)"
  have b: "sb_open ?b" "sb_active ?b = (sb_active b + 1) mod int (length rs)" using Suc.prems(1) by (simp_all add: onKeyDown_def)
  show ?case
  proof (cases "n = 0")
    case True
    with b show ?thesis by simp
  next
    case False
    have "0 \<le> sb_active ?b" unfolding b(2) using Suc.prems(1) by (intro pos_mod_sign) simp
    then have "-1 \<le> sb_active ?b" by simp
    with Suc.IH [OF Suc.prems(1) this] False show ?thesis by (simp add: b mod_add_left_eq add.assoc)
  qed
qed simp

text \<open>The keyboard reaches every result and Enter takes the one highlighted: from a list that has just been opened,
  k presses of the down arrow (one or more) and Enter choose exactly the k-th of the shown results and close the
  list; pressing the up arrow undoes the down arrow.\<close>

theorem keyboard_reaches_all:
  assumes "0 < k" and "k \<le> length rs" and "MIN_SEARCH_LENGTH \<le> length (trim text)" and "sb_active b = -1"
  shows "onKeyDown text rs Enter (downs k text rs b) = (closeList (downs k text rs b), Some (rs ! (k - 1)))
    \<and> sb_active (fst (onKeyDown text rs ArrowUp (downs (Suc k) text rs b))) = sb_active (downs k text rs b)"
proof -
  have ne: "rs \<noteq> []" using assms(1,2) by auto
  have k: "sb_open (downs k text rs b)" "sb_active (downs k text rs b) = int (k - 1)"
    using downs_active [OF ne, of b k "text"] assms by (simp_all add: of_nat_diff)
  have "sb_active (downs (Suc k) text rs b) = int k mod int (length rs)"
    using downs_active [OF ne, of b "Suc k" "text"] assms by simp
  moreover have "int k mod int (length rs) = (if k = length rs then 0 else int k)"
    using assms(2) by simp
  ultimately have "sb_active (fst (onKeyDown text rs ArrowUp (downs (Suc k) text rs b))) = int (k - 1)"
    using ne assms(1,2) by (auto simp: onKeyDown_def of_nat_diff)
  moreover have "highlighted rs (downs k text rs b) = Some (rs ! (k - 1))"
  proof -
    have "nat (int (k - 1)) = k - 1" by simp
    then show ?thesis using assms(1,2) by (simp add: highlighted_def resultAt_def k(2) del: of_nat_diff)
  qed
  ultimately show ?thesis using k assms(3) by (simp add: onKeyDown_def showList_def)
qed

definition twoResults :: "GeocodeResult list" where
  "twoResults = [\<lparr>gr_id = ''a'', gr_name = ''Bank'', gr_address = None, gr_latitude = 48, gr_longitude = 107\<rparr>,
     \<lparr>gr_id = ''b'', gr_name = ''Square'', gr_address = None, gr_latitude = 48, gr_longitude = 106\<rparr>]"

theorem keyboard_reaches_all_witness:
  "snd (onKeyDown ''ban'' twoResults Enter (downs 2 ''ban'' twoResults (onChange searchBox_init))) = Some (twoResults ! 1)"
proof -
  have "MIN_SEARCH_LENGTH \<le> length (trim ''ban'')" by code_simp
  moreover have "sb_active (onChange searchBox_init) = -1" by (simp add: onChange_def)
  ultimately show ?thesis using keyboard_reaches_all [of 2 twoResults "''ban''" "onChange searchBox_init"]
    by (simp add: twoResults_def)
qed

section \<open>The debounce\<close>

text \<open>The value returned is one that stayed the same for the whole delay: it changes only when a timer fires, to the
  value given last, which was given at least \<open>delay\<close> earlier.\<close>

definition debounceOk :: "int \<Rightarrow> int \<Rightarrow> 'v debounce \<Rightarrow> bool" where
  "debounceOk delay since d \<longleftrightarrow> (case db_timer d of None \<Rightarrow> db_value d = db_input d | Some (due, v) \<Rightarrow> v = db_input d \<and> due = since + delay)"

lemma debounce_render_ok:
  "debounceOk delay since d \<Longrightarrow> debounceOk delay (if v = db_input d then since else now) (debounce_render delay now v d)"
  by (simp add: debounceOk_def debounce_render_def)

lemma debounce_tick_ok: "debounceOk delay since d \<Longrightarrow> debounceOk delay since (debounce_tick now d)"
  by (auto simp: debounceOk_def debounce_tick_def split: option.splits prod.splits)

lemma debounce_change:
  "debounceOk delay since d \<Longrightarrow> db_value (debounce_tick now d) \<noteq> db_value d \<Longrightarrow>
     db_value (debounce_tick now d) = db_input d \<and> since + delay \<le> now"
  by (auto simp: debounceOk_def debounce_tick_def split: option.splits prod.splits if_splits)

lemma debounce_settles:
  "debounceOk delay since d \<Longrightarrow> since + delay \<le> now \<Longrightarrow> db_value (debounce_tick now d) = db_input d"
  by (auto simp: debounceOk_def debounce_tick_def split: option.splits prod.splits)

section \<open>Choosing an end of the route\<close>

text \<open>The two calls leave the page as the second alone would: nothing the first did remains.\<close>

lemma chooseEnd_eq:
  "chooseEnd M which place p = endpointChange M which \<lparr>ep_text = gr_name place, ep_lngLat = Some (gr_longitude place, gr_latitude place)\<rparr> p"
  by (cases which) (simp_all add: chooseEnd_def endpointChange_def setEndpoint_def capture_def resetRoute_def Let_def)

end
