(* ===== verification/Billing.thy ===== *)
theory Billing
  imports Payments
begin

text \<open>
  The billing page (\<open>components/dashboard/billing-view.tsx\<close>, \<open>payment-checkout-dialog.tsx\<close>): what it shows of the
  instructions a payment provider sends, which are of unknown shape, and its own state, composed with the backend's
  actions it calls. Arguments: \<open>protocol\<close> is \<open>new URL(link).protocol\<close>, \<open>None\<close> when the constructor throws; \<open>isDark\<close> is the
  matrix of the QR library; \<open>t\<close> the translator.
\<close>

section \<open>Payment instructions\<close>

definition BANK_APP_SCHEMES :: "string list" where
  "BANK_APP_SCHEMES = [''ard'', ''arig'', ''bogdbank'', ''capitronbank'', ''ckbank'', ''hipay'', ''khanbank'', ''mbank'',
     ''monpay'', ''most'', ''nibank'', ''pass'', ''payon'', ''qpaywallet'', ''socialpay-payment'', ''sono'',
     ''statebankmongolia'', ''tdbbank'', ''tdbwallet'', ''tino'', ''toki'', ''transbank'', ''xacbank'']"

definition objectOf :: "json option \<Rightarrow> json" where
  "objectOf v = (case v of Some (JObj fs) \<Rightarrow> JObj fs | _ \<Rightarrow> JObj [])"

definition stringOf :: "json option \<Rightarrow> string option" where
  "stringOf v = (case v of Some (JStr s) \<Rightarrow> if s \<noteq> [] then Some s else None | _ \<Rightarrow> None)"

definition safeBankLink :: "(string \<Rightarrow> string option) \<Rightarrow> json option \<Rightarrow> string option" where
  "safeBankLink protocol v =
     (case stringOf v of
        None \<Rightarrow> None
      | Some link \<Rightarrow>
          (case protocol link of
             None \<Rightarrow> None
           | Some p \<Rightarrow> if toLowerCase (butlast p) \<in> set BANK_APP_SCHEMES then Some link else None))"

text \<open>\<open>a ?? b ?? ... ?? d\<close>: the first that is neither \<open>null\<close> nor missing, else the last.\<close>

fun firstOf :: "json option list \<Rightarrow> json option" where
  "firstOf [] = None"
| "firstOf [v] = v"
| "firstOf (v # w # vs) = (case v of None \<Rightarrow> firstOf (w # vs) | Some j \<Rightarrow> if j = JNull then firstOf (w # vs) else v)"

definition isHttps :: "string \<Rightarrow> bool" where
  "isHttps s = starts_with (toLowerCase s) ''https://''"

definition isDataImage :: "string \<Rightarrow> bool" where
  "isDataImage s = list_ex (\<lambda>kind. starts_with (toLowerCase s) (''data:image/'' @ kind @ '';base64,'')) [''png'', ''jpeg'', ''webp'']"

definition isBase64 :: "string \<Rightarrow> bool" where
  "isBase64 s = (s \<noteq> [] \<and> list_all (\<lambda>c. is_alnum c \<or> c \<in> set ''+/='') s)"

record BankLink =
  bl_name :: string
  bl_description :: "string option"
  bl_link :: string
  bl_logo :: "string option"

record paymentAction =
  ac_qrText :: "string option"
  ac_qrImage :: "string option"
  ac_banks :: "BankLink list"

definition qrImageOf :: "string option \<Rightarrow> string option" where
  "qrImageOf img =
     (case img of
        None \<Rightarrow> None
      | Some s \<Rightarrow> if isHttps s \<or> isDataImage s then Some s
                 else if isBase64 s then Some (''data:image/png;base64,'' @ s) else None)"

definition bankLinks :: "(string \<Rightarrow> string option) \<Rightarrow> json \<Rightarrow> BankLink list" where
  "bankLinks protocol v =
     (let bank = objectOf (Some v) in
      case (stringOf (jfield ''name'' bank), safeBankLink protocol (jfield ''link'' bank)) of
        (Some name, Some link) \<Rightarrow>
          [\<lparr>bl_name = name, bl_description = stringOf (jfield ''description'' bank), bl_link = link,
            bl_logo = (case stringOf (jfield ''logo'' bank) of None \<Rightarrow> None | Some l \<Rightarrow> if isHttps l then Some l else None)\<rparr>]
      | _ \<Rightarrow> [])"

definition arrayOf :: "json option \<Rightarrow> json list" where
  "arrayOf v = (case v of Some (JArr vs) \<Rightarrow> vs | _ \<Rightarrow> [])"

definition readPaymentAction :: "(string \<Rightarrow> string option) \<Rightarrow> json option \<Rightarrow> paymentAction" where
  "readPaymentAction protocol v =
     (let base = objectOf v;
          qr = objectOf (firstOf [jfield ''qr'' base, jfield ''qpay'' base, jfield ''data'' base, jfield ''display'' base, v]) in
      \<lparr>ac_qrText = stringOf (firstOf [jfield ''text'' qr, jfield ''qr_text'' qr, jfield ''qrText'' qr]),
       ac_qrImage = qrImageOf (stringOf (firstOf [jfield ''image_url'' qr, jfield ''qr_image'' qr, jfield ''qrImage'' qr, jfield ''image'' qr])),
       ac_banks = concat (map (bankLinks protocol) (arrayOf (jfield ''deeplinks'' qr)))\<rparr>)"

section \<open>The QR code\<close>

definition qrCell :: "nat \<Rightarrow> nat \<Rightarrow> string" where
  "qrCell row column = ''M'' @ show_nat (column + 4) @ '' '' @ show_nat (row + 4) @ ''h1v1h-1z''"

definition darkCells :: "(nat \<Rightarrow> nat \<Rightarrow> bool) \<Rightarrow> nat \<Rightarrow> (nat \<times> nat) list" where
  "darkCells isDark n = filter (\<lambda>(row, column). isDark row column) (List.product [0..<n] [0..<n])"

definition qrModules :: "(nat \<Rightarrow> nat \<Rightarrow> bool) \<Rightarrow> nat \<Rightarrow> nat \<times> string" where
  "qrModules isDark n = (n + 8, concat (map (\<lambda>(row, column). qrCell row column) (darkCells isDark n)))"

section \<open>The dialog\<close>

record dialogCheckout =
  dc_paymentId :: nat
  dc_plan :: PaidPlan
  dc_nextAction :: "json option"

datatype dialogBody =
    Completed
  | FailedPayment
  | Instructions paymentAction

definition dialogBody :: "(string \<Rightarrow> string option) \<Rightarrow> dialogCheckout option \<Rightarrow> paymentStatus option \<Rightarrow> dialogBody" where
  "dialogBody protocol checkout status =
     (if status = Some Succeeded then Completed
      else if status = Some Failed then FailedPayment
      else Instructions (readPaymentAction protocol (case checkout of None \<Rightarrow> None | Some c \<Rightarrow> dc_nextAction c)))"

definition showsQr :: "paymentAction \<Rightarrow> bool" where
  "showsQr a = (ac_qrImage a \<noteq> None \<or> ac_qrText a \<noteq> None)"

definition noInstructions :: "paymentAction \<Rightarrow> bool" where
  "noInstructions a = (ac_qrText a = None \<and> ac_qrImage a = None \<and> ac_banks a = [])"

section \<open>The page\<close>

definition PLAN_ORDER :: "PaidPlan list" where
  "PLAN_ORDER = [Starter, Essentials, Pro]"

record billingView =
  bv_starting :: "PaidPlan option"
  bv_activatingFree :: bool
  bv_checkout :: "dialogCheckout option"
  bv_error :: string

definition billing_init :: billingView where
  "billing_init = \<lparr>bv_starting = None, bv_activatingFree = False, bv_checkout = None, bv_error = []\<rparr>"

definition buy :: "PaidPlan \<Rightarrow> billingView \<Rightarrow> billingView" where
  "buy plan v = v\<lparr>bv_starting := Some plan, bv_error := []\<rparr>"

text \<open>The end of \<open>startCheckout\<close>.\<close>

definition bought :: "(string \<Rightarrow> string) \<Rightarrow> PaidPlan \<Rightarrow> error + checkout \<Rightarrow> billingView \<Rightarrow> billingView" where
  "bought t plan outcome v =
     (case outcome of
        Inr Unavailable \<Rightarrow> v\<lparr>bv_error := t ''billing.paymentUnavailable'', bv_starting := None\<rparr>
      | Inr (Ready paymentId nextAction) \<Rightarrow>
          v\<lparr>bv_checkout := Some \<lparr>dc_paymentId = paymentId, dc_plan = plan, dc_nextAction = nextAction\<rparr>, bv_starting := None\<rparr>
      | Inl e \<Rightarrow> v\<lparr>bv_error := t ''billing.checkoutError'', bv_starting := None\<rparr>)"

definition activateFree :: "billingView \<Rightarrow> billingView" where
  "activateFree v = v\<lparr>bv_activatingFree := True, bv_error := []\<rparr>"

definition freeActivated :: "(string \<Rightarrow> string) \<Rightarrow> error + unit \<Rightarrow> billingView \<Rightarrow> billingView" where
  "freeActivated t outcome v =
     (case outcome of Inr _ \<Rightarrow> v | Inl e \<Rightarrow> v\<lparr>bv_error := t ''billing.freeActivationError''\<rparr>)\<lparr>bv_activatingFree := False\<rparr>"

definition closeDialog :: "billingView \<Rightarrow> billingView" where
  "closeDialog v = v\<lparr>bv_checkout := None\<rparr>"

definition canBuy :: "bool \<Rightarrow> billingView \<Rightarrow> bool" where
  "canBuy loaded v = (loaded \<and> bv_starting v = None)"

text \<open>\<open>useQuery(paymentStatus, ...)\<close>: nothing while there is no checkout or the query has no value.\<close>

definition shownStatus :: "int \<Rightarrow> authContext \<Rightarrow> db \<Rightarrow> billingView \<Rightarrow> paymentStatus option" where
  "shownStatus now auth s v =
     (case bv_checkout v of
        None \<Rightarrow> None
      | Some c \<Rightarrow> (case paymentStatusOf now auth (dc_paymentId c) s of Inl e \<Rightarrow> None | Inr st \<Rightarrow> Some st))"

definition POLL_MS :: int where
  "POLL_MS = 5000"

definition polling :: "billingView \<Rightarrow> paymentStatus option \<Rightarrow> bool" where
  "polling v status = (bv_checkout v \<noteq> None \<and> status = Some Pending)"

text \<open>One tick of the timer; an error is ignored.\<close>

definition pollTick :: "environment \<Rightarrow> fetch \<Rightarrow> int \<Rightarrow> authContext \<Rightarrow> billingView \<Rightarrow> db \<Rightarrow> db" where
  "pollTick env fetch now auth v s =
     (case bv_checkout v of
        None \<Rightarrow> s
      | Some c \<Rightarrow> if polling v (shownStatus now auth s v) then snd (refreshPayment env fetch now auth (dc_paymentId c) s) else s)"

end
