(* ===== verification/BillingProps.thy ===== *)
theory BillingProps
  imports Billing HttpProps
begin

text \<open>
  The billing page follows only links of known bank applications and shows only images of safe kinds, whatever the
  provider sends; and a payment the provider confirms completes on the page at the next tick of its timer.
\<close>

section \<open>Instructions\<close>

definition safeImage :: "string \<Rightarrow> bool" where
  "safeImage s \<longleftrightarrow> isHttps s \<or> isDataImage s"

lemma qrImage_safe: "qrImageOf img = Some s \<Longrightarrow> safeImage s"
proof -
  have low: "toLowerCase ''data:image/png;base64,'' = ''data:image/'' @ ''png'' @ '';base64,''" by code_simp
  have "starts_with (toLowerCase ''data:image/png;base64,'' @ x) (''data:image/'' @ ''png'' @ '';base64,'')" for x
    unfolding low by (rule starts_with_append)
  then have "isDataImage (''data:image/png;base64,'' @ s)" for s
    unfolding isDataImage_def toLowerCase_def map_append list_ex_iff by (intro bexI [of _ "''png''"]) simp_all
  then show "qrImageOf img = Some s \<Longrightarrow> safeImage s"
    by (auto simp: qrImageOf_def safeImage_def split: option.splits if_splits)
qed

lemma safeBankLink_Some:
  "safeBankLink protocol v = Some link \<Longrightarrow> link \<noteq> [] \<and> (\<exists>p. protocol link = Some p \<and> toLowerCase (butlast p) \<in> set BANK_APP_SCHEMES)"
  by (auto simp: safeBankLink_def stringOf_def split: option.splits json.splits if_splits)

lemma bankLinks_in:
  "b \<in> set (bankLinks protocol v) \<Longrightarrow> (\<exists>p. protocol (bl_link b) = Some p \<and> toLowerCase (butlast p) \<in> set BANK_APP_SCHEMES)
     \<and> (\<forall>l. bl_logo b = Some l \<longrightarrow> isHttps l)"
  by (auto simp: bankLinks_def Let_def dest: safeBankLink_Some [OF sym] split: option.splits if_splits)

text \<open>C35. Nothing the payment provider sends makes the page follow a link or load an image it should not: whatever the JSON
  is, every bank link shown has, as the browser parses it, the scheme of one of the known bank applications (so it is never a
  script or another site), every logo is an https URL, and the QR image is an https URL or inline image data of
  a bitmap format.\<close>

theorem checkout_links_safe:
  "(\<forall>b \<in> set (ac_banks (readPaymentAction protocol v)).
      (\<exists>p. protocol (bl_link b) = Some p \<and> toLowerCase (butlast p) \<in> set BANK_APP_SCHEMES)
      \<and> (\<forall>l. bl_logo b = Some l \<longrightarrow> isHttps l))
    \<and> (\<forall>s. ac_qrImage (readPaymentAction protocol v) = Some s \<longrightarrow> safeImage s)"
proof (intro conjI ballI allI impI)
  fix b assume "b \<in> set (ac_banks (readPaymentAction protocol v))"
  then obtain x where "b \<in> set (bankLinks protocol x)" by (simp add: readPaymentAction_def Let_def) blast
  note safe = bankLinks_in [OF this]
  from safe show "\<exists>p. protocol (bl_link b) = Some p \<and> toLowerCase (butlast p) \<in> set BANK_APP_SCHEMES" by blast
  fix l assume "bl_logo b = Some l"
  with safe show "isHttps l" by blast
next
  fix s assume "ac_qrImage (readPaymentAction protocol v) = Some s"
  then show "safeImage s" by (simp add: readPaymentAction_def Let_def qrImage_safe)
qed

definition schemeOf :: "string \<Rightarrow> string option" where
  "schemeOf s = (if CHR '':'' \<in> set s then Some (takeWhile (\<lambda>c. c \<noteq> CHR '':'') s @ '':'') else None)"

definition sampleAction :: json where
  "sampleAction = JObj [(''qr'', JObj [(''text'', JStr ''0002''), (''image'', JStr ''aGVsbG8=''), (''deeplinks'', JArr
     [JObj [(''name'', JStr ''Khan''), (''link'', JStr ''khanbank://q?x=1''), (''logo'', JStr ''http://x.mn/l.png'')],
      JObj [(''name'', JStr ''Evil''), (''link'', JStr ''javascript:alert(1)'')]])])]"

theorem checkout_links_safe_witness:
  "map bl_name (ac_banks (readPaymentAction schemeOf (Some sampleAction))) = [''Khan'']
    \<and> map bl_logo (ac_banks (readPaymentAction schemeOf (Some sampleAction))) = [None]
    \<and> (\<exists>s. ac_qrImage (readPaymentAction schemeOf (Some sampleAction)) = Some s \<and> safeImage s)"
proof -
  have "map bl_name (ac_banks (readPaymentAction schemeOf (Some sampleAction))) = [''Khan'']"
    "map bl_logo (ac_banks (readPaymentAction schemeOf (Some sampleAction))) = [None]"
    "ac_qrImage (readPaymentAction schemeOf (Some sampleAction)) = Some ''data:image/png;base64,aGVsbG8=''" by code_simp+
  with checkout_links_safe [of schemeOf "Some sampleAction"] show ?thesis by blast
qed

section \<open>The QR code\<close>

text \<open>The path has one square for every dark module, in reading order.\<close>

lemma darkCells_iff: "(row, column) \<in> set (darkCells isDark n) \<longleftrightarrow> row < n \<and> column < n \<and> isDark row column"
  by (auto simp: darkCells_def)

lemma darkCells_distinct: "distinct (darkCells isDark n)"
  by (simp add: darkCells_def distinct_product)

section \<open>A confirmed payment completes\<close>

lemma grantPlan_session:
  assumes "requireUserId now auth s = Inr v" and "tget (users s) (rid u) = Some u"
  shows "requireUserId now auth (grantPlan now r u s) = Inr v"
proof -
  have ses: "authSessions (grantPlan now r u s) = authSessions s" by (simp add: grantPlan_def db_patch_def)
  have us: "tget (users (grantPlan now r u s)) i = (if i = rid u then Some (Row (rid u) (ctime u)
      ((doc u)\<lparr>u_plan := Some (p_plan (doc r)), u_planExpiresAt := Some (extendedExpiry now (doc u))\<rparr>)) else tget (users s) i)" for i
    unfolding payments_after by (rule tget_tpatch_found [OF assms(2)])
  obtain sid where sid: "authUserId auth = Some v" "authSessionId auth = Some sid" "isSessionActive s now v sid"
    using assms(1) by (auto simp: requireUserId_Inr)
  then have "isSessionActive (grantPlan now r u s) now v sid"
    using assms(2) by (auto simp: isSessionActive_def ses us split: option.splits if_splits)
  with sid show ?thesis by (auto simp: requireUserId_Inr)
qed

lemma settle_grants:
  assumes "paymentForIntent i s = Inr (Some r)" and "p_status (doc r) = Pending"
    and "tget (users s) (p_userId (doc r)) = Some u"
  shows "settle now i True (Num (of_int (p_amountMinor (doc r)))) (p_currency (doc r)) s = Inr (True, grantPlan now r u s)"
  unfolding settle_def mbind_reads assms(1) using assms(2,3)
  by (simp add: mbind_reads Let_def mthen_def mbind_def grantPlan_def extendedExpiry_def)

lemma checkIntent_grants:
  assumes "providerSays env fetch i intent" and "wi_status intent = Some ''succeeded''"
    and "wi_amount intent = Some (Num (of_int (p_amountMinor (doc r))))" and "wi_currency intent = Some (p_currency (doc r))"
    and "paymentForIntent i s = Inr (Some r)" and "p_status (doc r) = Pending" and "tget (users s) (p_userId (doc r)) = Some u"
  shows "checkIntent env fetch now i s = (Inr (Some ''succeeded''), grantPlan now r u s)"
  using assms(1-4) settle_grants [OF assms(5-7), of now]
  by (auto simp: providerSays_def checkIntent_def abind_def Let_def settleIntent_def runMutation_def)

text \<open>C36. A payment the provider confirms completes without the customer doing anything more: while the dialog of a pending payment of a
  signed-in customer is open, and the provider, asked for the intent, answers that it succeeded with the
  payment's amount and currency, the next tick of the page's timer makes the payment succeed and gives the customer the
  plan; the dialog then shows the completion and the timer stops.\<close>

theorem confirmed_payment_completes:
  assumes "wf_db s" and "requireUserId now auth s = Inr userId"
    and "bv_checkout v = Some c" and "tget (payments s) (dc_paymentId c) = Some r"
    and "p_userId (doc r) = userId" and "p_status (doc r) = Pending"
    and "providerSays env fetch (p_paymentIntentId (doc r)) intent" and "wi_status intent = Some ''succeeded''"
    and "wi_amount intent = Some (Num (of_int (p_amountMinor (doc r))))" and "wi_currency intent = Some (p_currency (doc r))"
  shows "let s' = pollTick env fetch now auth v s; status = shownStatus now auth s' v in
      status = Some Succeeded \<and> dialogBody protocol (bv_checkout v) status = Completed \<and> \<not> polling v status
    \<and> (\<exists>u. tget (users s') userId = Some u \<and> u_plan (doc u) = Some (p_plan (doc r)))"
proof -
  obtain u where u: "tget (users s) userId = Some u"
    using assms(2) by (auto simp: requireUserId_Inr dest: isSessionActive_user)
  then have uid: "rid u = userId" by (rule tget_rid)
  have rs: "r \<in> set (payments s)" "rid r = dc_paymentId c" using assms(4) by (simp_all add: tget_Some)
  have "paymentForIntent (p_paymentIntentId (doc r)) s = Inr (Some r)"
    using paymentForIntent_found rs(1) assms(1) by (simp add: wf_db_def)
  from checkIntent_grants [OF assms(7-10) this assms(6)] u assms(5)
  have check: "checkIntent env fetch now (p_paymentIntentId (doc r)) s = (Inr (Some ''succeeded''), grantPlan now r u s)" by simp
  have "paymentStatusOf now auth (dc_paymentId c) s = Inr Pending"
    using assms(2,4-6) by (simp add: paymentStatusOf_def)
  then have "pollTick env fetch now auth v s = snd (refreshPayment env fetch now auth (dc_paymentId c) s)"
    using assms(3) by (simp add: pollTick_def polling_def shownStatus_def)
  also have "\<dots> = grantPlan now r u s"
    using assms(2,4-6) check by (simp add: refreshPayment_def abind_def runQuery_def paymentById_def)
  finally have s': "pollTick env fetch now auth v s = grantPlan now r u s" .
  have pay: "tget (payments (grantPlan now r u s)) (rid r) = Some (Row (rid r) (ctime r) ((doc r)\<lparr>p_status := Succeeded, p_paidAt := Some now\<rparr>))"
    unfolding payments_after using assms(4) rs(2) by (simp add: tget_tpatch_found)
  have "requireUserId now auth (grantPlan now r u s) = Inr userId"
    by (rule grantPlan_session [OF assms(2)]) (simp add: u uid)
  then have "paymentStatusOf now auth (dc_paymentId c) (grantPlan now r u s) = Inr Succeeded"
    using pay rs(2) assms(5) by (simp add: paymentStatusOf_def)
  moreover have "\<exists>w. tget (users (grantPlan now r u s)) userId = Some w \<and> u_plan (doc w) = Some (p_plan (doc r))"
    unfolding payments_after using u uid by (simp add: tget_tpatch_found)
  ultimately show ?thesis
    using assms(3) by (simp add: s' Let_def shownStatus_def dialogBody_def polling_def)
qed

definition openCheckout :: billingView where
  "openCheckout = bought id Starter (Inr (Ready 8 None)) (buy Starter billing_init)"

theorem confirmed_payment_completes_witness:
  "shownStatus sampleNow sampleAuth (pollTick (h_env payHost) payFetch sampleNow sampleAuth openCheckout payDb) openCheckout = Some Succeeded"
proof -
  have facts: "wf_db payDb" "requireUserId sampleNow sampleAuth payDb = Inr 0"
    "bv_checkout openCheckout = Some \<lparr>dc_paymentId = 8, dc_plan = Starter, dc_nextAction = None\<rparr>"
    "tget (payments payDb) 8 = Some (Row 8 5 samplePayment)" "p_userId samplePayment = 0" "p_status samplePayment = Pending"
    "p_paymentIntentId samplePayment = ''pi_1''" "p_amountMinor samplePayment = 1000" "p_currency samplePayment = ''MNT''"
    by code_simp+
  let ?body = "JObj [(''id'', JStr ''pi_1''), (''status'', JStr ''succeeded''), (''amount'', JNum (Num 1000)), (''currency'', JStr ''MNT'')]"
  have "wireRequest (h_env payHost) payFetch (''/v1/payment_intents/'' @ encodeURIComponent ''pi_1'') getOptions = Inr ?body"
    by code_simp
  moreover have "wi_id (intentOf ?body) = Some ''pi_1''" by code_simp
  ultimately have says: "providerSays (h_env payHost) payFetch ''pi_1'' (intentOf ?body)" by (auto simp: providerSays_def)
  have "wi_status (intentOf ?body) = Some ''succeeded''" "wi_amount (intentOf ?body) = Some (Num 1000)"
    "wi_currency (intentOf ?body) = Some ''MNT''" by code_simp+
  with confirmed_payment_completes [OF facts(1-3), of "Row 8 5 samplePayment" "h_env payHost" payFetch "intentOf ?body"] facts says
  show ?thesis by (simp add: Let_def)
qed

end
