(* ===== verification/KeysPage.thy ===== *)
theory KeysPage
  imports Dashboard WebRoutes
begin

text \<open>
  The API key page of the console: what a row of the list shows and offers (\<open>api-keys-table.tsx\<close>), the file of a
  revealed secret (\<open>one-time-secret-dialog.tsx\<close>), and the state of the page (\<open>api-keys-view.tsx\<close>) with its dialogs
  (\<open>create-key-dialog.tsx\<close>, \<open>rename-key-dialog.tsx\<close>, \<open>confirm-dialog.tsx\<close>) and the calls in flight. An event ends a
  call with any outcome; \<open>error\<close> objects are \<open>thrown\<close> values of \<open>WebRoutes\<close>. Dates are shown as times: the texts of
  \<open>Intl\<close> are not modelled, nor is the markup around the fields.
\<close>

section \<open>A row of the list\<close>

datatype KeyAction = RenameKey | RegenerateKey | RevokeKey

definition EXPIRY_WARNING_DAYS :: int where
  "EXPIRY_WARNING_DAYS = 7"

definition isExpired :: "ApiKeySummary \<Rightarrow> int \<Rightarrow> bool" where
  "isExpired key now = (case y_expiresAt key of None \<Rightarrow> False | Some e \<Rightarrow> e \<le> now)"

datatype endpointsCell = AllEndpoints | EndpointBadges "(string \<times> string) list"

text \<open>The badges are the title and the label of each.\<close>

definition endpointsCell :: "ApiKeySummary \<Rightarrow> endpointsCell" where
  "endpointsCell key =
     (if length (y_endpoints key) = length KEY_ENDPOINTS then AllEndpoints
      else EndpointBadges (map (\<lambda>e. (''GET '' @ ke_path e, ke_shortLabel e))
             (filter (\<lambda>e. ke_id e \<in> set (y_endpoints key)) KEY_ENDPOINTS)))"

datatype tone = NormalTone | WarningTone | DestructiveTone

datatype expiresCell = NeverExpires | ExpiresOn int tone

definition expiresCell :: "ApiKeySummary \<Rightarrow> int \<Rightarrow> expiresCell" where
  "expiresCell key now =
     (case y_expiresAt key of
        None \<Rightarrow> NeverExpires
      | Some e \<Rightarrow>
          (let soon = e - now < EXPIRY_WARNING_DAYS * DAY_MS in
           ExpiresOn e (if isExpired key now then DestructiveTone
             else if soon \<and> y_revokedAt key = None then WarningTone else NormalTone)))"

record rateCell =
  rc_limit :: int
  rc_now :: int
  rc_used :: int
  rc_width :: rat
  rc_tone :: tone

definition ratePercent :: "ApiKeySummary \<Rightarrow> rat" where
  "ratePercent key =
     min 100 (of_int (y_requestsThisMinute key) / of_int (max 1 (y_rateLimitPerMinute key)) * 100)"

definition rateCell :: "ApiKeySummary \<Rightarrow> rateCell" where
  "rateCell key =
     (let percent = ratePercent key in
      \<lparr>rc_limit = y_rateLimitPerMinute key,
       rc_now = min (y_requestsThisMinute key) (y_rateLimitPerMinute key),
       rc_used = y_requestsThisMinute key, rc_width = percent,
       rc_tone = (if 100 \<le> percent then DestructiveTone else if 80 \<le> percent then WarningTone else NormalTone)\<rparr>)"

datatype lastUsedCell = RevokedOn int | NeverUsed | UsedAt rat

definition lastUsedCell :: "ApiKeySummary \<Rightarrow> lastUsedCell" where
  "lastUsedCell key =
     (case y_revokedAt key of
        Some t \<Rightarrow> RevokedOn t
      | None \<Rightarrow> (case y_lastUsedAt key of None \<Rightarrow> NeverUsed | Some t \<Rightarrow> UsedAt t))"

text \<open>The entries of the menu of a row.\<close>

definition actionsOf :: "bool \<Rightarrow> bool \<Rightarrow> ApiKeySummary \<Rightarrow> KeyAction list" where
  "actionsOf expired canRegenerate key =
     (if y_revokedAt key \<noteq> None then []
      else RenameKey # (if \<not> expired \<and> canRegenerate then [RegenerateKey] else []) @ [RevokeKey])"

text \<open>A stacked card, on a narrow screen.\<close>

record keyCard =
  kc_dimmed :: bool
  kc_name :: string
  kc_expiredBadge :: bool
  kc_actions :: "KeyAction list"
  kc_masked :: string
  kc_endpoints :: endpointsCell
  kc_limit :: "rateCell option"
  kc_requests :: int
  kc_lastUsed :: lastUsedCell
  kc_expires :: expiresCell
  kc_created :: int

definition keyCard :: "bool \<Rightarrow> int \<Rightarrow> ApiKeySummary \<Rightarrow> keyCard" where
  "keyCard canRegenerate now key =
     \<lparr>kc_dimmed = (y_revokedAt key \<noteq> None), kc_name = y_name key, kc_expiredBadge = isExpired key now,
      kc_actions = actionsOf (isExpired key now) canRegenerate key, kc_masked = y_maskedKey key,
      kc_endpoints = endpointsCell key,
      kc_limit = (if y_revokedAt key = None then Some (rateCell key) else None),
      kc_requests = y_requestsLast30Days key, kc_lastUsed = lastUsedCell key, kc_expires = expiresCell key now,
      kc_created = y_createdAt key\<rparr>"

text \<open>A row of the table; the dash of a revoked key's limit is \<open>None\<close>.\<close>

datatype usedLine = PlainUsed lastUsedCell | NeverUsedText | LastUsedText lastUsedCell

record keyRow =
  kr_dimmed :: bool
  kr_name :: string
  kr_expiredBadge :: bool
  kr_created :: int
  kr_masked :: string
  kr_endpoints :: endpointsCell
  kr_limit :: "rateCell option"
  kr_requests :: int
  kr_unit :: string
  kr_used :: usedLine
  kr_expires :: expiresCell
  kr_actions :: "KeyAction list"

definition usedLine :: "ApiKeySummary \<Rightarrow> usedLine" where
  "usedLine key =
     (if y_revokedAt key \<noteq> None then PlainUsed (lastUsedCell key)
      else if y_lastUsedAt key = None then NeverUsedText else LastUsedText (lastUsedCell key))"

definition keyRow :: "bool \<Rightarrow> int \<Rightarrow> ApiKeySummary \<Rightarrow> keyRow" where
  "keyRow canRegenerate now key =
     \<lparr>kr_dimmed = (y_revokedAt key \<noteq> None), kr_name = y_name key, kr_expiredBadge = isExpired key now,
      kr_created = y_createdAt key, kr_masked = y_maskedKey key, kr_endpoints = endpointsCell key,
      kr_limit = (if y_revokedAt key = None then Some (rateCell key) else None),
      kr_requests = y_requestsLast30Days key,
      kr_unit = (if y_requestsLast30Days key = 1 then ''request'' else ''requests''),
      kr_used = usedLine key, kr_expires = expiresCell key now,
      kr_actions = actionsOf (isExpired key now) canRegenerate key\<rparr>"

section \<open>The secret, shown once\<close>

record RevealedSecret =
  sec_name :: string
  sec_secret :: string
  sec_regenerated :: bool

definition is_slug_char :: "char \<Rightarrow> bool" where
  "is_slug_char c \<longleftrightarrow> (CHR ''a'' \<le> c \<and> c \<le> CHR ''z'') \<or> (CHR ''0'' \<le> c \<and> c \<le> CHR ''9'')"

text \<open>\<open>replace(/[^a-z0-9]+/g, "-")\<close>: each longest run of other characters becomes one dash.\<close>

fun dashed :: "bool \<Rightarrow> string \<Rightarrow> string" where
  "dashed inRun [] = []"
| "dashed inRun (c # s) =
     (if is_slug_char c then c # dashed False s
      else if inRun then dashed True s else CHR ''-'' # dashed True s)"

text \<open>\<open>replace(/^-|-$/g, "")\<close>.\<close>

definition dropLeadingDash :: "string \<Rightarrow> string" where
  "dropLeadingDash s = (case s of c # r \<Rightarrow> if c = CHR ''-'' then r else s | [] \<Rightarrow> [])"

definition dropEndDashes :: "string \<Rightarrow> string" where
  "dropEndDashes s = rev (dropLeadingDash (rev (dropLeadingDash s)))"

definition slugOf :: "string \<Rightarrow> string" where
  "slugOf keyName = dropEndDashes (dashed False (toLowerCase keyName))"

definition fileName :: "string \<Rightarrow> string" where
  "fileName keyName =
     (let slug = slugOf keyName in
      ''geo-platform-api-key'' @ (if slug \<noteq> [] then CHR ''-'' # slug else []) @ ''.txt'')"

text \<open>The time of creation is given as the text of \<open>toISOString\<close>.\<close>

definition secretFileContents :: "RevealedSecret \<Rightarrow> string \<Rightarrow> string" where
  "secretFileContents r isoNow = join [CHR 0x0A]
     [''Ubhub Location Service API key'',
      '''',
      ''Name:    '' @ sec_name r,
      ''Key:     '' @ sec_secret r,
      ''Created: '' @ isoNow,
      '''',
      ''Keep this key secret. It will not be shown again in the dashboard.'',
      ''Send it with every request:  Authorization: Bearer <key>'',
      ''Never put it in browser or mobile app code; call the API from your server.'',
      '''']"

text \<open>The title and the description of the dialog, with the quotation marks around a name.\<close>

definition quotedName :: "string \<Rightarrow> string" where
  "quotedName s = [CHR 0xE2, CHR 0x80, CHR 0x9C] @ s @ [CHR 0xE2, CHR 0x80, CHR 0x9D]"

definition secretTitle :: "RevealedSecret option \<Rightarrow> string \<times> string" where
  "secretTitle r =
     (case r of
        Some v \<Rightarrow>
          if sec_regenerated v
          then (''Your new API key secret'',
            ''The previous secret for '' @ quotedName (sec_name v) @ '' no longer works. Update your applications with this one.'')
          else (''Save your API key'', ''Your key '' @ quotedName (sec_name v)
            @ '' is ready. Copy it now and store it somewhere safe, like a secrets manager.'')
      | None \<Rightarrow> (''Save your API key'', ''Your key '' @ quotedName []
            @ '' is ready. Copy it now and store it somewhere safe, like a secrets manager.''))"

section \<open>The form of a new key\<close>

text \<open>A checkbox of the endpoints changed; the chosen ones stay in the order of the list.\<close>

definition toggleEndpoint :: "bool \<Rightarrow> string \<Rightarrow> string list \<Rightarrow> string list" where
  "toggleEndpoint on endpoint chosen =
     (if on then filter (\<lambda>e. e = endpoint \<or> e \<in> set chosen) KEY_ENDPOINT_IDS
      else filter (\<lambda>e. e \<noteq> endpoint) chosen)"

datatype expirySummary = KeyNeverExpires | StopsAtEndOfChosenDay | StopsOn int

definition expirySummary :: "zone \<Rightarrow> ExpiryChoice \<Rightarrow> string \<Rightarrow> int \<Rightarrow> expirySummary" where
  "expirySummary Z expiry customDate now =
     (let e = expiresAtFor Z expiry customDate now in
      if expiry = Never then KeyNeverExpires
      else case e of None \<Rightarrow> StopsAtEndOfChosenDay | Some t \<Rightarrow> StopsOn t)"

section \<open>The page\<close>

datatype toast = Success_toast string | Error_toast string

text \<open>A call in flight, with the values the handler captured.\<close>

datatype keyCall =
    CreateCall CreateKeyValues
  | RenameCall ApiKeySummary string
  | RevokeCall ApiKeySummary
  | RegenerateCall ApiKeySummary

text \<open>
  \<open>kp_busy a\<close> says that the dialog of the action \<open>a\<close> is submitting (\<open>isSubmitting\<close> of the rename form, \<open>pending\<close> of the
  two confirmations); \<open>kp_creating\<close> is the same for the form of a new key.
\<close>

record keysPage =
  kp_createOpen :: bool
  kp_revealed :: "RevealedSecret option"
  kp_pending :: "(KeyAction \<times> ApiKeySummary) option"
  kp_creating :: bool
  kp_busy :: "KeyAction \<Rightarrow> bool"
  kp_copied :: bool
  kp_calls :: "(nat \<times> keyCall) list"
  kp_next :: nat
  kp_toasts :: "toast list"

text \<open>The page as it opens; \<open>?create=1\<close> opens the dialog of a new key.\<close>

definition keys_init :: "string option \<Rightarrow> keysPage" where
  "keys_init createParam = \<lparr>kp_createOpen = (createParam = Some ''1''), kp_revealed = None, kp_pending = None,
     kp_creating = False, kp_busy = (\<lambda>_. False), kp_copied = False, kp_calls = [], kp_next = 0, kp_toasts = []\<rparr>"

definition toasted :: "toast \<Rightarrow> keysPage \<Rightarrow> keysPage" where
  "toasted m p = p\<lparr>kp_toasts := kp_toasts p @ [m]\<rparr>"

definition called :: "keyCall \<Rightarrow> keysPage \<Rightarrow> keysPage" where
  "called call p = p\<lparr>kp_calls := (kp_next p, call) # kp_calls p, kp_next := Suc (kp_next p)\<rparr>"

definition returned :: "nat \<Rightarrow> keysPage \<Rightarrow> keysPage" where
  "returned i p = p\<lparr>kp_calls := filter (\<lambda>c. fst c \<noteq> i) (kp_calls p)\<rparr>"

definition activeKeys :: "ApiKeySummary list option \<Rightarrow> ApiKeySummary list" where
  "activeKeys keys = (case keys of None \<Rightarrow> [] | Some ks \<Rightarrow> filter (\<lambda>k. y_revokedAt k = None) ks)"

definition revokedKeys :: "ApiKeySummary list option \<Rightarrow> ApiKeySummary list" where
  "revokedKeys keys = (case keys of None \<Rightarrow> [] | Some ks \<Rightarrow> filter (\<lambda>k. y_revokedAt k \<noteq> None) ks)"

text \<open>\<open>billing?.canUseApiKeys === true\<close>; the query has no value while it loads.\<close>

definition keyAccess :: "bool option \<Rightarrow> bool" where
  "keyAccess billing = (billing = Some True)"

definition openCreate :: "keysPage \<Rightarrow> keysPage" where
  "openCreate p = p\<lparr>kp_createOpen := True\<rparr>"

definition onAction :: "KeyAction \<Rightarrow> ApiKeySummary \<Rightarrow> keysPage \<Rightarrow> keysPage" where
  "onAction action key p = p\<lparr>kp_pending := Some (action, key)\<rparr>"

text \<open>The dialogs close themselves unless their call is in flight.\<close>

definition closeCreate :: "keysPage \<Rightarrow> keysPage" where
  "closeCreate p = (if kp_creating p then p else p\<lparr>kp_createOpen := False\<rparr>)"

definition closeAction :: "KeyAction \<Rightarrow> keysPage \<Rightarrow> keysPage" where
  "closeAction action p = (if kp_busy p action then p else p\<lparr>kp_pending := None\<rparr>)"

text \<open>Submitting the form of a new key: the call is made when the schema accepts the values.\<close>

definition submitCreate :: "zone \<Rightarrow> string \<times> string \<Rightarrow> int \<Rightarrow> CreateKeyForm \<Rightarrow> keysPage \<Rightarrow> keysPage" where
  "submitCreate Z bounds now form p =
     (if kp_creating p then p
      else case createKeySchema Z bounds form of
             None \<Rightarrow> p
           | Some v \<Rightarrow> called (CreateCall (toCreateValues Z now v)) (p\<lparr>kp_creating := True\<rparr>))"

definition created :: "CreateKeyValues \<Rightarrow> thrown + createdKey \<Rightarrow> keysPage \<Rightarrow> keysPage" where
  "created values outcome p =
     (case outcome of
        Inr result \<Rightarrow> p\<lparr>kp_createOpen := False,
          kp_revealed := Some \<lparr>sec_name = cv_name values, sec_secret = cr_secret result, sec_regenerated = False\<rparr>\<rparr>
      | Inl error \<Rightarrow> toasted (Error_toast (actionErrorMessage error ''Could not create the key.'')) p)
       \<lparr>kp_creating := False\<rparr>"

text \<open>\<open>renameSchema\<close>: the name rule of the form of a new key.\<close>

definition renameSchema :: "string \<Rightarrow> string option" where
  "renameSchema name =
     (let n = trim name in if n \<noteq> [] \<and> length n \<le> FORM_MAX_KEY_NAME then Some n else None)"

definition submitRename :: "string \<Rightarrow> keysPage \<Rightarrow> keysPage" where
  "submitRename name p =
     (if kp_busy p RenameKey then p
      else case (renameSchema name, kp_pending p) of
             (Some n, Some (action, key)) \<Rightarrow> called (RenameCall key n) (p\<lparr>kp_busy := (kp_busy p)(RenameKey := True)\<rparr>)
           | _ \<Rightarrow> p)"

definition renamed :: "thrown + unit \<Rightarrow> keysPage \<Rightarrow> keysPage" where
  "renamed outcome p =
     (case outcome of
        Inr _ \<Rightarrow> (toasted (Success_toast ''Key renamed.'') p)\<lparr>kp_pending := None\<rparr>
      | Inl error \<Rightarrow> toasted (Error_toast (actionErrorMessage error ''Could not rename the key.'')) p)
       \<lparr>kp_busy := (kp_busy p)(RenameKey := False)\<rparr>"

text \<open>The button of a confirmation; it is disabled while its call is in flight.\<close>

definition confirm :: "KeyAction \<Rightarrow> (ApiKeySummary \<Rightarrow> keyCall) \<Rightarrow> keysPage \<Rightarrow> keysPage" where
  "confirm action call p =
     (if kp_busy p action then p
      else case kp_pending p of
             None \<Rightarrow> p
           | Some (_, key) \<Rightarrow> called (call key) (p\<lparr>kp_busy := (kp_busy p)(action := True)\<rparr>))"

text \<open>A confirmation that ended: closed when its call succeeded, kept for another try otherwise.\<close>

definition confirmed :: "KeyAction \<Rightarrow> thrown + unit \<Rightarrow> keysPage \<Rightarrow> keysPage" where
  "confirmed action outcome p =
     (case outcome of Inr _ \<Rightarrow> p\<lparr>kp_pending := None\<rparr> | Inl _ \<Rightarrow> p)\<lparr>kp_busy := (kp_busy p)(action := False)\<rparr>"

definition revoked :: "ApiKeySummary \<Rightarrow> thrown + unit \<Rightarrow> keysPage \<Rightarrow> keysPage" where
  "revoked key outcome p = confirmed RevokeKey outcome
     (toasted (case outcome of
         Inr _ \<Rightarrow> Success_toast (quotedName (y_name key) @ '' was revoked.'')
       | Inl error \<Rightarrow> Error_toast (actionErrorMessage error ''Could not revoke the key.'')) p)"

definition regenerated :: "ApiKeySummary \<Rightarrow> thrown + createdKey \<Rightarrow> keysPage \<Rightarrow> keysPage" where
  "regenerated key outcome p =
     (case outcome of
        Inr result \<Rightarrow> confirmed RegenerateKey (Inr ())
          (p\<lparr>kp_revealed := Some \<lparr>sec_name = y_name key, sec_secret = cr_secret result, sec_regenerated = True\<rparr>\<rparr>)
      | Inl error \<Rightarrow> confirmed RegenerateKey (Inl error)
          (toasted (Error_toast (actionErrorMessage error ''Could not regenerate the key.'')) p))"

text \<open>The dialog of the secret: copying it, the end of the mark beside the button, and \<open>Done\<close>.\<close>

definition copySecret :: "bool \<Rightarrow> keysPage \<Rightarrow> keysPage" where
  "copySecret allowed p =
     (if kp_revealed p = None then p
      else if allowed then toasted (Success_toast ''API key copied to the clipboard.'') (p\<lparr>kp_copied := True\<rparr>)
      else toasted (Error_toast ''Could not copy. Select the key and copy it manually.'') p)"

definition copyMarkEnds :: "keysPage \<Rightarrow> keysPage" where
  "copyMarkEnds p = p\<lparr>kp_copied := False\<rparr>"

definition doneSecret :: "keysPage \<Rightarrow> keysPage" where
  "doneSecret p = p\<lparr>kp_copied := False, kp_revealed := None\<rparr>"

text \<open>The file \<open>Download\<close> offers: its name and its contents.\<close>

definition download :: "string \<Rightarrow> keysPage \<Rightarrow> (string \<times> string) option" where
  "download isoNow p = map_option (\<lambda>r. (fileName (sec_name r), secretFileContents r isoNow)) (kp_revealed p)"

text \<open>What the page shows below its header.\<close>

datatype keysBody =
    LoadingKeys
  | NoActiveKeys bool
  | ActiveKeys bool "keyRow list"

definition keysBody :: "ApiKeySummary list option \<Rightarrow> bool option \<Rightarrow> int \<Rightarrow> keysBody" where
  "keysBody keys billing now =
     (if keys = None \<or> billing = None then LoadingKeys
      else if activeKeys keys = [] then NoActiveKeys (keyAccess billing)
      else ActiveKeys (\<not> keyAccess billing) (map (keyRow (keyAccess billing) now) (activeKeys keys)))"

definition revokedRows :: "ApiKeySummary list option \<Rightarrow> int \<Rightarrow> keyRow list" where
  "revokedRows keys now = map (keyRow True now) (revokedKeys keys)"

text \<open>A dialog over the page: while there is one, only its own controls can be used.\<close>

definition dialogOpen :: "bool option \<Rightarrow> keysPage \<Rightarrow> bool" where
  "dialogOpen billing p \<longleftrightarrow> (keyAccess billing \<and> kp_createOpen p) \<or> kp_revealed p \<noteq> None \<or> kp_pending p \<noteq> None"

section \<open>Events\<close>

text \<open>
  The queries are live: an event sees any list of keys, any billing and any time. The menus and the button of a new
  key can be used only when no dialog covers the page.
\<close>

inductive keys_step :: "keysPage \<Rightarrow> keysPage \<Rightarrow> bool" where
  new_key: "keyAccess billing \<Longrightarrow> \<not> dialogOpen billing p \<Longrightarrow> keys_step p (openCreate p)"
| close_create: "keyAccess billing \<Longrightarrow> kp_createOpen p \<Longrightarrow> keys_step p (closeCreate p)"
| submit_create: "keyAccess billing \<Longrightarrow> kp_createOpen p \<Longrightarrow> keys_step p (submitCreate Z bounds now form p)"
| create_ends: "(i, CreateCall v) \<in> set (kp_calls p) \<Longrightarrow> keys_step p (created v res (returned i p))"
| choose: "key \<in> set (activeKeys keys) \<Longrightarrow> a \<in> set (actionsOf (isExpired key now) (keyAccess billing) key) \<Longrightarrow>
    \<not> dialogOpen billing p \<Longrightarrow> keys_step p (onAction a key p)"
| close_action: "kp_pending p = Some (a, key) \<Longrightarrow> keys_step p (closeAction a p)"
| submit_rename: "kp_pending p = Some (RenameKey, key) \<Longrightarrow> keys_step p (submitRename name p)"
| rename_ends: "(i, RenameCall key n) \<in> set (kp_calls p) \<Longrightarrow> keys_step p (renamed res (returned i p))"
| confirm_revoke: "kp_pending p = Some (RevokeKey, key) \<Longrightarrow> keys_step p (confirm RevokeKey RevokeCall p)"
| revoke_ends: "(i, RevokeCall key) \<in> set (kp_calls p) \<Longrightarrow> keys_step p (revoked key res (returned i p))"
| confirm_regenerate: "kp_pending p = Some (RegenerateKey, key) \<Longrightarrow> keys_step p (confirm RegenerateKey RegenerateCall p)"
| regenerate_ends: "(i, RegenerateCall key) \<in> set (kp_calls p) \<Longrightarrow> keys_step p (regenerated key res (returned i p))"
| copy: "kp_revealed p = Some r \<Longrightarrow> keys_step p (copySecret allowed p)"
| copy_mark: "keys_step p (copyMarkEnds p)"
| secret_done: "kp_revealed p = Some r \<Longrightarrow> keys_step p (doneSecret p)"

end
