(* ===== verification/KeysPageProps.thy ===== *)
theory KeysPageProps
  imports KeysPage Runs KeyLifecycle Payments
begin

text \<open>
  What the API key page promises: the menus offer what the backend accepts, a dialog works on the key it names and
  makes one call at a time, the secret is shown once, and the file it is saved in has a harmless name.
\<close>

section \<open>The list and the backend\<close>

lemma all_or_error_in:
  "all_or_error f xs = Inr ys \<Longrightarrow> y \<in> set ys \<Longrightarrow> \<exists>x \<in> set xs. f x = Inr y"
  by (induction xs arbitrary: ys) (auto split: sum.split_asm)

text \<open>A key of the list is a key of the signed-in user, with the revocation and expiry shown.\<close>

lemma listKeys_key:
  assumes "listKeys H now auth s = Inr keys" and "key \<in> set keys" and "requireUserId now auth s = Inr userId" and "wf_db s"
  obtains r where "tget (apiKeys s) (y_id key) = Some r" "k_userId (doc r) = userId"
    "y_revokedAt key = k_revokedAt (doc r)" "y_expiresAt key = k_expiresAt (doc r)"
proof -
  from assms(1-3) obtain r n rate w where r: "r \<in> set (keysOfUser userId s)" and y: "key = summarize r n w rate"
    by (auto simp: listKeys_def Let_def dest!: all_or_error_in split: sum.split_asm)
  from r have "r \<in> set (apiKeys s)" "k_userId (doc r) = userId" by (simp_all add: keysOfUser_def set_tselect)
  moreover from this have "tget (apiKeys s) (rid r) = Some r" using assms(4) by (auto simp: wf_db_def wf_ids_def intro: tget_in)
  ultimately show ?thesis using that y by (simp add: summarize_def Let_def)
qed

lemma myBilling_access:
  assumes "myBilling now auth s = Inr b"
  obtains userId u where "requireUserId now auth s = Inr userId" "tget (users s) userId = Some u"
    "b_canUseApiKeys b = hasKeyAccess (doc u) now"
  using assms by (auto simp: myBilling_def Let_def split: sum.split_asm option.split_asm)

lemma regenerate_Inr_iff:
  assumes "requireUserId now auth s = Inr userId" and "tget (users s) userId = Some u"
    and "requireEnv (h_env H) ''API_KEY_PEPPER'' = Inr pepper"
    and "tget (apiKeys s) keyId = Some r" and "k_userId (doc r) = userId"
  shows "(\<exists>c s'. regenerate H now auth keyId secret s = Inr (c, s')) \<longleftrightarrow>
    k_revokedAt (doc r) = None \<and> (\<forall>e. k_expiresAt (doc r) = Some e \<longrightarrow> now < e) \<and> hasKeyAccess (doc u) now"
  using assms
  by (auto simp: regenerate_def replaceSecret_def ownedKey_def requireOwnedKey_def requireAccess_def mthen_def mbind_def
      reads_def writeAudit_def deletePlaygroundTokens_def throw_def modify_def ret_def split: option.splits)

lemma revoke_owned:
  assumes "requireUserId now auth s = Inr userId" and "tget (apiKeys s) keyId = Some r" and "k_userId (doc r) = userId"
  shows "\<exists>s'. revoke now auth keyId s = Inr ((), s')"
  using assms
  by (auto simp: revoke_def requireOwnedKey_def mthen_def mbind_def reads_def writeAudit_def deletePlaygroundTokens_def
      revokeIfActive_def modify_def ret_def)



text \<open>The table and the cards show the same of a key.\<close>

lemma layouts_agree:
  "kc_name (keyCard g now key) = kr_name (keyRow g now key)" "kc_masked (keyCard g now key) = kr_masked (keyRow g now key)"
  "kc_endpoints (keyCard g now key) = kr_endpoints (keyRow g now key)" "kc_limit (keyCard g now key) = kr_limit (keyRow g now key)"
  "kc_expires (keyCard g now key) = kr_expires (keyRow g now key)" "kc_actions (keyCard g now key) = kr_actions (keyRow g now key)"
  "kr_used (keyRow g now key) \<in> {PlainUsed (kc_lastUsed (keyCard g now key)), NeverUsedText, LastUsedText (kc_lastUsed (keyCard g now key))}"
  by (simp_all add: keyCard_def keyRow_def usedLine_def)

lemma rate_bar_bounds:
  assumes "0 \<le> y_requestsThisMinute key"
  shows "0 \<le> rc_width (rateCell key)" and "rc_width (rateCell key) \<le> 100"
    and "rc_tone (rateCell key) = DestructiveTone \<longleftrightarrow> max 1 (y_rateLimitPerMinute key) \<le> y_requestsThisMinute key"
proof -
  show "0 \<le> rc_width (rateCell key)" "rc_width (rateCell key) \<le> 100"
    using assms by (simp_all add: rateCell_def ratePercent_def Let_def)
  have "(100::rat) \<le> of_int n / of_int (max 1 m) * 100 \<longleftrightarrow> max 1 m \<le> n" for n m :: int
    by (simp add: field_simps flip: of_int_max)
  then show "rc_tone (rateCell key) = DestructiveTone \<longleftrightarrow> max 1 (y_rateLimitPerMinute key) \<le> y_requestsThisMinute key"
    by (simp add: rateCell_def ratePercent_def Let_def)
qed

section \<open>The calls in flight\<close>

definition callsOf :: "(keyCall \<Rightarrow> bool) \<Rightarrow> keysPage \<Rightarrow> keyCall list" where
  "callsOf P p = filter P (map snd (kp_calls p))"

fun isCreateCall :: "keyCall \<Rightarrow> bool" where
  "isCreateCall (CreateCall v) = True"
| "isCreateCall c = False"

text \<open>The action and the key of a call, when it is one of an action's dialog.\<close>

fun actionCall :: "keyCall \<Rightarrow> (KeyAction \<times> ApiKeySummary) option" where
  "actionCall (CreateCall v) = None"
| "actionCall (RenameCall key n) = Some (RenameKey, key)"
| "actionCall (RevokeCall key) = Some (RevokeKey, key)"
| "actionCall (RegenerateCall key) = Some (RegenerateKey, key)"

definition page_ok :: "keysPage \<Rightarrow> bool" where
  "page_ok p \<longleftrightarrow>
     distinct (map fst (kp_calls p)) \<and> (\<forall>c \<in> set (kp_calls p). fst c < kp_next p)
   \<and> length (callsOf isCreateCall p) = (if kp_creating p then 1 else 0)
   \<and> length (callsOf (\<lambda>c. actionCall c \<noteq> None) p) = (if \<exists>a. kp_busy p a then 1 else 0)
   \<and> (\<forall>c \<in> set (kp_calls p). actionCall (snd c) \<noteq> None \<longrightarrow> actionCall (snd c) = kp_pending p)
   \<and> (\<forall>a. kp_busy p a \<longrightarrow> map_option fst (kp_pending p) = Some a)
   \<and> (\<forall>a key. kp_pending p = Some (a, key) \<longrightarrow> y_revokedAt key = None)"

lemma callsOf_called [simp]: "callsOf P (called c p) = (if P c then c # callsOf P p else callsOf P p)"
  by (simp add: callsOf_def called_def)

lemma called_fields [simp]:
  "kp_pending (called c p) = kp_pending p" "kp_busy (called c p) = kp_busy p" "kp_creating (called c p) = kp_creating p"
  "kp_revealed (called c p) = kp_revealed p" "kp_createOpen (called c p) = kp_createOpen p"
  "kp_calls (called c p) = (kp_next p, c) # kp_calls p" "kp_next (called c p) = Suc (kp_next p)"
  by (simp_all add: called_def)

lemma toasted_fields [simp]:
  "kp_pending (toasted m p) = kp_pending p" "kp_busy (toasted m p) = kp_busy p" "kp_creating (toasted m p) = kp_creating p"
  "kp_revealed (toasted m p) = kp_revealed p" "kp_createOpen (toasted m p) = kp_createOpen p"
  "kp_calls (toasted m p) = kp_calls p" "kp_next (toasted m p) = kp_next p"
  by (simp_all add: toasted_def)

lemma returned_fields [simp]:
  "kp_pending (returned i p) = kp_pending p" "kp_busy (returned i p) = kp_busy p" "kp_creating (returned i p) = kp_creating p"
  "kp_revealed (returned i p) = kp_revealed p" "kp_createOpen (returned i p) = kp_createOpen p"
  "kp_calls (returned i p) = filter (\<lambda>c. fst c \<noteq> i) (kp_calls p)" "kp_next (returned i p) = kp_next p"
  by (simp_all add: returned_def)

text \<open>A page with the same calls and flags is as good.\<close>

lemma page_ok_cong:
  "kp_calls q = kp_calls p \<Longrightarrow> kp_next q = kp_next p \<Longrightarrow> kp_creating q = kp_creating p \<Longrightarrow> kp_busy q = kp_busy p \<Longrightarrow>
   kp_pending q = kp_pending p \<Longrightarrow> page_ok q = page_ok p"
  by (simp add: page_ok_def callsOf_def)

lemma length_callsOf_returned:
  assumes "distinct (map fst (kp_calls p))" and "(i, c) \<in> set (kp_calls p)"
  shows "length (callsOf P (returned i p)) = length (callsOf P p) - (if P c then 1 else 0)"
proof -
  have "length (filter P (map snd (filter (\<lambda>c. fst c \<noteq> i) cs))) = length (filter P (map snd cs)) - (if P c then 1 else 0)"
    if "distinct (map fst cs)" "(i, c) \<in> set cs" for cs
    using that
  proof (induction cs)
    case (Cons x cs)
    show ?case
    proof (cases "fst x = i")
      case True
      with Cons.prems(1) have "i \<notin> fst ` set cs" by simp
      then have fresh: "\<forall>y \<in> set cs. fst y \<noteq> i" by blast
      then have "(i, c) \<notin> set cs" by (metis fst_conv)
      with Cons.prems(2) have "x = (i, c)" by simp
      moreover have "filter (\<lambda>c. fst c \<noteq> i) cs = cs" using fresh by (simp add: filter_id_conv)
      ultimately show ?thesis by simp
    next
      case False
      with Cons.prems have "distinct (map fst cs)" and m: "(i, c) \<in> set cs" by auto
      with Cons.IH have IH: "length (filter P (map snd (filter (\<lambda>c. fst c \<noteq> i) cs))) = length (filter P (map snd cs)) - (if P c then 1 else 0)"
        by blast
      have "P c \<Longrightarrow> 0 < length (filter P (map snd cs))" using m by (force simp: filter_empty_conv)
      with IH False show ?thesis by auto
    qed
  qed simp
  with assms show ?thesis by (simp add: callsOf_def)
qed

lemma actionCall_create [simp]: "isCreateCall c \<Longrightarrow> actionCall c = None"
  by (cases c) simp_all

lemma page_ok_start_action:
  assumes "page_ok p" and "\<not> kp_busy p a" and "kp_pending p = Some (a, key)" and "actionCall c = Some (a, key)"
  shows "page_ok (called c (p\<lparr>kp_busy := (kp_busy p)(a := True)\<rparr>))"
proof -
  have idle: "\<not> kp_busy p b" for b using assms(1-3) by (auto simp: page_ok_def)
  have "\<not> isCreateCall c" using assms(4) by (cases c) simp_all
  with assms idle show ?thesis by (auto simp: page_ok_def callsOf_def)
qed

lemma page_ok_end_action:
  assumes "page_ok p" and "(i, c) \<in> set (kp_calls p)" and "actionCall c = Some (a, key)"
    and "kp_calls q = filter (\<lambda>c. fst c \<noteq> i) (kp_calls p)" and "kp_next q = kp_next p" and "kp_creating q = kp_creating p"
    and "kp_busy q = (kp_busy p)(a := False)" and "kp_pending q = kp_pending p \<or> kp_pending q = None"
  shows "page_ok q"
proof -
  have d: "distinct (map fst (kp_calls p))" using assms(1) by (simp add: page_ok_def)
  have calls: "callsOf P q = callsOf P (returned i p)" for P using assms(4) by (simp add: callsOf_def)
  have pend: "kp_pending p = Some (a, key)" using assms(1-3) by (force simp: page_ok_def)
  then have idle: "\<not> kp_busy q b" for b using assms(1,7) by (auto simp: page_ok_def)
  have "length (callsOf (\<lambda>c. actionCall c \<noteq> None) p) \<le> 1" using assms(1) by (auto simp: page_ok_def)
  then have none: "callsOf (\<lambda>c. actionCall c \<noteq> None) q = []"
    using length_callsOf_returned [OF d assms(2), of "\<lambda>c. actionCall c \<noteq> None"] assms(3) by (simp add: calls)
  have "\<not> isCreateCall c" using assms(3) by (cases c) simp_all
  then have create: "length (callsOf isCreateCall q) = length (callsOf isCreateCall p)"
    using length_callsOf_returned [OF d assms(2), of isCreateCall] by (simp add: calls)
  have "distinct (map fst (kp_calls q))" using d assms(4) by (simp add: distinct_map_filter)
  moreover have "\<forall>c \<in> set (kp_calls q). actionCall (snd c) = None"
    using none by (auto simp: callsOf_def filter_empty_conv simp del: not_None_eq)
  ultimately show ?thesis using assms(1,4-6,8) idle none create by (auto simp: page_ok_def)
qed

lemma page_ok_start_create:
  assumes "page_ok p" and "\<not> kp_creating p"
  shows "page_ok (called (CreateCall v) (p\<lparr>kp_creating := True\<rparr>))"
  using assms by (auto simp: page_ok_def callsOf_def)

lemma page_ok_end_create:
  assumes "page_ok p" and "(i, CreateCall v) \<in> set (kp_calls p)"
    and "kp_calls q = filter (\<lambda>c. fst c \<noteq> i) (kp_calls p)" and "kp_next q = kp_next p" and "\<not> kp_creating q"
    and "kp_busy q = kp_busy p" and "kp_pending q = kp_pending p"
  shows "page_ok q"
proof -
  have d: "distinct (map fst (kp_calls p))" using assms(1) by (simp add: page_ok_def)
  have calls: "callsOf P q = callsOf P (returned i p)" for P using assms(3) by (simp add: callsOf_def)
  have "length (callsOf isCreateCall p) \<le> 1" using assms(1) by (auto simp: page_ok_def)
  then have create: "callsOf isCreateCall q = []"
    using length_callsOf_returned [OF d assms(2), of isCreateCall] by (simp add: calls)
  have act: "length (callsOf (\<lambda>c. actionCall c \<noteq> None) q) = length (callsOf (\<lambda>c. actionCall c \<noteq> None) p)"
    using length_callsOf_returned [OF d assms(2), of "\<lambda>c. actionCall c \<noteq> None"] by (simp add: calls)
  have "distinct (map fst (kp_calls q))" using d assms(3) by (simp add: distinct_map_filter)
  then show ?thesis using assms(1,3-7) create act by (auto simp: page_ok_def)
qed

lemma page_ok_close:
  assumes "page_ok p" and "\<forall>a. \<not> kp_busy p a"
  shows "page_ok (p\<lparr>kp_pending := pend\<rparr>) \<longleftrightarrow> (\<forall>a key. pend = Some (a, key) \<longrightarrow> y_revokedAt key = None)"
proof -
  have "callsOf (\<lambda>c. actionCall c \<noteq> None) p = []" using assms by (simp add: page_ok_def)
  then have "\<forall>c \<in> set (kp_calls p). actionCall (snd c) = None" by (auto simp: callsOf_def filter_empty_conv simp del: not_None_eq)
  with assms show ?thesis by (auto simp: page_ok_def callsOf_def)
qed

lemma page_ok_idle: "page_ok p \<Longrightarrow> kp_pending p = None \<Longrightarrow> \<not> kp_busy p a"
  by (auto simp: page_ok_def)

lemma page_ok_other_idle: "page_ok p \<Longrightarrow> kp_pending p = Some (a, key) \<Longrightarrow> \<not> kp_busy p a \<Longrightarrow> \<not> kp_busy p b"
  by (auto simp: page_ok_def)

lemmas page_defs = created_def renamed_def revoked_def regenerated_def confirmed_def

lemma page_ok_step:
  assumes "page_ok p" and "keys_step p q"
  shows "page_ok q"
  using assms(2,1)
proof cases
  case (submit_create billing Z bounds now form)
  then show ?thesis using assms(1) page_ok_start_create by (auto simp: submitCreate_def split: option.splits)
next
  case (create_ends i v res)
  show ?thesis by (rule page_ok_end_create [OF assms(1) create_ends(2)])
    (simp_all add: create_ends(1) page_defs split: sum.split)
next
  case (choose key keys a now billing)
  then have "kp_pending p = None" "y_revokedAt key = None" by (auto simp: dialogOpen_def activeKeys_def simp del: not_None_eq split: option.splits)
  with choose(1) page_ok_close [OF assms(1)] page_ok_idle [OF assms(1)] show ?thesis by (simp add: onAction_def)
next
  case (close_action a key)
  then show ?thesis using page_ok_close [OF assms(1)] page_ok_other_idle [OF assms(1) close_action(2)] assms(1)
    by (auto simp: closeAction_def)
next
  case (submit_rename key name)
  then show ?thesis using assms(1) page_ok_start_action [OF assms(1) _ submit_rename(2)]
    by (auto simp: submitRename_def split: option.splits)
next
  case (rename_ends i key n res)
  show ?thesis by (rule page_ok_end_action [OF assms(1) rename_ends(2), of RenameKey key])
    (simp_all add: rename_ends(1) page_defs split: sum.split)
next
  case (confirm_revoke key)
  then show ?thesis using assms(1) page_ok_start_action [OF assms(1) _ confirm_revoke(2)] by (auto simp: confirm_def)
next
  case (revoke_ends i key res)
  show ?thesis by (rule page_ok_end_action [OF assms(1) revoke_ends(2), of RevokeKey key])
    (simp_all add: revoke_ends(1) page_defs split: sum.split)
next
  case (confirm_regenerate key)
  then show ?thesis using assms(1) page_ok_start_action [OF assms(1) _ confirm_regenerate(2)] by (auto simp: confirm_def)
next
  case (regenerate_ends i key res)
  show ?thesis by (rule page_ok_end_action [OF assms(1) regenerate_ends(2), of RegenerateKey key])
    (simp_all add: regenerate_ends(1) page_defs split: sum.split)
qed (auto simp: openCreate_def closeCreate_def copySecret_def copyMarkEnds_def doneSecret_def elim!: page_ok_cong [THEN iffD1, rotated -1])

interpretation keyPages: invariant_steps keys_step page_ok
  by unfold_locales (rule page_ok_step)

lemma page_ok_init: "page_ok (keys_init param)"
  by (simp add: page_ok_def keys_init_def callsOf_def)

text \<open>C39. A dialog works on the key it names, one call at a time: after any events in any order, each renaming, revocation or
  regeneration in flight is that of the dialog shown, for the very key the dialog names; that key was not revoked
  when its menu was used; there is at most one such call and at most one creation in flight; and while it is in
  flight the dialog does not close.\<close>

theorem dialog_names_its_key:
  assumes "keys_step\<^sup>*\<^sup>* (keys_init param) p"
  shows "(\<forall>i c. (i, c) \<in> set (kp_calls p) \<longrightarrow> (\<exists>v. c = CreateCall v) \<or>
            (\<exists>a key. actionCall c = Some (a, key) \<and> kp_pending p = Some (a, key) \<and> y_revokedAt key = None
               \<and> kp_pending (closeAction a p) = Some (a, key)))
    \<and> length (callsOf isCreateCall p) \<le> 1 \<and> length (callsOf (\<lambda>c. actionCall c \<noteq> None) p) \<le> 1"
proof -
  have ok: "page_ok p" by (rule keyPages.good_run [OF assms page_ok_init])
  have "(\<exists>v. c = CreateCall v) \<or> (\<exists>a key. actionCall c = Some (a, key) \<and> kp_pending p = Some (a, key) \<and> y_revokedAt key = None
      \<and> kp_pending (closeAction a p) = Some (a, key))" if c: "(i, c) \<in> set (kp_calls p)" for i c
  proof (cases "actionCall c")
    case None
    then show ?thesis by (cases c) simp_all
  next
    case (Some ak)
    then obtain a key where ak: "actionCall c = Some (a, key)" by (cases ak) simp
    have pend: "kp_pending p = Some (a, key)" using ok c ak by (force simp: page_ok_def)
    have "callsOf (\<lambda>c. actionCall c \<noteq> None) p \<noteq> []" using c ak by (force simp: callsOf_def filter_empty_conv)
    moreover have "length (callsOf (\<lambda>c. actionCall c \<noteq> None) p) = (if \<exists>b. kp_busy p b then 1 else 0)"
      using ok by (simp only: page_ok_def)
    ultimately obtain b where b: "kp_busy p b" by (metis length_0_conv)
    then have "map_option fst (kp_pending p) = Some b" using ok by (simp add: page_ok_def)
    with b pend have "kp_busy p a" by simp
    moreover have "y_revokedAt key = None" using ok pend unfolding page_ok_def by blast
    ultimately have "actionCall c = Some (a, key) \<and> kp_pending p = Some (a, key) \<and> y_revokedAt key = None
        \<and> kp_pending (closeAction a p) = Some (a, key)" using ak pend by (simp add: closeAction_def)
    then show ?thesis by blast
  qed
  then have "\<forall>i c. (i, c) \<in> set (kp_calls p) \<longrightarrow> (\<exists>v. c = CreateCall v) \<or>
      (\<exists>a key. actionCall c = Some (a, key) \<and> kp_pending p = Some (a, key) \<and> y_revokedAt key = None
        \<and> kp_pending (closeAction a p) = Some (a, key))" by blast
  moreover have "length (callsOf isCreateCall p) \<le> 1 \<and> length (callsOf (\<lambda>c. actionCall c \<noteq> None) p) \<le> 1"
    using ok by (simp add: page_ok_def)
  ultimately show ?thesis by (rule conjI)
qed

definition sampleSummary :: ApiKeySummary where
  "sampleSummary = \<lparr>y_id = 1, y_name = ''Web app'', y_maskedKey = ''geo_abcd'', y_endpoints = [''route''], y_createdAt = 0,
     y_lastUsedAt = None, y_expiresAt = None, y_revokedAt = None, y_rateLimitPerMinute = 60,
     y_requestsLast30Days = 0, y_requestsThisMinute = 0\<rparr>"

definition regeneratingPage :: keysPage where
  "regeneratingPage = confirm RegenerateKey RegenerateCall (onAction RegenerateKey sampleSummary (keys_init None))"

lemma regeneratingPage_run: "keys_step\<^sup>*\<^sup>* (keys_init None) regeneratingPage"
proof -
  have "keys_step (keys_init None) (onAction RegenerateKey sampleSummary (keys_init None))"
    by (rule keys_step.choose [of sampleSummary "Some [sampleSummary]" RegenerateKey 0 "Some True"])
      (simp_all add: activeKeys_def sampleSummary_def actionsOf_def isExpired_def keyAccess_def dialogOpen_def keys_init_def)
  moreover have "keys_step (onAction RegenerateKey sampleSummary (keys_init None)) regeneratingPage"
    unfolding regeneratingPage_def by (rule keys_step.confirm_regenerate [of _ sampleSummary]) (simp add: onAction_def)
  ultimately show ?thesis by simp
qed

theorem dialog_names_its_key_witness:
  "kp_calls regeneratingPage = [(0, RegenerateCall sampleSummary)]
    \<and> kp_pending (closeAction RegenerateKey regeneratingPage) = Some (RegenerateKey, sampleSummary)"
proof -
  have calls: "kp_calls regeneratingPage = [(0, RegenerateCall sampleSummary)]"
    by (simp add: regeneratingPage_def confirm_def onAction_def keys_init_def called_def)
  then have "(0, RegenerateCall sampleSummary) \<in> set (kp_calls regeneratingPage)" by simp
  with dialog_names_its_key [OF regeneratingPage_run] calls show ?thesis by fastforce
qed

section \<open>The file of a secret\<close>

lemma dashed_chars: "c \<in> set (dashed b s) \<Longrightarrow> is_slug_char c \<or> c = CHR ''-''"
  by (induction b s rule: dashed.induct) (auto split: if_splits)

lemma dashed_True_hd: "dashed True s \<noteq> [] \<Longrightarrow> is_slug_char (hd (dashed True s))"
  by (induction s) auto

text \<open>No two dashes in a row.\<close>

lemma dashed_single: "successively (\<lambda>x y. x \<noteq> CHR ''-'' \<or> y \<noteq> CHR ''-'') (dashed b s)"
proof (induction b s rule: dashed.induct)
  case (2 b c s)
  have "dashed True s = [] \<or> hd (dashed True s) \<noteq> CHR ''-''"
    using dashed_True_hd [of s] by (auto simp: is_slug_char_def less_eq_char_def)
  moreover have "is_slug_char c \<Longrightarrow> c \<noteq> CHR ''-''" by (auto simp: is_slug_char_def less_eq_char_def)
  ultimately show ?case using 2 by (auto simp: successively_Cons)
qed simp

lemma is_slug_dash [simp]: "\<not> is_slug_char (CHR ''-'')"
  by (simp add: is_slug_char_def less_eq_char_def)

lemma dropLeadingDash_hd:
  "successively (\<lambda>x y. x \<noteq> CHR ''-'' \<or> y \<noteq> CHR ''-'') s \<Longrightarrow> dropLeadingDash s \<noteq> [] \<Longrightarrow> hd (dropLeadingDash s) \<noteq> CHR ''-''"
  by (cases s) (auto simp: dropLeadingDash_def successively_Cons)

lemma dropLeadingDash_successively: "successively P s \<Longrightarrow> successively P (dropLeadingDash s)"
  by (cases s) (auto simp: dropLeadingDash_def successively_Cons)

lemma set_dropLeadingDash: "set (dropLeadingDash s) \<subseteq> set s"
  by (cases s) (auto simp: dropLeadingDash_def)

text \<open>A slug has letters, digits and single dashes between them.\<close>

lemma slug_shape:
  "set (slugOf k) \<subseteq> {c. is_slug_char c \<or> c = CHR ''-''}" "successively (\<lambda>x y. x \<noteq> CHR ''-'' \<or> y \<noteq> CHR ''-'') (slugOf k)"
proof -
  let ?s = "dashed False (toLowerCase k)"
  show "set (slugOf k) \<subseteq> {c. is_slug_char c \<or> c = CHR ''-''}"
  proof
    fix c assume "c \<in> set (slugOf k)"
    then have "c \<in> set (dropLeadingDash (rev (dropLeadingDash ?s)))" by (simp add: slugOf_def dropEndDashes_def)
    then have "c \<in> set (rev (dropLeadingDash ?s))" using set_dropLeadingDash by blast
    then have "c \<in> set ?s" unfolding set_rev using set_dropLeadingDash by blast
    then show "c \<in> {c. is_slug_char c \<or> c = CHR ''-''}" using dashed_chars by blast
  qed
  have flip: "(\<lambda>x y. y \<noteq> CHR ''-'' \<or> x \<noteq> CHR ''-'') = (\<lambda>x y. x \<noteq> CHR ''-'' \<or> y \<noteq> CHR ''-'')"
    by (intro ext) (rule disj_commute)
  have "successively (\<lambda>x y. x \<noteq> CHR ''-'' \<or> y \<noteq> CHR ''-'') (rev (dropLeadingDash ?s))"
    unfolding successively_rev flip by (rule dropLeadingDash_successively [OF dashed_single])
  from dropLeadingDash_successively [OF this] show "successively (\<lambda>x y. x \<noteq> CHR ''-'' \<or> y \<noteq> CHR ''-'') (slugOf k)"
    unfolding slugOf_def dropEndDashes_def successively_rev flip .
qed

definition is_file_char :: "char \<Rightarrow> bool" where
  "is_file_char c \<longleftrightarrow> is_slug_char c \<or> c = CHR ''-'' \<or> c = CHR ''.''"

lemma fileName_chars: "list_all is_file_char (fileName k)"
proof -
  have ends: "list_all is_file_char ''geo-platform-api-key''" "list_all is_file_char ''.txt''" "is_file_char (CHR ''-'')"
    by code_simp+
  have slug: "list_all is_file_char (slugOf k)"
    using slug_shape(1) [of k] by (auto simp: list_all_iff is_file_char_def)
  from ends(3) slug have "list_all is_file_char (if slugOf k \<noteq> [] then CHR ''-'' # slugOf k else [])"
    by (cases "slugOf k = []") simp_all
  with ends(1,2) show ?thesis unfolding fileName_def Let_def list_all_append by blast
qed

lemma secret_in_file: "\<exists>a b. secretFileContents r isoNow = a @ sec_secret r @ b"
proof -
  have lines: "join [CHR 0x0A] (a # b # c # d # e # ls) = (a @ CHR 0x0A # b @ CHR 0x0A # c @ [CHR 0x0A]) @ d @ CHR 0x0A # join [CHR 0x0A] (e # ls)"
    for a b c d e ls by simp
  show ?thesis unfolding secretFileContents_def lines by (metis append.assoc)
qed

section \<open>The form of a new key\<close>

text \<open>Whatever is ticked, the chosen endpoints are those of the list, in its order, each once.\<close>

lemma toggleEndpoint_chosen:
  assumes "chosen = filter P KEY_ENDPOINT_IDS"
  shows "\<exists>Q. toggleEndpoint on e chosen = filter Q KEY_ENDPOINT_IDS"
proof (cases on)
  case True
  then show ?thesis unfolding toggleEndpoint_def by (simp only: if_True) blast
next
  case False
  then have "toggleEndpoint on e chosen = filter (\<lambda>x. x \<noteq> e \<and> P x) KEY_ENDPOINT_IDS"
    by (simp add: toggleEndpoint_def assms conj_commute)
  then show ?thesis by blast
qed

lemma toggleEndpoint_on: "e \<in> set KEY_ENDPOINT_IDS \<Longrightarrow> e \<in> set (toggleEndpoint True e chosen)"
  by (simp add: toggleEndpoint_def)

lemma toggleEndpoint_off: "e \<notin> set (toggleEndpoint False e chosen)"
  by (simp add: toggleEndpoint_def)

lemma expirySummary_exact: "expirySummary Z x d now = StopsOn t \<Longrightarrow> x \<noteq> Never \<and> expiresAtFor Z x d now = Some t"
  by (auto simp: expirySummary_def Let_def split: if_splits option.splits)

end
