(* ===== verification/Console.thy ===== *)
theory Console
  imports Dashboard WebRoutes Usage
begin

text \<open>
  The remaining pages of the console and the sign-in forms: \<open>login-form.tsx\<close>, \<open>register-form.tsx\<close>,
  \<open>forgot-password-form.tsx\<close> and \<open>reset-password-form.tsx\<close> with \<open>use-after-sign-in.ts\<close>; \<open>settings-view.tsx\<close>;
  \<open>usage-view.tsx\<close>, \<open>overview-view.tsx\<close> and the tables they show; \<open>useStableValue\<close> of \<open>use-console-query.ts\<close>; the
  initials of the account menu. A form is its error, whether it is submitting, and what it asks of the router and of the
  backend; the fields themselves, and the React markup, are not modelled.
\<close>

section \<open>Forms\<close>

record formState =
  fm_error :: "string option"
  fm_submitting :: bool

definition form_init :: formState where
  "form_init = \<lparr>fm_error = None, fm_submitting = False\<rparr>"

datatype navigation = Stay | Push string | Replace string

text \<open>\<open>form.handleSubmit(onSubmit)\<close> with a button disabled while it runs: the call of the accepted values.\<close>

definition submitForm :: "'v option \<Rightarrow> formState \<Rightarrow> formState \<times> 'v option" where
  "submitForm accepted f =
     (if fm_submitting f then (f, None)
      else case accepted of
             None \<Rightarrow> (f, None)
           | Some v \<Rightarrow> (\<lparr>fm_error = None, fm_submitting = True\<rparr>, Some v))"

definition formEnds :: "string option \<Rightarrow> formState \<Rightarrow> formState" where
  "formEnds error f = \<lparr>fm_error = (if error = None then fm_error f else error), fm_submitting = False\<rparr>"

text \<open>What the forms pass to \<open>signIn("password", \<dots>)\<close>.\<close>

definition loginCall :: "string \<times> string \<Rightarrow> authParams" where
  "loginCall v = \<lparr>ap_flow = Some ''signIn'', ap_email = Some (fst v), ap_password = Some (snd v), ap_newPassword = None, ap_name = None\<rparr>"

definition registerCall :: "registerValues \<Rightarrow> authParams" where
  "registerCall v = \<lparr>ap_flow = Some ''signUp'', ap_email = Some (rv_email v), ap_password = Some (rv_password v),
     ap_newPassword = None, ap_name = Some (rv_name v)\<rparr>"

definition forgotCall :: "string \<Rightarrow> authParams" where
  "forgotCall email = \<lparr>ap_flow = Some ''reset'', ap_email = Some email, ap_password = None, ap_newPassword = None, ap_name = None\<rparr>"

definition resetCall :: "resetValues \<Rightarrow> authParams" where
  "resetCall v = \<lparr>ap_flow = Some ''reset-verification'', ap_email = Some (sv_email v), ap_password = None,
     ap_newPassword = Some (sv_newPassword v), ap_name = None\<rparr>"

definition submitLogin :: "(string \<Rightarrow> bool) \<Rightarrow> string \<Rightarrow> string \<Rightarrow> formState \<Rightarrow> formState \<times> authParams option" where
  "submitLogin isEmail email password f = submitForm (map_option loginCall (loginSchema isEmail email password)) f"

definition submitRegister :: "(string \<Rightarrow> bool) \<Rightarrow> registerValues \<Rightarrow> formState \<Rightarrow> formState \<times> authParams option" where
  "submitRegister isEmail v f = submitForm (map_option registerCall (registerSchema isEmail v)) f"

definition afterSignIn :: "(string \<Rightarrow> string \<Rightarrow> url option) \<Rightarrow> string option \<Rightarrow> navigation" where
  "afterSignIn parseUrl next = Replace (safeNextPath parseUrl next ''/dashboard'')"

text \<open>The end of \<open>signIn\<close> of the login and the register form, with \<open>?next=\<close> of the page.\<close>

definition signedIn ::
  "(string \<Rightarrow> string \<Rightarrow> url option) \<Rightarrow> (string \<Rightarrow> string) \<Rightarrow> string option \<Rightarrow> thrown + unit \<Rightarrow> formState \<Rightarrow> formState \<times> navigation" where
  "signedIn parseUrl t next outcome f =
     (case outcome of
        Inr _ \<Rightarrow> (formEnds None f, afterSignIn parseUrl next)
      | Inl error \<Rightarrow> (formEnds (Some (localizedAuthError error t)) f, Stay))"

definition forgotPasswordSchema :: "(string \<Rightarrow> bool) \<Rightarrow> string \<Rightarrow> string option" where
  "forgotPasswordSchema isEmail email = (case emailSchema isEmail email of Inl _ \<Rightarrow> None | Inr e \<Rightarrow> Some e)"

definition submitForgot :: "(string \<Rightarrow> bool) \<Rightarrow> string \<Rightarrow> formState \<Rightarrow> formState \<times> authParams option" where
  "submitForgot isEmail email f = submitForm (map_option forgotCall (forgotPasswordSchema isEmail email)) f"

text \<open>\<open>error instanceof Error && isNetworkError(error.message)\<close>.\<close>

fun isConnectionError :: "thrown \<Rightarrow> bool" where
  "isConnectionError (Thrown d (Some m)) = isNetworkError m"
| "isConnectionError e = False"

definition forgotEnds :: "string \<Rightarrow> thrown + unit \<Rightarrow> formState \<Rightarrow> formState \<times> navigation" where
  "forgotEnds email outcome f =
     (let sent = (formEnds None f, Push (''/reset-password?email='' @ encodeURIComponent email @ ''&sent=1'')) in
      case outcome of
        Inr _ \<Rightarrow> sent
      | Inl error \<Rightarrow> if isConnectionError error then (formEnds (Some NETWORK_ERROR) f, Stay) else sent)"

definition submitReset :: "(string \<Rightarrow> bool) \<Rightarrow> resetValues \<Rightarrow> formState \<Rightarrow> formState \<times> authParams option" where
  "submitReset isEmail v f = submitForm (map_option resetCall (resetPasswordSchema isEmail v)) f"

definition resetEnds :: "(string \<Rightarrow> string) \<Rightarrow> thrown + unit \<Rightarrow> formState \<Rightarrow> formState \<times> navigation" where
  "resetEnds t outcome f =
     (case outcome of
        Inr _ \<Rightarrow> (formEnds None f, Replace ''/dashboard'')
      | Inl error \<Rightarrow> (formEnds (Some (localizedAuthError error t)) f, Stay))"

section \<open>Settings\<close>

definition profileSchema :: "string \<Rightarrow> string option" where
  "profileSchema name = (case nameSchema name of Inl _ \<Rightarrow> None | Inr n \<Rightarrow> Some n)"

text \<open>The form of the name: a toast tells how it ended.\<close>

definition profileEnds :: "thrown + unit \<Rightarrow> string" where
  "profileEnds outcome =
     (case outcome of Inr _ \<Rightarrow> ''Profile saved.'' | Inl error \<Rightarrow> actionErrorMessage error ''Could not save your profile.'')"

record passwordValues =
  pv_currentPassword :: string
  pv_newPassword :: string
  pv_confirmPassword :: string

definition passwordSchema :: "passwordValues \<Rightarrow> passwordValues option" where
  "passwordSchema v =
     (case newPasswordSchema (pv_newPassword v) of
        Inl _ \<Rightarrow> None
      | Inr n \<Rightarrow> if pv_currentPassword v \<noteq> [] \<and> n = pv_confirmPassword v \<and> n \<noteq> pv_currentPassword v then Some v else None)"

definition submitPassword :: "passwordValues \<Rightarrow> formState \<Rightarrow> formState \<times> (string \<times> string) option" where
  "submitPassword v f =
     submitForm (map_option (\<lambda>w. (pv_currentPassword w, pv_newPassword w)) (passwordSchema v)) f"

definition passwordEnds :: "thrown + unit \<Rightarrow> formState \<Rightarrow> formState" where
  "passwordEnds outcome f =
     (case outcome of Inr _ \<Rightarrow> formEnds None f
      | Inl error \<Rightarrow> formEnds (Some (actionErrorMessage error ''Could not change your password.'')) f)"

section \<open>Usage\<close>

text \<open>\<open>useStableValue\<close>: the remembered value, set while rendering, and what is shown.\<close>

definition rememberStable :: "'v option \<Rightarrow> 'v option \<Rightarrow> 'v option" where
  "rememberStable v kept = (if v \<noteq> None \<and> v \<noteq> kept then v else kept)"

definition shownStable :: "'v option \<Rightarrow> 'v option \<Rightarrow> 'v option \<times> bool" where
  "shownStable v kept = (case v of Some x \<Rightarrow> Some x | None \<Rightarrow> kept, v = None \<and> kept \<noteq> None)"

definition RANGES :: "nat list" where
  "RANGES = [7, 30, 90]"

definition ALL_KEYS :: string where
  "ALL_KEYS = ''all''"

definition PAGE_SIZE :: nat where
  "PAGE_SIZE = 25"

record usageView =
  uv_days :: nat
  uv_keyFilter :: string

definition usage_init :: usageView where
  "usage_init = \<lparr>uv_days = 30, uv_keyFilter = ALL_KEYS\<rparr>"

text \<open>A toggle group gives the empty text when the chosen range is pressed again.\<close>

definition chooseRange :: "string \<Rightarrow> usageView \<Rightarrow> usageView" where
  "chooseRange v u =
     (if v = [] then u
      else case find (\<lambda>r. show_nat r = v) RANGES of None \<Rightarrow> u | Some r \<Rightarrow> u\<lparr>uv_days := r\<rparr>)"

definition chooseKey :: "string \<Rightarrow> usageView \<Rightarrow> usageView" where
  "chooseKey v u = u\<lparr>uv_keyFilter := v\<rparr>"

definition usageKeyId :: "usageView \<Rightarrow> string option" where
  "usageKeyId u = (if uv_keyFilter u = ALL_KEYS then None else Some (uv_keyFilter u))"

definition periodLabel :: "usageView \<Rightarrow> string" where
  "periodLabel u = ''last '' @ show_nat (uv_days u) @ '' days''"

text \<open>The choices of the filter: \<open>All keys\<close>, then each key with its name.\<close>

definition keyChoices :: "(nat \<Rightarrow> string) \<Rightarrow> ApiKeySummary list option \<Rightarrow> (string \<times> string) list" where
  "keyChoices showId keys =
     (ALL_KEYS, ''All keys'') #
     map (\<lambda>k. (showId (y_id k), y_name k @ (if y_revokedAt k \<noteq> None then '' (revoked)'' else [])))
       (case keys of None \<Rightarrow> [] | Some ks \<Rightarrow> ks)"

datatype paginationStatus = LoadingFirstPage | CanLoadMore | LoadingMore | Exhausted

text \<open>The request log: skeletons, a text, or rows; and its button, with whether it is disabled.\<close>

datatype logBody = LogLoading nat | NoRequestsYet | LogRows "recentRequest list"

definition recentRequestsTable :: "recentRequest list option \<Rightarrow> bool \<Rightarrow> logBody" where
  "recentRequestsTable rows isLoading =
     (case rows of
        None \<Rightarrow> if isLoading then LogLoading 5 else NoRequestsYet
      | Some [] \<Rightarrow> NoRequestsYet
      | Some rs \<Rightarrow> LogRows rs)"

definition requestLog :: "paginationStatus \<Rightarrow> recentRequest list \<Rightarrow> logBody" where
  "requestLog status results =
     recentRequestsTable (if status = LoadingFirstPage then None else Some results) (status = LoadingFirstPage)"

definition loadMoreButton :: "paginationStatus \<Rightarrow> bool option" where
  "loadMoreButton status =
     (if status = CanLoadMore \<or> status = LoadingMore then Some (status = LoadingMore) else None)"

datatype statusKind = ServerErrorStatus | ClientErrorStatus | SuccessStatus

definition statusKind :: "int \<Rightarrow> statusKind" where
  "statusKind status = (if 500 \<le> status then ServerErrorStatus else if 400 \<le> status then ClientErrorStatus else SuccessStatus)"

definition statusLabel :: "statusKind \<Rightarrow> string" where
  "statusLabel k = (case k of ServerErrorStatus \<Rightarrow> ''Server error'' | ClientErrorStatus \<Rightarrow> ''Client error'' | SuccessStatus \<Rightarrow> ''Success'')"

datatype endpointTable = EndpointsLoading nat | NoEndpointRequests | EndpointRows "(string \<times> string \<times> string \<times> string \<times> string \<times> string) list"

text \<open>A row is the endpoint, the counts, the share of successful requests and the mean time, as texts.\<close>

definition endpointTable :: "(rat \<Rightarrow> string) \<Rightarrow> endpointTotals list option \<Rightarrow> endpointTable" where
  "endpointTable formatNumber rows =
     (case rows of
        None \<Rightarrow> EndpointsLoading 3
      | Some [] \<Rightarrow> NoEndpointRequests
      | Some rs \<Rightarrow> EndpointRows (map (\<lambda>r. (et_endpoint r, formatNumber (of_int (et_total r)),
            formatNumber (of_int (et_successful r)), formatPercent (of_int (et_successful r)) (of_int (et_total r)),
            formatNumber (of_int (et_failed r)), formatLatency formatNumber (of_int (et_avgResponseTimeMs r)))) rs))"

section \<open>Overview\<close>

definition RECENT_COUNT :: nat where
  "RECENT_COUNT = 10"

text \<open>\<open>viewer?.name.split(" ")[0]\<close>; the title greets whoever has a first name.\<close>

definition firstName :: "string option \<Rightarrow> string option" where
  "firstName name = map_option (\<lambda>n. hd (split_on (CHR '' '') n)) name"

definition overviewGreets :: "string option \<Rightarrow> string option" where
  "overviewGreets name = (case firstName name of Some (c # s) \<Rightarrow> Some (c # s) | _ \<Rightarrow> None)"

text \<open>The values of the six cards, with the count of revoked keys beside the last.\<close>

record statCards =
  sc_today :: string
  sc_month :: string
  sc_successful :: string
  sc_percent :: string
  sc_failed :: string
  sc_rateLimit :: string
  sc_activeKeys :: string
  sc_revoked :: "nat option"

definition statCards :: "(rat \<Rightarrow> string) \<Rightarrow> (rat \<Rightarrow> string) \<Rightarrow> usageSummary option \<Rightarrow> statCards" where
  "statCards formatCompact formatNumber s =
     (let n = (\<lambda>f. case s of None \<Rightarrow> 0 | Some u \<Rightarrow> of_int (f u));
          stat = formatStat formatCompact formatNumber in
      \<lparr>sc_today = stat (n (n_total \<circ> su_today)), sc_month = stat (n (n_total \<circ> su_month)),
       sc_successful = stat (n (n_successful \<circ> su_month)),
       sc_percent = formatPercent (n (n_successful \<circ> su_month)) (n (n_total \<circ> su_month)),
       sc_failed = stat (n (n_failed \<circ> su_month)),
       sc_rateLimit = formatNumber (n su_rateLimitPerMinute) @ '' / min'',
       sc_activeKeys = formatNumber (n (int \<circ> su_activeKeys)),
       sc_revoked = (case s of None \<Rightarrow> None
         | Some u \<Rightarrow> if su_activeKeys u < su_totalKeys u then Some (su_totalKeys u - su_activeKeys u) else None)\<rparr>)"

text \<open>Below the cards: an invitation to create a key or to choose a plan, or the chart and the latest requests.\<close>

datatype overviewBody = InviteKey string | InvitePlan string | Activity logBody

definition overviewBody :: "usageSummary option \<Rightarrow> bool option \<Rightarrow> paginationStatus \<Rightarrow> recentRequest list \<Rightarrow> overviewBody" where
  "overviewBody s billing status results =
     (case (s, billing) of
        (Some u, Some canUse) \<Rightarrow>
          if su_activeKeys u = 0 \<and> n_total (su_month u) = 0
          then (if canUse then InviteKey ''/dashboard/api-keys?create=1'' else InvitePlan ''/dashboard/billing'')
          else Activity (requestLog status (take RECENT_COUNT results))
      | _ \<Rightarrow> Activity (requestLog status (take RECENT_COUNT results)))"

section \<open>The account menu\<close>

text \<open>\<open>split(/[\s@.]+/).filter(Boolean)\<close>: the parts between separators, without the empty ones.\<close>

definition is_separator :: "char \<Rightarrow> bool" where
  "is_separator c \<longleftrightarrow> is_space c \<or> c = CHR ''@'' \<or> c = CHR ''.''"

fun nameParts :: "string \<Rightarrow> string \<Rightarrow> string list" where
  "nameParts word [] = (if word = [] then [] else [word])"
| "nameParts word (c # s) =
     (if is_separator c then (if word = [] then nameParts [] s else word # nameParts [] s)
      else nameParts (word @ [c]) s)"

text \<open>The first characters of the first two parts, upper case; \<open>toUpperCase\<close> is an argument.\<close>

definition initials :: "(string \<Rightarrow> string) \<Rightarrow> string \<Rightarrow> string \<Rightarrow> string" where
  "initials toUpper name email =
     (let parts = nameParts [] (if trim name \<noteq> [] then trim name else email);
          letters = toUpper (concat (map (take 1) (take 2 parts)))
      in if letters \<noteq> [] then letters else ''?'')"

section \<open>Tabs of samples\<close>

text \<open>The key pressed on a tab of \<open>CodeTabsClient\<close>: the tab to show next.\<close>

definition tabAfter :: "nat \<Rightarrow> string \<Rightarrow> nat \<Rightarrow> nat option" where
  "tabAfter n key index =
     (let final = n - 1 in
      if key = ''ArrowRight'' then Some (if index = final then 0 else index + 1)
      else if key = ''ArrowLeft'' then Some (if index = 0 then final else index - 1)
      else if key = ''Home'' then Some 0
      else if key = ''End'' then Some final
      else None)"

text \<open>\<open>items[active] ?? items[0]\<close>.\<close>

definition currentTab :: "'i list \<Rightarrow> nat \<Rightarrow> 'i option" where
  "currentTab items active =
     (if active < length items then Some (items ! active) else if items \<noteq> [] then Some (items ! 0) else None)"

end
