(* ===== verification/ConsoleProps.thy ===== *)
theory ConsoleProps
  imports Console KeyLifecycle AuthProps
begin

text \<open>
  What the forms and pages of the console promise: the password form submits only what the backend can accept, the
  form for a forgotten password tells nothing about an account, filters stay within the offered ranges, and charts hold
  the last value loaded.
\<close>

section \<open>Forms\<close>

lemma submitForm_once: "fm_submitting f \<Longrightarrow> submitForm a f = (f, None)"
  by (simp add: submitForm_def)

lemma submitForm_call: "submitForm a f = (f', Some v) \<Longrightarrow> a = Some v \<and> fm_submitting f' \<and> fm_error f' = None"
  by (auto simp: submitForm_def split: if_splits option.splits)

text \<open>The password form and \<open>changePassword\<close> agree on lengths: what is left to the backend is whether the password is easy to
  guess, the current one, and the calls of Convex Auth.\<close>

lemma passwordSchema_Some:
  "passwordSchema v = Some w \<Longrightarrow> w = v \<and> pv_currentPassword v \<noteq> [] \<and> pv_newPassword v = pv_confirmPassword v
     \<and> pv_newPassword v \<noteq> pv_currentPassword v \<and> 10 \<le> length (pv_newPassword v) \<and> length (pv_newPassword v) \<le> 128"
  by (auto simp: passwordSchema_def newPasswordSchema_def FORM_MIN_PASSWORD_def FORM_MAX_PASSWORD_def split: sum.splits if_splits)

lemma form_password_valid:
  assumes "newPasswordSchema p = Inr q"
  shows "validatePassword p email = (if isCommonPassword p email
     then Inl (ConvexError ''This password is too common or easy to guess. Choose a different one.'') else Inr ())"
  using assms by (simp add: newPasswordSchema_def validatePassword_def FORM_MIN_PASSWORD_def FORM_MAX_PASSWORD_def
      MIN_PASSWORD_LENGTH_def MAX_PASSWORD_LENGTH_def split: if_splits)

text \<open>A password the form submits is stored, in place of another one, whenever the backend finds it hard to guess and Convex
  Auth confirms the current one: the form never leads a signed-in user to an error about the length.\<close>

theorem password_form_accepted:
  assumes "submitPassword v f = (f', Some (current, new))" and "requireUserId now auth s = Inr u"
    and "passwordAccountId u s = Inr (Some email)" and "\<not> isCommonPassword new (Some email)"
    and "retrieve email current s = (Inr (), s1)" and "modify' email new s1 = (Inr (), s2)"
    and "invalidate u (case authSessionId auth of None \<Rightarrow> [] | Some i \<Rightarrow> [i]) s2 = (Inr (), s')"
  shows "changePassword retrieve modify' invalidate now auth current new s = (Inr (), s') \<and> new \<noteq> current
    \<and> fm_error (passwordEnds (Inr ()) f') = None"
proof -
  from submitForm_call [OF assms(1) [unfolded submitPassword_def]] obtain w where w: "passwordSchema v = Some w"
    and vals: "current = pv_currentPassword w" "new = pv_newPassword w" and f': "fm_error f' = None" by auto
  from w have "newPasswordSchema new = Inr new"
    by (auto simp: passwordSchema_def newPasswordSchema_def vals split: sum.split_asm if_split_asm)
  with assms(4) have valid: "validatePassword new (Some email) = Inr ()" by (simp add: form_password_valid)
  have "changePassword retrieve modify' invalidate now auth current new s = (Inr (), s')"
    using assms(2,3,5-7) valid
    by (simp add: changePassword_def abind_def runQuery_def lift_def attempt_def split: option.splits)
  moreover have "new \<noteq> current" using passwordSchema_Some [OF w] vals by auto
  ultimately show ?thesis using f' by (simp add: passwordEnds_def formEnds_def)
qed

theorem password_form_accepted_witness:
  "\<exists>f'. submitPassword \<lparr>pv_currentPassword = ''old secret'', pv_newPassword = ''correct horse 42'', pv_confirmPassword = ''correct horse 42''\<rparr>
      form_init = (f', Some (''old secret'', ''correct horse 42''))
    \<and> changePassword (\<lambda>i p. aret ()) (\<lambda>i p. aret ()) (\<lambda>u k. aret ()) sampleNow sampleAuth ''old secret'' ''correct horse 42'' accountDb
        = (Inr (), accountDb)"
proof -
  let ?v = "\<lparr>pv_currentPassword = ''old secret'', pv_newPassword = ''correct horse 42'', pv_confirmPassword = ''correct horse 42''\<rparr>"
  have f: "submitPassword ?v form_init = (\<lparr>fm_error = None, fm_submitting = True\<rparr>, Some (''old secret'', ''correct horse 42''))"
    by code_simp
  have facts: "requireUserId sampleNow sampleAuth accountDb = Inr 0"
    "passwordAccountId 0 accountDb = Inr (Some ''dev@ubhub.mn'')"
    "\<not> isCommonPassword ''correct horse 42'' (Some ''dev@ubhub.mn'')" by code_simp+
  have ok: "aret () accountDb = (Inr (), accountDb)" by (simp add: aret_def)
  from password_form_accepted [OF f facts, of "\<lambda>i p. aret ()" accountDb "\<lambda>i p. aret ()" accountDb "\<lambda>u k. aret ()" accountDb] f
  show ?thesis by (simp add: ok)
qed

text \<open>Whether the address has an account or not, and whatever the backend throws, the page goes the same way, unless the
  connection failed.\<close>

theorem forgot_reveals_nothing:
  assumes "\<And>e. o1 = Inl e \<Longrightarrow> \<not> isConnectionError e" and "\<And>e. o2 = Inl e \<Longrightarrow> \<not> isConnectionError e"
  shows "forgotEnds email o1 f = forgotEnds email o2 f"
  using assms by (cases o1; cases o2) (simp_all add: forgotEnds_def Let_def)

text \<open>The form of a new account and the backend: what it submits is stored as it is.\<close>

lemma register_call_stored:
  assumes "registerSchema isEmail v = Some w" and "profile now (registerCall w) = Inr p"
  shows "pf_name p = Some (rv_name w) \<and> pf_updatedAt p = Some now"
proof -
  have trimmed: "trim (rv_name w) = rv_name w"
    using assms(1) by (auto simp: registerSchema_def nameSchema_def Let_def split: sum.splits if_splits)
      (metis trim_first trim_last trim_id)
  from assms(2) show ?thesis
    by (auto simp: profile_def registerCall_def newPasswordOf_def Let_def trimmed split: if_splits sum.splits)
qed

section \<open>Usage\<close>

lemma chooseRange_days: "uv_days u \<in> set RANGES \<Longrightarrow> uv_days (chooseRange v u) \<in> set RANGES"
  by (auto simp: chooseRange_def find_Some_iff split: option.splits)

lemma usage_init_days: "uv_days usage_init \<in> set RANGES"
  by (simp add: usage_init_def RANGES_def)

lemma chooseRange_iff: "r \<in> set RANGES \<Longrightarrow> uv_days (chooseRange (show_nat r) u) = r"
  unfolding RANGES_def by (auto simp: chooseRange_def RANGES_def) code_simp+

text \<open>A page of charts shows nothing while the first value loads, each value as it comes, and the last one (marked stale)
  while the next loads.\<close>

fun stableRun :: "'v option list \<Rightarrow> 'v option \<Rightarrow> 'v option" where
  "stableRun [] kept = kept"
| "stableRun (v # vs) kept = stableRun vs (rememberStable v kept)"

lemma stableRun_append: "stableRun (vs @ ws) kept = stableRun ws (stableRun vs kept)"
  by (induction vs arbitrary: kept) simp_all

lemma stable_loading: "stableRun (replicate n None) kept = kept"
  by (induction n) (simp_all add: rememberStable_def)

theorem stable_holds_last:
  "shownStable None (stableRun (vs @ Some x # replicate n None) kept) = (Some x, True)
   \<and> shownStable (Some x) kept = (Some x, False)"
  by (auto simp: stableRun_append stable_loading rememberStable_def shownStable_def dest: sym split: option.splits)

lemma requestLog_rows: "status \<noteq> LoadingFirstPage \<Longrightarrow> results \<noteq> [] \<Longrightarrow> requestLog status results = LogRows results"
  by (cases results) (simp_all add: requestLog_def recentRequestsTable_def)

lemma loadMore_only_with_more: "loadMoreButton status = Some False \<longleftrightarrow> status = CanLoadMore"
  by (simp add: loadMoreButton_def)

text \<open>The invitation is shown only to someone without a key and without a request this month.\<close>

lemma invite_new_only:
  "overviewBody (Some u) billing status results = InviteKey l \<Longrightarrow>
     su_activeKeys u = 0 \<and> n_total (su_month u) = 0 \<and> billing = Some True"
  by (auto simp: overviewBody_def split: option.splits if_splits)

section \<open>Initials and tabs\<close>

lemma nameParts_word:
  "list_all (\<lambda>c. \<not> is_separator c) w \<Longrightarrow> p \<in> set (nameParts w s) \<Longrightarrow> p \<noteq> [] \<and> list_all (\<lambda>c. \<not> is_separator c) p"
  by (induction w s rule: nameParts.induct) (auto split: if_split_asm)

lemma initials_shown:
  assumes "\<And>s. length (toUpper s) = length s"
  shows "initials toUpper name email \<noteq> []" and "length (initials toUpper name email) \<le> 2"
proof -
  show "initials toUpper name email \<noteq> []" by (simp add: initials_def Let_def)
  have "length (concat (map (take 1) (take 2 ps))) \<le> 2" for ps :: "string list"
    by (cases ps; cases "tl ps") (auto simp: take_Cons')
  then show "length (initials toUpper name email) \<le> 2" by (simp add: initials_def Let_def assms)
qed

lemma tabAfter_range: "0 < n \<Longrightarrow> i < n \<Longrightarrow> tabAfter n key i = Some j \<Longrightarrow> j < n"
  by (auto simp: tabAfter_def Let_def split: if_splits)

lemma tab_left_right:
  assumes "i < n"
  shows "\<exists>j. tabAfter n ''ArrowRight'' i = Some j \<and> tabAfter n ''ArrowLeft'' j = Some i"
  using assms by (auto simp: tabAfter_def Let_def)

end
