(* ===== verification/DocsSamples.thy ===== *)
theory DocsSamples
  imports Urls
begin

text \<open>
  \<open>lib/docs/examples.ts\<close>: the sample programs of the documentation, built from the API's origin, a path and the
  parameters of a request. Every line of a template is an element of a list; a quote and a backslash are written by
  their codes. The texts of the response types are constants.
\<close>

section \<open>Values in a program\<close>

text \<open>\<open>/^[\w.,-]+$/\<close>: a value a shell takes as it is.\<close>

definition is_plain :: "char \<Rightarrow> bool" where
  "is_plain c \<longleftrightarrow> is_alnum c \<or> c \<in> set ''_.,-''"

definition isPlainValue :: "string \<Rightarrow> bool" where
  "isPlainValue s \<longleftrightarrow> s \<noteq> [] \<and> list_all is_plain s"

text \<open>\<open>/^-?\d+(\.\d+)?$/\<close>.\<close>

definition isNumberText :: "string \<Rightarrow> bool" where
  "isNumberText s =
     (let unsigned = (case s of c # r \<Rightarrow> if c = CHR ''-'' then r else s | [] \<Rightarrow> []) in
      case split_on (CHR ''.'') unsigned of
        [w] \<Rightarrow> w \<noteq> [] \<and> list_all is_digit w
      | [w, f] \<Rightarrow> w \<noteq> [] \<and> list_all is_digit w \<and> f \<noteq> [] \<and> list_all is_digit f
      | _ \<Rightarrow> False)"

section \<open>The programs\<close>

type_synonym Param = "string \<times> string"

definition curlParam :: "Param \<Rightarrow> string" where
  \<open>curlParam p = 
     (case p of (name, v) \<Rightarrow>
        if isPlainValue v then ''  -d '' @ name @ ''='' @ v @ '' '' @ [CHR 0x5C]
        else ''  --data-urlencode "'' @ name @ ''='' @ v @ ''" '' @ [CHR 0x5C])\<close>

definition curlExample :: "string \<Rightarrow> string \<Rightarrow> Param list \<Rightarrow> string" where
  \<open>curlExample apiUrl path params = join [CHR 0x0A]
     ((''curl -G "'' @ apiUrl @ path @ ''" '' @ [CHR 0x5C]) # map curlParam params @ [''  -H "Authorization: Bearer YOUR_API_KEY"''])\<close>

definition entryLines :: "Param list \<Rightarrow> string" where
  \<open>entryLines params = join [CHR 0x0A] (map (\<lambda>(name, v). ''  '' @ name @ '': "'' @ v @ ''",'') params)\<close>

definition fetchExample :: "string \<Rightarrow> string \<Rightarrow> Param list \<Rightarrow> string \<Rightarrow> string" where
  \<open>fetchExample apiUrl path params usage = join [CHR 0x0A]
     [''const params = new URLSearchParams({'',
      entryLines params,
      ''});'',
      [],
      ''const response = await fetch(`'' @ apiUrl @ path @ ''?${params}`, {'',
      ''  headers: { Authorization: `Bearer ${process.env.GEO_API_KEY}` },'',
      ''});'',
      ''const body = await response.json();'',
      [],
      ''if (!response.ok) {'',
      ''  // Every error uses the same envelope: { error: { code, message, details } }'',
      ''  throw new Error(`${body.error.code}: ${body.error.message}`);'',
      ''}'',
      [],
      usage]\<close>

definition pythonEntry :: "Param \<Rightarrow> string" where
  \<open>pythonEntry p = 
     (case p of (name, v) \<Rightarrow> ''"'' @ name @ ''": '' @
        (if isNumberText v \<and> name \<noteq> ''origin'' \<and> name \<noteq> ''destination'' then v else ''"'' @ v @ ''"''))\<close>

definition pythonExample :: "string \<Rightarrow> string \<Rightarrow> Param list \<Rightarrow> string \<Rightarrow> string" where
  \<open>pythonExample apiUrl path params usage = join [CHR 0x0A]
     [''import os'',
      [],
      ''import httpx'',
      [],
      ''response = httpx.get('',
      ''    "'' @ apiUrl @ path @ ''",'',
      ''    params={'' @ join '', '' (map pythonEntry params) @ ''},'',
      ''    headers={"Authorization": f"Bearer {os.environ['' @ [CHR 0x27] @ ''GEO_API_KEY'' @ [CHR 0x27] @ '']}"},'',
      ''    timeout=10,'',
      '')'',
      ''body = response.json()'',
      ''if response.is_error:'',
      ''    raise RuntimeError(f"{body['' @ [CHR 0x27] @ ''error'' @ [CHR 0x27] @ '']['' @ [CHR 0x27] @ ''code'' @ [CHR 0x27] @ '']}: {body['' @ [CHR 0x27] @ ''error'' @ [CHR 0x27] @ '']['' @ [CHR 0x27] @ ''message'' @ [CHR 0x27] @ '']}")'',
      [],
      usage]\<close>

definition dartEntry :: "Param \<Rightarrow> string" where
  \<open>dartEntry p = (case p of (name, v) \<Rightarrow> [CHR 0x27] @ name @ [CHR 0x27] @ '': '' @ [CHR 0x27] @ v @ [CHR 0x27])\<close>

definition dartExample :: "string \<Rightarrow> string \<Rightarrow> Param list \<Rightarrow> string \<Rightarrow> string" where
  \<open>dartExample apiUrl path params usage = join [CHR 0x0A]
     [''import '' @ [CHR 0x27] @ ''dart:convert'' @ [CHR 0x27] @ '';'',
      [],
      ''import '' @ [CHR 0x27] @ ''package:http/http.dart'' @ [CHR 0x27] @ '' as http;'',
      [],
      ''/// Call the API from your backend, or from an app through your own server:'',
      ''/// never ship an API key inside a mobile app.'',
      ''Future<void> main() async {'',
      ''  const apiKey = String.fromEnvironment('' @ [CHR 0x27] @ ''GEO_API_KEY'' @ [CHR 0x27] @ '');'',
      ''  final uri = Uri.parse('' @ [CHR 0x27] @ apiUrl @ path @ [CHR 0x27] @ '').replace('',
      ''    queryParameters: {'' @ join '', '' (map dartEntry params) @ ''},'',
      ''  );'',
      ''  final response = await http.get(uri, headers: {'' @ [CHR 0x27] @ ''Authorization'' @ [CHR 0x27] @ '': '' @ [CHR 0x27] @ ''Bearer $apiKey'' @ [CHR 0x27] @ ''});'',
      ''  final body = jsonDecode(response.body) as Map<String, dynamic>;'',
      ''  if (response.statusCode != 200) {'',
      ''    throw Exception('' @ [CHR 0x27] @ ''${body['' @ [CHR 0x27] @ ''error'' @ [CHR 0x27] @ '']['' @ [CHR 0x27] @ ''code'' @ [CHR 0x27] @ '']}: ${body['' @ [CHR 0x27] @ ''error'' @ [CHR 0x27] @ '']['' @ [CHR 0x27] @ ''message'' @ [CHR 0x27] @ '']}'' @ [CHR 0x27] @ '');'',
      ''  }'',
      [],
      usage,
      ''}'']\<close>

definition typedFetchExample :: "string \<Rightarrow> string \<Rightarrow> Param list \<Rightarrow> string \<Rightarrow> string \<Rightarrow> string \<Rightarrow> string" where
  \<open>typedFetchExample apiUrl path params types responseType usage = join [CHR 0x0A]
     [types,
      [],
      ''type ApiError = { error: { code: string; message: string; details?: Record<string, unknown> } };'',
      [],
      ''const params = new URLSearchParams({'',
      entryLines params,
      ''});'',
      [],
      ''const response = await fetch(`'' @ apiUrl @ path @ ''?${params}`, {'',
      ''  headers: { Authorization: `Bearer ${process.env.GEO_API_KEY}` },'',
      ''});'',
      ''if (!response.ok) {'',
      ''  const { error } = (await response.json()) as ApiError;'',
      ''  throw new Error(`${error.code}: ${error.message}`);'',
      ''}'',
      ''const body = (await response.json()) as '' @ responseType @ '';'',
      [],
      usage]\<close>

section \<open>The samples of an endpoint\<close>

definition GEOCODE_TYPES :: "string" where
  \<open>GEOCODE_TYPES = join [CHR 0x0A]
     [''type GeocodeResult = {'',
      ''  id: string;'',
      ''  name: string;'',
      ''  address: string | null;'',
      ''  latitude: number;'',
      ''  longitude: number;'',
      ''  type: string;'',
      ''  distance_meters?: number; // reverse lookups only'',
      ''};'',
      ''type GeocodeResponse = { query: string; results: GeocodeResult[]; count: number };'']\<close>

definition ROUTE_TYPES :: "string" where
  \<open>ROUTE_TYPES = join [CHR 0x0A]
     [''type RouteResponse = {'',
      ''  route: {'',
      ''    distance_meters: number;'',
      ''    duration_seconds: number;'',
      ''    geometry: { type: "LineString"; coordinates: [number, number][] };'',
      ''  };'',
      ''  mode: "driving" | "walking";'',
      ''};'']\<close>

record CodeExample =
  ce_label :: string
  ce_lang :: string
  ce_code :: string

definition geocodeExamples :: "string \<Rightarrow> string \<Rightarrow> jsnum \<Rightarrow> CodeExample list" where
  \<open>geocodeExamples apiUrl q limit = 
     (let params = [(''q'', q), (''limit'', js_String limit)] in
      [\<lparr>ce_label = ''cURL'', ce_lang = ''bash'', ce_code = curlExample apiUrl ''/v1/geocode'' params\<rparr>,
       \<lparr>ce_label = ''JavaScript'', ce_lang = ''javascript'', ce_code = fetchExample apiUrl ''/v1/geocode'' params
        (join [CHR 0x0A]
         [''for (const place of body.results) {'',
          ''  console.log(place.name, place.latitude, place.longitude);'',
          ''}''])\<rparr>,
       \<lparr>ce_label = ''TypeScript'', ce_lang = ''typescript'', ce_code = typedFetchExample apiUrl ''/v1/geocode'' params GEOCODE_TYPES ''GeocodeResponse''
        (join [CHR 0x0A]
         [''for (const place of body.results) {'',
          ''  console.log(place.name, place.latitude, place.longitude);'',
          ''}''])\<rparr>,
       \<lparr>ce_label = ''Python'', ce_lang = ''python'', ce_code = pythonExample apiUrl ''/v1/geocode'' params
        (join [CHR 0x0A]
         [''for place in body["results"]:'',
          ''    print(place["name"], place["latitude"], place["longitude"])''])\<rparr>,
       \<lparr>ce_label = ''Dart'', ce_lang = ''dart'', ce_code = dartExample apiUrl ''/v1/geocode'' params
        (join [CHR 0x0A]
         [''  for (final place in body['' @ [CHR 0x27] @ ''results'' @ [CHR 0x27] @ ''] as List<dynamic>) {'',
          ''    print('' @ [CHR 0x27] @ ''${place['' @ [CHR 0x27] @ ''name'' @ [CHR 0x27] @ '']}: ${place['' @ [CHR 0x27] @ ''latitude'' @ [CHR 0x27] @ '']}, ${place['' @ [CHR 0x27] @ ''longitude'' @ [CHR 0x27] @ '']}'' @ [CHR 0x27] @ '');'',
          ''  }''])\<rparr>])\<close>

definition reverseGeocodeExamples :: "string \<Rightarrow> jsnum \<Rightarrow> jsnum \<Rightarrow> CodeExample list" where
  \<open>reverseGeocodeExamples apiUrl lat lon = 
     (let params = [(''lat'', js_String lat), (''lon'', js_String lon)] in
      [\<lparr>ce_label = ''cURL'', ce_lang = ''bash'', ce_code = curlExample apiUrl ''/v1/geocode'' params\<rparr>,
       \<lparr>ce_label = ''JavaScript'', ce_lang = ''javascript'', ce_code = fetchExample apiUrl ''/v1/geocode'' params
        (join [CHR 0x0A]
         [''const [match] = body.results;'',
          ''if (match) console.log(match.address, match.type, match.distance_meters);''])\<rparr>,
       \<lparr>ce_label = ''TypeScript'', ce_lang = ''typescript'', ce_code = typedFetchExample apiUrl ''/v1/geocode'' params GEOCODE_TYPES ''GeocodeResponse''
        (join [CHR 0x0A]
         [''const [match] = body.results;'',
          ''if (match) console.log(match.address, match.type, match.distance_meters);''])\<rparr>,
       \<lparr>ce_label = ''Python'', ce_lang = ''python'', ce_code = pythonExample apiUrl ''/v1/geocode'' params
        (join [CHR 0x0A]
         [''match = body["results"][0] if body["results"] else None'',
          ''if match:'',
          ''    print(match["address"], match["type"], match.get("distance_meters"))''])\<rparr>,
       \<lparr>ce_label = ''Dart'', ce_lang = ''dart'', ce_code = dartExample apiUrl ''/v1/geocode'' params
        (join [CHR 0x0A]
         [''  final results = body['' @ [CHR 0x27] @ ''results'' @ [CHR 0x27] @ ''] as List<dynamic>;'',
          ''  if (results.isNotEmpty) print(results.first['' @ [CHR 0x27] @ ''address'' @ [CHR 0x27] @ '']);''])\<rparr>])\<close>

definition routeExamples :: "string \<Rightarrow> string \<Rightarrow> string \<Rightarrow> string \<Rightarrow> CodeExample list" where
  \<open>routeExamples apiUrl origin destination mode = 
     (let params = [(''origin'', origin), (''destination'', destination), (''mode'', mode)] in
      [\<lparr>ce_label = ''cURL'', ce_lang = ''bash'', ce_code = curlExample apiUrl ''/v1/route'' params\<rparr>,
       \<lparr>ce_label = ''JavaScript'', ce_lang = ''javascript'', ce_code = fetchExample apiUrl ''/v1/route'' params
        (join [CHR 0x0A]
         [''const { distance_meters, duration_seconds, geometry } = body.route;'',
          ''console.log(`${(distance_meters / 1000).toFixed(1)} km, ${Math.round(duration_seconds / 60)} min`);'',
          ''// geometry is a GeoJSON LineString: add it to your map as a line layer.''])\<rparr>,
       \<lparr>ce_label = ''TypeScript'', ce_lang = ''typescript'', ce_code = typedFetchExample apiUrl ''/v1/route'' params ROUTE_TYPES ''RouteResponse''
        (join [CHR 0x0A]
         [''const { distance_meters, duration_seconds, geometry } = body.route;'',
          ''console.log(distance_meters, duration_seconds, geometry.coordinates.length);''])\<rparr>,
       \<lparr>ce_label = ''Python'', ce_lang = ''python'', ce_code = pythonExample apiUrl ''/v1/route'' params
        (join [CHR 0x0A]
         [''route = body["route"]'',
          ''print(f"{route['' @ [CHR 0x27] @ ''distance_meters'' @ [CHR 0x27] @ ''] / 1000:.1f} km, {route['' @ [CHR 0x27] @ ''duration_seconds'' @ [CHR 0x27] @ ''] / 60:.0f} min")''])\<rparr>,
       \<lparr>ce_label = ''Dart'', ce_lang = ''dart'', ce_code = dartExample apiUrl ''/v1/route'' params
        (join [CHR 0x0A]
         [''  final route = body['' @ [CHR 0x27] @ ''route'' @ [CHR 0x27] @ ''] as Map<String, dynamic>;'',
          ''  print('' @ [CHR 0x27] @ ''${route['' @ [CHR 0x27] @ ''distance_meters'' @ [CHR 0x27] @ '']} m, ${route['' @ [CHR 0x27] @ ''duration_seconds'' @ [CHR 0x27] @ '']} s'' @ [CHR 0x27] @ '');''])\<rparr>])\<close>

section \<open>What the samples carry\<close>

text \<open>Each sample of an endpoint, in its language, is built from the same parameters; a value without quotes is one the shell
  or Python reads as it stands.\<close>

lemma curlParam_cases:
  "curlParam (name, v) = ''  -d '' @ name @ ''='' @ v @ '' '' @ [CHR 0x5C] \<and> v \<noteq> [] \<and> list_all is_plain v
   \<or> curlParam (name, v) = ''  --data-urlencode '' @ [CHR 0x22] @ name @ ''='' @ v @ [CHR 0x22] @ '' '' @ [CHR 0x5C]"
  by (simp add: curlParam_def isPlainValue_def)

lemma no_space_in_plain: "isPlainValue v \<Longrightarrow> CHR '' '' \<notin> set v \<and> CHR 0x22 \<notin> set v \<and> CHR 0x27 \<notin> set v"
proof -
  have "\<not> is_plain (CHR '' '')" "\<not> is_plain (CHR 0x22)" "\<not> is_plain (CHR 0x27)" by code_simp+
  then show "isPlainValue v \<Longrightarrow> CHR '' '' \<notin> set v \<and> CHR 0x22 \<notin> set v \<and> CHR 0x27 \<notin> set v"
    unfolding isPlainValue_def list_all_iff by blast
qed

lemma sample_languages:
  "map ce_lang (geocodeExamples u q n) = [''bash'', ''javascript'', ''typescript'', ''python'', ''dart'']"
  "map ce_lang (reverseGeocodeExamples u lat lon) = map ce_lang (geocodeExamples u q n)"
  "map ce_lang (routeExamples u a b m) = map ce_lang (geocodeExamples u q n)"
  by (simp_all add: geocodeExamples_def reverseGeocodeExamples_def routeExamples_def Let_def)

lemma curl_sample_params:
  "ce_code (hd (routeExamples u a b m)) = curlExample u ''/v1/route'' [(''origin'', a), (''destination'', b), (''mode'', m)]"
  by (simp add: routeExamples_def Let_def)

end
