(* ===== verification/LiveDemo.thy ===== *)
theory LiveDemo
  imports MapPage Basemap Http DocsSamples
begin

text \<open>
  \<open>components/developers/live-demo.tsx\<close>: requests to the public demonstration surface from the developers' page.
  A call ends with a JSON value or with a failure of \<open>GeoClient\<close>; \<open>None\<close> of \<open>preview\<close> and of \<open>summarize\<close> is a
  \<open>TypeError\<close> on an unexpected body, which \<open>run\<close> catches.
\<close>

record DemoResult =
  dr_request :: string
  dr_status :: string
  dr_ok :: bool
  dr_body :: json
  dr_summary :: "string option"

definition MAX_PREVIEW_COORDINATES :: nat where
  "MAX_PREVIEW_COORDINATES = 4"

text \<open>The dots that end a shortened list.\<close>

definition moreText :: "nat \<Rightarrow> json" where
  "moreText n = JStr ([CHR 0xE2, CHR 0x80, CHR 0xA6] @ '' '' @ show_nat n @ '' more'')"

text \<open>The fields of the object spread into a new one.\<close>

fun spreadFields :: "json \<Rightarrow> (string \<times> json) list" where
  "spreadFields (JObj fs) = fs"
| "spreadFields j = []"

text \<open>A body with a \<open>route\<close> keeps everything but the coordinates after the fourth. The coordinates of an answer are an array:
  \<open>null\<close> and a missing field have no \<open>length\<close>, and any other value, which the API never sends, is left as it is.\<close>

definition preview :: "json \<Rightarrow> json option" where
  "preview body =
     (case body of
        JObj fs \<Rightarrow>
          if ''route'' \<notin> fst ` set fs then Some body
          else (case jfield ''route'' body of
              None \<Rightarrow> None
            | Some route_ \<Rightarrow>
                (case jfield ''geometry'' route_ of
                   None \<Rightarrow> None
                 | Some geometry \<Rightarrow>
                     (case jfield ''coordinates'' geometry of
                        None \<Rightarrow> None
                      | Some JNull \<Rightarrow> None
                      | Some (JArr cs) \<Rightarrow>
                          if MAX_PREVIEW_COORDINATES < length cs
                          then Some (JObj (setField ''route'' (Some (JObj (setField ''geometry'' (Some (JObj (setField ''coordinates''
                            (Some (JArr (take MAX_PREVIEW_COORDINATES cs @ [moreText (length cs - MAX_PREVIEW_COORDINATES)])))
                            (spreadFields geometry)))) (spreadFields route_)))) fs))
                          else Some body
                      | Some j \<Rightarrow> Some body)))
      | j \<Rightarrow> Some body)"

text \<open>\<open>error.details ? { details } : {}\<close>.\<close>

definition errorBody :: "GeoApiError \<Rightarrow> json" where
  "errorBody e = JObj [(''error'', JObj ([(''code'', ge_code e), (''message'', JStr (messageText (ge_message e)))]
     @ (if truthy (ge_details e) then [(''details'', the (ge_details e))] else [])))]"

definition failedDemo :: "string \<Rightarrow> failure \<Rightarrow> DemoResult" where
  "failedDemo request err =
     (case err of
        Geo e \<Rightarrow> \<lparr>dr_request = request, dr_status = show_int (ge_status e) @ '' '' @ messageText (ge_code e), dr_ok = False,
          dr_body = errorBody e, dr_summary = None\<rparr>
      | Rethrown m \<Rightarrow> \<lparr>dr_request = request, dr_status = ''Network error'', dr_ok = False,
          dr_body = JObj [(''error'', JStr ''Could not reach the API.'')], dr_summary = None\<rparr>)"

text \<open>\<open>run\<close>: the call has ended with \<open>outcome\<close>; the outer \<open>None\<close> of \<open>summarize\<close> is \<open>undefined\<close>.\<close>

definition runDemo :: "string \<Rightarrow> failure + json \<Rightarrow> (json \<Rightarrow> string option) option \<Rightarrow> DemoResult" where
  "runDemo request outcome summarize =
     (case outcome of
        Inl err \<Rightarrow> failedDemo request err
      | Inr body \<Rightarrow>
          (case preview body of
             None \<Rightarrow> failedDemo request (Rethrown ''TypeError'')
           | Some shown \<Rightarrow>
               (case summarize of
                  None \<Rightarrow> \<lparr>dr_request = request, dr_status = ''200 OK'', dr_ok = True, dr_body = shown, dr_summary = None\<rparr>
                | Some f \<Rightarrow>
                    (case f body of
                       None \<Rightarrow> failedDemo request (Rethrown ''TypeError'')
                     | Some s \<Rightarrow> \<lparr>dr_request = request, dr_status = ''200 OK'', dr_ok = True, dr_body = shown, dr_summary = Some s\<rparr>))))"

text \<open>What \<open>ResultView\<close> shows: the request line, the text of the body (with \<open>JSON.stringify\<close> an argument) and the summary.\<close>

definition resultText :: "(json \<Rightarrow> string) \<Rightarrow> bool \<Rightarrow> DemoResult option \<Rightarrow> string" where
  "resultText stringify isPending result =
     (if isPending then ''Loading'' @ [CHR 0xE2, CHR 0x80, CHR 0xA6]
      else case result of None \<Rightarrow> ''{ }'' | Some r \<Rightarrow> stringify (dr_body r))"

definition requestText :: "DemoResult option \<Rightarrow> string" where
  "requestText result = (case result of None \<Rightarrow> ''Send a request to see the response'' | Some r \<Rightarrow> dr_request r)"

section \<open>The two forms\<close>

text \<open>The request of the search form, made when the text is long enough: its line and the call's parameters.\<close>

definition geocodeDemo :: "string \<Rightarrow> (string \<times> GeocodeQuery) option" where
  "geocodeDemo q =
     (let query = trim q in
      if 2 \<le> length query
      then Some (''GET /demo/geocode?q='' @ encodeURIComponent query @ ''&limit=5'', Forward query (Some (Num 5)))
      else None)"

text \<open>\<open>/^\s*-?\d+(\.\d+)?\s*,\s*-?\d+(\.\d+)?\s*$/\<close>.\<close>

definition coordinateText :: "string \<Rightarrow> bool" where
  "coordinateText s =
     (case split_on (CHR '','') s of [a, b] \<Rightarrow> isNumberText (trim a) \<and> isNumberText (trim b) | _ \<Rightarrow> False)"

definition routeDemo :: "string \<Rightarrow> string \<Rightarrow> TravelMode \<Rightarrow> (string \<times> RouteParams) option" where
  "routeDemo origin destination mode =
     (if coordinateText origin \<and> coordinateText destination
      then Some (''GET /demo/route?origin='' @ trim origin @ ''&destination='' @ trim destination @ ''&mode='' @ showMode mode,
        \<lparr>rp_origin = Text (trim origin), rp_destination = Text (trim destination), rp_mode = Some mode\<rparr>)
      else None)"

text \<open>The summary of a route whose distance and time are numbers; other values are shown as \<open>other\<close> (texts with \<open>NaN\<close>).\<close>

definition routeSummary :: "string \<Rightarrow> json \<Rightarrow> string option" where
  "routeSummary other body =
     (case jfield ''route'' body of
        None \<Rightarrow> None
      | Some JNull \<Rightarrow> None
      | Some r \<Rightarrow>
          (case (jfield ''distance_meters'' r, jfield ''duration_seconds'' r) of
             (Some (JNum (Num d)), Some (JNum (Num t))) \<Rightarrow>
               Some (formatDistance d @ '' '' @ [CHR 0xC2, CHR 0xB7] @ '' '' @ formatDuration t)
           | _ \<Rightarrow> Some other))"

section \<open>What the demonstration shows\<close>

text \<open>A short answer is shown as it is.\<close>

lemma preview_unchanged:
  assumes "''route'' \<in> fst ` set fs" and "jfield ''route'' (JObj fs) = Some r" and "jfield ''geometry'' r = Some g"
    and "jfield ''coordinates'' g = Some (JArr cs)" and "length cs \<le> 4"
  shows "preview (JObj fs) = Some (JObj fs)"
  using assms by (simp add: preview_def MAX_PREVIEW_COORDINATES_def)

lemma failed_not_ok: "\<not> dr_ok (failedDemo request err)"
  by (simp add: failedDemo_def split: failure.split)

lemma ok_only_on_success: "dr_ok (runDemo request outcome f) \<Longrightarrow> \<exists>body. outcome = Inr body \<and> preview body = Some (dr_body (runDemo request outcome f))"
  by (auto simp: runDemo_def failed_not_ok split: sum.splits option.splits)

text \<open>The line of the search form is the request the client makes: its path and its query decode to the same.\<close>

lemma geocodeDemo_request:
  "geocodeDemo q = Some (line, params) \<Longrightarrow>
     geocodePath surface.Demo params = ''/demo/geocode'' \<and> geocodeQuery params = [(''q'', Some (trim q)), (''limit'', Some ''5'')]
     \<and> 2 \<le> length (trim q)"
  by (auto simp: geocodeDemo_def Let_def geocodePath_def split: if_splits) code_simp

lemma routeDemo_request:
  "routeDemo a b m = Some (line, params) \<Longrightarrow>
     routeQuery params = [(''origin'', Some (trim a)), (''destination'', Some (trim b)), (''mode'', Some (showMode m))]"
  by (auto simp: routeDemo_def routeQuery_def split: if_splits)

end
