(* ===== verification/Admission.thy ===== *)
theory Admission
  imports KeyLifecycle PaymentsProps
begin

text \<open>
  The other direction of \<open>Authorize\<close>: the conditions of \<open>admissible\<close>, with room in the rate windows and in the
  quotas, are not only necessary for a request to be admitted but sufficient. Joined with \<open>_settle\<close> it shows that a
  payment opens the gateway to the keys of its account.
\<close>

section \<open>Completeness of the checks\<close>

lemma resolveKey_complete:
  assumes "wf_db s" and "r \<in> set (apiKeys s)" and "credentialFor now args s r"
  shows "resolveKey now args s = Inr (Inr (r, g_kind args = PlaygroundCredential), s)"
proof (cases "g_kind args")
  case KeyCredential
  with assms keyByHash_found [of s r] show ?thesis
    by (simp add: credentialFor_def wf_db_def resolveKey_def mbind_reads Let_def)
next
  case PlaygroundCredential
  with assms(3) obtain t where t: "t \<in> set (playgroundTokens s)" "t_tokenHash (doc t) = g_hash args"
    "now < t_expiresAt (doc t)" "t_apiKeyId (doc t) = rid r" "t_userId (doc t) = k_userId (doc r)"
    by (auto simp: credentialFor_def)
  have "keyed t_tokenHash (playgroundTokens s)" using assms(1) by (simp add: wf_db_def wf_hashes_def)
  from uniqueRow_keyed_Some [OF this t(1,2)] have
    found: "uniqueRow (tselect (\<lambda>d. t_tokenHash d = g_hash args) (playgroundTokens s)) = Inr (Some t)" .
  have "tget (apiKeys s) (rid r) = Some r"
    using assms(1,2) by (auto simp: wf_db_def wf_ids_def intro: tget_in)
  with found t PlaygroundCredential show ?thesis by (simp add: resolveKey_def mbind_reads Let_def)
qed

lemma checkKey_complete:
  assumes "keyLive now (doc r)" and "tget (users s) (k_userId (doc r)) = Some owner"
    and "u_disabledAt (doc owner) = None"
  shows "checkKey now r s = Inr (Inr owner, s)"
  using assms by (auto simp: checkKey_def keyLive_def mbind_reads Let_def split: option.splits)

lemma checkAccess_complete:
  assumes "isSite = (k_isSiteKey (doc r) = Some True \<and> \<not> via)" and "\<not> isSite \<longrightarrow> hasKeyAccess (doc owner) now"
    and "\<forall>es. k_endpoints (doc r) = Some es \<longrightarrow> (\<exists>e \<in> set (normalizeEndpoints es). g_endpoint args = Some e)"
  shows "checkAccess now args r via owner s = Inr (Inr \<lparr>ad_key = r, ad_owner = owner, ad_isSiteKey = isSite,
      ad_plan = (if isSite then None else activePlan (doc owner) now), ad_principal = principalOf r isSite via\<rparr>, s)"
proof (cases "k_endpoints (doc r)")
  case None
  with assms(1,2) show ?thesis by (auto simp: checkAccess_def Let_def)
next
  case (Some es)
  with assms(3) have "list_ex (\<lambda>endpoint. Some endpoint = g_endpoint args) (normalizeEndpoints es)"
    by (auto simp: list_ex_iff)
  with Some assms(1,2) show ?thesis by (auto simp: checkAccess_def Let_def)
qed

lemma admit_admissible:
  assumes "wf_db s" and "admissible now args s a"
  shows "admit now args s = Inr (Inr a, s)"
proof -
  note a = assms(2) [unfolded admissible_def Let_def]
  have res: "resolveKey now args s = Inr (Inr (ad_key a, g_kind args = PlaygroundCredential), s)"
    using a by (intro resolveKey_complete [OF assms(1)]) auto
  have key: "checkKey now (ad_key a) s = Inr (Inr (ad_owner a), s)"
    using a by (intro checkKey_complete) auto
  let ?via = "g_kind args = PlaygroundCredential"
  have eq: "\<lparr>ad_key = ad_key a, ad_owner = ad_owner a, ad_isSiteKey = ad_isSiteKey a,
      ad_plan = (if ad_isSiteKey a then None else activePlan (doc (ad_owner a)) now),
      ad_principal = principalOf (ad_key a) (ad_isSiteKey a) ?via\<rparr> = a"
    using a by (intro admission.equality) auto
  have acc: "checkAccess now args (ad_key a) ?via (ad_owner a) s = Inr (Inr a, s)"
    using a by (subst checkAccess_complete [of "ad_isSiteKey a"]) (auto simp: eq)
  show ?thesis by (simp add: admit_def mbind_def res key acc)
qed

lemma authorize_admissible:
  assumes "wf_db s" and "admissible now args s a"
  shows "authorize H now args s = meter H now args a s"
  by (simp add: authorize_def orReturn_Inr [of "admit now args", OF admit_admissible [OF assms]])

section \<open>When a request is admitted\<close>

text \<open>The request that the admission \<open>a\<close> describes fits: one more call in every rate window, and, but for the site
  key, one more unit in every quota.\<close>

definition hasRoom :: "host \<Rightarrow> int \<Rightarrow> authorizeArgs \<Rightarrow> db \<Rightarrow> admission \<Rightarrow> bool" where
  "hasRoom H now args s a \<longleftrightarrow>
     (case rateBuckets H args a of Inl e \<Rightarrow> False | Inr bs \<Rightarrow> ratesAllow now bs s)
     \<and> (ad_isSiteKey a \<or> quotasAllow now (specsOf H args a) s)"

lemma admitted_of_room:
  assumes "wf_db s" and "admissible now args s a" and "hasRoom H now args s a"
  shows "\<exists>rl s'. authorize H now args s = Inr (AOk (ad_principal a) rl, s')"
proof -
  obtain bs where bs: "rateBuckets H args a = Inr bs" "ratesAllow now bs s"
    using assms(3) by (auto simp: hasRoom_def split: sum.splits)
  from meter_spec [OF assms(1,2) bs(1)] obtain r s' where
    m: "meter H now args a s = Inr (r, s')" and spec: "authorizes H now args s r s'" by blast
  note run = authorize_admissible [OF assms(1,2), of H]
  have own: "b = a" if "admissible now args s b" for b
    using admit_admissible [OF assms(1) that] admit_admissible [OF assms(1,2)] by simp
  from spec have "\<exists>rl. r = AOk (ad_principal a) rl"
  proof cases
    case refused
    then show ?thesis using m assms(3)
      by (auto simp: meter_def chargeCustomer_def Let_def mut_Inr orReturn_eq_Inr refuse_eq split: if_splits)
  qed (use own bs assms(3) in \<open>auto simp: hasRoom_def\<close>)
  with m run show ?thesis by auto
qed

text \<open>C2. A request is admitted exactly when it should be: from a well-formed database \<open>authorize\<close> answers ok if and only
  if the presented credential belongs to a key that is live and in scope, of an enabled account with access (the site
  key excepted), and one more call fits in each of the request's rate windows and quotas. So neither is a request
  let through that breaks one of these conditions, nor is one refused that meets them all.\<close>

theorem authorize_admits_iff:
  assumes "wf_db s"
  shows "(\<exists>p rl s'. authorize H now args s = Inr (AOk p rl, s'))
    \<longleftrightarrow> (\<exists>a. admissible now args s a \<and> hasRoom H now args s a)"
proof
  assume "\<exists>p rl s'. authorize H now args s = Inr (AOk p rl, s')"
  then obtain p rl s' where "authorizes H now args s (AOk p rl) s'" using authorize_Inr(1) [OF assms] by blast
  then show "\<exists>a. admissible now args s a \<and> hasRoom H now args s a"
    by cases (auto simp: hasRoom_def split: sum.splits intro!: exI)
next
  assume "\<exists>a. admissible now args s a \<and> hasRoom H now args s a"
  then show "\<exists>p rl s'. authorize H now args s = Inr (AOk p rl, s')" using admitted_of_room [OF assms] by blast
qed

text \<open>The pro account's key is admitted for the endpoint of its scope; the free account with its quota used up is not
  entitled to any admission with room.\<close>

theorem authorize_admits_iff_witness:
  "(\<exists>a. admissible sampleNow (keyArgs ''h3'' ''geocode'') sampleDb a
      \<and> hasRoom sampleHost sampleNow (keyArgs ''h3'' ''geocode'') sampleDb a)
   \<and> \<not> (\<exists>a. admissible sampleNow (keyArgs ''h1'' ''route'') exhaustedDb a
      \<and> hasRoom sampleHost sampleNow (keyArgs ''h1'' ''route'') exhaustedDb a)"
proof
  have "(case authorize sampleHost sampleNow (keyArgs ''h3'' ''geocode'') sampleDb of
      Inr (AOk p rl, s') \<Rightarrow> True | _ \<Rightarrow> False)" by code_simp
  then have "\<exists>p rl s'. authorize sampleHost sampleNow (keyArgs ''h3'' ''geocode'') sampleDb = Inr (AOk p rl, s')"
    by (auto split: sum.splits prod.splits authorizeResult.splits)
  then show "\<exists>a. admissible sampleNow (keyArgs ''h3'' ''geocode'') sampleDb a
      \<and> hasRoom sampleHost sampleNow (keyArgs ''h3'' ''geocode'') sampleDb a"
    unfolding authorize_admits_iff [OF sample_wf] .
  have wf: "wf_db exhaustedDb" by code_simp
  have "(case authorize sampleHost sampleNow (keyArgs ''h1'' ''route'') exhaustedDb of
      Inr (AOk p rl, s') \<Rightarrow> False | _ \<Rightarrow> True)" by code_simp
  then have "\<not> (\<exists>p rl s'. authorize sampleHost sampleNow (keyArgs ''h1'' ''route'') exhaustedDb = Inr (AOk p rl, s'))"
    by auto
  then show "\<not> (\<exists>a. admissible sampleNow (keyArgs ''h1'' ''route'') exhaustedDb a
      \<and> hasRoom sampleHost sampleNow (keyArgs ''h1'' ''route'') exhaustedDb a)"
    unfolding authorize_admits_iff [OF wf] .
qed

section \<open>A payment opens the gateway\<close>

text \<open>A request that presents the live customer key \<open>k\<close> for an endpoint in its scope.\<close>

definition presents :: "int \<Rightarrow> authorizeArgs \<Rightarrow> apiKey row \<Rightarrow> bool" where
  "presents now args k \<longleftrightarrow>
     g_kind args = KeyCredential \<and> g_hash args = k_keyHash (doc k) \<and> keyLive now (doc k) \<and> k_isSiteKey (doc k) \<noteq> Some True
     \<and> (\<forall>es. k_endpoints (doc k) = Some es \<longrightarrow> (\<exists>e \<in> set (normalizeEndpoints es). g_endpoint args = Some e))"

text \<open>Room for it under the plan \<open>plan\<close>.\<close>

definition planRoom :: "host \<Rightarrow> int \<Rightarrow> authorizeArgs \<Rightarrow> db \<Rightarrow> apiKey row \<Rightarrow> PaidPlan \<Rightarrow> bool" where
  "planRoom H now args s k plan \<longleftrightarrow>
     ratesAllow now (customerBuckets H args k (planRateOf False (Some plan))) s
     \<and> quotasAllow now (quotaSpecs H (rid k) (k_userId (doc k)) (g_endpoint args) (Some plan)) s"

lemma customer_admitted:
  assumes "wf_db s" and "k \<in> set (apiKeys s)" and "presents now args k"
    and "tget (users s) (k_userId (doc k)) = Some u" and "u_disabledAt (doc u) = None"
    and "activePlan (doc u) now = Some plan" and "planRoom H now args s k plan"
  shows "\<exists>rl s'. authorize H now args s = Inr (AOk (principalOf k False False) rl, s')"
proof -
  let ?a = "\<lparr>ad_key = k, ad_owner = u, ad_isSiteKey = False, ad_plan = Some plan, ad_principal = principalOf k False False\<rparr>"
  have a: "admissible now args s ?a"
    using assms(2-6) by (auto simp: admissible_def presents_def credentialFor_def hasKeyAccess_def)
  have "hasRoom H now args s ?a"
    using assms(7) by (simp add: hasRoom_def planRoom_def rateBuckets_def specsOf_def)
  from admitted_of_room [OF assms(1) a this] show ?thesis by simp
qed

lemma planRoom_cong:
  "rateLimitWindows s' = rateLimitWindows s \<Longrightarrow> quotaWindows s' = quotaWindows s \<Longrightarrow>
     planRoom H now args s' k plan = planRoom H now args s k plan"
  by (simp add: planRoom_def ratesAllow_def quotasAllow_def windowView_def quotaView_def)

lemma grantPlan_active:
  assumes "0 \<le> now" and "later < now + PLAN_DURATION_MS"
    and "u' = (doc u)\<lparr>u_plan := Some plan, u_planExpiresAt := Some (extendedExpiry now (doc u))\<rparr>"
  shows "activePlan u' later = Some plan"
proof -
  have "now + PLAN_DURATION_MS \<le> extendedExpiry now (doc u)"
    by (auto simp: extendedExpiry_def activePlan_Some split: option.split)
  moreover have "0 < PLAN_DURATION_MS" by (simp add: PLAN_DURATION_MS_def)
  ultimately show ?thesis using assms by (auto simp: activePlan_Some)
qed

text \<open>C14. A payment opens the gateway: once \<open>_settle\<close> has accepted a payment, every live customer key of its enabled
  account is admitted for an endpoint in its scope at any time within 30 days of the payment, as long as one more call fits
  in the rate windows and the quotas of the plan paid for, even when the account had no plan and no free request left.\<close>

theorem payment_opens_gateway:
  assumes "wf_db s" and "0 \<le> now" and "settle now intentId True amount currency s = Inr (True, s')"
    and "paymentForIntent intentId s = Inr (Some r)" and "later < now + PLAN_DURATION_MS"
    and "tget (users s) (p_userId (doc r)) = Some u" and "u_disabledAt (doc u) = None"
    and "k \<in> set (apiKeys s)" and "k_userId (doc k) = p_userId (doc r)" and "presents later args k"
    and "planRoom H later args s k (p_plan (doc r))"
  shows "\<exists>rl s''. authorize H later args s' = Inr (AOk (principalOf k False False) rl, s'')"
  using settle_spec(1) [OF assms(3)]
proof cases
  case (granted q v)
  have wfi: "wf_intents s" using assms(1) by (simp add: wf_db_def)
  have q: "q = r" using paymentForIntent_found [OF wfi granted(2)] granted(3) assms(4) by simp
  then have v: "v = u" "rid u = p_userId (doc r)" using granted(6) assms(6) by (auto dest: tget_rid)
  let ?d = "(doc u)\<lparr>u_plan := Some (p_plan (doc r)), u_planExpiresAt := Some (extendedExpiry now (doc u))\<rparr>"
  have owner: "tget (users s') (k_userId (doc k)) = Some (Row (rid u) (ctime u) ?d)"
    unfolding granted(1) payments_after q v(1)
    by (subst tget_tpatch_found [of "users s" "rid u" u]) (use assms(6,9) v in auto)
  have same: "k \<in> set (apiKeys s')" "rateLimitWindows s' = rateLimitWindows s" "quotaWindows s' = quotaWindows s"
    using assms(8) unfolding granted(1) by (simp_all add: grantPlan_def db_patch_def)
  have plan: "activePlan ?d later = Some (p_plan (doc r))" by (rule grantPlan_active [OF assms(2,5) refl])
  have "planRoom H later args s' k (p_plan (doc r))" using assms(11) by (simp add: planRoom_cong [OF same(2,3)])
  with owner plan assms(7) show ?thesis
    by (intro customer_admitted [OF settles_wf [OF settle_spec(1) [OF assms(3)] assms(1)] same(1) assms(10) owner])
      simp_all
qed simp_all

text \<open>The free account with no request left pays for a plan: its key is admitted a day later.\<close>

definition unpaidDb :: db where
  "unpaidDb = exhaustedDb\<lparr>nextId := 10, users := [Row 0 0 (freeUser\<lparr>u_freeRequestsUsed := Some 500\<rparr>)],
     payments := [Row 9 5 samplePayment]\<rparr>"

theorem payment_opens_gateway_witness:
  "\<exists>s' rl s''. settle sampleNow ''pi_1'' True (Num 1000) ''MNT'' unpaidDb = Inr (True, s')
    \<and> \<not> hasKeyAccess (freeUser\<lparr>u_freeRequestsUsed := Some 500\<rparr>) sampleNow
    \<and> authorize sampleHost (sampleNow + 86400000) (keyArgs ''h1'' ''route'') s'
        = Inr (AOk (principalOf (Row 1 0 sampleKey) False False) rl, s'')"
proof -
  have wf: "wf_db unpaidDb" by code_simp
  have "(case settle sampleNow ''pi_1'' True (Num 1000) ''MNT'' unpaidDb of Inr (b, s') \<Rightarrow> b | _ \<Rightarrow> False)" by code_simp
  then obtain s' where run: "settle sampleNow ''pi_1'' True (Num 1000) ''MNT'' unpaidDb = Inr (True, s')"
    by (auto split: sum.splits prod.splits)
  have p: "paymentForIntent ''pi_1'' unpaidDb = Inr (Some (Row 9 5 samplePayment))" by code_simp
  have room: "planRoom sampleHost (sampleNow + 86400000) (keyArgs ''h1'' ''route'') unpaidDb (Row 1 0 sampleKey) Starter"
    by code_simp
  have live: "presents (sampleNow + 86400000) (keyArgs ''h1'' ''route'') (Row 1 0 sampleKey)"
    by (simp add: presents_def keyArgs_def sampleKey_def keyLive_def)
  have u: "tget (users unpaidDb) 0 = Some (Row 0 0 (freeUser\<lparr>u_freeRequestsUsed := Some 500\<rparr>))"
    "\<not> hasKeyAccess (freeUser\<lparr>u_freeRequestsUsed := Some 500\<rparr>) sampleNow"
    by code_simp+
  have d: "p_userId samplePayment = 0" "p_plan samplePayment = Starter" "k_userId (doc (Row 1 0 sampleKey)) = 0"
    "u_disabledAt (doc (Row 0 0 (freeUser\<lparr>u_freeRequestsUsed := Some 500\<rparr>))) = None"
    by (simp_all add: samplePayment_def newPayment_def sampleKey_def freeUser_def)
  have k: "Row 1 0 sampleKey \<in> set (apiKeys unpaidDb)"
    by (simp add: unpaidDb_def exhaustedDb_def sampleDb_def)
  have t: "0 \<le> sampleNow" "sampleNow + 86400000 < sampleNow + PLAN_DURATION_MS"
    by (simp_all add: sampleNow_def PLAN_DURATION_MS_def)
  have "\<exists>rl s''. authorize sampleHost (sampleNow + 86400000) (keyArgs ''h1'' ''route'') s'
        = Inr (AOk (principalOf (Row 1 0 sampleKey) False False) rl, s'')"
    by (rule payment_opens_gateway [OF wf t(1) run p t(2), unfolded row.sel d(1,2), OF u(1) d(4) k d(3) live room])
  with run u(2) show ?thesis by blast
qed

end
