(* ===== verification/Chart.thy ===== *)
theory Chart
  imports DashboardProps
begin

text \<open>
  What \<open>requests-chart.tsx\<close> draws of a series of days, as data: the axis, the stacked columns, the labels, the targets of
  pointer and keyboard, the tooltip and the table, over the layout of \<open>Dashboard\<close>; and its state, with what each event
  does to it. The number and day formats of \<open>Intl\<close> are arguments (\<open>day d True\<close> is \<open>formatDay(d, true)\<close>); a segment of
  a column is the rectangle that \<open>columnPath\<close> draws with rounded corners. Class names are left out.
\<close>

type_synonym numberText = "rat \<Rightarrow> string"
type_synonym dayText = "string \<Rightarrow> bool \<Rightarrow> string"

definition countText :: "numberText \<Rightarrow> nat \<Rightarrow> string" where
  "countText number n = number (of_nat n)"

section \<open>The summary\<close>

definition SEGMENT_GAP :: rat where
  "SEGMENT_GAP = 2"

definition chartPeak :: "DailyCounts list \<Rightarrow> DailyCounts option" where
  "chartPeak data = (if peakIndex data < length data then Some (data ! peakIndex data) else None)"

definition chartEmpty :: "DailyCounts list \<Rightarrow> bool" where
  "chartEmpty data = (fst (chartTotals data) = 0)"

definition chartDescription :: "numberText \<Rightarrow> dayText \<Rightarrow> string \<Rightarrow> DailyCounts list \<Rightarrow> string" where
  "chartDescription number day period data =
     (case chartTotals data of (t, s, f) \<Rightarrow>
        ''Requests per day, '' @ period @ '': '' @ countText number t @ '' total, '' @ countText number s @ '' successful, ''
        @ countText number f @ '' failed.''
        @ (case chartPeak data of
             Some p \<Rightarrow> if chartEmpty data then []
               else '' Peak '' @ countText number (dc_total p) @ '' on '' @ day (dc_day p) False @ ''.''
           | None \<Rightarrow> []))"

section \<open>The state\<close>

record chartState =
  ch_active :: "nat option"
  ch_focusIndex :: "nat option"
  ch_showTable :: bool

definition chart_init :: chartState where
  "chart_init = \<lparr>ch_active = None, ch_focusIndex = None, ch_showTable = False\<rparr>"

datatype chartEvent = PointerEnter nat | PointerLeave | FocusOn nat | FocusOff | KeyOn nat string | ToggleTable

text \<open>A key moves the focus and, when it moved, is not handled by the page.\<close>

fun chartStep :: "nat \<Rightarrow> chartEvent \<Rightarrow> chartState \<Rightarrow> chartState" where
  "chartStep n (PointerEnter i) c = c\<lparr>ch_active := Some i\<rparr>"
| "chartStep n PointerLeave c = c\<lparr>ch_active := None\<rparr>"
| "chartStep n (FocusOn i) c = c\<lparr>ch_focusIndex := Some i\<rparr>"
| "chartStep n FocusOff c = c\<lparr>ch_focusIndex := None\<rparr>"
| "chartStep n (KeyOn i key) c = (case focusAfter n key i of None \<Rightarrow> c | Some j \<Rightarrow> c\<lparr>ch_focusIndex := Some j\<rparr>)"
| "chartStep n ToggleTable c = c\<lparr>ch_showTable := \<not> ch_showTable c\<rparr>"

definition tableButton :: "chartState \<Rightarrow> string" where
  "tableButton c = (if ch_showTable c then ''Hide table'' else ''Show table'')"

definition tooltipIndex :: "chartState \<Rightarrow> nat option" where
  "tooltipIndex c = (case ch_active c of Some i \<Rightarrow> Some i | None \<Rightarrow> ch_focusIndex c)"

section \<open>The drawing\<close>

record tickLine =
  tl_x1 :: rat
  tl_x2 :: rat
  tl_y :: rat
  tl_strong :: bool
  tl_textX :: rat
  tl_text :: string

definition tickLines :: "numberText \<Rightarrow> rat \<Rightarrow> DailyCounts list \<Rightarrow> tickLine list" where
  "tickLines number width data =
     (let L = chartLayout width data in
      map (\<lambda>tick. \<lparr>tl_x1 = mg_left MARGIN, tl_x2 = width - mg_right MARGIN, tl_y = chartY L tick, tl_strong = (tick = 0),
          tl_textX = mg_left MARGIN - 8, tl_text = number tick\<rparr>)
        (niceTicks (fold max (map dc_total data) 0)))"

record segment =
  sg_x :: rat
  sg_top :: rat
  sg_width :: rat
  sg_height :: rat
  sg_radius :: rat

definition segmentPath :: "segment \<Rightarrow> string" where
  "segmentPath g = columnPath (sg_x g) (sg_top g) (sg_width g) (sg_height g) (sg_radius g)"

record column =
  cl_success :: "segment option"
  cl_failed :: "segment option"
  cl_dimmed :: bool

definition columnOf :: "layout \<Rightarrow> nat option \<Rightarrow> nat \<Rightarrow> DailyCounts \<Rightarrow> column" where
  "columnOf L tooltip i d =
     (let x = mg_left MARGIN + of_nat i * ly_band L + (ly_band L - ly_barWidth L) / 2;
          successTop = chartY L (of_nat (dc_successful d));
          totalTop = chartY L (of_nat (dc_total d));
          successHeight = chartY L 0 - successTop;
          failedHeight = (if 0 < dc_failed d then successTop - totalTop - (if 0 < dc_successful d then SEGMENT_GAP else 0) else 0)
      in \<lparr>cl_success = (if 0 < dc_successful d
             then Some \<lparr>sg_x = x, sg_top = successTop, sg_width = ly_barWidth L, sg_height = max 1 successHeight,
               sg_radius = (if 0 < dc_failed d then 0 else 4)\<rparr> else None),
          cl_failed = (if 0 < dc_failed d
             then Some \<lparr>sg_x = x, sg_top = totalTop, sg_width = ly_barWidth L, sg_height = max 1 failedHeight, sg_radius = 4\<rparr>
             else None),
          cl_dimmed = (tooltip \<noteq> None \<and> tooltip \<noteq> Some i)\<rparr>)"

definition columnsOf :: "rat \<Rightarrow> DailyCounts list \<Rightarrow> nat option \<Rightarrow> column list" where
  "columnsOf width data tooltip = map (\<lambda>(i, d). columnOf (chartLayout width data) tooltip i d) (enumerate 0 data)"

definition bandCenter :: "layout \<Rightarrow> nat \<Rightarrow> rat" where
  "bandCenter L i = mg_left MARGIN + of_nat i * ly_band L + ly_band L / 2"

datatype textAnchor = AnchorStart | AnchorMiddle | AnchorEnd

record chartText =
  ct_x :: rat
  ct_y :: rat
  ct_anchor :: textAnchor
  ct_text :: string

definition peakLabel :: "numberText \<Rightarrow> rat \<Rightarrow> DailyCounts list \<Rightarrow> chartText option" where
  "peakLabel number width data =
     (let L = chartLayout width data in
      case chartPeak data of
        Some p \<Rightarrow> if chartEmpty data then None
          else Some \<lparr>ct_x = bandCenter L (peakIndex data), ct_y = chartY L (of_nat (dc_total p)) - 6, ct_anchor = AnchorMiddle,
            ct_text = countText number (dc_total p)\<rparr>
      | None \<Rightarrow> None)"

definition dayLabels :: "dayText \<Rightarrow> rat \<Rightarrow> DailyCounts list \<Rightarrow> chartText list" where
  "dayLabels day width data =
     (let L = chartLayout width data; n = length data in
      map (\<lambda>(i, d). \<lparr>ct_x = bandCenter L i, ct_y = HEIGHT - 8,
          ct_anchor = (if i = 0 then AnchorStart else if i = n - 1 then AnchorEnd else AnchorMiddle),
          ct_text = day (dc_day d) False\<rparr>)
        (filter (\<lambda>(i, d). showLabel L n i) (enumerate 0 data)))"

record hitArea =
  ha_x :: rat
  ha_y :: rat
  ha_width :: rat
  ha_height :: rat
  ha_tabStop :: bool
  ha_label :: string

definition hitAreas :: "numberText \<Rightarrow> dayText \<Rightarrow> rat \<Rightarrow> DailyCounts list \<Rightarrow> chartState \<Rightarrow> hitArea list" where
  "hitAreas number day width data c =
     (let L = chartLayout width data; n = length data in
      map (\<lambda>(i, d). \<lparr>ha_x = mg_left MARGIN + of_nat i * ly_band L, ha_y = mg_top MARGIN, ha_width = ly_band L,
          ha_height = ly_plotHeight L,
          ha_tabStop = (i = (case ch_focusIndex c of Some j \<Rightarrow> j | None \<Rightarrow> n - 1)),
          ha_label = day (dc_day d) True @ '': '' @ countText number (dc_total d) @ '' requests, ''
            @ countText number (dc_successful d) @ '' successful, '' @ countText number (dc_failed d) @ '' failed''\<rparr>)
        (enumerate 0 data))"

text \<open>The four texts of a day: its name, and the three counts.\<close>

definition dayTexts :: "numberText \<Rightarrow> dayText \<Rightarrow> DailyCounts \<Rightarrow> string \<times> string \<times> string \<times> string" where
  "dayTexts number day d =
     (day (dc_day d) True, countText number (dc_total d), countText number (dc_successful d), countText number (dc_failed d))"

record tooltip =
  tt_left :: rat
  tt_top :: rat
  tt_texts :: "string \<times> string \<times> string \<times> string"

definition tooltipOf :: "numberText \<Rightarrow> dayText \<Rightarrow> rat \<Rightarrow> DailyCounts list \<Rightarrow> chartState \<Rightarrow> tooltip option" where
  "tooltipOf number day width data c =
     (let L = chartLayout width data in
      case tooltipIndex c of
        Some i \<Rightarrow>
          if i < length data
          then Some \<lparr>tt_left = min (max (bandCenter L i) 80) (width - 80),
            tt_top = max (chartY L (of_nat (dc_total (data ! i))) - 8) 56, tt_texts = dayTexts number day (data ! i)\<rparr>
          else None
      | None \<Rightarrow> None)"

text \<open>The rows of the table, newest first; shown only when asked for.\<close>

definition chartTable :: "numberText \<Rightarrow> dayText \<Rightarrow> DailyCounts list \<Rightarrow> chartState \<Rightarrow> (string \<times> string \<times> string \<times> string) list option"
where
  "chartTable number day data c = (if ch_showTable c then Some (map (dayTexts number day) (rev data)) else None)"

record chartView =
  cw_description :: string
  cw_ticks :: "tickLine list"
  cw_columns :: "column list"
  cw_peak :: "chartText option"
  cw_labels :: "chartText list"
  cw_areas :: "hitArea list"
  cw_noRequests :: bool
  cw_tooltip :: "tooltip option"
  cw_button :: string
  cw_table :: "(string \<times> string \<times> string \<times> string) list option"

text \<open>\<open>None\<close> is the skeleton shown while the data loads.\<close>

definition requestsChart ::
  "numberText \<Rightarrow> dayText \<Rightarrow> string \<Rightarrow> rat \<Rightarrow> DailyCounts list option \<Rightarrow> chartState \<Rightarrow> chartView option" where
  "requestsChart number day period width loaded c =
     map_option (\<lambda>data. \<lparr>cw_description = chartDescription number day period data,
       cw_ticks = tickLines number width data, cw_columns = columnsOf width data (tooltipIndex c),
       cw_peak = peakLabel number width data, cw_labels = dayLabels day width data,
       cw_areas = hitAreas number day width data c, cw_noRequests = chartEmpty data,
       cw_tooltip = tooltipOf number day width data c, cw_button = tableButton c,
       cw_table = chartTable number day data c\<rparr>) loaded"

end
