(* ===== verification/ChartProps.thy ===== *)
theory ChartProps
  imports Chart
begin

text \<open>
  The chart shows the data it is given: the columns are to scale, stacked and inside the plot, the labels of the days keep
  their distance, the peak is the largest day, and the keyboard always has exactly one column to enter.
\<close>

section \<open>The layout\<close>

lemma fold_max_ge: "a \<le> fold max xs a \<and> (\<forall>x \<in> set xs. x \<le> fold max xs (a :: nat))"
proof (induction xs arbitrary: a)
  case (Cons y xs)
  from Cons.IH [of "max y a"] show ?case by auto
qed simp

lemma last_tick_ge: "d \<in> set data \<Longrightarrow> of_nat (dc_total d) \<le> last (niceTicks (fold max (map dc_total data) 0))"
proof -
  let ?m = "fold max (map dc_total data) 0"
  assume "d \<in> set data"
  then have "dc_total d \<le> ?m" using fold_max_ge [of 0 "map dc_total data"] by auto
  then have "(of_nat (dc_total d) :: rat) \<le> of_nat ?m" by simp
  also have "\<dots> \<le> last (niceTicks ?m)" using niceTicks_cover [of ?m] by simp
  finally show ?thesis .
qed

lemma layout_yMax:
  shows "0 < ly_yMax (chartLayout width data)"
    and "d \<in> set data \<Longrightarrow> of_nat (dc_total d) \<le> ly_yMax (chartLayout width data)"
proof -
  let ?m = "fold max (map dc_total data) 0"
  have "0 \<le> last (niceTicks ?m)" using niceTicks_cover [of ?m] of_nat_0_le_iff [of ?m] by (meson order_trans)
  then show "0 < ly_yMax (chartLayout width data)" by (simp add: chartLayout_def Let_def)
  show "of_nat (dc_total d) \<le> ly_yMax (chartLayout width data)" if "d \<in> set data"
    using last_tick_ge [OF that] by (auto simp: chartLayout_def Let_def)
qed

lemma layout_height [simp]: "ly_plotHeight (chartLayout width data) = 172"
  by (simp add: chartLayout_def Let_def HEIGHT_def MARGIN_def)

lemma layout_band: "ly_band (chartLayout width data) * of_nat (max 1 (length data)) = ly_plotWidth (chartLayout width data)"
  by (simp add: chartLayout_def Let_def)

lemma layout_plotWidth: "10 \<le> ly_plotWidth (chartLayout width data)"
  by (simp add: chartLayout_def Let_def)

lemma layout_band_pos: "0 < ly_band (chartLayout width data)"
proof -
  have "0 < ly_band (chartLayout width data) * of_nat (max 1 (length data))"
    unfolding layout_band using layout_plotWidth [of width data] by linarith
  then show ?thesis by (simp add: zero_less_mult_iff)
qed

lemma chartY_eq:
  "chartY (chartLayout width data) v = 192 - v / ly_yMax (chartLayout width data) * 172"
  by (simp add: chartY_def MARGIN_def)

section \<open>The columns\<close>

text \<open>The columns are to scale: a day whose total is the sum of its successful and failed requests is drawn in the
  plot, its heights proportional to its counts (to at least a pixel); the successful part stands on the base line and
  the failed part on top of it, behind a gap; it fills its own band and no other, when the bands are at least two
  pixels wide.\<close>
theorem chart_columns_exact:
  fixes width :: rat and data :: "DailyCounts list"
  defines "L \<equiv> chartLayout width data"
  assumes "i < length data" and "d = data ! i" and "dc_total d = dc_successful d + dc_failed d"
  shows "columnsOf width data tip ! i = columnOf L tip i d
    \<and> mg_top MARGIN \<le> chartY L (of_nat (dc_total d)) \<and> chartY L (of_nat (dc_total d)) \<le> chartY L (of_nat (dc_successful d))
    \<and> chartY L 0 - chartY L (of_nat (dc_successful d)) = of_nat (dc_successful d) * (172 / ly_yMax L)
    \<and> (\<forall>g. cl_success (columnOf L tip i d) = Some g \<longrightarrow> 0 < dc_successful d
         \<and> sg_top g = chartY L (of_nat (dc_successful d))
         \<and> (1 \<le> of_nat (dc_successful d) * (172 / ly_yMax L) \<longrightarrow> sg_top g + sg_height g = chartY L 0))
    \<and> (\<forall>g. cl_failed (columnOf L tip i d) = Some g \<longrightarrow> 0 < dc_failed d
         \<and> sg_top g = chartY L (of_nat (dc_total d))
         \<and> (3 \<le> of_nat (dc_failed d) * (172 / ly_yMax L) \<longrightarrow>
              sg_top g + sg_height g = chartY L (of_nat (dc_successful d)) - (if 0 < dc_successful d then SEGMENT_GAP else 0)))
    \<and> (2 \<le> ly_band L \<longrightarrow> (\<forall>g \<in> set_option (cl_success (columnOf L tip i d)) \<union> set_option (cl_failed (columnOf L tip i d)).
         mg_left MARGIN + of_nat i * ly_band L \<le> sg_x g
         \<and> sg_x g + sg_width g \<le> mg_left MARGIN + of_nat (i + 1) * ly_band L))"
proof (intro conjI)
  let ?t = "of_nat (dc_total d) :: rat" and ?s = "of_nat (dc_successful d) :: rat" and ?f = "of_nat (dc_failed d) :: rat"
  let ?k = "172 / ly_yMax L"
  have k: "0 < ?k" using layout_yMax(1) [of width data] by (simp add: L_def)
  have y: "chartY L v = 192 - v * ?k" for v unfolding L_def chartY_eq by simp
  have sum: "?t = ?s + ?f" using assms(4) by simp
  have "?t * ?k \<le> 172"
  proof -
    have "d \<in> set data" using assms(2,3) by simp
    then have "?t \<le> ly_yMax L" unfolding L_def by (rule layout_yMax(2))
    then show ?thesis using layout_yMax(1) [of width data] by (simp add: L_def field_simps)
  qed
  then show "mg_top MARGIN \<le> chartY L ?t" by (simp add: y MARGIN_def)
  have "0 \<le> ?f * ?k" using k by (intro mult_nonneg_nonneg) simp_all
  then show "chartY L ?t \<le> chartY L ?s" unfolding y sum distrib_right by linarith
  show scale: "chartY L 0 - chartY L ?s = ?s * ?k" unfolding y by simp
  have gap: "chartY L ?s - chartY L ?t = ?f * ?k" unfolding y sum distrib_right by simp
  show "columnsOf width data tip ! i = columnOf L tip i d"
    using assms(2,3) by (simp add: columnsOf_def L_def nth_enumerate_eq)
  show "\<forall>g. cl_success (columnOf L tip i d) = Some g \<longrightarrow> 0 < dc_successful d \<and> sg_top g = chartY L ?s
      \<and> (1 \<le> ?s * ?k \<longrightarrow> sg_top g + sg_height g = chartY L 0)"
    using scale by (auto simp: columnOf_def Let_def max_def split: if_splits)
  show "\<forall>g. cl_failed (columnOf L tip i d) = Some g \<longrightarrow> 0 < dc_failed d \<and> sg_top g = chartY L ?t
      \<and> (3 \<le> ?f * ?k \<longrightarrow> sg_top g + sg_height g = chartY L ?s - (if 0 < dc_successful d then SEGMENT_GAP else 0))"
    using gap by (auto simp: columnOf_def Let_def max_def SEGMENT_GAP_def split: if_splits)
  show "2 \<le> ly_band L \<longrightarrow> (\<forall>g \<in> set_option (cl_success (columnOf L tip i d)) \<union> set_option (cl_failed (columnOf L tip i d)).
         mg_left MARGIN + of_nat i * ly_band L \<le> sg_x g
         \<and> sg_x g + sg_width g \<le> mg_left MARGIN + of_nat (i + 1) * ly_band L)"
  proof
    assume "2 \<le> ly_band L"
    then have "ly_barWidth L \<le> ly_band L" by (auto simp: L_def chartLayout_def Let_def)
    then have half: "0 \<le> (ly_band L - ly_barWidth L) / 2" by simp
    have next_band: "of_nat (i + 1) * ly_band L = of_nat i * ly_band L + ly_band L" by (simp add: distrib_right)
    show "\<forall>g \<in> set_option (cl_success (columnOf L tip i d)) \<union> set_option (cl_failed (columnOf L tip i d)).
         mg_left MARGIN + of_nat i * ly_band L \<le> sg_x g
         \<and> sg_x g + sg_width g \<le> mg_left MARGIN + of_nat (i + 1) * ly_band L"
      using half unfolding next_band by (auto simp: columnOf_def Let_def field_simps split: if_splits)
  qed
qed

definition sampleDays :: "DailyCounts list" where
  "sampleDays = [\<lparr>dc_day = ''2026-01-01'', dc_total = 4, dc_successful = 3, dc_failed = 1\<rparr>,
     \<lparr>dc_day = ''2026-01-02'', dc_total = 8, dc_successful = 8, dc_failed = 0\<rparr>]"

theorem chart_columns_exact_witness:
  "\<exists>g h. cl_success (columnsOf 452 sampleDays None ! 0) = Some g \<and> cl_failed (columnsOf 452 sampleDays None ! 0) = Some h
    \<and> sg_top g + sg_height g = 192 \<and> sg_top h + sg_height h = sg_top g - 2"
proof -
  let ?L = "chartLayout 452 sampleDays" and ?d = "sampleDays ! 0"
  have d: "dc_total ?d = dc_successful ?d + dc_failed ?d" "dc_successful ?d = 3" "dc_failed ?d = 1" "0 < length sampleDays"
    by (simp_all add: sampleDays_def)
  have y: "ly_yMax ?L = 8" by code_simp
  note all = chart_columns_exact [OF d(4) refl d(1), where width = 452 and tip = None, unfolded y d(2,3)]
  have "columnOf ?L None 0 ?d = columnsOf 452 sampleDays None ! 0" using all by simp
  moreover obtain g h where gh: "cl_success (columnOf ?L None 0 ?d) = Some g" "cl_failed (columnOf ?L None 0 ?d) = Some h"
    using d(2,3) by (simp add: columnOf_def Let_def)
  moreover have "sg_top g + sg_height g = chartY ?L 0" "sg_top h + sg_height h = sg_top g - 2"
    using all gh by (auto simp: SEGMENT_GAP_def)
  moreover have "chartY ?L 0 = 192" by (simp add: chartY_eq)
  ultimately show ?thesis by metis
qed

section \<open>The labels of the days\<close>

definition labelCount :: "rat \<Rightarrow> int" where
  "labelCount plotWidth = max 2 (min X_LABEL_COUNT \<lfloor>plotWidth / X_LABEL_MIN_SPACING\<rfloor>)"

lemma labelEvery_wide:
  fixes width :: rat and data :: "DailyCounts list"
  defines "L \<equiv> chartLayout width data"
  assumes "data \<noteq> []"
  shows "ly_plotWidth L \<le> of_int (labelCount (ly_plotWidth L)) * (of_int (ly_labelEvery L) * ly_band L)"
proof -
  let ?c = "labelCount (ly_plotWidth L)" and ?n = "of_nat (length data) :: rat"
  have c: "0 < (of_int ?c :: rat)" by (simp add: labelCount_def)
  have m: "ly_labelEvery L = max 1 \<lceil>?n / of_int ?c\<rceil>"
    by (simp add: L_def chartLayout_def Let_def labelCount_def)
  have "?n / of_int ?c \<le> of_int \<lceil>?n / of_int ?c\<rceil>" by (rule le_of_int_ceiling)
  also have "\<dots> \<le> of_int (ly_labelEvery L)" unfolding m by (simp only: of_int_le_iff max.cobounded2)
  finally have "?n \<le> of_int ?c * of_int (ly_labelEvery L)" using c by (simp add: field_simps)
  then have "?n * ly_band L \<le> of_int ?c * of_int (ly_labelEvery L) * ly_band L"
    using layout_band_pos [of width data] by (intro mult_right_mono) (simp_all add: L_def)
  moreover have "?n * ly_band L = ly_plotWidth L"
    using layout_band [of width data] assms(2) by (cases data) (simp_all add: L_def mult.commute)
  ultimately show ?thesis by (simp add: mult.assoc)
qed

text \<open>C40. The labels of the days never crowd each other: whatever the width and the number of days, the centres of two
  labelled days are at least \<open>X_LABEL_MIN_SPACING\<close> pixels apart, and the last day is always labelled.\<close>
theorem chart_labels_apart:
  fixes width :: rat and data :: "DailyCounts list"
  defines "L \<equiv> chartLayout width data" and "n \<equiv> length data"
  assumes "i < j" and "j < n" and "showLabel L n i" and "showLabel L n j"
  shows "X_LABEL_MIN_SPACING \<le> bandCenter L j - bandCenter L i \<and> showLabel L n (n - 1)"
proof
  show "showLabel L n (n - 1)" by (simp add: showLabel_def)
  let ?b = "ly_band L" and ?m = "ly_labelEvery L" and ?P = "ly_plotWidth L"
  have b: "0 < ?b" unfolding L_def by (rule layout_band_pos)
  have apart: "bandCenter L j - bandCenter L i = of_int (int j - int i) * ?b"
    by (simp add: bandCenter_def left_diff_distrib)
  have i: "int i mod ?m = 0" "56 \<le> of_int (int n - 1 - int i) * ?b"
    using assms(3-5) by (auto simp: showLabel_def X_LABEL_MIN_SPACING_def)
  show "X_LABEL_MIN_SPACING \<le> bandCenter L j - bandCenter L i"
  proof (cases "j = n - 1")
    case True
    then have "int j - int i = int n - 1 - int i" using assms(4) by simp
    with i(2) apart show ?thesis by (simp add: X_LABEL_MIN_SPACING_def)
  next
    case False
    with assms(6) have j: "int j mod ?m = 0" "56 \<le> of_int (int n - 1 - int j) * ?b"
      by (auto simp: showLabel_def X_LABEL_MIN_SPACING_def)
    have m: "1 \<le> ?m" by (simp add: L_def chartLayout_def Let_def)
    have "(int j - int i) mod ?m = 0" using i(1) j(1) by (simp add: mod_diff_eq [symmetric])
    then have gap: "?m \<le> int j - int i" using assms(3) m by (simp add: zdvd_imp_le mod_0_imp_dvd)
    then have "of_int ?m * ?b \<le> of_int (int j - int i) * ?b" using b by (intro mult_right_mono) simp_all
    have data: "data \<noteq> []" using assms(3,4) by (auto simp: n_def)
    note cover = labelEvery_wide [OF data, of width, folded L_def]
    have "56 \<le> of_int ?m * ?b"
    proof (cases "?P < 112")
      case True
      then have "?P / 56 < 2" by simp
      then have "\<lfloor>?P / 56\<rfloor> < 2" by (simp only: floor_less_iff of_int_numeral)
      then have "labelCount ?P = 2" by (simp only: labelCount_def X_LABEL_MIN_SPACING_def)
      then have half: "?P \<le> 2 * (of_int ?m * ?b)" using cover by simp
      have "of_nat n * ?b = ?P"
        using layout_band [of width data] data by (cases data) (simp_all add: L_def n_def mult.commute)
      then have "of_int (int n - 1 - int j) * ?b = ?P - ?b - of_int (int j) * ?b"
        by (simp add: left_diff_distrib)
      moreover have "of_int ?m * ?b \<le> of_int (int j) * ?b"
        using gap b by (intro mult_right_mono) simp_all
      ultimately have "56 \<le> ?P - ?b - of_int ?m * ?b" using j(2) by linarith
      with half True b show ?thesis by linarith
    next
      case False
      then have two: "of_int 2 \<le> ?P / 56" by simp
      have "of_int (min X_LABEL_COUNT \<lfloor>?P / 56\<rfloor>) \<le> (of_int \<lfloor>?P / 56\<rfloor> :: rat)" by (simp only: of_int_le_iff min.cobounded2)
      also have "\<dots> \<le> ?P / 56" by (rule of_int_floor_le)
      finally have "of_int (labelCount ?P) \<le> ?P / 56"
        using two unfolding labelCount_def X_LABEL_MIN_SPACING_def max_def by (simp split: if_splits)
      then have c: "of_int (labelCount ?P) * 56 \<le> ?P" by simp
      have pos: "0 < (of_int (labelCount ?P) :: rat)" by (simp add: labelCount_def)
      from order_trans [OF c cover] show ?thesis by (rule mult_left_le_imp_le [OF _ pos])
    qed
    with \<open>of_int ?m * ?b \<le> of_int (int j - int i) * ?b\<close> apart show ?thesis by (simp add: X_LABEL_MIN_SPACING_def)
  qed
qed

theorem chart_labels_apart_witness:
  "X_LABEL_MIN_SPACING \<le> bandCenter (chartLayout 452 sampleDays) 1 - bandCenter (chartLayout 452 sampleDays) 0"
proof -
  have "showLabel (chartLayout 452 sampleDays) (length sampleDays) 0"
    "showLabel (chartLayout 452 sampleDays) (length sampleDays) 1" by code_simp+
  from chart_labels_apart [OF _ _ this] show ?thesis by (simp add: sampleDays_def)
qed

section \<open>Peak, table and keyboard\<close>

lemma peak_fold:
  assumes "best < length data" and "m \<le> length data"
  defines "p \<equiv> fold (\<lambda>i best. if dc_total (data ! best) < dc_total (data ! i) then i else best) [0..<m] best"
  shows "p < length data \<and> dc_total (data ! best) \<le> dc_total (data ! p) \<and> (\<forall>i < m. dc_total (data ! i) \<le> dc_total (data ! p))"
  unfolding p_def using assms(2)
proof (induction m)
  case (Suc m)
  then show ?case by (auto simp: less_Suc_eq intro: order_trans less_imp_le)
qed (use assms(1) in simp)

text \<open>The day named as the peak has the largest total.\<close>

lemma chartPeak_max:
  assumes "data \<noteq> []"
  shows "\<exists>p. chartPeak data = Some p \<and> p \<in> set data \<and> (\<forall>d \<in> set data. dc_total d \<le> dc_total p)"
proof -
  have "0 < length data" using assms by simp
  from peak_fold [OF this order_refl] show ?thesis
    by (auto simp: chartPeak_def peakIndex_def in_set_conv_nth)
qed

lemma chartTotals_sums:
  "chartTotals data = (sum_list (map dc_total data), sum_list (map dc_successful data), sum_list (map dc_failed data))"
proof -
  have "fold (\<lambda>d (t, s, f). (t + dc_total d, s + dc_successful d, f + dc_failed d)) data (a, b, c)
      = (a + sum_list (map dc_total data), b + sum_list (map dc_successful data), c + sum_list (map dc_failed data))" for a b c
    by (induction data arbitrary: a b c) (auto simp: add.assoc)
  then show ?thesis by (simp add: chartTotals_def)
qed

text \<open>The events of a chart of \<open>n\<close> days.\<close>

fun chartEventOk :: "nat \<Rightarrow> chartEvent \<Rightarrow> bool" where
  "chartEventOk n (PointerEnter i) = (i < n)"
| "chartEventOk n (FocusOn i) = (i < n)"
| "chartEventOk n (KeyOn i key) = (i < n)"
| "chartEventOk n e = True"

definition chart_inv :: "nat \<Rightarrow> chartState \<Rightarrow> bool" where
  "chart_inv n c \<longleftrightarrow> (\<forall>i \<in> set_option (ch_active c) \<union> set_option (ch_focusIndex c). i < n)"

lemma first_choice:
  "P x \<Longrightarrow> P y \<Longrightarrow> P z \<Longrightarrow> P w \<Longrightarrow>
     pred_option P (if a then Some x else if b then Some y else if c then Some z else if d then Some w else None)"
  by simp

lemma focusAfter_in: "i < n \<Longrightarrow> pred_option (\<lambda>j. j < n) (focusAfter n key i)"
  unfolding focusAfter_def by (rule first_choice) auto

lemma chart_inv_step:
  assumes "chart_inv n c" and "chartEventOk n e"
  shows "chart_inv n (chartStep n e c)"
proof (cases e)
  case (KeyOn i key)
  then show ?thesis using assms focusAfter_in [of i n key]
    by (auto simp: chart_inv_def split: option.split)
qed (use assms in \<open>auto simp: chart_inv_def\<close>)

lemma chart_inv_run: "chart_inv n c \<Longrightarrow> list_all (chartEventOk n) es \<Longrightarrow> chart_inv n (fold (chartStep n) es c)"
  by (induction es arbitrary: c) (auto intro: chart_inv_step)

text \<open>Whatever the pointer and the keys do, exactly one column of a chart with days can be reached with Tab, and the
  tooltip is that of a day of the chart.\<close>
theorem chart_one_tab_stop:
  assumes "data \<noteq> []" and "list_all (chartEventOk (length data)) es"
  defines "c \<equiv> fold (chartStep (length data)) es chart_init"
  shows "\<exists>!i. i < length data \<and> ha_tabStop (hitAreas number day width data c ! i)"
    and "tooltipIndex c \<noteq> None \<longleftrightarrow> tooltipOf number day width data c \<noteq> None"
proof -
  let ?n = "length data"
  have inv: "chart_inv ?n c"
    unfolding c_def by (rule chart_inv_run [OF _ assms(2)]) (simp add: chart_inv_def chart_init_def)
  define stop where "stop = (case ch_focusIndex c of Some j \<Rightarrow> j | None \<Rightarrow> ?n - 1)"
  have "stop < ?n" using inv assms(1) by (auto simp: stop_def chart_inv_def split: option.splits)
  moreover have "ha_tabStop (hitAreas number day width data c ! i) \<longleftrightarrow> i = stop" if "i < ?n" for i
    using that by (simp add: hitAreas_def Let_def nth_enumerate_eq stop_def)
  ultimately show "\<exists>!i. i < ?n \<and> ha_tabStop (hitAreas number day width data c ! i)" by blast
  show "tooltipIndex c \<noteq> None \<longleftrightarrow> tooltipOf number day width data c \<noteq> None"
  proof (cases "tooltipIndex c")
    case None
    then show ?thesis by (simp add: tooltipOf_def Let_def)
  next
    case (Some i)
    with inv have "i < ?n" by (auto simp: tooltipIndex_def chart_inv_def split: option.splits)
    with Some show ?thesis by (simp add: tooltipOf_def Let_def)
  qed
qed

end
