(* ===== verification/PlaygroundView.thy ===== *)
theory PlaygroundView
  imports PlaygroundProps
begin

text \<open>
  What the playground shows and what its controls do (\<open>components/playground/playground.tsx\<close>): the fields with their
  hints, the two ways to authorize with the texts of each, the whole of \<open>send\<close> (its messages, the credential and the start
  of the request), the request line, and the response. Class names and icons are left out; \<open>err\<close> gives the message of
  the form for a field, \<open>pathname\<close> is \<open>usePathname()\<close>.
\<close>

section \<open>Fields\<close>

datatype control = SelectControl "string list" | InputControl string bool

record fieldView =
  fd_label :: string
  fd_required :: bool
  fd_control :: control
  fd_hint :: string
  fd_failed :: bool

definition fieldView :: "(string \<Rightarrow> string option) \<Rightarrow> ParamSpec \<Rightarrow> fieldView" where
  "fieldView err param =
     (let failed = (case err (ps_name param) of Some (c # s) \<Rightarrow> True | _ \<Rightarrow> False) in
      \<lparr>fd_label = ps_label param, fd_required = ps_required param,
       fd_control = (if ps_kind param = SelectParam then SelectControl (withDefault (ps_options param) [])
         else InputControl (withDefault (ps_inputMode param) ''text'') failed),
       fd_hint = (if failed then withDefault (err (ps_name param)) [] else ps_description param),
       fd_failed = failed\<rparr>)"

section \<open>Authorization\<close>

definition AUTH_MODES :: "(AuthMode \<times> string) list" where
  "AUTH_MODES = [(Connected, ''Connected API key''), (Paste, ''Paste a key'')]"

record authForm = authPanel +
  au_error :: "string option"

definition auth_init :: authForm where
  "auth_init = \<lparr>au_mode = Connected, au_pastedKey = [], au_selectedKeyId = [], au_keys = None, au_error = None\<rparr>"

definition chooseAuthMode :: "AuthMode \<Rightarrow> authForm \<Rightarrow> authForm" where
  "chooseAuthMode mode a = a\<lparr>au_mode := mode, au_error := None\<rparr>"

definition selectKey :: "string \<Rightarrow> authForm \<Rightarrow> authForm" where
  "selectKey keyId a = a\<lparr>au_selectedKeyId := keyId\<rparr>"

definition pasteKey :: "string \<Rightarrow> authForm \<Rightarrow> authForm" where
  "pasteKey value a = a\<lparr>au_pastedKey := value\<rparr>"

text \<open>The panel below the two modes. A key is offered with its id and its text; \<open>keys.isPending\<close> and \<open>keys.isError\<close> are
  arguments.\<close>

datatype keyPanel =
    KeysPending
  | SignInTo string
  | CreateOne string
  | OfferKeys string "(string \<times> string) list"
  | PasteInto string

definition allKeys :: "KeysState option \<Rightarrow> ConnectedKey list" where
  "allKeys data = (case data of Some (Keys ks) \<Rightarrow> ks | _ \<Rightarrow> [])"

definition keyPanel :: "PlaygroundEndpointId \<Rightarrow> string option \<Rightarrow> bool \<Rightarrow> bool \<Rightarrow> authForm \<Rightarrow> keyPanel" where
  "keyPanel endpointId pathname isPending isError a =
     (if au_mode a = Connected
      then if isPending then KeysPending
        else if au_keys a = Some SignedOut \<or> isError
        then SignInTo (''/login?next='' @ encodeURIComponent (withDefault pathname ''/developers/api-reference''))
        else if connectedKeys endpointId (au_keys a) = []
        then CreateOne (if allKeys (au_keys a) = [] then ''You have no active keys.''
               else ''None of your keys can call this endpoint.'')
        else OfferKeys (effectiveKeyId endpointId (au_keys a) (au_selectedKeyId a))
               (map (\<lambda>key. (ck_id key, ck_name key @ '' ('' @ ck_maskedKey key @ '')''))
                 (connectedKeys endpointId (au_keys a)))
      else PasteInto (au_pastedKey a))"

section \<open>Sending\<close>

record playgroundPage =
  pg_auth :: authForm
  pg_tokens :: tokenCache
  pg_panel :: panel

definition page_start :: playgroundPage where
  "page_start = \<lparr>pg_auth = auth_init, pg_tokens = (\<lambda>keyId. None), pg_panel = panel_init\<rparr>"

text \<open>\<open>send\<close>, up to the request it makes, if any: the button is disabled while one is pending, and the form must be
  valid.\<close>

definition send ::
  "environment \<Rightarrow> (string \<Rightarrow> bool \<times> tokenBodyRead) \<Rightarrow> int \<Rightarrow> PlaygroundEndpointId \<Rightarrow> formValues \<Rightarrow> playgroundPage
     \<Rightarrow> playgroundPage \<times> panelCall option" where
  "send env ask now endpointId vs p =
     (case credential ask now endpointId (authPanel.truncate (pg_auth p)) (pg_tokens p) of
        (Inl message, tokens) \<Rightarrow>
          (p\<lparr>pg_auth := (pg_auth p)\<lparr>au_error := Some message\<rparr>, pg_tokens := tokens\<rparr>, None)
      | (Inr cred, tokens) \<Rightarrow>
          (p\<lparr>pg_auth := (pg_auth p)\<lparr>au_error := None\<rparr>, pg_tokens := tokens, pg_panel := startRequest (pg_panel p)\<rparr>,
           Some (panelRequest env endpointId vs cred)))"

definition submit ::
  "environment \<Rightarrow> (string \<Rightarrow> bool \<times> tokenBodyRead) \<Rightarrow> int \<Rightarrow> PlaygroundEndpointId \<Rightarrow> formValues \<Rightarrow> playgroundPage
     \<Rightarrow> playgroundPage \<times> panelCall option" where
  "submit env ask now endpointId vs p =
     (if pn_pending (pg_panel p) then (p, None)
      else case formValid (PLAYGROUND_ENDPOINTS endpointId) vs of
             None \<Rightarrow> (p, None)
           | Some accepted \<Rightarrow> send env ask now endpointId accepted p)"

text \<open>Leaving the page aborts the request in flight.\<close>

definition unmountPanel :: "panel \<Rightarrow> panel" where
  "unmountPanel p = abortCurrent p"

section \<open>The request and the response\<close>

text \<open>\<open>{ ...defaultValues(endpoint), ...values }\<close>.\<close>

definition shownPath :: "PlaygroundEndpointId \<Rightarrow> formValues \<Rightarrow> string" where
  "shownPath endpointId vs =
     (let e = PLAYGROUND_ENDPOINTS endpointId in buildRequestPath e (defaultValues e ++ vs))"

definition shownCurl :: "environment \<Rightarrow> PlaygroundEndpointId \<Rightarrow> formValues \<Rightarrow> string" where
  "shownCurl env endpointId vs = buildCurl (pc_apiUrl (publicConfig env)) (shownPath endpointId vs)"

record responseView =
  sh_tone :: string
  sh_statusLine :: string
  sh_left :: "string option"
  sh_headers :: "(string \<times> string) list"
  sh_body :: string

datatype resultView = Invitation | AlertText string | ShownResponse responseView

definition resultView :: "result option \<Rightarrow> resultView" where
  "resultView r =
     (case r of
        None \<Rightarrow> Invitation
      | Some (Failure message) \<Rightarrow> AlertText message
      | Some (Response status statusText body rateLimit requestId) \<Rightarrow>
          ShownResponse \<lparr>sh_tone = statusTone status, sh_statusLine = statusLine status (Some statusText),
            sh_left = map_option (\<lambda>(limit, remaining, reset). remaining @ ''/'' @ limit @ '' left'') rateLimit,
            sh_headers = (case rateLimit of
                None \<Rightarrow> []
              | Some (limit, remaining, reset) \<Rightarrow> [(''X-RateLimit-Limit'', limit), (''X-RateLimit-Remaining'', remaining),
                  (''X-RateLimit-Reset'', reset)])
              @ (case requestId of Some (c # s) \<Rightarrow> [(''X-Request-ID'', c # s)] | _ \<Rightarrow> []),
            sh_body = body\<rparr>)"

section \<open>What is offered is what is sent\<close>


definition samplePage :: playgroundPage where
  "samplePage = page_start\<lparr>pg_auth := auth_init\<lparr>au_selectedKeyId := ''k2'',
     au_keys := Some (Keys [\<lparr>ck_id = ''k1'', ck_name = ''web'', ck_maskedKey = ''geo_ab'', ck_endpoints = [Geocode, Route]\<rparr>,
       \<lparr>ck_id = ''k2'', ck_name = ''maps'', ck_maskedKey = ''geo_cd'', ck_endpoints = [Geocode]\<rparr>])\<rparr>\<rparr>"


end
