(* ===== verification/Site.thy ===== *)
theory Site
  imports Docs Payments MapPage
begin

text \<open>
  The public pages of the site: the price list (\<open>app/(site)/pricing/page.tsx\<close>), the frame of the documentation
  (\<open>docs-page.tsx\<close>, \<open>docs-nav.tsx\<close>, \<open>error-table.tsx\<close>, \<open>prose.tsx\<close>), the reference generated from the OpenAPI document
  (\<open>app/(site)/developers/api-reference/page.tsx\<close>), the header, the footer and the account menu (\<open>components/site\<close>), and
  the map of the developers' page (\<open>hero-showcase.tsx\<close>). What a page shows is a record of its texts and links; \<open>t\<close> is
  the translator, of a key and the values of its variables.
\<close>

type_synonym translator = "string \<Rightarrow> (string \<times> string) list \<Rightarrow> string"

section \<open>Prices\<close>

definition TUGRIK :: string where
  "TUGRIK = [CHR 0xE2, CHR 0x82, CHR 0xAE]"

record pricingPlan =
  pl_id :: string
  pl_price :: "string option"
  pl_requests :: "string option"
  pl_rate :: "string option"
  pl_features :: "string list"

definition PLANS :: "pricingPlan list" where
  "PLANS =
     [\<lparr>pl_id = ''free'', pl_price = Some (TUGRIK @ ''0''), pl_requests = Some ''500'', pl_rate = Some ''30'',
       pl_features = [''geocoding'', ''reverseGeocoding'', ''routing'', ''communitySupport'']\<rparr>,
      \<lparr>pl_id = ''starter'', pl_price = Some (TUGRIK @ ''1,000''), pl_requests = Some ''10,000'', pl_rate = Some ''100'',
       pl_features = [''geocoding'', ''reverseGeocoding'', ''routing'', ''communitySupport'']\<rparr>,
      \<lparr>pl_id = ''essentials'', pl_price = Some (TUGRIK @ ''1,000''), pl_requests = Some ''100,000'', pl_rate = Some ''500'',
       pl_features = [''everythingStarter'', ''higherLimits'', ''usageAnalytics'']\<rparr>,
      \<lparr>pl_id = ''pro'', pl_price = Some (TUGRIK @ ''1,000''), pl_requests = Some ''500,000'', pl_rate = Some ''2,000'',
       pl_features = [''everythingEssentials'', ''higherLimits'', ''usageAnalytics'']\<rparr>,
      \<lparr>pl_id = ''enterprise'', pl_price = None, pl_requests = None, pl_rate = None,
       pl_features = [''customVolume'', ''dedicatedCapacity'', ''serviceAgreement'', ''technicalContact'']\<rparr>]"

record pricingCard =
  px_name :: string
  px_price :: "string \<times> string option"
  px_description :: string
  px_requests :: string
  px_rate :: string
  px_features :: "string list"
  px_href :: string
  px_button :: string

definition pricingCard :: "translator \<Rightarrow> pricingPlan \<Rightarrow> pricingCard" where
  "pricingCard t plan =
     (let free = (pl_id plan = ''free''); enterprise = (pl_id plan = ''enterprise'') in
      \<lparr>px_name = t (''pricing.plans.'' @ pl_id plan @ ''.name'') [],
       px_price = (case pl_price plan of
           Some p \<Rightarrow> (p, Some (t (if free then ''pricing.freePeriod'' else ''pricing.perMonth'') []))
         | None \<Rightarrow> (t ''pricing.custom'' [], None)),
       px_description = t (''pricing.plans.'' @ pl_id plan @ ''.description'') [],
       px_requests = (case pl_requests plan of
           Some n \<Rightarrow> t (if free then ''pricing.freeRequests'' else ''pricing.requests'') [(''count'', n)]
         | None \<Rightarrow> t ''pricing.customRequests'' []),
       px_rate = (case pl_rate plan of
           Some n \<Rightarrow> t (if free then ''pricing.freeRateLimit'' else ''pricing.rateLimit'') [(''count'', n)]
         | None \<Rightarrow> t ''pricing.customRateLimit'' []),
       px_features = map (\<lambda>f. t (''pricing.features.'' @ f) []) (pl_features plan),
       px_href = (if enterprise then ''/register'' else ''/dashboard/billing?plan='' @ pl_id plan),
       px_button = (if enterprise then t ''pricing.contactUs'' [] else t ''pricing.getStarted'' [])\<rparr>)"

definition pricingPage :: "translator \<Rightarrow> pricingCard list" where
  "pricingPage t = map (pricingCard t) PLANS"

text \<open>\<open>app/(console)/dashboard/billing/page.tsx\<close>: the plan of the address that the billing page highlights.\<close>

definition selectedPlan :: "string option \<Rightarrow> string option" where
  "selectedPlan plan =
     (case plan of
        Some p \<Rightarrow> if p \<in> set [''free'', ''starter'', ''essentials'', ''pro''] then Some p else None
      | None \<Rightarrow> None)"

section \<open>The frame of the documentation\<close>

definition indexOf :: "('a \<Rightarrow> bool) \<Rightarrow> 'a list \<Rightarrow> nat option" where
  "indexOf P xs = (if list_ex P xs then Some (length (takeWhile (\<lambda>x. \<not> P x) xs)) else None)"

text \<open>The links to the page before and to the page after.\<close>

definition docsPager :: "string \<Rightarrow> DocsNavItem option \<times> DocsNavItem option" where
  "docsPager href =
     (case indexOf (\<lambda>page. di_href page = href) DOCS_PAGES of
        None \<Rightarrow> (None, None)
      | Some i \<Rightarrow> (if 0 < i then Some (DOCS_PAGES ! (i - 1)) else None,
                   if i < length DOCS_PAGES - 1 then Some (DOCS_PAGES ! (i + 1)) else None))"

definition tocLinks :: "TocEntry list \<Rightarrow> (string \<times> string) list" where
  "tocLinks toc = map (\<lambda>entry. (''#'' @ te_id entry, te_title entry)) toc"

record navLink =
  nl_href :: string
  nl_text :: string
  nl_current :: bool

definition docsNavList :: "string option \<Rightarrow> (string \<times> navLink list) list" where
  "docsNavList pathname =
     map (\<lambda>section. (dn_title section,
         map (\<lambda>item. \<lparr>nl_href = di_href item, nl_text = di_title item,
             nl_current = isActiveDocsLink (withDefault pathname []) (di_href item)\<rparr>) (dn_items section))) DOCS_NAV"

definition docsCurrent :: "string option \<Rightarrow> DocsNavItem option" where
  "docsCurrent pathname =
     find (\<lambda>item. isActiveDocsLink (withDefault pathname []) (di_href item)) (concat (map dn_items DOCS_NAV))"

text \<open>Following a link of the sheet closes it.\<close>

datatype sheetEvent = OpenChange bool | FollowLink

fun sheetStep :: "sheetEvent \<Rightarrow> bool \<Rightarrow> bool" where
  "sheetStep (OpenChange opened) shown = opened"
| "sheetStep FollowLink shown = False"

text \<open>\<open>text.split(/(`[^`]+`)/g)\<close>: the plain texts and, between them, the spans in backticks.\<close>

definition BACKTICK :: char where
  "BACKTICK = CHR 0x60"

function splitCode :: "string \<Rightarrow> string \<Rightarrow> string list" where
  "splitCode plain [] = [plain]"
| "splitCode plain (c # s) =
     (let body = takeWhile (\<lambda>d. d \<noteq> BACKTICK) s; rest = dropWhile (\<lambda>d. d \<noteq> BACKTICK) s in
      if c = BACKTICK \<and> body \<noteq> [] \<and> rest \<noteq> []
      then plain # ([c] @ body @ [c]) # splitCode [] (tl rest)
      else splitCode (plain @ [c]) s)"
  by pat_completeness auto
termination
  by (relation "measure (\<lambda>(plain, s). length s)") (auto simp: less_Suc_eq_le length_dropWhile_le le_diff_conv intro: le_SucI)

datatype inlinePart = PlainPart string | CodePart string

definition inlinePart :: "string \<Rightarrow> inlinePart" where
  "inlinePart part =
     (if part \<noteq> [] \<and> hd part = BACKTICK \<and> last part = BACKTICK then CodePart (butlast (tl part)) else PlainPart part)"

definition withInlineCode :: "string \<Rightarrow> inlinePart list" where
  "withInlineCode s = map inlinePart (splitCode [] s)"

record errorRow =
  ew_status :: int
  ew_code :: string
  ew_meaning :: "inlinePart list"
  ew_action :: "inlinePart list option"

definition errorTable :: "bool \<Rightarrow> ErrorInfo list \<Rightarrow> errorRow list" where
  "errorTable showAction errors =
     map (\<lambda>e. \<lparr>ew_status = ei_status e, ew_code = ei_code e, ew_meaning = withInlineCode (ei_meaning e),
         ew_action = (if showAction then Some (withInlineCode (ei_action e)) else None)\<rparr>) errors"

text \<open>\<open>A\<close> of \<open>prose.tsx\<close>: a link of the site, or one to elsewhere without a referrer.\<close>

datatype proseLink = SiteLink string | OutsideLink string

definition proseLink :: "string \<Rightarrow> proseLink" where
  "proseLink href = (if starts_with href ''/'' \<or> starts_with href ''#'' then SiteLink href else OutsideLink href)"

section \<open>The reference\<close>

record DocParameter =
  dp_name :: string
  dp_required :: bool
  dp_schema :: JsonSchema

record DocOperation = Operation +
  do_tags :: "string list option"
  do_summary :: string
  do_description :: "string option"
  do_parameters :: "DocParameter list option"

definition PLAYGROUND_BY_PATH :: "(string \<times> string) list" where
  "PLAYGROUND_BY_PATH = [(''/v1/geocode'', ''geocode''), (''/v1/route'', ''route'')]"

definition DOCS_BY_PATH :: "(string \<times> string) list" where
  "DOCS_BY_PATH = [(''/v1/geocode'', ''/developers/docs/geocoding''), (''/v1/route'', ''/developers/docs/routing'')]"

definition EM_DASH :: string where
  "EM_DASH = [CHR 0xE2, CHR 0x80, CHR 0x94]"

record parameterRow =
  pw_name :: string
  pw_required :: string
  pw_type :: string
  pw_constraints :: string
  pw_description :: string

definition parameterRow :: "(json \<Rightarrow> string) \<Rightarrow> components \<Rightarrow> DocParameter \<Rightarrow> parameterRow" where
  "parameterRow stringify comps p =
     (let listed = join '', '' (constraints stringify comps (dp_schema p)) in
      \<lparr>pw_name = dp_name p, pw_required = (if dp_required p then ''required'' else ''optional''),
       pw_type = describeType comps (dp_schema p), pw_constraints = (if listed \<noteq> [] then listed else EM_DASH),
       pw_description = withDefault (either (s_description (dp_schema p)) (s_description (resolve comps (dp_schema p)))) []\<rparr>)"

record referenceSection =
  rf_anchor :: string
  rf_method :: string
  rf_tags :: "string list"
  rf_title :: string
  rf_path :: string
  rf_description :: "inlinePart list option"
  rf_guide :: "string option"
  rf_parameters :: "parameterRow list"
  rf_response :: "(string option \<times> (SchemaRow \<times> inlinePart list) list) option"
  rf_errors :: "ErrorResponseInfo list"
  rf_playground :: "string option"

text \<open>\<open>flattenSchema(response)\<close> has its default depth, \<open>depth\<close>.\<close>

definition referenceSection :: "(json \<Rightarrow> string) \<Rightarrow> components \<Rightarrow> nat \<Rightarrow> DocOperation \<Rightarrow> referenceSection" where
  "referenceSection stringify comps depth operation =
     (let response = successSchema (Operation.truncate operation) in
      \<lparr>rf_anchor = oo_operationId operation, rf_method = op_method operation, rf_tags = withDefault (do_tags operation) [],
       rf_title = do_summary operation, rf_path = op_path operation,
       rf_description = (case do_description operation of Some (c # s) \<Rightarrow> Some (withInlineCode (c # s)) | _ \<Rightarrow> None),
       rf_guide = map_of DOCS_BY_PATH (op_path operation),
       rf_parameters = map (parameterRow stringify comps) (withDefault (do_parameters operation) []),
       rf_response = map_option (\<lambda>r. (map_option refTarget (s_ref r),
           map (\<lambda>row. (row, withInlineCode (sr_description row))) (flattenSchema comps r [] depth))) response,
       rf_errors = errorResponses (Operation.truncate operation),
       rf_playground = map_of PLAYGROUND_BY_PATH (op_path operation)\<rparr>)"

text \<open>The links of the side list and of the small screen: the anchor, the method and the path.\<close>

definition referenceLinks :: "Operation list \<Rightarrow> (string \<times> string \<times> string) list" where
  "referenceLinks operations = map (\<lambda>oper. (''#'' @ oo_operationId oper, op_method oper, op_path oper)) operations"

section \<open>Header, footer and account menu\<close>

datatype sessionState = NoSession | SignedInAs string string

text \<open>\<open>useSession\<close>, of the status of \<open>/api/session\<close> and its body.\<close>

definition readSession :: "int \<Rightarrow> sessionState \<Rightarrow> sessionState" where
  "readSession status body = (if \<not> (200 \<le> status \<and> status \<le> 299) then NoSession else body)"

definition headerItems :: "sessionState option \<Rightarrow> NavItem list" where
  "headerItems data = (case data of Some (SignedInAs name email) \<Rightarrow> PUBLIC_NAV @ [DASHBOARD_NAV] | _ \<Rightarrow> PUBLIC_NAV)"

definition headerLinks :: "translator \<Rightarrow> sessionState option \<Rightarrow> string \<Rightarrow> navLink list" where
  "headerLinks t data pathname =
     map (\<lambda>item. \<lparr>nl_href = ni_href item, nl_text = t (ni_labelKey item) [], nl_current = ni_match item pathname\<rparr>) (headerItems data)"

definition LOCALE_COOKIE :: string where
  "LOCALE_COOKIE = ''locale''"

definition LOCALE_COOKIE_MAX_AGE :: nat where
  "LOCALE_COOKIE_MAX_AGE = 60 * 60 * 24 * 365"

definition otherLocale :: "string \<Rightarrow> string" where
  "otherLocale locale = (if locale = ''en'' then ''mn'' else ''en'')"

definition localeCookie :: "string \<Rightarrow> string" where
  "localeCookie next = LOCALE_COOKIE @ ''='' @ next @ '';path=/;max-age='' @ show_nat LOCALE_COOKIE_MAX_AGE @ '';samesite=lax''"

text \<open>The right side of the header.\<close>

datatype authNav = AuthLoading | SignInLinks string string | AccountMenu string string "(string \<times> string) list"

definition authNav :: "translator \<Rightarrow> bool \<Rightarrow> sessionState option \<Rightarrow> authNav" where
  "authNav t isPending data =
     (if isPending then AuthLoading
      else case data of
             Some (SignedInAs name email) \<Rightarrow>
               AccountMenu (if name \<noteq> [] then name else t ''authNav.developer'' []) email
                 [(''/dashboard'', t ''authNav.dashboard'' []), (''/dashboard/settings'', t ''authNav.account'' [])]
           | _ \<Rightarrow> SignInLinks ''/login'' ''/register'')"

text \<open>Signing out of a public page: the calls in their order; a call that fails ends them.\<close>

datatype signOutStep = PostSignOut | ForgetSession | GoTo string | RefreshPage

definition signOutSite :: "bool \<Rightarrow> bool \<Rightarrow> signOutStep list" where
  "signOutSite posted forgotten =
     PostSignOut # (if posted then ForgetSession # (if forgotten then [GoTo ''/'', RefreshPage] else []) else [])"

definition FOOTER_COLUMNS :: "(string \<times> (string \<times> string) list) list" where
  "FOOTER_COLUMNS =
     [(''APIs'', [(''/developers/docs/geocoding'', ''Geocoding''), (''/developers/docs/routing'', ''Routing''), (''/'', ''Map'')]),
      (''Developers'', [(''/developers/docs/getting-started'', ''Getting started''), (''/developers/docs'', ''Documentation''),
        (''/developers/api-reference'', ''API reference''), (''/developers/docs/examples'', ''Code examples''),
        (''/pricing'', ''Pricing'')]),
      (''Reference'', [(''/developers/docs/authentication'', ''Authentication''), (''/developers/docs/errors'', ''Errors''),
        (''/developers/docs/rate-limits'', ''Rate limits''), (''/developers/docs/versioning'', ''Versioning'')]),
      (''Account'', [(''/register'', ''Get an API key''), (''/login'', ''Sign in''), (''/dashboard'', ''Dashboard''),
        (''/dashboard/usage'', ''Usage'')])]"

text \<open>\<open>convex-client-provider.tsx\<close>: what is left of the browser's storage once the credentials of old releases are removed.\<close>

definition dropStaleCredentials :: "(string \<times> string) list \<Rightarrow> (string \<times> string) list" where
  "dropStaleCredentials storage = filter (\<lambda>(key, v). \<not> starts_with key ''__convexAuth'') storage"

section \<open>The copy button\<close>

text \<open>\<open>Written\<close> is the end of \<open>writeText\<close>; a timer of 1500 ms then ends the mark.\<close>

datatype copyEvent = Written bool | MarkEnds

fun copyStep :: "copyEvent \<Rightarrow> bool \<Rightarrow> bool" where
  "copyStep (Written succeeded) copied = succeeded"
| "copyStep MarkEnds copied = False"

definition copyLabel :: "string \<Rightarrow> bool \<Rightarrow> string" where
  "copyLabel label copied = (if copied then ''Copied'' else label)"

section \<open>The messages of a field\<close>

text \<open>\<open>FieldError\<close>: the values of \<open>new Map(errors.map((e) => [e?.message, e]))\<close>, that is one error per message in the order in
  which the messages first appear; an error that is missing has no message.\<close>

definition fieldMessages :: "string option option list \<Rightarrow> string option list" where
  "fieldMessages errors = rev (remdups (rev (map (\<lambda>e. case e of None \<Rightarrow> None | Some m \<Rightarrow> m) errors)))"

datatype fieldError = NoMessage | OneMessage string | MessageList "string list"

definition fieldError :: "string option option list \<Rightarrow> fieldError" where
  "fieldError errors =
     (let shown = concat (map (\<lambda>m. case m of Some (c # s) \<Rightarrow> [c # s] | _ \<Rightarrow> []) (fieldMessages errors)) in
      if errors = [] then NoMessage
      else if length (fieldMessages errors) = 1
      then (case shown of m # ms \<Rightarrow> OneMessage m | [] \<Rightarrow> NoMessage)
      else MessageList shown)"

section \<open>The map of the developers' page\<close>

record heroAnswer =
  hw_results :: "GeocodeResult list"
  hw_status :: string
  hw_body :: json

text \<open>The query's function: a failure of the API is an answer without results, any other is thrown. \<open>body\<close> is the answer as it
  came.\<close>

definition heroQuery :: "failure + GeocodeResult list \<times> json \<Rightarrow> string + heroAnswer" where
  "heroQuery outcome =
     (case outcome of
        Inr (results, body) \<Rightarrow> Inr \<lparr>hw_results = results, hw_status = ''200 OK'', hw_body = body\<rparr>
      | Inl (Geo e) \<Rightarrow> Inr \<lparr>hw_results = [], hw_status = show_int (ge_status e) @ '' '' @ messageText (ge_code e),
          hw_body = JObj [(''error'', JObj [(''code'', ge_code e), (''message'', JStr (messageText (ge_message e)))])]\<rparr>
      | Inl (Rethrown m) \<Rightarrow> Inl m)"

record hero =
  he_selected :: "GeocodeResult option"
  he_camera :: "CameraRequest option"
  he_key :: nat

definition chooseHero :: "GeocodeResult \<Rightarrow> hero \<Rightarrow> hero" where
  "chooseHero r h = h\<lparr>he_selected := Some r, he_key := he_key h + 1,
     he_camera := Some (he_key h + 1, CenterOn (gr_longitude r, gr_latitude r) (Some 15))\<rparr>"

definition heroMarkers :: "heroAnswer option \<Rightarrow> hero \<Rightarrow> MapMarker list" where
  "heroMarkers data h =
     map (\<lambda>r. \<lparr>mk_id = gr_id r,
         mk_kind = (if map_option gr_id (he_selected h) = Some (gr_id r) then PlaceMarker else PinMarker),
         mk_lngLat = (gr_longitude r, gr_latitude r), mk_label = gr_name r\<rparr>)
       (case data of None \<Rightarrow> [] | Some d \<Rightarrow> hw_results d)"

definition heroRequest :: "string \<Rightarrow> string" where
  "heroRequest q = ''GET /demo/geocode?q='' @ encodeURIComponent q @ ''&limit=5''"

definition heroOk :: "heroAnswer option \<Rightarrow> bool" where
  "heroOk data = (case data of None \<Rightarrow> False | Some d \<Rightarrow> starts_with (hw_status d) ''200'')"

definition heroNothing :: "string \<Rightarrow> bool \<Rightarrow> heroAnswer option \<Rightarrow> bool" where
  "heroNothing q isSuccess data = (2 \<le> length q \<and> isSuccess \<and> (case data of None \<Rightarrow> True | Some d \<Rightarrow> hw_results d = []))"

end
