(* ===== verification/SiteProps.thy ===== *)
theory SiteProps
  imports Site Billing Gateway
begin

text \<open>
  The public pages tell the truth: the price list shows the figures the backend enforces and its buttons open the plan they
  name, every link of the navigation leads to a page of the site, the reader can go from page to page of the documentation
  and back, and texts are shown whole.
\<close>

section \<open>Prices\<close>

text \<open>The number a reader takes from a text: its digits, without the currency and the separators.\<close>

definition figure :: "string \<Rightarrow> int" where
  "figure s = fold (\<lambda>c n. 10 * n + (int (code c) - 48)) (filter is_digit s) 0"

fun cardOf :: "PaidPlan option \<Rightarrow> pricingPlan" where
  "cardOf None = PLANS ! 0"
| "cardOf (Some Starter) = PLANS ! 1"
| "cardOf (Some Essentials) = PLANS ! 2"
| "cardOf (Some Pro) = PLANS ! 3"

lemma figures:
  "map (\<lambda>c. map_option figure (pl_price c)) PLANS = [Some 0, Some 1000, Some 1000, Some 1000, None]"
  "map (\<lambda>c. map_option figure (pl_requests c)) PLANS = [Some 500, Some 10000, Some 100000, Some 500000, None]"
  "map (\<lambda>c. map_option figure (pl_rate c)) PLANS = [Some 30, Some 100, Some 500, Some 2000, None]"
  by code_simp+

lemma plans_length: "length PLANS = 5"
  by (simp add: PLANS_def)

lemma cardOf_in: "cardOf plan \<in> set PLANS"
  by (cases plan rule: cardOf.cases) (simp_all add: plans_length)

lemma figures_at:
  assumes "k < 5"
  shows "map_option figure (pl_price (PLANS ! k)) = [Some 0, Some 1000, Some 1000, Some 1000, None] ! k"
    and "map_option figure (pl_requests (PLANS ! k)) = [Some 500, Some 10000, Some 100000, Some 500000, None] ! k"
    and "map_option figure (pl_rate (PLANS ! k)) = [Some 30, Some 100, Some 500, Some 2000, None] ! k"
  unfolding figures [symmetric] using assms by (simp_all add: plans_length)

lemma free_figures:
  "pl_id (cardOf None) = ''free''" "map_option figure (pl_price (cardOf None)) = Some 0"
  "map_option figure (pl_requests (cardOf None)) = Some FREE_TOTAL_REQUESTS"
  "map_option figure (pl_rate (cardOf None)) = planRateOf False None"
  using figures_at [of 0]
  by (simp_all add: FREE_TOTAL_REQUESTS_def planRateOf_def FREE_RATE_LIMIT_PER_MINUTE_def) (simp add: PLANS_def)

lemma card_figures:
  "pl_id (cardOf (Some p)) = planName p"
  "map_option figure (pl_price (cardOf (Some p))) = Some PLAN_PRICE_MNT"
  "map_option figure (pl_requests (cardOf (Some p))) = Some (monthlyRequests p)"
  "map_option figure (pl_rate (cardOf (Some p))) = planRateOf False (Some p)"
proof -
  show "pl_id (cardOf (Some p)) = planName p" by (cases p) (simp_all add: PLANS_def)
  show "map_option figure (pl_price (cardOf (Some p))) = Some PLAN_PRICE_MNT"
    "map_option figure (pl_requests (cardOf (Some p))) = Some (monthlyRequests p)"
    "map_option figure (pl_rate (cardOf (Some p))) = planRateOf False (Some p)"
    using figures_at [of 1] figures_at [of 2] figures_at [of 3]
    by (cases p; simp add: PLAN_PRICE_MNT_def planRateOf_def)+
qed

lemma card_href: "pl_id c \<noteq> ''enterprise'' \<Longrightarrow> px_href (pricingCard t c) = ''/dashboard/billing?plan='' @ pl_id c"
  by (simp add: pricingCard_def Let_def)

lemma paid_names: "planName p \<noteq> ''enterprise''" "selectedPlan (Some (planName p)) = Some (planName p)"
  by (cases p; simp add: selectedPlan_def)+


section \<open>Links\<close>

text \<open>The addresses of the pages under \<open>app\<close> that need no parameter.\<close>

definition SITE_ROUTES :: "string list" where
  "SITE_ROUTES = [''/'', ''/pricing'', ''/developers'', ''/developers/api-reference'', ''/developers/docs'',
     ''/developers/docs/getting-started'', ''/developers/docs/authentication'', ''/developers/docs/geocoding'',
     ''/developers/docs/routing'', ''/developers/docs/errors'', ''/developers/docs/rate-limits'',
     ''/developers/docs/versioning'', ''/developers/docs/examples'', ''/login'', ''/register'', ''/forgot-password'',
     ''/reset-password'', ''/dashboard'', ''/dashboard/api-keys'', ''/dashboard/usage'', ''/dashboard/billing'',
     ''/dashboard/settings'']"

lemma links_resolve:
  "set (concat (map (map fst \<circ> snd) FOOTER_COLUMNS)) \<subseteq> set SITE_ROUTES"
  "set (map di_href (concat (map dn_items DOCS_NAV))) \<subseteq> set SITE_ROUTES"
  "set (map cn_href (CONSOLE_NAV @ SETTINGS_NAV)) \<subseteq> set SITE_ROUTES"
  "set (map ni_href (headerItems data)) \<subseteq> set SITE_ROUTES"
  "set (map snd DOCS_BY_PATH) \<subseteq> set (map di_href DOCS_PAGES)"
  by code_simp (code_simp | simp add: headerItems_def PUBLIC_NAV_def DASHBOARD_NAV_def SITE_ROUTES_def
      split: option.split sessionState.split)+

section \<open>Reading on\<close>

lemma pager_facts:
  "list_all (\<lambda>i. snd (docsPager (di_href (DOCS_PAGES ! i))) = Some (DOCS_PAGES ! (i + 1))
     \<and> fst (docsPager (di_href (DOCS_PAGES ! (i + 1)))) = Some (DOCS_PAGES ! i)) [0..<length DOCS_PAGES - 1]"
  by code_simp

text \<open>From any page of the documentation but the last one a link leads to the next, which links back.\<close>

lemma docs_pager_chain:
  assumes "i + 1 < length DOCS_PAGES"
  shows "snd (docsPager (di_href (DOCS_PAGES ! i))) = Some (DOCS_PAGES ! (i + 1))"
    and "fst (docsPager (di_href (DOCS_PAGES ! (i + 1)))) = Some (DOCS_PAGES ! i)"
proof -
  have "i \<in> set [0..<length DOCS_PAGES - 1]" using assms by simp
  with pager_facts show "snd (docsPager (di_href (DOCS_PAGES ! i))) = Some (DOCS_PAGES ! (i + 1))"
    "fst (docsPager (di_href (DOCS_PAGES ! (i + 1)))) = Some (DOCS_PAGES ! i)"
    unfolding list_all_iff by blast+
qed

section \<open>Texts\<close>

lemma splitCode_concat: "concat (splitCode plain s) = plain @ s"
proof (induction plain s rule: splitCode.induct)
  case (2 plain c s)
  let ?body = "takeWhile (\<lambda>d. d \<noteq> BACKTICK) s" and ?rest = "dropWhile (\<lambda>d. d \<noteq> BACKTICK) s"
  show ?case
  proof (cases "c = BACKTICK \<and> ?body \<noteq> [] \<and> ?rest \<noteq> []")
    case True
    then have "hd ?rest = c" using hd_dropWhile [of "\<lambda>d. d \<noteq> BACKTICK" s] by simp
    with True have "?body @ c # tl ?rest = s" using takeWhile_dropWhile_id [of "\<lambda>d. d \<noteq> BACKTICK" s] by (cases ?rest) auto
    moreover have "concat (splitCode plain (c # s)) = plan" if "plan = plain @ c # ?body @ c # tl ?rest" for plan
      using True 2(1) [OF refl refl True] that by (simp add: Let_def)
    ultimately show ?thesis by simp
  next
    case False
    then have "splitCode plain (c # s) = splitCode (plain @ [c]) s"
      by (subst splitCode.simps(2)) (simp only: Let_def if_False)
    with 2(2) [OF refl refl False] show ?thesis by simp
  qed
qed simp

fun partText :: "inlinePart \<Rightarrow> string" where
  "partText (PlainPart s) = s"
| "partText (CodePart s) = [BACKTICK] @ s @ [BACKTICK]"

lemma partText_inlinePart: "part \<noteq> [BACKTICK] \<Longrightarrow> partText (inlinePart part) = part"
proof (cases "part \<noteq> [] \<and> hd part = BACKTICK \<and> last part = BACKTICK")
  case True
  moreover assume "part \<noteq> [BACKTICK]"
  ultimately obtain s where s: "part = BACKTICK # s" "s \<noteq> []" by (cases part) auto
  then have "s = butlast s @ [BACKTICK]" using True by (metis append_butlast_last_id last_ConsR)
  with s True show ?thesis by (simp add: inlinePart_def)
qed (auto simp: inlinePart_def)

text \<open>A text of the catalogue is shown whole: with the backticks put back around the code, its parts are the text, unless a part
  is a single backtick.\<close>

lemma inline_code_whole:
  assumes "[BACKTICK] \<notin> set (splitCode [] s)"
  shows "concat (map partText (withInlineCode s)) = s"
proof -
  have "map partText (withInlineCode s) = splitCode [] s"
    unfolding withInlineCode_def map_map using assms by (intro map_idI) (auto intro: partText_inlinePart)
  then show ?thesis using splitCode_concat [of "[]" s] by simp
qed

text \<open>A field shows each of its messages once and none of them empty.\<close>

lemma field_messages_once:
  "distinct (fieldMessages errors)"
  "Some m \<in> set (fieldMessages errors) \<longleftrightarrow> Some (Some m) \<in> set errors"
  by (force simp: fieldMessages_def image_iff split: option.split_asm option.split)+

section \<open>The header and the map\<close>

lemma hero_markers_exact:
  "map mk_id (heroMarkers (Some d) (chooseHero r h)) = map gr_id (hw_results d)"
  "m \<in> set (heroMarkers (Some d) (chooseHero r h)) \<Longrightarrow> mk_kind m = PlaceMarker \<longleftrightarrow> mk_id m = gr_id r"
  by (auto simp: heroMarkers_def chooseHero_def split: if_splits)

lemma locale_switch: "getLocale (Some (otherLocale l)) = otherLocale l \<and> otherLocale l \<noteq> l"
  by (simp add: otherLocale_def getLocale_def isLocale_def LOCALES_def)

end
