(* ===== verification/MapPanels.thy ===== *)
theory MapPanels
  imports SearchBox Dashboard
begin

text \<open>
  What the public map shows around the map itself: the search box as a combobox with its list (\<open>search-box.tsx\<close>), the route
  planner (\<open>route-panel.tsx\<close>), and the arrangement of both on a wide and on a narrow screen with what is handed to the map
  view (\<open>map-app.tsx\<close>). \<open>t\<close> is the translator; ids are those of the elements, without the prefix of \<open>useId\<close>.
\<close>

section \<open>The search box\<close>

datatype inputEnd = Spinner | ClearButton string | NothingAtEnd

record optionView =
  ov_id :: string
  ov_selected :: bool
  ov_name :: string
  ov_address :: "string option"

record comboView =
  cb_label :: string
  cb_expanded :: bool
  cb_activeDescendant :: "string option"
  cb_value :: string
  cb_atEnd :: inputEnd
  cb_listLabel :: string
  cb_options :: "optionView list"
  cb_status :: "string option"
  cb_announced :: string

definition optionId :: "nat \<Rightarrow> string" where
  "optionId i = ''option-'' @ show_nat i"

definition optionViews :: "GeocodeResult list \<Rightarrow> searchBox \<Rightarrow> optionView list" where
  "optionViews rs b =
     map (\<lambda>(i, r). \<lparr>ov_id = optionId i, ov_selected = (int i = sb_active b), ov_name = gr_name r,
         ov_address = (case gr_address r of Some (c # s) \<Rightarrow> Some (c # s) | _ \<Rightarrow> None)\<rparr>) (enumerate 0 rs)"

definition comboView :: "string \<Rightarrow> string \<Rightarrow> bool \<Rightarrow> GeocodeResult list \<Rightarrow> searchQuery \<Rightarrow> searchBox \<Rightarrow> comboView" where
  "comboView label text loading rs q b =
     \<lparr>cb_label = label, cb_expanded = showList text b,
      cb_activeDescendant = (if showList text b \<and> 0 \<le> sb_active b then Some (optionId (nat (sb_active b))) else None),
      cb_value = text,
      cb_atEnd = (if loading then Spinner else if text \<noteq> [] then ClearButton (''Clear '' @ toLowerCase label) else NothingAtEnd),
      cb_listLabel = label @ '' results'', cb_options = optionViews rs b,
      cb_status = (case searchStatus text loading rs q b of Some (c # s) \<Rightarrow> Some (c # s) | _ \<Rightarrow> None),
      cb_announced = (if showList text b \<and> \<not> loading \<and> sq_success q then show_nat (length rs) @ '' results'' else [])\<rparr>"

text \<open>The pointer and the focus: a pressed option is chosen before the input loses its focus, since pressing does not move it.\<close>

definition focusBox :: "searchBox \<Rightarrow> searchBox" where
  "focusBox b = b\<lparr>sb_open := True\<rparr>"

definition blurBox :: "searchBox \<Rightarrow> searchBox" where
  "blurBox b = b\<lparr>sb_open := False\<rparr>"

definition hoverOption :: "nat \<Rightarrow> searchBox \<Rightarrow> searchBox" where
  "hoverOption i b = b\<lparr>sb_active := int i\<rparr>"

definition clickOption :: "GeocodeResult list \<Rightarrow> nat \<Rightarrow> searchBox \<Rightarrow> searchBox \<times> GeocodeResult option" where
  "clickOption rs i b = (if i < length rs then (closeList b, Some (rs ! i)) else (b, None))"

section \<open>The route planner\<close>

definition MODES :: "(TravelMode \<times> string) list" where
  "MODES = [(Driving, ''map.driving''), (Walking, ''map.walking'')]"

record plannerView =
  rv_fromText :: string
  rv_toText :: string
  rv_modes :: "(string \<times> bool) list"
  rv_locateDisabled :: bool
  rv_canCalculate :: bool
  rv_calculating :: bool
  rv_canClear :: bool
  rv_alert :: "string option"
  rv_result :: "(string \<times> string \<times> string) option"

definition routeSummaryOf :: "RouteResponse \<Rightarrow> string \<times> string \<times> string" where
  "routeSummaryOf r = (formatDuration (rr_duration r), formatDistance (rr_distance r),
     (if rr_mode r = Walking then ''Walking'' else ''Driving'') @ '' '' @ [CHR 0xC2, CHR 0xB7] @ '' estimated travel time'')"

definition plannerView :: "(string \<Rightarrow> string) \<Rightarrow> 'm mutationLib \<Rightarrow> 'm page \<Rightarrow> plannerView" where
  "plannerView t M p =
     \<lparr>rv_fromText = ep_text (mp_from p), rv_toText = ep_text (mp_to p),
      rv_modes = map (\<lambda>(mode, label). (t label, mp_mode p = mode)) MODES,
      rv_locateDisabled = mp_locating p, rv_canCalculate = canCalculate M p,
      rv_calculating = ml_pending M (mp_mutation p),
      rv_canClear = (shownRoute M p \<noteq> None \<or> ep_text (mp_from p) \<noteq> [] \<or> ep_text (mp_to p) \<noteq> []),
      rv_alert = (if hasError p then mp_routeError p else None),
      rv_result = (if hasError p then None else map_option routeSummaryOf (shownRoute M p))\<rparr>"

text \<open>The icon of the swap button turns half around each time.\<close>

definition swapTurn :: "nat \<Rightarrow> string" where
  "swapTurn swaps = show_nat (swaps * 180) @ ''deg''"

section \<open>The page\<close>

record mapProps =
  mv_markers :: "MapMarker list"
  mv_route :: "lngLat list option"
  mv_camera :: "CameraRequest option"
  mv_popup :: "MapPopup option"
  mv_padding :: padding
  mv_bottomInset :: int

definition mapProps :: "'m mutationLib \<Rightarrow> bool \<Rightarrow> 'm page \<Rightarrow> mapProps" where
  "mapProps M isDesktop p =
     \<lparr>mv_markers = markers p, mv_route = map_option rr_coordinates (shownRoute M p), mv_camera = mp_camera p,
      mv_popup = mp_popup p, mv_padding = mapPadding isDesktop p,
      mv_bottomInset = (if isDesktop then 0 else mp_sheetHeight p)\<rparr>"

text \<open>Beside the map: on a wide screen the search and either the planner or the button that opens it; on a narrow one a
  sheet with two tabs.\<close>

datatype sidePart = WideSearch | PlannerSection | DirectionsButton string | Sheet bool string "(mobileTab \<times> bool) list" mobileTab

record mapLayout =
  mo_alert :: "string option"
  mo_parts :: "sidePart list"

definition mapLayout :: "(string \<Rightarrow> string) \<Rightarrow> bool \<Rightarrow> 'm page \<Rightarrow> mapLayout" where
  "mapLayout t isDesktop p =
     \<lparr>mo_alert = (if mp_styleError p then Some (t ''map.basemapError'') else None),
      mo_parts =
        (if isDesktop
         then [WideSearch, if mp_directionsOpen p then PlannerSection else DirectionsButton (t ''map.directions'')]
         else [Sheet (mp_sheetExpanded p) (if mp_sheetExpanded p then t ''map.collapse'' else t ''map.expand'')
                 (map (\<lambda>tab. (tab, mp_mobileTab p = tab)) [SearchTab, DirectionsTab]) (mp_mobileTab p)])\<rparr>"

section \<open>What the views promise\<close>

text \<open>The option that a screen reader is told about is the one highlighted, and it is in the list, as long as the index is
  on a result.\<close>

lemma active_descendant_shown:
  assumes "indexOk rs b" and "cb_activeDescendant (comboView label text loading rs q b) = Some d"
  shows "\<exists>v \<in> set (cb_options (comboView label text loading rs q b)). ov_id v = d \<and> ov_selected v"
proof -
  have i: "0 \<le> sb_active b" "d = optionId (nat (sb_active b))"
    using assms(2) by (auto simp: comboView_def split: if_splits)
  with assms(1) have "nat (sb_active b) < length rs" by (auto simp: indexOk_def)
  then have "optionViews rs b ! nat (sb_active b) \<in> set (optionViews rs b)" by (simp add: optionViews_def)
  moreover have "ov_id (optionViews rs b ! nat (sb_active b)) = d \<and> ov_selected (optionViews rs b ! nat (sb_active b))"
    using \<open>nat (sb_active b) < length rs\<close> i by (simp add: optionViews_def nth_enumerate_eq)
  ultimately show ?thesis by (auto simp: comboView_def)
qed

text \<open>The index is not reset when the answer of a query arrives: with fewer results than the ones it was moved over, it is on none
  of them, the id announced names no option and Enter does nothing.\<close>

lemma dangling_option:
  "let b = downs 2 ''ban'' twoResults (onChange searchBox_init); rs = [hd twoResults];
       v = comboView ''Search'' ''ban'' False rs \<lparr>sq_fetching = False, sq_data = Some rs, sq_error = None, sq_success = True\<rparr> b in
   cb_activeDescendant v = Some ''option-1'' \<and> map ov_id (cb_options v) = [''option-0'']
     \<and> snd (onKeyDown ''ban'' rs Enter b) = None"
  by code_simp

text \<open>The planner shows a route or an error, never both, and offers to clear whatever it shows of a route or its ends.\<close>

lemma planner_consistent:
  "rv_alert (plannerView t M p) = None \<or> rv_result (plannerView t M p) = None"
  "rv_result (plannerView t M p) \<noteq> None \<Longrightarrow> rv_canClear (plannerView t M p)"
  "rv_canCalculate (plannerView t M p) \<Longrightarrow> \<not> rv_calculating (plannerView t M p)"
  by (auto simp: plannerView_def canCalculate_def split: if_splits)

lemma one_mode_chosen: "\<exists>!m. m \<in> set MODES \<and> mp_mode p = fst m"
  by (cases "mp_mode p") (auto simp: MODES_def)

end
