(* ===== verification/ConsoleViews.thy ===== *)
theory ConsoleViews
  imports Console KeysPage BillingProps Chart Site Users
begin

text \<open>
  What the pages of the developer console show of the backend's answers, as records of texts, links and disabled buttons:
  the frame with its navigation and the account menu (\<open>dashboard-shell.tsx\<close>), billing with the payment dialog
  (\<open>billing-view.tsx\<close>, \<open>payment-checkout-dialog.tsx\<close>), the keys page with its dialogs (\<open>api-keys-view.tsx\<close>,
  \<open>create-key-dialog.tsx\<close>, \<open>rename-key-dialog.tsx\<close>, \<open>confirm-dialog.tsx\<close>, \<open>one-time-secret-dialog.tsx\<close>), settings
  (\<open>settings-view.tsx\<close>), usage (\<open>usage-view.tsx\<close>) and the overview (\<open>overview-view.tsx\<close>). \<open>t\<close> is the translator, \<open>number\<close> and \<open>date\<close>
  are the formats of \<open>Intl\<close>.
\<close>

section \<open>The frame\<close>

definition navLinks :: "translator \<Rightarrow> string \<Rightarrow> ConsoleNavItem list \<Rightarrow> navLink list" where
  "navLinks t pathname items =
     map (\<lambda>item. \<lparr>nl_href = cn_href item, nl_text = t (cn_labelKey item) [], nl_current = isActive item pathname\<rparr>) items"

definition sidebar :: "translator \<Rightarrow> string \<Rightarrow> navLink list \<times> string \<times> navLink list" where
  "sidebar t pathname = (navLinks t pathname CONSOLE_NAV, t ''dashboard.nav.settings'' [], navLinks t pathname SETTINGS_NAV)"

record userMenu =
  um_initials :: string
  um_buttonText :: string
  um_name :: string
  um_email :: string
  um_links :: "(string \<times> string) list"

definition userMenu :: "(string \<Rightarrow> string) \<Rightarrow> translator \<Rightarrow> viewerInfo option \<Rightarrow> userMenu" where
  "userMenu toUpper t v =
     (let name = (case v of None \<Rightarrow> [] | Some i \<Rightarrow> vi_name i); email = (case v of None \<Rightarrow> [] | Some i \<Rightarrow> vi_email i) in
      \<lparr>um_initials = (if v = None then [] else initials toUpper name email),
       um_buttonText = (if name \<noteq> [] then name else t ''authNav.account'' []),
       um_name = (if name \<noteq> [] then name else ''Developer''), um_email = email,
       um_links = [(''/dashboard/settings'', t ''authNav.account'' []), (''/developers/docs'', t ''authNav.documentation'' [])]\<rparr>)"

text \<open>Signing out of the console: what happens when \<open>signOut\<close> and then the refresh of the session succeed or fail.\<close>

datatype consoleStep = CallSignOut | InvalidateSession | PushTo string | RefreshRouter | SetPending bool

definition signOutMenu :: "bool \<Rightarrow> bool \<Rightarrow> consoleStep list" where
  "signOutMenu signedOut invalidated =
     CallSignOut # (if signedOut then InvalidateSession # (if invalidated then [PushTo ''/''] else []) else [])"

definition signOutSettings :: "bool \<Rightarrow> bool \<Rightarrow> consoleStep list" where
  "signOutSettings signedOut invalidated =
     [SetPending True, CallSignOut]
     @ (if signedOut then InvalidateSession # (if invalidated then [PushTo ''/'', RefreshRouter] else []) else [])
     @ [SetPending False]"

section \<open>Billing\<close>

definition dateLocale :: "string \<Rightarrow> string" where
  "dateLocale locale = (if locale = ''mn'' then ''mn-MN'' else ''en-US'')"

definition planText :: "translator \<Rightarrow> string \<Rightarrow> string \<Rightarrow> string" where
  "planText t plan what = t (''pricing.plans.'' @ plan @ ''.'' @ what) []"

definition currentPlanText :: "translator \<Rightarrow> (int \<Rightarrow> string) \<Rightarrow> (int \<Rightarrow> string) \<Rightarrow> billing option \<Rightarrow> string" where
  "currentPlanText t number date b =
     (case b of
        None \<Rightarrow> t ''common.loading'' []
      | Some i \<Rightarrow>
          (case b_plan i of
             Some plan \<Rightarrow> t ''billing.activeUntil'' [(''plan'', planText t (planName plan) ''name''),
               (''date'', date (the (b_planExpiresAt i)))]
           | None \<Rightarrow>
               if b_activated i
               then t ''billing.freeActive'' [(''remaining'', number (b_remaining i)), (''total'', number (b_total i))]
               else t ''billing.freePlan'' []))"

record planCard =
  pq_selected :: bool
  pq_name :: string
  pq_description :: string
  pq_price :: string
  pq_requests :: string
  pq_rate :: string
  pq_disabled :: bool
  pq_button :: string

definition freeCard :: "translator \<Rightarrow> string option \<Rightarrow> billing option \<Rightarrow> billingView \<Rightarrow> planCard" where
  "freeCard t selected b v =
     (let activated = (case b of None \<Rightarrow> False | Some i \<Rightarrow> b_activated i) in
      \<lparr>pq_selected = (selected = Some ''free''), pq_name = planText t ''free'' ''name'',
       pq_description = planText t ''free'' ''description'', pq_price = TUGRIK @ ''0'',
       pq_requests = t ''pricing.freeRequests'' [(''count'', ''500'')], pq_rate = t ''pricing.freeRateLimit'' [(''count'', ''30'')],
       pq_disabled = (b = None \<or> bv_activatingFree v \<or> activated),
       pq_button = (if bv_activatingFree v then t ''common.loading'' []
         else if activated then t ''billing.freeActivated'' [] else t ''billing.activateFree'' [])\<rparr>)"

definition planCard :: "translator \<Rightarrow> (int \<Rightarrow> string) \<Rightarrow> string option \<Rightarrow> billing option \<Rightarrow> billingView \<Rightarrow> PaidPlan \<Rightarrow> planCard" where
  "planCard t number selected b v plan =
     \<lparr>pq_selected = (selected = Some (planName plan)), pq_name = planText t (planName plan) ''name'',
      pq_description = planText t (planName plan) ''description'',
      pq_price = TUGRIK @ (case b of None \<Rightarrow> ''1,000'' | Some i \<Rightarrow> number (b_priceMnt i)),
      pq_requests = t ''pricing.requests'' [(''count'', case b of None \<Rightarrow> [] | Some i \<Rightarrow> number (monthlyRequests plan))],
      pq_rate = t ''pricing.rateLimit'' [(''count'', case b of None \<Rightarrow> [] | Some i \<Rightarrow> number (requestsPerMinute plan))],
      pq_disabled = (\<not> canBuy (b \<noteq> None) v),
      pq_button = (if bv_starting v = Some plan then t ''billing.opening'' [] else t ''billing.payWithQpay'' [])\<rparr>"

datatype paymentHistory = PaidList "(nat \<times> string \<times> string) list" | HistoryText string

definition paymentHistory :: "translator \<Rightarrow> (int \<Rightarrow> string) \<Rightarrow> billing option \<Rightarrow> paymentHistory" where
  "paymentHistory t date b =
     (case b of
        None \<Rightarrow> HistoryText (t ''common.loading'' [])
      | Some i \<Rightarrow>
          if b_payments i = [] then HistoryText (t ''billing.noPayments'' [])
          else PaidList (map (\<lambda>p. (ps_id p, planText t (planName (ps_plan p)) ''name'' @ '' '' @ [CHR 0xC2, CHR 0xB7] @ '' ''
              @ date (case ps_paidAt p of Some at_ \<Rightarrow> at_ | None \<Rightarrow> ps_createdAt p), t ''billing.status.succeeded'' []))
            (b_payments i)))"

text \<open>The payment dialog: its title and description, and what is below them.\<close>

record paymentDialog =
  pt_open :: bool
  pt_title :: string
  pt_description :: string
  pt_body :: dialogBody
  pt_planName :: string
  pt_price :: string
  pt_qr :: "(string + string) option"
  pt_qrOnWideOnly :: bool
  pt_banks :: "(string \<times> string \<times> string option) list"
  pt_nothing :: bool

definition paymentDialog ::
  "translator \<Rightarrow> (int \<Rightarrow> string) \<Rightarrow> (string \<Rightarrow> string option) \<Rightarrow> int \<Rightarrow> dialogCheckout option \<Rightarrow> paymentStatus option \<Rightarrow> paymentDialog" where
  "paymentDialog t number protocol priceMnt checkout status =
     (let body = dialogBody protocol checkout status;
          plan = (case checkout of None \<Rightarrow> [] | Some c \<Rightarrow> planText t (planName (dc_plan c)) ''name'');
          pay = readPaymentAction protocol (case checkout of None \<Rightarrow> None | Some c \<Rightarrow> dc_nextAction c);
          shows = (case body of Instructions a \<Rightarrow> True | _ \<Rightarrow> False) in
      \<lparr>pt_open = (checkout \<noteq> None),
       pt_title = (if body = Completed then t ''billing.paymentComplete'' [] else t ''billing.dialogTitle'' []),
       pt_description = (case body of
           Completed \<Rightarrow> t ''billing.paymentCompleteDescription'' []
         | FailedPayment \<Rightarrow> t ''billing.paymentFailed'' []
         | Instructions a \<Rightarrow> t ''billing.dialogDescription'' [(''plan'', plan)]),
       pt_body = body, pt_planName = plan, pt_price = TUGRIK @ number priceMnt,
       pt_qr = (if \<not> shows \<or> \<not> showsQr pay then None
         else case ac_qrImage pay of Some src \<Rightarrow> Some (Inl src) | None \<Rightarrow> map_option Inr (ac_qrText pay)),
       pt_qrOnWideOnly = (ac_banks pay \<noteq> []),
       pt_banks = (if shows then map (\<lambda>b. (bl_name b, bl_link b, bl_logo b)) (ac_banks pay) else []),
       pt_nothing = (shows \<and> noInstructions pay)\<rparr>)"

section \<open>The keys page\<close>

datatype headerAction = NoAction | CreateButton string | BillingLink string string

definition keysHeader :: "translator \<Rightarrow> bool option \<Rightarrow> headerAction" where
  "keysHeader t billing =
     (case billing of
        None \<Rightarrow> NoAction
      | Some b \<Rightarrow> if keyAccess billing then CreateButton (t ''dashboard.apiKeys.create'' [])
          else BillingLink ''/dashboard/billing'' (t ''dashboard.apiKeys.choosePlan'' []))"

definition noKeysState :: "translator \<Rightarrow> bool \<Rightarrow> string \<times> string \<times> headerAction" where
  "noKeysState t access =
     (if access
      then (''No active API keys'', ''Create a key to start calling the geocoding, reverse geocoding and routing APIs.'',
        CreateButton (t ''dashboard.apiKeys.create'' []))
      else (t ''dashboard.apiKeys.requiresPlanTitle'' [], t ''dashboard.apiKeys.requiresPlanDescription'' [],
        BillingLink ''/dashboard/billing'' (t ''dashboard.apiKeys.choosePlan'' [])))"

text \<open>The dialogs of the page: which are open and what they say of the key they are about.\<close>

record confirmView =
  cx_open :: bool
  cx_title :: string
  cx_description :: string
  cx_label :: string
  cx_destructive :: bool
  cx_disabled :: bool

definition confirmTitle :: "string \<Rightarrow> keysPage \<Rightarrow> string" where
  "confirmTitle verb p =
     verb @ '' '' @ quotedName (case kp_pending p of None \<Rightarrow> [] | Some (a, key) \<Rightarrow> y_name key) @ ''?''"

definition pendingFor :: "KeyAction \<Rightarrow> keysPage \<Rightarrow> bool" where
  "pendingFor action p = (map_option fst (kp_pending p) = Some action)"

definition revokeView :: "keysPage \<Rightarrow> confirmView" where
  "revokeView p = \<lparr>cx_open = pendingFor RevokeKey p, cx_title = confirmTitle ''Revoke'' p,
     cx_description = ''Requests using this key will be rejected with 403 API_KEY_REVOKED immediately. This cannot be undone.'',
     cx_label = ''Revoke key'', cx_destructive = True, cx_disabled = kp_busy p RevokeKey\<rparr>"

definition regenerateView :: "keysPage \<Rightarrow> confirmView" where
  "regenerateView p = \<lparr>cx_open = pendingFor RegenerateKey p, cx_title = confirmTitle ''Regenerate'' p,
     cx_description = ''You will get a new secret for this key. The current secret stops working immediately, so update your applications right away. Name and usage history are kept.'',
     cx_label = ''Regenerate secret'', cx_destructive = False, cx_disabled = kp_busy p RegenerateKey\<rparr>"

record renameView =
  rn_open :: bool
  rn_currentName :: string
  rn_disabled :: bool

definition renameView :: "keysPage \<Rightarrow> renameView" where
  "renameView p = \<lparr>rn_open = pendingFor RenameKey p,
     rn_currentName = (case kp_pending p of None \<Rightarrow> [] | Some (a, key) \<Rightarrow> y_name key), rn_disabled = kp_busy p RenameKey\<rparr>"

definition createDialogOpen :: "bool option \<Rightarrow> keysPage \<Rightarrow> bool" where
  "createDialogOpen billing p = (keyAccess billing \<and> kp_createOpen p)"

text \<open>The form of a new key: the boxes of the endpoints, the choices of the expiry and the date, shown for a custom one.\<close>

record createView =
  nk_boxes :: "(string \<times> string \<times> string \<times> bool) list"
  nk_choices :: "(string \<times> string) list"
  nk_date :: "(string \<times> string) option"
  nk_summary :: expirySummary
  nk_disabled :: bool

definition createView :: "zone \<Rightarrow> string \<times> string \<Rightarrow> int \<Rightarrow> CreateKeyForm \<Rightarrow> keysPage \<Rightarrow> createView" where
  "createView Z bounds now form p =
     \<lparr>nk_boxes = map (\<lambda>e. (ke_id e, ke_label e, ''GET '' @ ke_path e, ke_id e \<in> set (cf_endpoints form))) KEY_ENDPOINTS,
      nk_choices = map snd EXPIRY_CHOICES,
      nk_date = (if cf_expiry form = Custom then Some bounds else None),
      nk_summary = expirySummary Z (cf_expiry form) (cf_customDate form) now,
      nk_disabled = kp_creating p\<rparr>"

text \<open>Opening the dialog starts from the defaults.\<close>

definition formOnOpen :: "bool \<Rightarrow> CreateKeyForm \<Rightarrow> CreateKeyForm" where
  "formOnOpen opened form = (if opened then KEY_FORM_DEFAULTS else form)"

record secretView =
  ot_open :: bool
  ot_title :: string
  ot_description :: string
  ot_value :: string
  ot_copyText :: string

definition secretView :: "keysPage \<Rightarrow> secretView" where
  "secretView p =
     \<lparr>ot_open = (kp_revealed p \<noteq> None), ot_title = fst (secretTitle (kp_revealed p)),
      ot_description = snd (secretTitle (kp_revealed p)),
      ot_value = (case kp_revealed p of None \<Rightarrow> [] | Some r \<Rightarrow> sec_secret r),
      ot_copyText = (if kp_copied p then ''Copied'' else ''Copy'')\<rparr>"

section \<open>Settings\<close>

record profileCard =
  pf_memberSince :: "string option"
  pf_nameDisabled :: bool
  pf_email :: string
  pf_saveDisabled :: bool

definition profileCard :: "(int \<Rightarrow> string) \<Rightarrow> viewerInfo option \<Rightarrow> bool \<Rightarrow> bool \<Rightarrow> profileCard" where
  "profileCard date v isDirty isSubmitting =
     \<lparr>pf_memberSince = map_option (\<lambda>i. ''Member since '' @ date (vi_createdAt i) @ ''.'') v, pf_nameDisabled = (v = None),
      pf_email = (case v of None \<Rightarrow> [] | Some i \<Rightarrow> vi_email i), pf_saveDisabled = (v = None \<or> \<not> isDirty \<or> isSubmitting)\<rparr>"

section \<open>Usage and overview\<close>

text \<open>The queries of the usage page: days and key of the chart and of the table of endpoints, and the key of the log, which is skipped
  until the visitor is known to be signed in.\<close>

definition usageQueries :: "bool \<Rightarrow> usageView \<Rightarrow> (nat \<times> string option) \<times> string option option" where
  "usageQueries isAuthenticated u =
     ((uv_days u, usageKeyId u), if isAuthenticated then Some (usageKeyId u) else None)"

definition rangeItems :: "usageView \<Rightarrow> (string \<times> string \<times> string \<times> bool) list" where
  "rangeItems u = map (\<lambda>r. (show_nat r, ''Last '' @ show_nat r @ '' days'', show_nat r @ '' days'', uv_days u = r)) RANGES"

text \<open>The page with the value of the daily query and the one remembered from before.\<close>

definition usageChart ::
  "numberText \<Rightarrow> dayText \<Rightarrow> rat \<Rightarrow> usageView \<Rightarrow> DailyCounts list option \<Rightarrow> DailyCounts list option \<Rightarrow> chartState \<Rightarrow> chartView option \<times> bool"
where
  "usageChart number day width u series kept c =
     (case shownStable series kept of (v, stale) \<Rightarrow> (requestsChart number day (periodLabel u) width v c, stale))"

definition overviewChart :: "numberText \<Rightarrow> dayText \<Rightarrow> rat \<Rightarrow> DailyCounts list option \<Rightarrow> chartState \<Rightarrow> chartView option" where
  "overviewChart number day width series c = requestsChart number day ''last 30 days'' width series c"

record overviewInvite =
  iv_title :: string
  iv_description :: string
  iv_href :: string
  iv_button :: string
  iv_quickstart :: bool

definition overviewInvite :: "translator \<Rightarrow> bool \<Rightarrow> overviewInvite" where
  "overviewInvite t canUse =
     \<lparr>iv_title = (if canUse then t ''dashboard.home.emptyTitle'' [] else t ''dashboard.apiKeys.requiresPlanTitle'' []),
      iv_description = (if canUse then t ''dashboard.home.emptyDesc'' [] else t ''dashboard.apiKeys.requiresPlanDescription'' []),
      iv_href = (if canUse then ''/dashboard/api-keys?create=1'' else ''/dashboard/billing''),
      iv_button = (if canUse then t ''dashboard.home.createKey'' [] else t ''dashboard.apiKeys.choosePlan'' []),
      iv_quickstart = canUse\<rparr>"

section \<open>What the views say agrees with what the pages do\<close>

text \<open>At most one of the dialogs about a chosen key is open, and it names the key the page has pending.\<close>

lemma one_key_dialog:
  "\<not> (cx_open (revokeView p) \<and> cx_open (regenerateView p)) \<and> \<not> (cx_open (revokeView p) \<and> rn_open (renameView p))
   \<and> \<not> (cx_open (regenerateView p) \<and> rn_open (renameView p))"
  by (auto simp: revokeView_def regenerateView_def renameView_def pendingFor_def)

text \<open>The dialog of a new key opens only for an account whose header offers it.\<close>

lemma create_dialog_offered: "createDialogOpen billing p \<Longrightarrow> \<exists>label. keysHeader t billing = CreateButton label"
  by (auto simp: createDialogOpen_def keysHeader_def keyAccess_def split: option.splits)

text \<open>The sidebar marks the page the visitor is on, and nothing else.\<close>

lemma nav_marks_active:
  "map nl_current (navLinks t pathname items) = map (\<lambda>item. isActive item pathname) items"
  by (induction items) (auto simp: navLinks_def)

text \<open>Whatever becomes of the sign-out, the button of the settings page is released, and the console is only left signed out.\<close>

lemma sign_out_released: "List.last (signOutSettings signedOut invalidated) = SetPending False"
  by (simp add: signOutSettings_def)

lemma console_left_signed_out:
  "PushTo ''/'' \<in> set (signOutSettings signedOut invalidated) \<Longrightarrow> signedOut \<and> invalidated"
  "PushTo ''/'' \<in> set (signOutMenu signedOut invalidated) \<Longrightarrow> signedOut \<and> invalidated"
  by (auto simp: signOutSettings_def signOutMenu_def split: if_splits)

text \<open>Only a running payment shows a code or links to banks, and it shows either of them or says that there is none.\<close>

lemma paid_dialog_has_no_code:
  assumes "pt_body (paymentDialog t number protocol priceMnt checkout status) = Completed"
  shows "pt_qr (paymentDialog t number protocol priceMnt checkout status) = None
    \<and> pt_banks (paymentDialog t number protocol priceMnt checkout status) = []"
  using assms by (auto simp: paymentDialog_def Let_def split: dialogBody.splits)

end
