(* ===== verification/Spec2Isabelle.thy ===== *)
theory Spec2Isabelle
  imports AuthorizeRuns AuthorizeProps KeyLifecycle UsageLedger UsageProps PaymentsProps WireProps AdminProps
    MaintenanceProps AuthProps HttpProps GeoProps WebRouteProps PlaygroundProps Docs DashboardProps SystemProps MapPageProps
    MapViewProps Basemap SearchBox BillingProps KeysPageProps ConsoleProps LiveDemo
    Admission ChartProps PlaygroundView SiteProps MapPanels ConsoleViews
begin

text \<open>
  \<^bold>\<open>Ubhub Location Service: the TypeScript of the platform\<close>

  The repository is a location API with accounts, keys, metering and payments. This development models the TypeScript
  part: the backend, a Convex deployment (\<open>apps/convex/convex\<close>), the web application, on Next.js (\<open>apps/web\<close>), and
  the client library (\<open>packages/api-client\<close>). Names of functions, tables and fields are those of the source; a
  prefix tells the record a field belongs to (\<open>k_\<close> for a key, \<open>u_\<close> for a user, and so on, see \<open>Schema\<close>).

  \<^bold>\<open>How the parts interact.\<close> The API gateway (a Python service, not modelled) sends every request's credential to
  the backend's routes \<open>/gateway/*\<close> (\<open>http.ts\<close>), under a shared secret; \<open>authorize\<close> (\<open>gateway.ts\<close>) decides with the
  tables of keys, tokens, users, rate windows and quotas, and \<open>recordUsage\<close> stores later what was served. The
  console calls the queries, mutations and actions of \<open>apiKeys.ts\<close>, \<open>payments.ts\<close>, \<open>usage.ts\<close> and \<open>users.ts\<close> in
  the name of a signed-in session. The payment provider calls the webhook, and is asked back before anything changes.
  The pages of the web application hold the state of the user's interaction, with requests in flight that may end in any
  order; the playground and the public map send their requests through the client library.

  \<^bold>\<open>The model.\<close> A table is a list of rows with ids and creation times (\<open>Store\<close>), the database is the record \<open>db\<close>
  (\<open>Schema\<close>). A mutation is \<open>db => error + ('a * db)\<close>: \<open>Inl\<close> is what was thrown and leaves the database alone, as
  a transaction does. An action is \<open>db => (error + 'a) * db\<close>, since the transactions it ran before an error stay. A
  query returns \<open>error + 'a\<close>. JavaScript numbers from outside are \<open>jsnum\<close> (rationals with \<open>NaN\<close> and the infinities), text
  is a list of bytes, \<open>Date.now()\<close> and random secrets are arguments. A page is a record of its state; its handlers
  are functions on it, and its events an inductive step relation.

  \<^bold>\<open>Theories, from the bottom up.\<close>
  \<^item> \<open>Prelude\<close> (numbers, text, errors, the two monads with a small Hoare logic, the locale of capped counters), \<open>JsMath\<close>,
    \<open>Json\<close>, \<open>Urls\<close>, \<open>Runs\<close> (locales of machines with an invariant and a history).
  \<^item> \<open>Store\<close>, \<open>Schema\<close> (\<open>schema.ts\<close>; \<open>wf_db\<close> is the invariant of the tables), \<open>Calendar\<close> and \<open>DayOrder\<close> (\<open>lib/time.ts\<close>, and
    that days compare as text in the order of time), \<open>Plans\<close>, \<open>Env\<close>, \<open>Crypto\<close>, \<open>Keys\<close>, \<open>Endpoints\<close>, \<open>Session\<close>
    (the files of \<open>lib/\<close>).
  \<^item> \<open>RateLimit\<close>, \<open>Metering\<close>, \<open>Gateway\<close>, \<open>Authorize\<close>, \<open>UsageRecord\<close> (\<open>gateway.ts\<close>): windows and quotas, \<open>describe\<close>,
    \<open>authorize\<close>, \<open>authorizeDemo\<close> and \<open>recordUsage\<close>. \<open>Authorize\<close> states what \<open>authorize\<close> promises as a relation and shows
    that the code refines it.
  \<^item> \<open>ApiKeys\<close> (\<open>apiKeys.ts\<close>), \<open>Payments\<close> and \<open>Wire\<close> (\<open>payments.ts\<close>, \<open>lib/wire.ts\<close>), \<open>Usage\<close> (\<open>usage.ts\<close>), \<open>Auth\<close> and
    \<open>Users\<close> (\<open>auth.ts\<close>, \<open>users.ts\<close>, the password lists and the reset mail), \<open>Admin\<close>, \<open>Platform\<close>, \<open>Maintenance\<close> (with
    \<open>crons.ts\<close>), \<open>Http\<close> (\<open>http.ts\<close>). \<open>System\<close> composes their transactions into runs of the whole backend.
  \<^item> \<open>GeoClient\<close> (the client library and the configuration of the site), \<open>WebHttp\<close> (\<open>lib/http.ts\<close>, \<open>lib/csp.ts\<close>,
    \<open>proxy.ts\<close>), \<open>WebRoutes\<close> (the server routes, error texts and form rules), \<open>Playground\<close>, \<open>Docs\<close>, \<open>DocsSamples\<close> and
    \<open>LiveDemo\<close> (documentation and developers' page), \<open>Dashboard\<close>, \<open>KeysPage\<close>, \<open>Console\<close>, \<open>Billing\<close> (the console),
    \<open>MapPage\<close>, \<open>MapView\<close>, \<open>SearchBox\<close>, \<open>Basemap\<close> (the public map).
  \<^item> What the pages show of that state, as records of texts, links and enabled controls: \<open>Chart\<close> (\<open>requests-chart.tsx\<close>),
    \<open>PlaygroundView\<close>, \<open>MapPanels\<close> (search box, planner and arrangement of the map page), \<open>ConsoleViews\<close> (frame, billing, keys,
    settings, usage and overview of the console) and \<open>Site\<close> (price list, frame of the documentation, reference, header,
    footer, field messages and the map of the developers' page).
  \<^item> \<open>Samples\<close> is a small concrete deployment on which theorems with hypotheses are applied.

  \<^bold>\<open>What is shown.\<close>
  \<^item> Admission (\<open>AuthorizeProps\<close>, \<open>AuthorizeRuns\<close>): who is admitted, what a refusal leaves alone, that \<open>authorize\<close> never
    throws; over runs of any calls at any times, the ceilings per minute, per month and of the free tier. The three
    ceilings are interpretations of one locale. \<open>Admission\<close> shows the converse: a request that meets the conditions and fits
    is admitted; with it, that a payment opens the gateway to the keys of its account.
  \<^item> Keys (\<open>KeyLifecycle\<close>): limits, immediate revocation, that a created secret works and a replaced one does not.
  \<^item> Payments (\<open>PaymentsProps\<close>, \<open>WireProps\<close>, \<open>HttpProps\<close>): a plan is granted once, for confirmed money; an event of the
    webhook is only a hint; signatures are sound and complete.
  \<^item> Usage (\<open>UsageLedger\<close>, \<open>UsageProps\<close>): rollups are exactly the aggregation of the stored rows, and the queries show
    exactly the rollups.
  \<^item> Administration and maintenance (\<open>AdminProps\<close>, \<open>MaintenanceProps\<close>): lock-out, rotation of the site key, and that the
    chain of pruning runs ends with nothing expired left.
  \<^item> The whole backend (\<open>SystemProps\<close>): after any run from the empty database the tables are well formed, a revoked
    key stays revoked and a settled payment stays settled.
  \<^item> The web application (\<open>WebProps\<close>, \<open>WebRouteProps\<close>, \<open>GeoProps\<close>, \<open>PlaygroundProps\<close>, \<open>DashboardProps\<close>, \<open>KeysPageProps\<close>,
    \<open>ConsoleProps\<close>, \<open>BillingProps\<close>, \<open>MapPageProps\<close>, \<open>MapViewProps\<close>, \<open>PlaygroundView\<close>, \<open>ChartProps\<close>, \<open>SiteProps\<close>): throttling of sign-in, redirects that stay on the
    site, forms and menus that agree with the backend, requests in flight that cannot mix up what is shown, payments that
    complete on their own, and texts and links from outside that stay harmless; a playground that sends with the key it shows, a
    chart that is to scale with labels that keep apart, and a price list that shows the figures the backend enforces.

  \<^bold>\<open>Bounds and fuel.\<close> The loops of the source are structural recursions or functions with a termination proof (the batches
  of \<open>Http\<close>, the collapsing of spaces in \<open>Keys\<close>, the flattening of schemas in \<open>Docs\<close>). \<open>repeats\<close> of \<open>Auth\<close> takes the length of
  the text as fuel: each round drops a non-empty chunk, and \<open>AuthProps\<close> shows that it decides repetition. The
  chain of pruning runs (\<open>MaintenanceProps\<close>) has fuel for the theorem only: one more than the expired rows divided by
  the batch of 1000 is shown to be enough. Convex's integers are doubles; the amounts and counts here stay far below
  2^53, where doubles are exact, so \<open>int\<close> and \<open>rat\<close> stand for them.

  \<^bold>\<open>Parameters.\<close> Code that is not in the repository is an argument: HMAC and SHA-256, \<open>fetch\<close> and the replies of the provider
  and of the API, the text form of document ids (with its laws, \<open>idLaws\<close>), the functions of Convex Auth, the
  paginator, the URL parser, \<open>JSON.parse\<close> of a body, \<open>Intl\<close> number texts, the time zone, the mutation object of TanStack Query
  (with its laws, \<open>mutationLaws\<close>), the code highlighter and the QR encoder. Convex runs mutations one after the other; that
  is how \<open>System\<close> orders its steps.

  \<^bold>\<open>Not modelled.\<close> The API gateway and its data layer are written in Python. Of the web application: class names, icons,
  animation and the elements around what a view shows; the primitives under \<open>components/ui\<close> other than the messages of a field (of
  \<open>FieldError\<close> the case of given children is left out); the drawing of the map by MapLibre; date texts of \<open>Intl\<close> and the
  date picker's arithmetic; the form library; modal dialogs are taken to cover the page (\<open>dialogOpen\<close> of \<open>KeysPage\<close>).
  \<open>send\<close> of \<open>PlaygroundView\<close> takes the wait for a token and the request after it as one step, and the milliseconds shown
  beside a response are left out. Not modelled either: sample responses and the pages of documentation, the landing page and its
  pictures, which are constant text; generated types; tests and build files. Text is bytes, so lengths of text outside ASCII are
  those of its encoding, not of UTF-16, and case conversion is that of ASCII.
\<close>

end
